(* ===== verification/Prelude.thy ===== *)
theory Prelude
  imports Main "HOL-Library.Word"
begin

text \<open>
  Shared vocabulary of the development: the machine types of the Go code (bytes, 64-bit
  integers, addresses, hashes), Go errors and results as values, panics as an outcome, the
  state-passing shape of calls that talk to the chain or the network, and the generic
  lemmas on lists that several components use.
\<close>

named_theorems go_simps \<open>unfolding rules of the Go result and effect combinators\<close>
named_theorems layout_simps \<open>length and position facts about byte layouts\<close>

section \<open>Machine types\<close>

type_synonym byte = "8 word"
type_synonym bytes = "byte list"
type_synonym u64 = "64 word"
type_synonym address = "160 word"
type_synonym hash = "256 word"

section \<open>Errors, results, panics\<close>

text \<open>
  A Go \<open>error\<close> is its text, the value its chain exposes through \<open>ErrorData()\<close> (JSON-RPC
  errors of go-ethereum; \<open>None\<close> when no error of the chain has that method) and the
  sentinel errors \<open>errors.Is\<close> finds in its chain.
\<close>

datatype payload = PNil | PStr string | PBytes bytes | POther

datatype sentinel = ErrPolicyOutOfSync

record go_error =
  err_text :: string
  err_data :: "payload option"
  err_is :: "sentinel list"

type_synonym 'a result = "go_error + 'a"

text \<open>\<open>errors.Errorf\<close>, \<open>errors.New\<close> and \<open>fmt.Errorf\<close> without \<open>%w\<close>: a fresh error that wraps nothing.\<close>

definition errorf :: "string \<Rightarrow> go_error" where
  "errorf s = \<lparr>err_text = s, err_data = None, err_is = []\<rparr>"

lemma errorf_sel [simp]:
  "err_text (errorf s) = s" "err_data (errorf s) = None" "err_is (errorf s) = []"
  by (simp_all add: errorf_def)

lemma errorf_eq_iff [simp]: "errorf s = errorf t \<longleftrightarrow> s = t"
  by (auto simp: errorf_def)

text \<open>
  \<open>fmt.Errorf("prefix: %w", err)\<close>: a new text, the data and the sentinels of the wrapped error.
\<close>

definition wrapf :: "string \<Rightarrow> go_error \<Rightarrow> go_error" where
  "wrapf s e = e\<lparr>err_text := s @ err_text e\<rparr>"

text \<open>\<open>errors.Errorf("%s", err)\<close>: the text is kept, what the error wrapped is lost.\<close>

definition restate :: "go_error \<Rightarrow> go_error" where
  "restate e = errorf (err_text e)"

lemma restate_sel [simp]:
  "err_text (restate e) = err_text e" "err_data (restate e) = None" "err_is (restate e) = []"
  by (simp_all add: restate_def)

text \<open>\<open>errors.Errorf("prefix%s", err)\<close>.\<close>

definition prefixf :: "string \<Rightarrow> go_error \<Rightarrow> go_error" where
  "prefixf s e = errorf (s @ err_text e)"

definition is_ok :: "'a result \<Rightarrow> bool" where
  "is_ok r = (case r of Inl _ \<Rightarrow> False | Inr _ \<Rightarrow> True)"

lemma is_ok_simps [simp]: "is_ok (Inr x)" "\<not> is_ok (Inl e)"
  by (simp_all add: is_ok_def)

text \<open>Code that can panic (a slice bound out of range) has an outcome.\<close>

datatype 'a outcome = Returns 'a | Panics

fun bind_outcome :: "'a outcome \<Rightarrow> ('a \<Rightarrow> 'b outcome) \<Rightarrow> 'b outcome" where
  "bind_outcome (Returns x) k = k x"
| "bind_outcome Panics k = Panics"

section \<open>Calls with effects\<close>

text \<open>
  A call that talks to the chain, a server or the file system takes the world and returns its
  value and the new world. \<open>try_io\<close> is Go's
  \<^verbatim>\<open>x, err := op(); if err != nil { return wrap(err) }\<close> followed by the rest.
\<close>

type_synonym ('w, 'a) io = "'w \<Rightarrow> 'a \<times> 'w"

definition try_io ::
  "('w, 'a result) io \<Rightarrow> (go_error \<Rightarrow> go_error) \<Rightarrow> ('a \<Rightarrow> ('w, 'b result) io) \<Rightarrow> ('w, 'b result) io"
  where "try_io m wrap k = (\<lambda>w. case m w of
      (Inl e, w') \<Rightarrow> (Inl (wrap e), w')
    | (Inr x, w') \<Rightarrow> k x w')"

definition then_io :: "('w, 'a) io \<Rightarrow> ('a \<Rightarrow> ('w, 'b) io) \<Rightarrow> ('w, 'b) io" where
  "then_io m k = (\<lambda>w. case m w of (x, w') \<Rightarrow> k x w')"

definition return_io :: "'a \<Rightarrow> ('w, 'a) io" where
  "return_io x = (\<lambda>w. (x, w))"

lemma try_io_Inl [go_simps]: "m w = (Inl e, w') \<Longrightarrow> try_io m wrap k w = (Inl (wrap e), w')"
  by (simp add: try_io_def)

lemma try_io_Inr [go_simps]: "m w = (Inr x, w') \<Longrightarrow> try_io m wrap k w = k x w'"
  by (simp add: try_io_def)

lemma then_io_apply [go_simps]: "m w = (x, w') \<Longrightarrow> then_io m k w = k x w'"
  by (simp add: then_io_def)

lemma return_io_apply [simp]: "return_io x w = (x, w)"
  by (simp add: return_io_def)

lemma try_io_ok:
  assumes "try_io m wrap k w = (Inr y, w2)"
  obtains x w1 where "m w = (Inr x, w1)" and "k x w1 = (Inr y, w2)"
  using assms by (auto simp: try_io_def split: prod.splits sum.splits)

lemma try_io_cases:
  obtains (err) e w' where "m w = (Inl e, w')" "try_io m wrap k w = (Inl (wrap e), w')"
    | (ok) x w' where "m w = (Inr x, w')" "try_io m wrap k w = k x w'"
  by (cases "m w"; cases "fst (m w)") (auto simp: try_io_def)

section \<open>Runs of a step function\<close>

text \<open>
  The interface between a component that steps and a property that every step keeps: the run of
  the component keeps it too. Components with an invariant interpret this locale.
\<close>

fun run_steps :: "('s \<Rightarrow> 'e \<Rightarrow> 's) \<Rightarrow> 's \<Rightarrow> 'e list \<Rightarrow> 's" where
  "run_steps f s [] = s"
| "run_steps f s (e # es) = run_steps f (f s e) es"

lemma run_steps_append: "run_steps f s (es @ fs) = run_steps f (run_steps f s es) fs"
  by (induction es arbitrary: s) auto

locale stepper =
  fixes step :: "'s \<Rightarrow> 'e \<Rightarrow> 's"
    and inv :: "'s \<Rightarrow> bool"
  assumes step_inv: "inv s \<Longrightarrow> inv (step s e)"
begin

lemma run_inv: "inv s \<Longrightarrow> inv (run_steps step s es)"
  by (induction es arbitrary: s) (auto intro: step_inv)

end

text \<open>The same for a step relation: what holds at the start and survives every step holds wherever it leads.\<close>

inductive reach :: "'s \<Rightarrow> ('s \<Rightarrow> 's \<Rightarrow> bool) \<Rightarrow> 's \<Rightarrow> bool" for init step where
  reach_init: "reach init step init"
| reach_step: "reach init step s \<Longrightarrow> step s t \<Longrightarrow> reach init step t"

locale step_invariant =
  fixes init :: 's
    and step :: "'s \<Rightarrow> 's \<Rightarrow> bool"
    and inv :: "'s \<Rightarrow> bool"
  assumes inv_init: "inv init"
    and inv_step: "step s t \<Longrightarrow> inv s \<Longrightarrow> inv t"
begin

lemma reach_inv: "reach init step s \<Longrightarrow> inv s"
  by (induction rule: reach.induct) (auto intro: inv_init inv_step)

end

section \<open>Codecs\<close>

text \<open>
  The interface of an encoder with its decoder on the values the encoder is meant for. What a
  client needs from it (no two values share an encoding) is proved once.
\<close>

locale codec =
  fixes enc :: "'a \<Rightarrow> 'b"
    and dec :: "'b \<Rightarrow> 'c"
    and good :: "'a \<Rightarrow> bool"
    and ret :: "'a \<Rightarrow> 'c"
  assumes dec_enc: "good x \<Longrightarrow> dec (enc x) = ret x"
    and ret_inj: "ret x = ret y \<Longrightarrow> x = y"
begin

lemma enc_inj: "good x \<Longrightarrow> good y \<Longrightarrow> enc x = enc y \<Longrightarrow> x = y"
  by (metis dec_enc ret_inj)

end

section \<open>Lists\<close>

lemma take_append_exact [layout_simps]: "length xs = n \<Longrightarrow> take n (xs @ ys) = xs"
  by simp

lemma drop_append_exact [layout_simps]: "length xs = n \<Longrightarrow> drop n (xs @ ys) = ys"
  by simp

text \<open>The bytes \<open>[i, j)\<close> of a list, the part a Go slice expression selects when it does not panic.\<close>

definition subslice :: "'a list \<Rightarrow> nat \<Rightarrow> nat \<Rightarrow> 'a list" where
  "subslice xs i j = take (j - i) (drop i xs)"

lemma length_subslice [layout_simps]: "i \<le> j \<Longrightarrow> j \<le> length xs \<Longrightarrow> length (subslice xs i j) = j - i"
  by (simp add: subslice_def)

lemma subslice_middle [layout_simps]:
  "length xs = i \<Longrightarrow> length ys = j - i \<Longrightarrow> subslice (xs @ ys @ zs) i j = ys"
  by (simp add: subslice_def)

end
