(* ===== verification/Go_Text.thy ===== *)
theory Go_Text
  imports Prelude
begin

text \<open>
  The part of Go's \<open>strings\<close>, \<open>strconv\<close>, \<open>fmt\<close>, \<open>encoding/hex\<close>, \<open>math/big\<close> and
  \<open>bufio\<close> packages that the code uses, on Go strings read as lists of bytes
  (\<open>char\<close> is a byte). Everything here is executable.
\<close>

section \<open>strings\<close>

definition HasPrefix :: "string \<Rightarrow> string \<Rightarrow> bool" where
  "HasPrefix s p \<longleftrightarrow> take (length p) s = p"

definition HasSuffix :: "string \<Rightarrow> string \<Rightarrow> bool" where
  "HasSuffix s p \<longleftrightarrow> length p \<le> length s \<and> drop (length s - length p) s = p"

definition TrimPrefix :: "string \<Rightarrow> string \<Rightarrow> string" where
  "TrimPrefix s p = (if HasPrefix s p then drop (length p) s else s)"

fun Contains :: "string \<Rightarrow> string \<Rightarrow> bool" where
  "Contains [] p \<longleftrightarrow> p = []"
| "Contains (c # s) p \<longleftrightarrow> HasPrefix (c # s) p \<or> Contains s p"

lemma HasPrefix_append [simp]: "HasPrefix (p @ s) p"
  by (simp add: HasPrefix_def)

lemma HasPrefix_exD: "HasPrefix s p \<Longrightarrow> \<exists>t. s = p @ t"
  by (metis HasPrefix_def append_take_drop_id)

lemma TrimPrefix_append [simp]: "TrimPrefix (p @ s) p = s"
  by (simp add: TrimPrefix_def)

lemma Contains_iff: "Contains s p \<longleftrightarrow> (\<exists>u v. s = u @ p @ v)"
proof (induction s)
  case Nil
  then show ?case by simp
next
  case (Cons c s)
  have "HasPrefix (c # s) p \<longleftrightarrow> (\<exists>v. c # s = p @ v)"
    by (metis HasPrefix_append HasPrefix_exD)
  moreover have "(\<exists>u v. c # s = u @ p @ v) \<longleftrightarrow> (\<exists>v. c # s = p @ v) \<or> (\<exists>u v. s = u @ p @ v)"
    by (metis append_Cons append_Nil list.sel(3) tl_append2 append_is_Nil_conv list.distinct(1))
  ultimately show ?case using Cons.IH by auto
qed

lemma Contains_char [simp]: "Contains s [c] \<longleftrightarrow> c \<in> set s"
  by (simp add: Contains_iff in_set_conv_decomp)

lemma Contains_append: "Contains s p \<Longrightarrow> Contains (s @ t) p" "Contains t p \<Longrightarrow> Contains (s @ t) p"
  by (auto simp: Contains_iff) (metis append.assoc)+

lemma Contains_refl: "Contains s s"
  by (simp add: Contains_iff) (metis append_Nil append_Nil2)

text \<open>\<open>strings.Split(s, sep)\<close> for a one-byte separator: never empty.\<close>

fun Split :: "char \<Rightarrow> string \<Rightarrow> string list" where
  "Split sep [] = [[]]"
| "Split sep (c # s) =
     (if c = sep then [] # Split sep s
      else case Split sep s of [] \<Rightarrow> [[c]] | p # ps \<Rightarrow> (c # p) # ps)"

lemma Split_nonempty [simp]: "Split sep s \<noteq> []"
  by (cases s) (auto split: list.splits)

text \<open>\<open>strings.SplitN(s, sep, 2)\<close>: the parts before and after the first separator.\<close>

fun SplitN2 :: "char \<Rightarrow> string \<Rightarrow> string list" where
  "SplitN2 sep s = (let p = takeWhile (\<lambda>c. c \<noteq> sep) s
     in if length p = length s then [s] else [p, drop (Suc (length p)) s])"

fun Join :: "string \<Rightarrow> string list \<Rightarrow> string" where
  "Join sep [] = []"
| "Join sep [x] = x"
| "Join sep (x # y # ys) = x @ sep @ Join sep (y # ys)"

text \<open>
  \<open>strings.TrimSpace\<close> removes Unicode white space. The white-space characters are listed by
  their UTF-8 encodings; since the first byte of each is the only one of it that starts a
  character, removing encodings from either end is what \<open>DecodeRune\<close> and
  \<open>DecodeLastRune\<close> do.
\<close>

definition ws_runes :: "string list" where
  "ws_runes =
     [[CHR 0x09], [CHR 0x0A], [CHR 0x0B], [CHR 0x0C], [CHR 0x0D], [CHR 0x20],
      [CHR 0xC2, CHR 0x85], [CHR 0xC2, CHR 0xA0], [CHR 0xE1, CHR 0x9A, CHR 0x80],
      [CHR 0xE2, CHR 0x80, CHR 0x80], [CHR 0xE2, CHR 0x80, CHR 0x81], [CHR 0xE2, CHR 0x80, CHR 0x82],
      [CHR 0xE2, CHR 0x80, CHR 0x83], [CHR 0xE2, CHR 0x80, CHR 0x84], [CHR 0xE2, CHR 0x80, CHR 0x85],
      [CHR 0xE2, CHR 0x80, CHR 0x86], [CHR 0xE2, CHR 0x80, CHR 0x87], [CHR 0xE2, CHR 0x80, CHR 0x88],
      [CHR 0xE2, CHR 0x80, CHR 0x89], [CHR 0xE2, CHR 0x80, CHR 0x8A], [CHR 0xE2, CHR 0x80, CHR 0xA8],
      [CHR 0xE2, CHR 0x80, CHR 0xA9], [CHR 0xE2, CHR 0x80, CHR 0xAF], [CHR 0xE2, CHR 0x81, CHR 0x9F],
      [CHR 0xE3, CHR 0x80, CHR 0x80]]"

text \<open>Strips the first encoding of the list that the string starts with; \<open>None\<close> when there is none.\<close>

fun strip_one :: "string list \<Rightarrow> string \<Rightarrow> string option" where
  "strip_one [] s = None"
| "strip_one (r # rs) s = (if r \<noteq> [] \<and> HasPrefix s r then Some (drop (length r) s) else strip_one rs s)"

lemma strip_one_less: "strip_one rs s = Some t \<Longrightarrow> length t < length s"
proof (induction rs)
  case (Cons r rs)
  then show ?case
    by (auto split: if_splits dest!: HasPrefix_exD)
qed simp

function strip_all :: "string list \<Rightarrow> string \<Rightarrow> string" where
  "strip_all rs s = (case strip_one rs s of None \<Rightarrow> s | Some t \<Rightarrow> strip_all rs t)"
  by pat_completeness auto
termination
  by (relation "measure (\<lambda>(rs, s). length s)") (auto dest: strip_one_less)

declare strip_all.simps [simp del]

definition TrimSpace :: "string \<Rightarrow> string" where
  "TrimSpace s = rev (strip_all (map rev ws_runes) (rev (strip_all ws_runes s)))"

lemma strip_all_id: "strip_one rs s = None \<Longrightarrow> strip_all rs s = s"
  by (subst strip_all.simps) simp

lemma strip_one_strip_all [simp]: "strip_one rs (strip_all rs s) = None"
proof (induction rs s rule: strip_all.induct)
  case (1 rs s)
  then show ?case
    by (cases "strip_one rs s") (simp_all add: strip_all.simps[of rs s])
qed

lemma strip_all_suffix: "\<exists>u. s = u @ strip_all rs s"
proof (induction rs s rule: strip_all.induct)
  case (1 rs s)
  have one: "strip_one rs' s = Some t \<Longrightarrow> \<exists>u. s = u @ t" for rs' t
    by (induction rs') (auto split: if_splits dest: HasPrefix_exD)
  show ?case
  proof (cases "strip_one rs s")
    case None
    then show ?thesis by (simp add: strip_all.simps[of rs s])
  next
    case (Some t)
    with one 1 show ?thesis
      by (simp add: strip_all.simps[of rs s]) (metis append.assoc)
  qed
qed

text \<open>A string that starts and ends with printable ASCII is left alone.\<close>

lemma TrimSpace_Nil [simp]: "TrimSpace [] = []"
  by (simp add: TrimSpace_def ws_runes_def strip_all.simps HasPrefix_def)

lemma TrimSpace_infix: "\<exists>u v. s = u @ TrimSpace s @ v"
proof -
  obtain u where u: "s = u @ strip_all ws_runes s" using strip_all_suffix by blast
  obtain v where v: "rev (strip_all ws_runes s) = v @ strip_all (map rev ws_runes) (rev (strip_all ws_runes s))"
    using strip_all_suffix by blast
  then have "strip_all ws_runes s = TrimSpace s @ rev v"
    unfolding TrimSpace_def by (metis rev_append rev_rev_ident)
  with u show ?thesis by metis
qed

lemma set_TrimSpace: "set (TrimSpace s) \<subseteq> set s"
  using TrimSpace_infix[of s] by (metis Un_upper1 Un_upper2 order_trans set_append)

text \<open>A string none of whose bytes occurs in the encoding of white space is left alone.\<close>

lemma strip_one_None: "set (concat rs) \<inter> set s = {} \<Longrightarrow> strip_one rs s = None"
proof (induction rs)
  case (Cons r rs)
  have "\<not> (r \<noteq> [] \<and> HasPrefix s r)"
  proof
    assume r: "r \<noteq> [] \<and> HasPrefix s r"
    then obtain c r' t where "r = c # r'" "s = r @ t"
      by (metis HasPrefix_exD list.exhaust)
    then have "c \<in> set r \<inter> set s" by simp
    with Cons.prems show False by auto
  qed
  with Cons show ?case by auto
qed simp

lemma TrimSpace_plain:
  assumes "set (concat ws_runes) \<inter> set s = {}"
  shows "TrimSpace s = s"
proof -
  have "strip_all ws_runes s = s"
    using assms by (intro strip_all_id strip_one_None)
  moreover have "strip_all (map rev ws_runes) (rev s) = rev s"
    using assms by (intro strip_all_id strip_one_None) (auto simp: ws_runes_def)
  ultimately show ?thesis by (simp add: TrimSpace_def)
qed

end
