(* ===== verification/Go_Num.thy ===== *)
theory Go_Num
  imports Go_Text
begin

text \<open>
  Numbers and their texts as Go's \<open>strconv\<close>, \<open>fmt\<close>, \<open>math/big\<close> and \<open>encoding/hex\<close>
  convert them: decimal and hexadecimal printing, \<open>Atoi\<close>, \<open>ParseUint\<close>, big-endian bytes.
\<close>

section \<open>Decimal\<close>

definition digit_char :: "nat \<Rightarrow> char" where
  "digit_char d = ''0123456789abcdef'' ! d"

fun show_nat :: "nat \<Rightarrow> string" where
  "show_nat n = (if n < 10 then [digit_char n] else show_nat (n div 10) @ [digit_char (n mod 10)])"

declare show_nat.simps [simp del]

definition show_int :: "int \<Rightarrow> string" where
  "show_int i = (if i < 0 then CHR ''-'' # show_nat (nat (- i)) else show_nat (nat i))"

definition hex_val :: "char \<Rightarrow> nat option" where
  "hex_val c = (let n = of_char c in
     if 48 \<le> n \<and> n \<le> 57 then Some (n - 48)
     else if 97 \<le> n \<and> n \<le> 102 then Some (n - 87)
     else if 65 \<le> n \<and> n \<le> 70 then Some (n - 55) else None)"

definition dec_val :: "char \<Rightarrow> nat option" where
  "dec_val c = (let n = of_char c in if 48 \<le> n \<and> n \<le> 57 then Some (n - 48) else None)"

lemma lt_16_cases: "d < (16::nat) \<Longrightarrow> d \<in> {0,1,2,3,4,5,6,7,8,9,10,11,12,13,14,15}"
  by simp arith

lemma hex_val_digit_char [simp]: "d < 16 \<Longrightarrow> hex_val (digit_char d) = Some d"
  by (drule lt_16_cases) (auto simp: hex_val_def digit_char_def)

lemma dec_val_digit_char [simp]: "d < 10 \<Longrightarrow> dec_val (digit_char d) = Some d"
  by (subgoal_tac "d \<in> {0,1,2,3,4,5,6,7,8,9}") (auto simp: dec_val_def digit_char_def)

text \<open>The value of a digit string, most significant digit first; \<open>None\<close> at the first other character.\<close>

fun digits_val :: "nat \<Rightarrow> (char \<Rightarrow> nat option) \<Rightarrow> nat \<Rightarrow> string \<Rightarrow> nat option" where
  "digits_val b dv acc [] = Some acc"
| "digits_val b dv acc (c # s) = (case dv c of None \<Rightarrow> None | Some d \<Rightarrow> digits_val b dv (acc * b + d) s)"

lemma digits_val_append:
  "digits_val b dv acc (s @ t) =
     (case digits_val b dv acc s of None \<Rightarrow> None | Some n \<Rightarrow> digits_val b dv n t)"
  by (induction s arbitrary: acc) (auto split: option.splits)

lemma show_nat_nonempty [simp]: "show_nat n \<noteq> []"
  by (subst show_nat.simps) simp

lemma digits_val_show_nat [simp]: "digits_val 10 dec_val 0 (show_nat n) = Some n"
proof (induction n rule: show_nat.induct)
  case (1 n)
  show ?case
  proof (cases "n < 10")
    case True
    then show ?thesis by (subst show_nat.simps) simp
  next
    case False
    with 1 show ?thesis
      by (subst show_nat.simps) (simp add: digits_val_append div_mult_mod_eq)
  qed
qed

lemma show_nat_inj [simp]: "show_nat m = show_nat n \<longleftrightarrow> m = n"
  by (metis digits_val_show_nat option.inject)

lemma dec_val_show_nat: "c \<in> set (show_nat n) \<Longrightarrow> dec_val c \<noteq> None"
proof (induction n rule: show_nat.induct)
  case (1 n)
  show ?case
  proof (cases "n < 10")
    case True
    with 1 show ?thesis by (simp add: show_nat.simps[of n])
  next
    case False
    with 1 show ?thesis by (auto simp: show_nat.simps[of n])
  qed
qed

text \<open>
  \<open>strconv.ParseUint(s, 10, 64)\<close>: digits only, no sign, below \<open>2^64\<close>.
  \<open>strconv.Atoi(s)\<close>: an optional sign, at least one digit, in the range of \<open>int64\<close>.
\<close>

definition parse_dec :: "string \<Rightarrow> nat option" where
  "parse_dec s = (if s = [] then None else digits_val 10 dec_val 0 s)"

definition ParseUint64 :: "string \<Rightarrow> u64 option" where
  "ParseUint64 s = (case parse_dec s of None \<Rightarrow> None
     | Some n \<Rightarrow> if n < 2 ^ 64 then Some (of_nat n) else None)"

definition signed_dec :: "string \<Rightarrow> int option" where
  "signed_dec s = (case s of
     c # t \<Rightarrow> if c = CHR ''-'' then map_option (\<lambda>n. - int n) (parse_dec t)
              else if c = CHR ''+'' then map_option int (parse_dec t)
              else map_option int (parse_dec s)
   | [] \<Rightarrow> None)"

definition Atoi :: "string \<Rightarrow> int option" where
  "Atoi s = (case signed_dec s of None \<Rightarrow> None
     | Some i \<Rightarrow> if - (2 ^ 63) \<le> i \<and> i < 2 ^ 63 then Some i else None)"

lemma parse_dec_show_nat [simp]: "parse_dec (show_nat n) = Some n"
  by (simp add: parse_dec_def)

lemma Atoi_Nil [simp]: "Atoi [] = None"
  by (simp add: Atoi_def signed_dec_def)

lemma TrimSpace_show_nat [simp]: "TrimSpace (show_nat n) = show_nat n"
proof (rule TrimSpace_plain, rule equals0I)
  fix c assume c: "c \<in> set (concat ws_runes) \<inter> set (show_nat n)"
  then have "c \<in> set (show_nat n)" by blast
  then have "dec_val c \<noteq> None" by (rule dec_val_show_nat)
  with c show False by (auto simp: ws_runes_def dec_val_def)
qed

lemma Atoi_range: "Atoi s = Some i \<Longrightarrow> - (2 ^ 63) \<le> i \<and> i < 2 ^ 63"
  by (auto simp: Atoi_def split: option.splits if_splits)

lemma signed_dec_show_int [simp]: "signed_dec (show_int i) = Some i"
proof (cases "i < 0")
  case True
  then show ?thesis by (simp add: show_int_def signed_dec_def)
next
  case False
  obtain c t where ct: "show_nat (nat i) = c # t" by (meson list.exhaust show_nat_nonempty)
  then have "dec_val c \<noteq> None" using dec_val_show_nat[of c "nat i"] by simp
  then have "c \<noteq> CHR ''-''" "c \<noteq> CHR ''+''" by (auto simp: dec_val_def)
  with False ct show ?thesis
    using parse_dec_show_nat[of "nat i"] by (simp add: show_int_def signed_dec_def)
qed

lemma Atoi_show_int: "- (2 ^ 63) \<le> i \<Longrightarrow> i < 2 ^ 63 \<Longrightarrow> Atoi (show_int i) = Some i"
  by (simp add: Atoi_def)

lemma ParseUint64_show_nat: "n < 2 ^ 64 \<Longrightarrow> ParseUint64 (show_nat n) = Some (of_nat n)"
  by (simp add: ParseUint64_def)

section \<open>Hexadecimal\<close>

text \<open>\<open>hex.EncodeToString\<close> and \<open>hex.DecodeString\<close> (\<open>None\<close> for an error: odd length or a wrong character).\<close>

fun hex_encode :: "bytes \<Rightarrow> string" where
  "hex_encode [] = []"
| "hex_encode (b # bs) = digit_char (unat b div 16) # digit_char (unat b mod 16) # hex_encode bs"

fun hex_decode :: "string \<Rightarrow> bytes option" where
  "hex_decode [] = Some []"
| "hex_decode [c] = None"
| "hex_decode (c # d # s) =
     (case (hex_val c, hex_val d, hex_decode s) of
        (Some h, Some l, Some bs) \<Rightarrow> Some (of_nat (h * 16 + l) # bs)
      | _ \<Rightarrow> None)"

lemma unat_byte_lt [simp]: "unat (b :: byte) < 256"
  using unsigned_less[of b] by simp

lemma hex_decode_encode [simp]: "hex_decode (hex_encode bs) = Some bs"
proof (induction bs)
  case Nil
  then show ?case by simp
next
  case (Cons b bs)
  have "unat b div 16 < 16" using unat_byte_lt[of b] by (simp add: less_mult_imp_div_less)
  moreover have "unat b div 16 * 16 + unat b mod 16 = unat b" by (simp add: div_mult_mod_eq)
  then have "(of_nat (unat b div 16 * 16 + unat b mod 16) :: byte) = b" by simp
  ultimately show ?case using Cons by simp
qed

lemma hex_decode_length: "hex_decode s = Some bs \<Longrightarrow> length s = 2 * length bs"
  by (induction s arbitrary: bs rule: hex_decode.induct) (auto split: option.splits)

lemma length_hex_encode [simp]: "length (hex_encode bs) = 2 * length bs"
  by (induction bs) auto

lemma digit_char_not_x: "d < 16 \<Longrightarrow> digit_char d \<noteq> CHR ''x''"
  by (drule lt_16_cases) (auto simp: digit_char_def)

lemma hex_encode_no_prefix: "\<not> HasPrefix (hex_encode bs) ''0x''"
  by (cases bs) (auto simp: HasPrefix_def digit_char_not_x)

text \<open>Printing a number with \<open>%x\<close>, and \<open>%064x\<close> when padded.\<close>

fun show_hex :: "nat \<Rightarrow> string" where
  "show_hex n = (if n < 16 then [digit_char n] else show_hex (n div 16) @ [digit_char (n mod 16)])"

declare show_hex.simps [simp del]

definition pad_zeros :: "nat \<Rightarrow> string \<Rightarrow> string" where
  "pad_zeros k s = replicate (k - length s) CHR ''0'' @ s"

lemma show_hex_nonempty [simp]: "show_hex n \<noteq> []"
  by (subst show_hex.simps) simp

lemma digits_val_show_hex [simp]: "digits_val 16 hex_val 0 (show_hex n) = Some n"
proof (induction n rule: show_hex.induct)
  case (1 n)
  show ?case
  proof (cases "n < 16")
    case True
    then show ?thesis by (subst show_hex.simps) simp
  next
    case False
    with 1 show ?thesis
      by (subst show_hex.simps) (simp add: digits_val_append div_mult_mod_eq)
  qed
qed

lemma length_show_hex: "n < 16 ^ Suc k \<Longrightarrow> length (show_hex n) \<le> Suc k"
proof (induction k arbitrary: n)
  case 0
  then show ?case by (subst show_hex.simps) simp
next
  case (Suc k)
  show ?case
  proof (cases "n < 16")
    case True
    then show ?thesis by (subst show_hex.simps) simp
  next
    case False
    have "n div 16 < 16 ^ Suc k" using Suc.prems by (simp add: less_mult_imp_div_less mult.commute)
    then have "length (show_hex (n div 16)) \<le> Suc k" by (rule Suc.IH)
    with False show ?thesis by (subst show_hex.simps) simp
  qed
qed

lemma digits_val_zeros:
  "digits_val 16 hex_val 0 (replicate k CHR ''0'' @ s) = digits_val 16 hex_val 0 s"
  by (induction k) (auto simp: hex_val_def)

section \<open>Strings as bytes\<close>

text \<open>The conversions \<open>[]byte(s)\<close> and \<open>string(b)\<close>.\<close>

definition str_bytes :: "string \<Rightarrow> bytes" where
  "str_bytes s = map (\<lambda>c. of_nat (of_char c)) s"

definition bytes_str :: "bytes \<Rightarrow> string" where
  "bytes_str bs = map (\<lambda>b. char_of (unat b)) bs"

lemma length_str_bytes [simp]: "length (str_bytes s) = length s"
  by (simp add: str_bytes_def)

lemma length_bytes_str [simp]: "length (bytes_str bs) = length bs"
  by (simp add: bytes_str_def)

lemma unat_of_nat_u64: "n < 2 ^ 64 \<Longrightarrow> unat (of_nat n :: u64) = n"
  by (simp add: unat_of_nat)

lemma unat_of_nat_byte: "n < 256 \<Longrightarrow> unat (of_nat n :: byte) = n"
  by (simp add: unat_of_nat)

lemma of_char_lt_256: "(of_char c :: nat) < 256"
  by (simp add: of_char_def)

lemma bytes_str_str_bytes [simp]: "bytes_str (str_bytes s) = s"
proof -
  have "char_of (unat (of_nat (of_char c) :: byte)) = c" for c
    using of_char_lt_256[of c] by (simp add: unat_of_nat)
  then show ?thesis by (simp add: bytes_str_def str_bytes_def comp_def)
qed

lemma str_bytes_bytes_str [simp]: "str_bytes (bytes_str bs) = bs"
  by (simp add: bytes_str_def str_bytes_def comp_def unat_byte_lt)

section \<open>Big-endian bytes\<close>

text \<open>
  \<open>big.Int.Bytes()\<close> of a natural number: the shortest big-endian encoding, empty for 0.
  \<open>big.Int.SetBytes\<close> is the value of a byte string.
\<close>

fun be_bytes :: "nat \<Rightarrow> bytes" where
  "be_bytes n = (if n = 0 then [] else be_bytes (n div 256) @ [of_nat (n mod 256)])"

declare be_bytes.simps [simp del]

definition be_nat :: "bytes \<Rightarrow> nat" where
  "be_nat bs = foldl (\<lambda>a b. a * 256 + unat b) 0 bs"

lemma be_nat_Nil [simp]: "be_nat [] = 0"
  by (simp add: be_nat_def)

lemma be_nat_snoc [simp]: "be_nat (bs @ [b]) = be_nat bs * 256 + unat b"
  by (simp add: be_nat_def)

lemma be_nat_append: "be_nat (xs @ ys) = be_nat xs * 256 ^ length ys + be_nat ys"
proof (induction ys rule: rev_induct)
  case (snoc y ys)
  have "be_nat (xs @ ys @ [y]) = be_nat (xs @ ys) * 256 + unat y"
    by (simp only: append_assoc[symmetric] be_nat_snoc)
  with snoc show ?case by (simp add: algebra_simps)
qed simp

lemma be_nat_zeros [simp]: "be_nat (replicate k 0 @ bs) = be_nat bs"
proof -
  have "be_nat (replicate k 0) = 0" by (induction k) (simp_all add: be_nat_def)
  then show ?thesis by (simp add: be_nat_append)
qed

lemma be_nat_lt: "be_nat bs < 256 ^ length bs"
proof (induction bs rule: rev_induct)
  case (snoc b bs)
  have "be_nat bs * 256 + unat b < be_nat bs * 256 + 256" by simp
  also have "\<dots> = Suc (be_nat bs) * 256" by simp
  also have "\<dots> \<le> 256 ^ length bs * 256" using snoc by (intro mult_le_mono1) simp
  finally show ?case by simp
qed simp

lemma be_bytes_0 [simp]: "be_bytes 0 = []"
  by (subst be_bytes.simps) simp

lemma be_nat_be_bytes [simp]: "be_nat (be_bytes n) = n"
proof (induction n rule: be_bytes.induct)
  case (1 n)
  have "unat (of_nat (n mod 256) :: byte) = n mod 256"
    by (simp add: unat_of_nat)
  with 1 show ?case
    by (cases "n = 0") (simp_all add: be_bytes.simps[of n] div_mult_mod_eq)
qed

lemma length_be_bytes: "n < 256 ^ k \<Longrightarrow> length (be_bytes n) \<le> k"
proof (induction k arbitrary: n)
  case 0
  then show ?case by (simp add: be_bytes.simps)
next
  case (Suc k)
  have "n div 256 < 256 ^ k" using Suc.prems by (simp add: less_mult_imp_div_less mult.commute)
  then have "length (be_bytes (n div 256)) \<le> k" by (rule Suc.IH)
  then show ?case by (subst be_bytes.simps) simp
qed

section \<open>UTF-8 and quoting\<close>

text \<open>
  The number of bytes of the UTF-8 character a string starts with, 0 when it starts with none
  (\<open>utf8.DecodeRune\<close> gives \<open>RuneError\<close> of width 1 there): no overlong forms, no surrogates, nothing
  above U+10FFFF.
\<close>

definition cont_byte :: "char \<Rightarrow> bool" where
  "cont_byte c \<longleftrightarrow> 128 \<le> (of_char c :: nat) \<and> (of_char c :: nat) < 192"

fun rune_len :: "string \<Rightarrow> nat" where
  "rune_len [] = 0"
| "rune_len (a # s) =
     (let n = (of_char a :: nat) in
      if n < 128 then 1
      else case s of [] \<Rightarrow> 0 | b # s' \<Rightarrow>
        let m = (of_char b :: nat) in
        if 194 \<le> n \<and> n < 224 then (if cont_byte b then 2 else 0)
        else case s' of [] \<Rightarrow> 0 | c # s'' \<Rightarrow>
          if 224 \<le> n \<and> n < 240 then
            (if cont_byte b \<and> cont_byte c \<and> (n = 224 \<longrightarrow> 160 \<le> m) \<and> (n = 237 \<longrightarrow> m < 160) then 3 else 0)
          else case s'' of [] \<Rightarrow> 0 | d # _ \<Rightarrow>
            if 240 \<le> n \<and> n < 245 \<and> cont_byte b \<and> cont_byte c \<and> cont_byte d \<and>
               (n = 240 \<longrightarrow> 144 \<le> m) \<and> (n = 244 \<longrightarrow> m < 144) then 4 else 0)"

lemma rune_len_le: "rune_len s \<le> length s"
proof (cases s)
  case (Cons a t)
  then show ?thesis
    by (cases t; cases "tl t"; cases "tl (tl t)") (auto simp: Let_def)
qed simp

text \<open>The code point of a UTF-8 character.\<close>

definition rune_value :: "string \<Rightarrow> nat" where
  "rune_value u = (case u of [] \<Rightarrow> 0 | a # t \<Rightarrow>
     foldl (\<lambda>v c. v * 64 + of_char c mod 64)
       (of_char a mod (if t = [] then 128 else if length t = 1 then 32 else if length t = 2 then 16 else 8)) t)"

text \<open>
  \<open>strconv.Quote\<close>, the verb \<open>%q\<close>. Which characters above ASCII are printable is the Unicode table
  \<open>isPrint\<close>, an argument.
\<close>

definition quote_ascii :: "char \<Rightarrow> string" where
  "quote_ascii c =
     (let n = (of_char c :: nat) in
      if c = CHR 0x22 \<or> c = CHR 0x5C then [CHR 0x5C, c]
      else if 32 \<le> n \<and> n < 127 then [c]
      else if n = 7 then [CHR 0x5C, CHR ''a'']
      else if n = 8 then [CHR 0x5C, CHR ''b'']
      else if n = 12 then [CHR 0x5C, CHR ''f'']
      else if n = 10 then [CHR 0x5C, CHR ''n'']
      else if n = 13 then [CHR 0x5C, CHR ''r'']
      else if n = 9 then [CHR 0x5C, CHR ''t'']
      else if n = 11 then [CHR 0x5C, CHR ''v'']
      else CHR 0x5C # CHR ''x'' # [digit_char (n div 16), digit_char (n mod 16)])"

definition quote_rune :: "(string \<Rightarrow> bool) \<Rightarrow> string \<Rightarrow> string" where
  "quote_rune isPrint u =
     (if isPrint u then u
      else if rune_value u < 65536 then CHR 0x5C # CHR ''u'' # pad_zeros 4 (show_hex (rune_value u))
      else CHR 0x5C # CHR ''U'' # pad_zeros 8 (show_hex (rune_value u)))"

function quote_body :: "(string \<Rightarrow> bool) \<Rightarrow> string \<Rightarrow> string" where
  "quote_body isPrint [] = []"
| "quote_body isPrint (c # s) =
     (let k = rune_len (c # s) in
      if k = 0 then CHR 0x5C # CHR ''x'' # [digit_char (of_char c div 16), digit_char (of_char c mod 16)] @ quote_body isPrint s
      else if k = 1 then quote_ascii c @ quote_body isPrint s
      else quote_rune isPrint (take k (c # s)) @ quote_body isPrint (drop k (c # s)))"
  by pat_completeness auto
termination
  by (relation "measure (\<lambda>(p, s). length s)") auto

definition quote_go :: "(string \<Rightarrow> bool) \<Rightarrow> string \<Rightarrow> string" where
  "quote_go isPrint s = CHR 0x22 # quote_body isPrint s @ [CHR 0x22]"

end
