(* ===== verification/Abi_Codec.thy ===== *)
theory Abi_Codec
  imports Go_Num
begin

text \<open>
  The byte layouts the program defines itself: the ABI encoding of \<open>(bytes, bytes)\<close> the
  extension answers with (\<open>abiEncodeTwo\<close> and its helpers in
  \<open>go/internal/extension/utils.go\<close>), its decoder in the end-to-end test
  (\<open>abiDecodeTwo\<close>, \<open>normalizeV\<close> in \<open>go/tools/cmd/run-test/main.go\<close>), and the
  \<open>bytes32\<close> strings of \<open>registration.go\<close> and \<open>audit-deploy\<close>. The decoder's
  64-bit arithmetic is kept: conversions to \<open>int\<close> and sums wrap.
\<close>

section \<open>Padding\<close>

definition padLeft :: "bytes \<Rightarrow> nat \<Rightarrow> bytes" where
  "padLeft b sz =
     (if length b \<ge> sz then drop (length b - sz) b
      else replicate (sz - length b) 0 @ b)"

definition padToMultipleOf32 :: "bytes \<Rightarrow> bytes" where
  "padToMultipleOf32 data =
     (if length data = 0 then []
      else let remainder = length data mod 32 in
        if remainder = 0 then data
        else data @ replicate (length data + 32 - remainder - length data) 0)"

lemma length_padLeft [simp, layout_simps]: "length (padLeft b sz) = sz"
  by (simp add: padLeft_def)

lemma be_nat_padLeft: "length b \<le> sz \<Longrightarrow> be_nat (padLeft b sz) = be_nat b"
  by (auto simp: padLeft_def)

lemma padToMultipleOf32_prefix:
  obtains k where "padToMultipleOf32 data = data @ replicate k 0" "k < 32"
    "(length data + k) mod 32 = 0"
proof (cases "length data mod 32 = 0")
  case True
  then show ?thesis
    by (intro that[of 0]) (auto simp: padToMultipleOf32_def Let_def)
next
  case False
  have "(length data + (32 - length data mod 32)) mod 32 = 0" by presburger
  with False show ?thesis
    by (intro that[of "32 - length data mod 32"]) (auto simp: padToMultipleOf32_def Let_def)
qed

lemma length_padToMultipleOf32_ge: "length data \<le> length (padToMultipleOf32 data)"
  by (rule padToMultipleOf32_prefix[of data]) simp

lemma length_padToMultipleOf32_mod [simp]: "length (padToMultipleOf32 data) mod 32 = 0"
  by (rule padToMultipleOf32_prefix[of data]) simp

lemma length_padToMultipleOf32_lt: "length (padToMultipleOf32 data) < length data + 32"
  by (rule padToMultipleOf32_prefix[of data]) simp

lemma take_padToMultipleOf32 [simp]: "take (length data) (padToMultipleOf32 data) = data"
  by (rule padToMultipleOf32_prefix[of data]) simp

section \<open>The encoder\<close>

text \<open>One 32-byte word: \<open>padLeft(big.NewInt(n).Bytes(), 32)\<close>.\<close>

abbreviation abi_word :: "nat \<Rightarrow> bytes" where
  "abi_word n \<equiv> padLeft (be_bytes n) 32"

definition abiEncodeTwo :: "bytes \<Rightarrow> bytes \<Rightarrow> bytes result" where
  "abiEncodeTwo a b =
     (let aPadded = padToMultipleOf32 a;
          bPadded = padToMultipleOf32 b;
          offsetA = 64;
          offsetB = 64 + 32 + length aPadded;
          buf = [] @ padLeft (be_bytes offsetA) 32;
          buf = buf @ padLeft (be_bytes offsetB) 32;
          buf = buf @ padLeft (be_bytes (length a)) 32;
          buf = buf @ aPadded;
          buf = buf @ padLeft (be_bytes (length b)) 32;
          buf = buf @ bPadded
      in Inr buf)"

lemma be_nat_abi_word [simp]: "n < 2 ^ 64 \<Longrightarrow> be_nat (abi_word n) = n"
proof -
  assume "n < 2 ^ 64"
  also have "(2 :: nat) ^ 64 \<le> 256 ^ 32" by simp
  finally have "length (be_bytes n) \<le> 32" by (rule length_be_bytes)
  then show ?thesis by (simp add: be_nat_padLeft)
qed

section \<open>The decoder\<close>

text \<open>
  A slice expression \<open>data[lo:hi]\<close> with \<open>uint64\<close> indices panics unless
  \<open>lo \<le> hi \<le> cap(data)\<close>. The capacity is taken to be the length: the checks before each
  slice pass only when \<open>hi\<close>, read as a natural number, is at most the length or at least
  \<open>2^63\<close>, so a larger capacity changes no result.
\<close>

definition go_slice :: "bytes \<Rightarrow> u64 \<Rightarrow> u64 \<Rightarrow> bytes outcome" where
  "go_slice data lo hi =
     (if unat lo \<le> unat hi \<and> unat hi \<le> length data
      then Returns (subslice data (unat lo) (unat hi)) else Panics)"

text \<open>\<open>new(big.Int).SetBytes(bs).Uint64()\<close>: the low 64 bits.\<close>

definition bytes_u64 :: "bytes \<Rightarrow> u64" where
  "bytes_u64 bs = of_nat (be_nat bs)"

definition show_u64 :: "u64 \<Rightarrow> string" where
  "show_u64 x = show_nat (unat x)"

text \<open>The closure \<open>readBytes\<close>; \<open>int(x)\<close> of a \<open>uint64\<close> is its two's complement reading \<open>sint\<close>.\<close>

definition readBytes :: "bytes \<Rightarrow> u64 \<Rightarrow> bytes result outcome" where
  "readBytes data offset =
     (if sint (offset + 32) > int (length data)
      then Returns (Inl (errorf (''offset '' @ show_u64 offset @ '' out of range'')))
      else bind_outcome (go_slice data offset (offset + 32)) (\<lambda>lw.
        let len = bytes_u64 lw; start = offset + 32 in
        if sint (start + len) > int (length data)
        then Returns (Inl (errorf (''length '' @ show_u64 len @ '' exceeds data at offset '' @ show_u64 offset)))
        else bind_outcome (go_slice data start (start + len)) (\<lambda>b. Returns (Inr b))))"

definition abiDecodeTwo :: "bytes \<Rightarrow> (bytes \<times> bytes) result outcome" where
  "abiDecodeTwo data =
     (if length data < 64
      then Returns (Inl (errorf (''data too short for (bytes,bytes): '' @ show_nat (length data) @ '' bytes'')))
      else let offset1 = bytes_u64 (subslice data 0 32); offset2 = bytes_u64 (subslice data 32 64) in
        bind_outcome (readBytes data offset1) (\<lambda>ra. case ra of
          Inl e \<Rightarrow> Returns (Inl e)
        | Inr a \<Rightarrow> bind_outcome (readBytes data offset2) (\<lambda>rb. case rb of
            Inl e \<Rightarrow> Returns (Inl e)
          | Inr b \<Rightarrow> Returns (Inr (a, b)))))"

definition normalizeV :: "bytes \<Rightarrow> bytes" where
  "normalizeV sig =
     (if length sig \<noteq> 65 then sig
      else let out = sig in
        if out ! 64 \<ge> 27 then out[64 := out ! 64 - 27] else out)"

subsection \<open>64-bit arithmetic of the checks\<close>

lemma unat_add_small: "unat x + n < 2 ^ 64 \<Longrightarrow> unat (x + of_nat n :: u64) = unat x + n"
  by (simp add: unat_word_ariths unat_of_nat)

lemma unat_add_32_small: "unat x + 32 < 2 ^ 64 \<Longrightarrow> unat (x + 32 :: u64) = unat x + 32"
  by (simp add: unat_word_ariths)

lemma wrap_once: "(2 :: nat) ^ 64 \<le> s \<Longrightarrow> s < 2 ^ 64 + 2 ^ 64 \<Longrightarrow> s mod 2 ^ 64 = s - 2 ^ 64"
  by (simp only: le_mod_geq) (rule mod_less, linarith)

lemma sint_u64: "sint (x :: u64) = (if unat x < 2 ^ 63 then int (unat x) else int (unat x) - 2 ^ 64)"
proof -
  have lt: "uint x < 2 ^ 64" using uint_lt2p[of x] by simp
  have "bit (uint x) 63 \<longleftrightarrow> \<not> uint x < 2 ^ 63"
  proof -
    have "uint x div 2 ^ 63 = (if uint x < 2 ^ 63 then 0 else 1)"
    proof (cases "uint x < 2 ^ 63")
      case False
      with lt show ?thesis by (intro int_div_pos_eq[of _ _ _ "uint x - 2 ^ 63"]) auto
    qed simp
    then show ?thesis by (simp add: bit_iff_odd)
  qed
  moreover have "unat x < 2 ^ 63 \<longleftrightarrow> uint x < 2 ^ 63"
    using nat_less_iff[of "uint x" "2 ^ 63"] by simp
  ultimately show ?thesis
    using lt by (simp add: sint_uint signed_take_bit_eq_take_bit_minus take_bit_int_eq_self)
qed

lemma sint_gt_iff: "int n < sint (x :: u64) \<longleftrightarrow> unat x < 2 ^ 63 \<and> n < unat x"
proof (cases "unat x < 2 ^ 63")
  case True
  then have "sint x = int (unat x)" by (simp only: sint_u64 if_True)
  with True show ?thesis by (simp only: of_nat_less_iff simp_thms)
next
  case False
  have "int (unat x) < 2 ^ 64" using uint_lt2p[of x] by simp
  moreover have "sint x = int (unat x) - 2 ^ 64" using False by (simp only: sint_u64 if_False)
  ultimately have "sint x < 0" by linarith
  with False show ?thesis by linarith
qed

section \<open>What one read does\<close>

text \<open>
  A complete account of \<open>readBytes\<close> in natural-number arithmetic: an offset near or beyond
  \<open>2^63\<close>, or a length that carries the end to \<open>2^63\<close> or beyond, is not rejected and the slice
  expression panics.
\<close>

definition end_of_read :: "bytes \<Rightarrow> u64 \<Rightarrow> nat" where
  "end_of_read data offset =
     unat offset + 32 + unat (bytes_u64 (subslice data (unat offset) (unat offset + 32)))"

lemma go_slice_ok: "unat lo \<le> unat hi \<Longrightarrow> unat hi \<le> length data \<Longrightarrow>
    go_slice data lo hi = Returns (subslice data (unat lo) (unat hi))"
  by (simp add: go_slice_def)

lemma go_slice_panics: "unat hi < unat lo \<or> length data < unat hi \<Longrightarrow> go_slice data lo hi = Panics"
  by (auto simp: go_slice_def)

lemma readBytes_far:
  assumes "length data < 2 ^ 63" and "32 \<le> length data" and "2 ^ 63 \<le> unat offset + 32"
  shows "readBytes data offset = Panics"
proof (cases "unat offset + 32 < 2 ^ 64")
  case True
  then have "unat (offset + 32) = unat offset + 32" by (rule unat_add_32_small)
  with assms True show ?thesis
    by (simp add: readBytes_def sint_gt_iff go_slice_panics)
next
  case False
  have "unat offset < 2 ^ 64" using unsigned_less[of offset] by simp
  then have "(unat offset + 32) mod 2 ^ 64 = unat offset + 32 - 2 ^ 64"
    using False \<open>unat offset < 2 ^ 64\<close> by (intro wrap_once) simp_all
  then have "unat (offset + 32) = unat offset + 32 - 2 ^ 64"
    by (simp add: unat_word_ariths)
  moreover have "unat offset + 32 - 2 ^ 64 < 32" using \<open>unat offset < 2 ^ 64\<close> by linarith
  ultimately show ?thesis using assms False
    by (simp add: readBytes_def sint_gt_iff go_slice_panics)
qed

lemma readBytes_out_of_range:
  assumes "unat offset + 32 < 2 ^ 63" and "length data < unat offset + 32"
  shows "readBytes data offset =
    Returns (Inl (errorf (''offset '' @ show_u64 offset @ '' out of range'')))"
proof -
  have "unat (offset + 32) = unat offset + 32" using assms by (intro unat_add_32_small) simp
  with assms show ?thesis by (simp add: readBytes_def sint_gt_iff)
qed

lemma readBytes_in_range:
  assumes len: "length data < 2 ^ 63" and off: "unat offset + 32 \<le> length data"
  shows "readBytes data offset =
    (let e = end_of_read data offset in
     if 2 ^ 63 \<le> e then Panics
     else if length data < e
     then Returns (Inl (errorf (''length '' @ show_u64 (bytes_u64 (subslice data (unat offset) (unat offset + 32)))
            @ '' exceeds data at offset '' @ show_u64 offset)))
     else Returns (Inr (subslice data (unat offset + 32) e)))"
proof -
  let ?L = "bytes_u64 (subslice data (unat offset) (unat offset + 32))"
  have o32: "unat (offset + 32) = unat offset + 32" using assms by (intro unat_add_32_small) simp
  have head: "readBytes data offset =
      (if sint (offset + 32 + ?L) > int (length data)
       then Returns (Inl (errorf (''length '' @ show_u64 ?L @ '' exceeds data at offset '' @ show_u64 offset)))
       else bind_outcome (go_slice data (offset + 32) (offset + 32 + ?L)) (\<lambda>b. Returns (Inr b)))"
    using assms by (simp add: readBytes_def sint_gt_iff go_slice_ok o32 Let_def)
  have e: "end_of_read data offset = unat (offset + 32) + unat ?L"
    by (simp add: end_of_read_def o32)
  have L: "unat ?L < 2 ^ 64" using unsigned_less[of ?L] by simp
  show ?thesis
  proof (cases "end_of_read data offset < 2 ^ 64")
    case True
    then have "unat (offset + 32 + ?L) = end_of_read data offset"
      unfolding e by (simp add: unat_word_ariths(1)[of "offset + 32"])
    with len off True show ?thesis
      unfolding head by (simp add: sint_gt_iff go_slice_panics go_slice_ok o32 e Let_def)
  next
    case False
    have "(unat (offset + 32) + unat ?L) mod 2 ^ 64 = end_of_read data offset - 2 ^ 64"
      using False L len off unfolding e o32 by (intro wrap_once) simp_all
    then have w: "unat (offset + 32 + ?L) = end_of_read data offset - 2 ^ 64"
      by (simp add: unat_word_ariths(1)[of "offset + 32"])
    have "end_of_read data offset - 2 ^ 64 < unat offset + 32"
      using False L unfolding e o32 by simp
    with len off False w show ?thesis
      unfolding head by (simp add: sint_gt_iff go_slice_panics o32 Let_def)
  qed
qed

definition hostile_offset :: "bytes \<Rightarrow> u64 \<Rightarrow> bool" where
  "hostile_offset data offset \<longleftrightarrow> 2 ^ 63 \<le> unat offset + 32 \<or>
     unat offset + 32 \<le> length data \<and> 2 ^ 63 \<le> end_of_read data offset"

lemma readBytes_panics_iff:
  assumes "length data < 2 ^ 63" and "32 \<le> length data"
  shows "readBytes data offset = Panics \<longleftrightarrow> hostile_offset data offset"
proof -
  consider (far) "2 ^ 63 \<le> unat offset + 32"
    | (out) "unat offset + 32 < 2 ^ 63" "length data < unat offset + 32"
    | (inside) "unat offset + 32 \<le> length data" by linarith
  then show ?thesis
  proof cases
    case far
    with assms show ?thesis by (simp add: readBytes_far hostile_offset_def)
  next
    case out
    then show ?thesis by (simp add: readBytes_out_of_range hostile_offset_def)
  next
    case inside
    with assms show ?thesis by (simp add: readBytes_in_range hostile_offset_def Let_def)
  qed
qed

text \<open>A length-prefixed field is read back wherever it stands in the data.\<close>

lemma readBytes_field:
  assumes "data = pre @ abi_word (length x) @ x @ post" and "length data < 2 ^ 63"
  shows "readBytes data (of_nat (length pre)) = Returns (Inr x)"
proof -
  have len: "length pre + 32 + length x \<le> length data" using assms by simp
  have off: "unat (of_nat (length pre) :: u64) = length pre"
    using len assms(2) by (intro unat_of_nat_u64) simp
  have "subslice data (length pre) (length pre + 32) = abi_word (length x)"
    unfolding assms(1) by (rule subslice_middle) simp_all
  moreover have "unat (bytes_u64 (abi_word (length x))) = length x"
    using len assms(2) by (simp add: bytes_u64_def unat_of_nat_u64)
  ultimately have e: "end_of_read data (of_nat (length pre)) = length pre + 32 + length x"
    by (simp add: end_of_read_def off)
  have "subslice data (length pre + 32) (length pre + 32 + length x) = x"
    unfolding assms(1) using subslice_middle[of "pre @ abi_word (length x)" "length pre + 32" x "length pre + 32 + length x" post]
    by simp
  with len assms(2) show ?thesis
    by (simp add: readBytes_in_range off e Let_def)
qed

section \<open>The encoding\<close>

text \<open>The encoding as a list of its parts, and the value the encoder returns.\<close>

definition abi_layout :: "bytes \<Rightarrow> bytes \<Rightarrow> bytes" where
  "abi_layout a b =
     abi_word 64 @ abi_word (96 + length (padToMultipleOf32 a)) @
     abi_word (length a) @ padToMultipleOf32 a @
     abi_word (length b) @ padToMultipleOf32 b"

lemma abiEncodeTwo_layout: "abiEncodeTwo a b = Inr (abi_layout a b)"
  by (simp add: abiEncodeTwo_def abi_layout_def Let_def)

lemma length_abi_layout:
  "length (abi_layout a b) = 128 + length (padToMultipleOf32 a) + length (padToMultipleOf32 b)"
  by (simp add: abi_layout_def)

lemma abi_layout_offsets:
  assumes "length (abi_layout a b) < 2 ^ 63"
  shows "bytes_u64 (subslice (abi_layout a b) 0 32) = of_nat 64"
    and "bytes_u64 (subslice (abi_layout a b) 32 64) = of_nat (96 + length (padToMultipleOf32 a))"
proof -
  have "subslice (abi_layout a b) 0 32 = abi_word 64"
    unfolding abi_layout_def using subslice_middle[of "[]" 0 "abi_word 64" 32] by simp
  then show "bytes_u64 (subslice (abi_layout a b) 0 32) = of_nat 64"
    by (simp add: bytes_u64_def)
  have "subslice (abi_layout a b) 32 64 = abi_word (96 + length (padToMultipleOf32 a))"
    unfolding abi_layout_def by (rule subslice_middle) simp_all
  then show "bytes_u64 (subslice (abi_layout a b) 32 64) = of_nat (96 + length (padToMultipleOf32 a))"
    using assms by (simp add: bytes_u64_def length_abi_layout)
qed

lemma abi_roundtrip:
  assumes "length (abi_layout a b) < 2 ^ 63"
  shows "abiDecodeTwo (abi_layout a b) = Returns (Inr (a, b))"
proof -
  obtain ka where ka: "padToMultipleOf32 a = a @ replicate ka 0" by (rule padToMultipleOf32_prefix)
  obtain kb where kb: "padToMultipleOf32 b = b @ replicate kb 0" by (rule padToMultipleOf32_prefix)
  let ?A = "abi_word 64 @ abi_word (96 + length (padToMultipleOf32 a))"
  let ?B = "?A @ abi_word (length a) @ padToMultipleOf32 a"
  have "abi_layout a b = ?A @ abi_word (length a) @ a @ (replicate ka 0 @ abi_word (length b) @ padToMultipleOf32 b)"
    by (simp add: abi_layout_def ka)
  with assms have A: "readBytes (abi_layout a b) (of_nat 64) = Returns (Inr a)"
    using readBytes_field[of "abi_layout a b" ?A a] by simp
  have "abi_layout a b = ?B @ abi_word (length b) @ b @ replicate kb 0"
    by (simp add: abi_layout_def kb)
  with assms have B: "readBytes (abi_layout a b) (of_nat (96 + length (padToMultipleOf32 a))) = Returns (Inr b)"
    using readBytes_field[of "abi_layout a b" ?B b "replicate kb 0"] by (simp add: add.commute)
  have "\<not> length (abi_layout a b) < 64" by (simp add: length_abi_layout)
  with A B show ?thesis
    by (simp add: abiDecodeTwo_def abi_layout_offsets[OF assms] del: of_nat_numeral of_nat_add)
qed

interpretation abi: codec "\<lambda>(a, b). abi_layout a b" abiDecodeTwo
    "\<lambda>(a, b). length (abi_layout a b) < 2 ^ 63" "\<lambda>p. Returns (Inr p)"
  by unfold_locales (auto simp: abi_roundtrip)

section \<open>bytes32 strings\<close>

text \<open>
  \<open>stringToBytes32\<close> (\<open>registration.go\<close>; \<open>audit-deploy\<close> has the same body with another
  error text) and \<open>bytes32ToString\<close> (\<open>audit-deploy\<close>). A \<open>[32]byte\<close> is a list of 32 bytes. The
  quoted text of the error (\<open>%q\<close>) is the argument \<open>q\<close>.
\<close>

definition stringToBytes32 :: "(string \<Rightarrow> string) \<Rightarrow> string \<Rightarrow> bytes result" where
  "stringToBytes32 q s =
     (if length s > 32 then Inl (errorf (''version '' @ q s @ '' exceeds 32 bytes''))
      else Inr (str_bytes s @ replicate (32 - length s) 0))"

fun trim_end :: "nat \<Rightarrow> bytes \<Rightarrow> nat" where
  "trim_end 0 b = 0"
| "trim_end (Suc e) b = (if b ! e = 0 then trim_end e b else Suc e)"

definition bytes32ToString :: "bytes \<Rightarrow> string" where
  "bytes32ToString b = TrimSpace (bytes_str (take (trim_end (length b) b) b))"

lemma trim_end_zeros:
  "xs = [] \<or> last xs \<noteq> 0 \<Longrightarrow> trim_end (length xs + k) (xs @ replicate k 0) = length xs"
proof (induction k)
  case 0
  then show ?case by (cases xs rule: rev_cases) auto
next
  case (Suc k)
  have *: "trim_end e (ys @ zs) = trim_end e ys" if "e \<le> length ys" for e ys zs
    using that by (induction e) (auto simp: nth_append)
  have "xs @ replicate (Suc k) 0 = (xs @ replicate k 0) @ [0]"
    by (simp add: replicate_append_same)
  then show ?case
    using Suc *[of "length xs + k" "xs @ replicate k 0" "[0]"] by (simp add: nth_append)
qed

lemma bytes32_roundtrip:
  assumes "length s \<le> 32" and "TrimSpace s = s" and "s = [] \<or> last s \<noteq> CHR 0x00"
  shows "map_sum id bytes32ToString (stringToBytes32 q s) = Inr s"
proof -
  have "str_bytes s = [] \<or> last (str_bytes s) \<noteq> 0"
  proof (cases s rule: rev_cases)
    case (snoc t c)
    with assms(3) have "c \<noteq> CHR 0x00" by simp
    moreover have "(of_char (CHR 0x00) :: nat) = 0" by simp
    ultimately have "(of_char c :: nat) \<noteq> 0" by (metis of_char_eq_iff)
    then have "(of_nat (of_char c) :: byte) \<noteq> 0"
      using unat_of_nat_byte[OF of_char_lt_256[of c]] by (metis unat_0)
    with snoc show ?thesis by (simp add: str_bytes_def)
  qed (simp add: str_bytes_def)
  from trim_end_zeros[OF this, of "32 - length s"] assms show ?thesis
    by (simp add: stringToBytes32_def bytes32ToString_def)
qed

interpretation b32: codec "stringToBytes32 q" "map_sum id bytes32ToString"
    "\<lambda>s. length s \<le> 32 \<and> TrimSpace s = s \<and> (s = [] \<or> last s \<noteq> CHR 0x00)" Inr for q
  by unfold_locales (simp_all add: bytes32_roundtrip)

lemma normalizeV_eq:
  "length rs = 64 \<Longrightarrow> normalizeV (rs @ [v]) = rs @ [if v \<ge> 27 then v - 27 else v]"
  by (simp add: normalizeV_def Let_def nth_append list_update_append)

section \<open>Properties\<close>

text \<open>
  C9: The encoding of two byte strings is made of 32-byte words, and the test's decoder reads back
  exactly the two strings, whatever they are, as long as the encoding is shorter than \<open>2^63\<close> bytes
  (every Go slice is); two different pairs therefore never have the same encoding.
\<close>

theorem abi_decode_encode:
  assumes "abiEncodeTwo a b = Inr d" and "length d < 2 ^ 63"
  shows "abiDecodeTwo d = Returns (Inr (a, b)) \<and> length d mod 32 = 0 \<and>
    (\<forall>a' b'. abiEncodeTwo a' b' = Inr d \<longrightarrow> a' = a \<and> b' = b)"
proof -
  have d: "d = abi_layout a b" using assms(1) by (simp add: abiEncodeTwo_layout)
  have "length d mod 32 = 0"
    unfolding d length_abi_layout by (simp add: mod_add_eq[symmetric] del: mod_add_eq)
  moreover have "a' = a \<and> b' = b" if "abiEncodeTwo a' b' = Inr d" for a' b'
    using abi.enc_inj[of "(a', b')" "(a, b)"] that assms(2) d by (simp add: abiEncodeTwo_layout)
  ultimately show ?thesis using assms(2) abi_roundtrip d by blast
qed

theorem abi_decode_encode_witness:
  "abiDecodeTwo (abi_layout [1, 2, 3] []) = Returns (Inr ([1, 2, 3], []))"
  using abi_decode_encode[OF abiEncodeTwo_layout, of "[1, 2, 3]" "[]"]
  by (simp add: length_abi_layout padToMultipleOf32_def)

text \<open>
  C11: Exactly which inputs crash the decoder. On data of at least 64 bytes it panics when one of the
  two offsets it follows is hostile: within 32 of \<open>2^63\<close> or beyond, or inside the data with a length
  word that carries the end of the field to \<open>2^63\<close> or beyond (the conversions to \<open>int\<close> make the
  range checks pass and the slice expression fails). Every other input gives a value or an error.
\<close>

theorem abi_decode_panics_iff:
  assumes "length d < 2 ^ 63"
  shows "abiDecodeTwo d = Panics \<longleftrightarrow>
     64 \<le> length d \<and>
     (hostile_offset d (bytes_u64 (subslice d 0 32)) \<or>
      (\<exists>a. readBytes d (bytes_u64 (subslice d 0 32)) = Returns (Inr a)) \<and>
        hostile_offset d (bytes_u64 (subslice d 32 64)))"
proof (cases "64 \<le> length d")
  case True
  let ?r1 = "readBytes d (bytes_u64 (subslice d 0 32))"
  let ?r2 = "readBytes d (bytes_u64 (subslice d 32 64))"
  have "abiDecodeTwo d = Panics \<longleftrightarrow> ?r1 = Panics \<or> (\<exists>a. ?r1 = Returns (Inr a)) \<and> ?r2 = Panics"
    using True by (cases ?r1; cases ?r2) (auto simp: abiDecodeTwo_def Let_def split: sum.splits)
  then show ?thesis
    using True assms by (simp add: readBytes_panics_iff)
qed (simp add: abiDecodeTwo_def)

theorem abi_decode_panics_iff_witness:
  "abiDecodeTwo (abi_word (2 ^ 63) @ replicate 64 0) = Panics"
proof -
  let ?d = "abi_word (2 ^ 63) @ replicate 64 0"
  have "subslice ?d 0 32 = abi_word (2 ^ 63)"
    using subslice_middle[of "[]" 0 "abi_word (2 ^ 63)" 32 "replicate 64 0"] by simp
  then have "unat (bytes_u64 (subslice ?d 0 32)) = 2 ^ 63"
    by (simp only: bytes_u64_def be_nat_abi_word) (simp add: unat_of_nat)
  then have "hostile_offset ?d (bytes_u64 (subslice ?d 0 32))"
    by (simp add: hostile_offset_def)
  then show ?thesis
    using abi_decode_panics_iff[of ?d] by simp
qed

text \<open>
  A version string of at most 32 bytes, without white space at its ends and without a trailing
  zero byte, comes back from its \<open>bytes32\<close> form; a longer one is refused; the form always has 32 bytes.
\<close>

theorem bytes32_string_roundtrip:
  assumes "TrimSpace s = s" and "s = [] \<or> last s \<noteq> CHR 0x00"
  shows "case stringToBytes32 q s of
      Inr b \<Rightarrow> length s \<le> 32 \<and> length b = 32 \<and> bytes32ToString b = s
    | Inl e \<Rightarrow> 32 < length s"
proof (cases "length s \<le> 32")
  case True
  then obtain b where b: "stringToBytes32 q s = Inr b" "length b = 32"
    by (simp add: stringToBytes32_def)
  with b32.dec_enc[of s q] True assms show ?thesis by simp
qed (simp add: stringToBytes32_def)

theorem bytes32_string_roundtrip_witness:
  "case stringToBytes32 id ''v0.1.0'' of
      Inr b \<Rightarrow> length ''v0.1.0'' \<le> 32 \<and> length b = 32 \<and> bytes32ToString b = ''v0.1.0''
    | Inl e \<Rightarrow> 32 < length ''v0.1.0''"
  by (rule bytes32_string_roundtrip)
    (simp_all add: TrimSpace_def ws_runes_def strip_all.simps HasPrefix_def)

end
