(* ===== verification/Config.thy ===== *)
theory Config
  imports Go_Num
begin

text \<open>
  Configuration: the constants and the port defaults of \<open>go/internal/config/config.go\<close> with
  the overrides its \<open>init\<close> reads from the environment, \<open>intEnv\<close> and the start-up of
  \<open>go/cmd/docker/main.go\<close> with \<open>go/pkg/server/server.go\<close>, the constants of
  \<open>go/tools/pkg/configs/configs.go\<close> and the fee override of
  \<open>go/tools/pkg/utils/instructions.go\<close>. \<open>os.Getenv\<close> is a function that is empty on
  an unset variable.
\<close>

type_synonym env = "string \<Rightarrow> string"

definition Version :: string where "Version = ''0.1.0''"
definition OPTypeKey :: string where "OPTypeKey = ''KEY''"
definition OPCommandUpdate :: string where "OPCommandUpdate = ''UPDATE''"
definition OPCommandSign :: string where "OPCommandSign = ''SIGN''"

record ports =
  ExtensionPort :: int
  SignPort :: int
  ConfigPort :: int

definition default_ports :: ports where
  "default_ports = \<lparr>ExtensionPort = 7702, SignPort = 7701, ConfigPort = 5501\<rparr>"

definition env_override :: "env \<Rightarrow> string \<Rightarrow> int \<Rightarrow> int" where
  "env_override e key d =
     (let v = e key in if v \<noteq> '''' then (case Atoi v of Some n \<Rightarrow> n | None \<Rightarrow> d) else d)"

definition config_init :: "env \<Rightarrow> ports \<Rightarrow> ports" where
  "config_init e p = p\<lparr>
     ExtensionPort := env_override e ''EXTENSION_PORT'' (ExtensionPort p),
     SignPort := env_override e ''SIGN_PORT'' (SignPort p),
     ConfigPort := env_override e ''CONFIG_PORT'' (ConfigPort p)\<rparr>"

definition intEnv :: "env \<Rightarrow> string \<Rightarrow> int \<Rightarrow> int" where
  "intEnv e key fallback = (case Atoi (e key) of Some v \<Rightarrow> v | None \<Rightarrow> fallback)"

lemma intEnv_override: "intEnv e key d = env_override e key d"
  by (cases "e key = ''''") (simp_all add: intEnv_def env_override_def Let_def)

lemma intEnv_idem: "intEnv e key (intEnv e key d) = intEnv e key d"
  by (simp add: intEnv_def split: option.splits)

lemma config_init_idem: "config_init e (config_init e p) = config_init e p"
  by (simp add: config_init_def intEnv_override[symmetric] intEnv_idem)

text \<open>
  \<open>main\<close> of the Docker entry point: the three ports, then the extension server is started; an
  error that reaches the channel before the first \<open>select\<close> (after 100 ms) is fatal, otherwise the
  process waits for a signal or for an error, whichever the second \<open>select\<close> receives.
\<close>

datatype exit_status = Exit0 | Fatal string

datatype wake = Signal | ServerError string

definition docker_ports :: "env \<Rightarrow> ports" where
  "docker_ports e = (let cfg = config_init e default_ports;
       configPort = intEnv e ''CONFIG_PORT'' (ConfigPort cfg)
     in cfg\<lparr>ConfigPort := configPort\<rparr>)"

text \<open>
  \<open>StartExtension\<close>: the goroutine puts what \<open>ListenAndServe\<close> returns on the channel when it is
  not nil. The argument is the outcome so far, \<open>None\<close> while the server still runs.
\<close>

definition StartExtension :: "string option \<Rightarrow> string list" where
  "StartExtension listenAndServe = (case listenAndServe of None \<Rightarrow> [] | Some err \<Rightarrow> [err])"

definition docker_main :: "env \<Rightarrow> string option \<Rightarrow> wake \<Rightarrow> exit_status \<times> string list" where
  "docker_main e listenAndServe next_wake =
     (let p = docker_ports e; extErrCh = StartExtension listenAndServe in
      case extErrCh of
        err # _ \<Rightarrow> (Fatal (''extension server failed to start: '' @ err), [])
      | [] \<Rightarrow>
        (let running = ''sign extension TEE running (config='' @ show_int (ConfigPort p) @
               '', sign='' @ show_int (SignPort p) @ '', ext='' @ show_int (ExtensionPort p) @ '')''
         in case next_wake of
              Signal \<Rightarrow> (Exit0, [running, ''shutting down''])
            | ServerError err \<Rightarrow> (Fatal (''extension server error: '' @ err), [running])))"

text \<open>
  \<open>main\<close> of the plain entry point (\<open>go/cmd/main.go\<close>): the server runs until it fails or is shut
  down; \<open>http.ErrServerClosed\<close> and nil are a clean end.
\<close>

datatype serve_end = ServeNil | ErrServerClosed | ServeErr string

definition plain_main :: "serve_end \<Rightarrow> exit_status" where
  "plain_main err = (case err of ServeErr m \<Rightarrow> Fatal (''server: '' @ m) | _ \<Rightarrow> Exit0)"

section \<open>Tool constants\<close>

definition ExtensionProxyURL :: string where "ExtensionProxyURL = ''http://localhost:6664''"
definition ChainNodeURL :: string where "ChainNodeURL = ''http://127.0.0.1:8545''"
definition AddressesFile :: string where "AddressesFile = ''../docker/sim_dump/deployed-addresses.json''"
definition ExtConfigurationPort :: int where "ExtConfigurationPort = 5501"
definition ExtProxyInternalPort :: int where "ExtProxyInternalPort = 6663"
definition ExtensionServerPort :: int where "ExtensionServerPort = 7701"

definition ExtensionProxyConfigFile :: string where
  "ExtensionProxyConfigFile = ''./configs/proxy/extension_proxy.toml''"

text \<open>The two funded keys of the local chain (\<open>init\<close> of \<open>configs.go\<close>); \<open>crypto.HexToECDSA\<close> is an argument.\<close>

definition funded_keys :: "(string \<Rightarrow> 'k result) \<Rightarrow> ('k \<times> 'k) outcome" where
  "funded_keys hexToECDSA =
     (case hexToECDSA ''804b01a8c27a65cc694a867be76edae3ccce7a7161cda1f67a8349df696d2207'' of
        Inl err \<Rightarrow> Panics
      | Inr prvWithFunds \<Rightarrow>
          (case hexToECDSA ''a6e1741818d41de64c15e04ba0820a9714c254e69790e52324c240d02576d5e5'' of
             Inl err \<Rightarrow> Panics
           | Inr anotherPrivWithFunds \<Rightarrow> Returns (prvWithFunds, anotherPrivWithFunds)))"

definition default_fee :: int where "default_fee = 1000000000000"

text \<open>\<open>big.Int.SetString(s, 10)\<close>: an optional sign and decimal digits, of any size.\<close>

definition init_fee :: "env \<Rightarrow> int" where
  "init_fee e = (let feeStr = e ''FEE_WEI'' in
     if feeStr \<noteq> '''' then (case signed_dec feeStr of Some fee \<Rightarrow> fee | None \<Rightarrow> default_fee)
     else default_fee)"

text \<open>
  The ports of the Docker entry point are those of the configuration package (reading the
  configuration port a second time changes nothing), and each is the value of its environment
  variable when that is a decimal integer of 64 bits and the built-in default otherwise (unset,
  empty, malformed or out of range); reading the configuration again changes nothing.
\<close>

theorem ports_from_env:
  "docker_ports e = config_init e default_ports \<and>
   ExtensionPort (docker_ports e) = (case Atoi (e ''EXTENSION_PORT'') of None \<Rightarrow> 7702 | Some i \<Rightarrow> i) \<and>
   SignPort (docker_ports e) = (case Atoi (e ''SIGN_PORT'') of None \<Rightarrow> 7701 | Some i \<Rightarrow> i) \<and>
   ConfigPort (docker_ports e) = (case Atoi (e ''CONFIG_PORT'') of None \<Rightarrow> 5501 | Some i \<Rightarrow> i) \<and>
   config_init e (docker_ports e) = docker_ports e"
proof -
  have "docker_ports e = config_init e default_ports"
    by (simp add: docker_ports_def config_init_def default_ports_def Let_def
        intEnv_override[symmetric] intEnv_idem)
  then show ?thesis
    by (simp add: config_init_idem)
      (simp add: config_init_def default_ports_def intEnv_override[symmetric] intEnv_def)
qed

end
