(* ===== verification/Go_Json.thy ===== *)
theory Go_Json
  imports Go_Num
begin

text \<open>
  The part of \<open>encoding/json\<close> the code uses: the values it writes and their indented text, the syntax
  it accepts, the unquoting of strings, and the choice of the struct field for a key. The Go types
  are decoded where they are declared, from the syntax trees of this theory.
\<close>

section \<open>Writing\<close>

definition newline :: string where "newline = [CHR 0x0A]"

text \<open>JSON values as \<open>encoding/json\<close> writes them: the fields of a struct in order.\<close>

datatype json = JString string | JArray "json list" | JObject "(string \<times> json) list"

text \<open>
  One ASCII character in a JSON string, as the encoder writes it with HTML escaping on: quote,
  backslash and the control characters with a short form, the other control characters and
  \<open><\<close>, \<open>>\<close>, \<open>&\<close> as \<open>\u00XX\<close>.
\<close>

definition escape_ascii :: "char \<Rightarrow> string" where
  "escape_ascii c =
     (let n = (of_char c :: nat) in
      if c = CHR 0x22 \<or> c = CHR 0x5C then [CHR 0x5C, c]
      else if n = 8 then [CHR 0x5C, CHR ''b'']
      else if n = 12 then [CHR 0x5C, CHR ''f'']
      else if n = 10 then [CHR 0x5C, CHR ''n'']
      else if n = 13 then [CHR 0x5C, CHR ''r'']
      else if n = 9 then [CHR 0x5C, CHR ''t'']
      else if n < 32 \<or> c = CHR ''<'' \<or> c = CHR ''>'' \<or> c = CHR ''&''
      then CHR 0x5C # ''u00'' @ [digit_char (n div 16), digit_char (n mod 16)]
      else [c])"

function escape_string :: "string \<Rightarrow> string" where
  "escape_string [] = []"
| "escape_string (c # s) =
     (let k = rune_len (c # s) in
      if k = 0 then CHR 0x5C # ''ufffd'' @ escape_string s
      else if k = 1 then escape_ascii c @ escape_string s
      else if take k (c # s) = [CHR 0xE2, CHR 0x80, CHR 0xA8]
        then CHR 0x5C # ''u2028'' @ escape_string (drop k (c # s))
      else if take k (c # s) = [CHR 0xE2, CHR 0x80, CHR 0xA9]
        then CHR 0x5C # ''u2029'' @ escape_string (drop k (c # s))
      else take k (c # s) @ escape_string (drop k (c # s)))"
  by pat_completeness auto
termination
  by (relation "measure length") auto

definition quote_json :: "string \<Rightarrow> string" where
  "quote_json s = CHR 0x22 # escape_string s @ [CHR 0x22]"

text \<open>\<open>SetIndent("", "  ")\<close>: every element on a line of its own, empty arrays and objects closed at once.\<close>

fun indent_json :: "nat \<Rightarrow> json \<Rightarrow> string" where
  "indent_json n (JString s) = quote_json s"
| "indent_json n (JArray vs) =
     (if vs = [] then ''[]''
      else ''['' @ Join '','' (map (\<lambda>v. newline @ replicate (2 * n + 2) CHR '' '' @ indent_json (Suc n) v) vs) @
           newline @ replicate (2 * n) CHR '' '' @ '']'')"
| "indent_json n (JObject fs) =
     (if fs = [] then ''{}''
      else ''{'' @ Join '','' (map (\<lambda>(k, v). newline @ replicate (2 * n + 2) CHR '' '' @ quote_json k @ '': '' @
             indent_json (Suc n) v) fs) @
           newline @ replicate (2 * n) CHR '' '' @ ''}'')"

section \<open>Reading\<close>

text \<open>
  The scanner's strings: from behind the opening quote to the closing one. The result is the raw text
  between the quotes and what follows. Control characters and unknown escapes are errors.
\<close>

definition is_hex :: "char \<Rightarrow> bool" where "is_hex c \<longleftrightarrow> hex_val c \<noteq> None"

fun scan_string :: "string \<Rightarrow> (string \<times> string) option" where
  "scan_string [] = None"
| "scan_string (c # s) =
     (if c = CHR 0x22 then Some ([], s)
      else if c = CHR 0x5C then (case s of
          [] \<Rightarrow> None
        | e # t \<Rightarrow>
            if e = CHR ''u'' then (case t of
                h1 # h2 # h3 # h4 # r \<Rightarrow>
                  if is_hex h1 \<and> is_hex h2 \<and> is_hex h3 \<and> is_hex h4
                  then map_option (\<lambda>(a, b). (c # e # h1 # h2 # h3 # h4 # a, b)) (scan_string r) else None
              | _ \<Rightarrow> None)
            else if e \<in> set (''bfnrt/'' @ [CHR 0x22, CHR 0x5C])
            then map_option (\<lambda>(a, b). (c # e # a, b)) (scan_string t) else None)
      else if (of_char c :: nat) < 32 then None
      else map_option (\<lambda>(a, b). (c # a, b)) (scan_string s))"

text \<open>UTF-8 of a code point, and the code unit of a \<open>\uXXXX\<close> escape at the start of a text.\<close>

definition utf8 :: "nat \<Rightarrow> string" where
  "utf8 n =
     (if n < 128 then [char_of n]
      else if n < 2048 then [char_of (192 + n div 64), char_of (128 + n mod 64)]
      else if n < 65536 then [char_of (224 + n div 4096), char_of (128 + n div 64 mod 64), char_of (128 + n mod 64)]
      else [char_of (240 + n div 262144), char_of (128 + n div 4096 mod 64), char_of (128 + n div 64 mod 64),
            char_of (128 + n mod 64)])"

definition replacement :: string where "replacement = utf8 65533"

definition getu4 :: "string \<Rightarrow> nat option" where
  "getu4 s = (case s of
     a # b # h1 # h2 # h3 # h4 # r \<Rightarrow>
       if a = CHR 0x5C \<and> b = CHR ''u'' then digits_val 16 hex_val 0 [h1, h2, h3, h4] else None
   | _ \<Rightarrow> None)"

definition short_escape :: "char \<Rightarrow> char" where
  "short_escape e =
     (if e = CHR ''b'' then char_of (8 :: nat) else if e = CHR ''f'' then char_of (12 :: nat)
      else if e = CHR ''n'' then char_of (10 :: nat) else if e = CHR ''r'' then char_of (13 :: nat)
      else if e = CHR ''t'' then char_of (9 :: nat) else e)"

definition surrogate_pair :: "nat \<Rightarrow> nat option \<Rightarrow> nat option" where
  "surrogate_pair hi lo = (case lo of
     Some l \<Rightarrow> if 0xD800 \<le> hi \<and> hi < 0xDC00 \<and> 0xDC00 \<le> l \<and> l < 0xE000
       then Some (65536 + (hi - 0xD800) * 1024 + (l - 0xDC00)) else None
   | None \<Rightarrow> None)"

text \<open>The value of a raw string. Bytes that are not UTF-8 and lone surrogates become U+FFFD.\<close>

function unquote :: "string \<Rightarrow> string" where
  "unquote [] = []"
| "unquote (c # s) =
     (if c = CHR 0x5C then (case getu4 (c # s) of
          Some hi \<Rightarrow>
            if 0xD800 \<le> hi \<and> hi < 0xE000 then
              (case surrogate_pair hi (getu4 (drop 5 s)) of
                 Some v \<Rightarrow> utf8 v @ unquote (drop 11 s)
               | None \<Rightarrow> replacement @ unquote (drop 5 s))
            else utf8 hi @ unquote (drop 5 s)
        | None \<Rightarrow> (case s of [] \<Rightarrow> [] | e # t \<Rightarrow> short_escape e # unquote t))
      else let k = rune_len (c # s) in
        if k = 0 then replacement @ unquote s
        else take k (c # s) @ unquote (drop k (c # s)))"
  by pat_completeness auto
termination
  by (relation "measure length") auto

text \<open>Syntax trees: strings and keys raw, numbers as their text.\<close>

datatype jvalue = VNull | VBool bool | VNumber string | VString string | VArray "jvalue list"
  | VObject "(string \<times> jvalue) list"

definition is_ws :: "char \<Rightarrow> bool" where
  "is_ws c \<longleftrightarrow> c = CHR '' '' \<or> c = CHR 0x09 \<or> c = CHR 0x0A \<or> c = CHR 0x0D"

definition skip_ws :: "string \<Rightarrow> string" where "skip_ws = dropWhile is_ws"

definition is_digit :: "char \<Rightarrow> bool" where "is_digit c \<longleftrightarrow> dec_val c \<noteq> None"

text \<open>One or more digits.\<close>

definition scan_digits :: "string \<Rightarrow> (string \<times> string) option" where
  "scan_digits s = (case takeWhile is_digit s of [] \<Rightarrow> None | ds \<Rightarrow> Some (ds, dropWhile is_digit s))"

definition scan_integer :: "string \<Rightarrow> (string \<times> string) option" where
  "scan_integer s = (case s of [] \<Rightarrow> None
   | c # t \<Rightarrow> if c = CHR ''0'' then Some ([c], t) else scan_digits s)"

definition scan_fraction :: "string \<Rightarrow> (string \<times> string) option" where
  "scan_fraction s = (case s of [] \<Rightarrow> Some ([], [])
   | c # t \<Rightarrow> if c = CHR ''.'' then map_option (\<lambda>(ds, r). (c # ds, r)) (scan_digits t) else Some ([], s))"

definition scan_exponent :: "string \<Rightarrow> (string \<times> string) option" where
  "scan_exponent s = (case s of [] \<Rightarrow> Some ([], [])
   | c # t \<Rightarrow>
       if c = CHR ''e'' \<or> c = CHR ''E'' then (case t of [] \<Rightarrow> None
         | g # u \<Rightarrow>
             if g = CHR ''+'' \<or> g = CHR ''-'' then map_option (\<lambda>(ds, r). (c # g # ds, r)) (scan_digits u)
             else map_option (\<lambda>(ds, r). (c # ds, r)) (scan_digits t))
       else Some ([], s))"

definition scan_number :: "string \<Rightarrow> (string \<times> string) option" where
  "scan_number s =
     (let (sign, s0) = (case s of [] \<Rightarrow> ([], []) | c # t \<Rightarrow> if c = CHR ''-'' then ([c], t) else ([], s)) in
      case scan_integer s0 of None \<Rightarrow> None
      | Some (i, s1) \<Rightarrow> (case scan_fraction s1 of None \<Rightarrow> None
        | Some (f, s2) \<Rightarrow> map_option (\<lambda>(e, r). (sign @ i @ f @ e, r)) (scan_exponent s2)))"

definition scan_literal :: "string \<Rightarrow> (jvalue \<times> string) option" where
  "scan_literal s =
     (if HasPrefix s ''true'' then Some (VBool True, drop 4 s)
      else if HasPrefix s ''false'' then Some (VBool False, drop 5 s)
      else if HasPrefix s ''null'' then Some (VNull, drop 4 s)
      else map_option (\<lambda>(t, r). (VNumber t, r)) (scan_number s))"

text \<open>
  A value with what follows it. \<open>n\<close> bounds the steps, \<open>d\<close> is the number of enclosing arrays and objects,
  of which the scanner allows 10000. The elements and the members are those behind the opening
  bracket of a non-empty array or object, up to the closing one.
\<close>

definition maxNestingDepth :: nat where "maxNestingDepth = 10000"

definition starts :: "char \<Rightarrow> string \<Rightarrow> string option" where
  "starts c s = (case skip_ws s of [] \<Rightarrow> None | x # t \<Rightarrow> if x = c then Some t else None)"

fun parse_value :: "nat \<Rightarrow> nat \<Rightarrow> string \<Rightarrow> (jvalue \<times> string) option"
  and parse_elements :: "nat \<Rightarrow> nat \<Rightarrow> string \<Rightarrow> (jvalue list \<times> string) option"
  and parse_members :: "nat \<Rightarrow> nat \<Rightarrow> string \<Rightarrow> ((string \<times> jvalue) list \<times> string) option" where
  "parse_value 0 d s = None"
| "parse_value (Suc n) d s = (case skip_ws s of
     [] \<Rightarrow> None
   | c # t \<Rightarrow>
       if c = CHR 0x22 then map_option (\<lambda>(raw, r). (VString raw, r)) (scan_string t)
       else if c = CHR ''['' then
         (if d \<ge> maxNestingDepth then None
          else case starts (CHR '']'') t of Some r \<Rightarrow> Some (VArray [], r)
          | None \<Rightarrow> map_option (\<lambda>(vs, r). (VArray vs, r)) (parse_elements n (Suc d) t))
       else if c = CHR ''{'' then
         (if d \<ge> maxNestingDepth then None
          else case starts (CHR ''}'') t of Some r \<Rightarrow> Some (VObject [], r)
          | None \<Rightarrow> map_option (\<lambda>(ms, r). (VObject ms, r)) (parse_members n (Suc d) t))
       else scan_literal (c # t))"
| "parse_elements 0 d s = None"
| "parse_elements (Suc n) d s = (case parse_value n d s of None \<Rightarrow> None
   | Some (v, r) \<Rightarrow> (case starts (CHR '']'') r of Some r' \<Rightarrow> Some ([v], r')
     | None \<Rightarrow> (case starts (CHR '','') r of None \<Rightarrow> None
       | Some r' \<Rightarrow> map_option (\<lambda>(vs, r2). (v # vs, r2)) (parse_elements n d r'))))"
| "parse_members 0 d s = None"
| "parse_members (Suc n) d s = (case starts (CHR 0x22) s of None \<Rightarrow> None
   | Some t \<Rightarrow> (case scan_string t of None \<Rightarrow> None
     | Some (key, r0) \<Rightarrow> (case starts (CHR '':'') r0 of None \<Rightarrow> None
       | Some r1 \<Rightarrow> (case parse_value n d r1 of None \<Rightarrow> None
         | Some (v, r) \<Rightarrow> (case starts (CHR ''}'') r of Some r' \<Rightarrow> Some ([(key, v)], r')
           | None \<Rightarrow> (case starts (CHR '','') r of None \<Rightarrow> None
             | Some r' \<Rightarrow> map_option (\<lambda>(ms, r2). ((key, v) # ms, r2)) (parse_members n d r')))))))"

text \<open>
  \<open>json.Unmarshal\<close> reads one value and only white space after it; \<open>json.Decoder\<close> reads the first value
  of its input and leaves the rest.
\<close>

definition parse_first :: "string \<Rightarrow> jvalue option" where
  "parse_first s = map_option fst (parse_value (2 * length s + 2) 0 s)"

definition parse_json :: "string \<Rightarrow> jvalue option" where
  "parse_json s = (case parse_value (2 * length s + 2) 0 s of None \<Rightarrow> None
     | Some (v, r) \<Rightarrow> if skip_ws r = [] then Some v else None)"

text \<open>
  The field a key selects: the one of that name, else the first whose name is equal up to the case
  folding of Unicode. The names here are ASCII; outside ASCII only the long s and the Kelvin sign fold
  to an ASCII letter.
\<close>

definition upper :: "char \<Rightarrow> char" where
  "upper c = (if 97 \<le> (of_char c :: nat) \<and> (of_char c :: nat) \<le> 122 then char_of ((of_char c :: nat) - 32) else c)"

fun fold_name :: "string \<Rightarrow> string" where
  "fold_name (a # b # c # s) =
     (if a = CHR 0xC5 \<and> b = CHR 0xBF then CHR ''S'' # fold_name (c # s)
      else if a = CHR 0xE2 \<and> b = CHR 0x84 \<and> c = CHR 0xAA then CHR ''K'' # fold_name s
      else upper a # fold_name (b # c # s))"
| "fold_name [a, b] = (if a = CHR 0xC5 \<and> b = CHR 0xBF then ''S'' else [upper a, upper b])"
| "fold_name [a] = [upper a]"
| "fold_name [] = []"

definition field_of :: "string list \<Rightarrow> string \<Rightarrow> string option" where
  "field_of names key =
     (if key \<in> set names then Some key else find (\<lambda>f. fold_name f = fold_name key) names)"

text \<open>
  Decoding an object into a struct: the members in order, those that select no field skipped. \<open>upd\<close>
  decodes a value into the field of a name; an error anywhere is an error of the whole.
\<close>

fun decode_members ::
  "string list \<Rightarrow> (string \<Rightarrow> jvalue \<Rightarrow> 's \<Rightarrow> 's option) \<Rightarrow> (string \<times> jvalue) list \<Rightarrow> 's \<Rightarrow> 's option" where
  "decode_members names upd [] st = Some st"
| "decode_members names upd ((key, v) # ms) st = (case field_of names (unquote key) of
     None \<Rightarrow> decode_members names upd ms st
   | Some f \<Rightarrow> (case upd f v st of None \<Rightarrow> None | Some st' \<Rightarrow> decode_members names upd ms st'))"

text \<open>A struct accepts an object and \<open>null\<close>, which leaves it as it is; a string field likewise.\<close>

definition decode_struct ::
  "string list \<Rightarrow> (string \<Rightarrow> jvalue \<Rightarrow> 's \<Rightarrow> 's option) \<Rightarrow> jvalue \<Rightarrow> 's \<Rightarrow> 's option" where
  "decode_struct names upd v st = (case v of
     VObject ms \<Rightarrow> decode_members names upd ms st | VNull \<Rightarrow> Some st | _ \<Rightarrow> None)"

definition decode_string :: "jvalue \<Rightarrow> string \<Rightarrow> string option" where
  "decode_string v old = (case v of VString raw \<Rightarrow> Some (unquote raw) | VNull \<Rightarrow> Some old | _ \<Rightarrow> None)"

section \<open>The bound on the steps is enough\<close>

lemma scan_string_shorter: "scan_string s = Some (a, r) \<Longrightarrow> length r < length s"
  by (induction s arbitrary: a r rule: scan_string.induct)
    (fastforce split: if_splits list.splits)+

lemma skip_ws_length: "length (skip_ws s) \<le> length s"
  by (simp add: skip_ws_def length_dropWhile_le)

lemma starts_shorter: "starts c s = Some r \<Longrightarrow> length r < length s"
  using skip_ws_length[of s] by (auto simp: starts_def split: list.splits if_splits)

lemma scan_digits_shorter: "scan_digits s = Some (ds, r) \<Longrightarrow> length r < length s"
  using takeWhile_dropWhile_id[of is_digit s] length_append[of "takeWhile is_digit s" "dropWhile is_digit s"]
  by (auto simp: scan_digits_def split: list.splits)

lemma scan_integer_shorter: "scan_integer s = Some (i, r) \<Longrightarrow> length r < length s"
  by (auto simp: scan_integer_def split: list.splits if_splits dest: scan_digits_shorter)

lemma scan_fraction_length: "scan_fraction s = Some (f, r) \<Longrightarrow> length r \<le> length s"
  by (auto simp: scan_fraction_def split: list.splits if_splits dest: scan_digits_shorter)

lemma scan_exponent_length: "scan_exponent s = Some (e, r) \<Longrightarrow> length r \<le> length s"
  by (auto simp: scan_exponent_def split: list.splits if_splits dest: scan_digits_shorter)

lemma scan_number_shorter: "scan_number s = Some (t, r) \<Longrightarrow> length r < length s"
  by (auto simp: scan_number_def Let_def split: list.splits if_splits option.splits prod.splits
      dest!: scan_integer_shorter scan_fraction_length scan_exponent_length)

lemma scan_literal_shorter: "scan_literal s = Some (v, r) \<Longrightarrow> length r < length s"
  by (cases s) (auto simp: scan_literal_def HasPrefix_def split: if_splits dest: scan_number_shorter)

lemma parse_shorter:
  "parse_value n d s = Some (v, r) \<Longrightarrow> length r < length s"
  "parse_elements n d s = Some (vs, r) \<Longrightarrow> length r < length s"
  "parse_members n d s = Some (ms, r) \<Longrightarrow> length r < length s"
proof (induction n d s and n d s and n d s arbitrary: v r and vs r and ms r
    rule: parse_value_parse_elements_parse_members.induct)
  case (2 n d s)
  from 2(3) have "length r < length (skip_ws s)"
    by (auto split: list.splits if_splits option.splits dest: scan_string_shorter starts_shorter 2(1,2) scan_literal_shorter
        intro: less_SucI)
  with skip_ws_length[of s] show ?case by linarith
next
  case (4 n d s)
  then show ?case by (fastforce split: option.splits prod.splits dest: starts_shorter)
next
  case (6 n d s)
  then show ?case by (fastforce split: option.splits prod.splits dest: starts_shorter scan_string_shorter)
qed simp_all

text \<open>A successful parse is found with any larger bound, and twice the length and two suffices.\<close>

lemma fuel_enough:
  "parse_value n d s = Some (v, r) \<Longrightarrow> 2 * length s < m \<Longrightarrow> parse_value m d s = Some (v, r)"
  "parse_elements n d s = Some (vs, r) \<Longrightarrow> 2 * length s + 1 < m \<Longrightarrow> parse_elements m d s = Some (vs, r)"
  "parse_members n d s = Some (ms, r) \<Longrightarrow> 2 * length s < m \<Longrightarrow> parse_members m d s = Some (ms, r)"
proof (induction n d s and n d s and n d s arbitrary: v r m and vs r m and ms r m
    rule: parse_value_parse_elements_parse_members.induct)
  case (2 n d s)
  from 2(4) obtain m' where m: "m = Suc m'" by (cases m) auto
  obtain c t where ct: "skip_ws s = c # t" using 2(3) by (auto split: list.splits)
  then have "length t < length s" using skip_ws_length[of s] by simp
  with 2(4) m have bound: "2 * length t + 1 < m'" "2 * length t < m'" by simp_all
  consider (str) "c = CHR 0x22" | (arr) "c = CHR ''[''" | (obj) "c = CHR ''{''"
    | (lit) "c \<noteq> CHR 0x22" "c \<noteq> CHR ''[''" "c \<noteq> CHR ''{''" by blast
  then show ?case
  proof cases
    case arr
    with 2(3) ct have d: "\<not> maxNestingDepth \<le> d" by (auto split: if_splits)
    show ?thesis
    proof (cases "starts (CHR '']'') t")
      case None
      with 2(3) ct arr d obtain vs where "parse_elements n (Suc d) t = Some (vs, r)" "v = VArray vs" by auto
      with 2(1)[OF ct _ arr d None _ bound(1)] arr d None show ?thesis by (simp add: ct m)
    next
      case (Some r')
      with 2(3) ct arr d show ?thesis by (simp add: m)
    qed
  next
    case obj
    with 2(3) ct have d: "\<not> maxNestingDepth \<le> d" by (auto split: if_splits)
    show ?thesis
    proof (cases "starts (CHR ''}'') t")
      case None
      with 2(3) ct obj d obtain ms where "parse_members n (Suc d) t = Some (ms, r)" "v = VObject ms" by auto
      with 2(2)[OF ct _ _ obj d None _ bound(2)] obj d None show ?thesis by (simp add: ct m)
    next
      case (Some r')
      with 2(3) ct obj d show ?thesis by (simp add: m)
    qed
  qed (use 2(3) ct in \<open>simp_all add: m\<close>)
next
  case (4 n d s)
  from 4(4) obtain m' where m: "m = Suc m'" by (cases m) auto
  from 4(3) obtain v r1 where v: "parse_value n d s = Some (v, r1)" by (auto split: option.splits)
  have "parse_value m' d s = Some (v, r1)" using 4(1)[OF v] 4(4) m by simp
  moreover have "parse_elements m' d r' = Some (vs', r2)"
    if "starts (CHR '']'') r1 = None" "starts (CHR '','') r1 = Some r'" "parse_elements n d r' = Some (vs', r2)" for r' vs' r2
    using 4(2)[OF v refl that(1,2,3)] 4(4) m parse_shorter(1)[OF v] starts_shorter[OF that(2)] by simp
  ultimately show ?case
    using 4(3) v unfolding m by (auto split: option.splits)
next
  case (6 n d s)
  from 6(4) obtain m' where m: "m = Suc m'" by (cases m) auto
  from 6(3) obtain t key r0 r1 v r2 where pre: "starts (CHR 0x22) s = Some t" "scan_string t = Some (key, r0)"
      "starts (CHR '':'') r0 = Some r1" and v: "parse_value n d r1 = Some (v, r2)"
    by (auto split: option.splits)
  have len: "length r1 < length s"
    using starts_shorter[OF pre(1)] scan_string_shorter[OF pre(2)] starts_shorter[OF pre(3)] by simp
  have "parse_value m' d r1 = Some (v, r2)" using 6(1)[OF pre(1,2) refl pre(3) v] 6(4) m len by simp
  moreover have "parse_members m' d r' = Some (ms', r3)"
    if "starts (CHR ''}'') r2 = None" "starts (CHR '','') r2 = Some r'" "parse_members n d r' = Some (ms', r3)" for r' ms' r3
    using 6(2)[OF pre(1,2) refl pre(3) v refl that(1,2,3)] 6(4) m len parse_shorter(1)[OF v] starts_shorter[OF that(2)] by simp
  ultimately show ?case
    using 6(3) pre v unfolding m by (auto split: option.splits)
qed simp_all

section \<open>Escaping\<close>

text \<open>A text is opaque when it stands inside a string without ending it and without an error.\<close>

lemma scan_plain:
  "c \<noteq> CHR 0x22 \<Longrightarrow> c \<noteq> CHR 0x5C \<Longrightarrow> 32 \<le> (of_char c :: nat) \<Longrightarrow>
   scan_string (c # s) = map_option (\<lambda>(a, b). (c # a, b)) (scan_string s)"
  by simp

lemma scan_short:
  assumes "e \<in> set (''bfnrt/'' @ [CHR 0x22, CHR 0x5C])"
  shows "scan_string (CHR 0x5C # e # t) = map_option (\<lambda>(a, b). (CHR 0x5C # e # a, b)) (scan_string t)"
proof -
  have "e \<noteq> CHR ''u''" using assms by auto
  with assms show ?thesis by (subst scan_string.simps) (simp del: scan_string.simps)
qed

lemma scan_u:
  assumes "is_hex h1" "is_hex h2" "is_hex h3" "is_hex h4"
  shows "scan_string (CHR 0x5C # CHR ''u'' # h1 # h2 # h3 # h4 # r) =
    map_option (\<lambda>(a, b). (CHR 0x5C # CHR ''u'' # h1 # h2 # h3 # h4 # a, b)) (scan_string r)"
  using assms by (subst scan_string.simps) (simp del: scan_string.simps)

declare scan_string.simps(2) [simp del]

lemma scan_quote: "scan_string (CHR 0x22 # s) = Some ([], s)"
  by (simp add: scan_string.simps(2))

definition opaque :: "string \<Rightarrow> bool" where
  "opaque u \<longleftrightarrow> (\<forall>t. scan_string (u @ t) = map_option (\<lambda>(a, b). (u @ a, b)) (scan_string t)) \<and>
     (\<forall>c \<in> set u. 32 \<le> (of_char c :: nat))"

lemma opaque_Nil: "opaque []"
  by (simp add: opaque_def option.map_ident case_prod_unfold)

lemma opaque_append: "opaque u \<Longrightarrow> opaque v \<Longrightarrow> opaque (u @ v)"
  by (auto simp: opaque_def option.map_comp o_def case_prod_unfold)

lemma opaque_plain:
  "c \<noteq> CHR 0x22 \<Longrightarrow> c \<noteq> CHR 0x5C \<Longrightarrow> 32 \<le> (of_char c :: nat) \<Longrightarrow> opaque [c]"
  by (simp add: opaque_def scan_plain)

lemma opaque_short: "e \<in> set (''bfnrt/'' @ [CHR 0x22, CHR 0x5C]) \<Longrightarrow> opaque [CHR 0x5C, e]"
  unfolding opaque_def using scan_short[of e] by auto

lemma is_hex_plain: "is_hex c \<Longrightarrow> 32 \<le> (of_char c :: nat)"
  by (simp add: is_hex_def hex_val_def Let_def split: if_splits)

lemma opaque_u:
  assumes "is_hex h1" "is_hex h2" "is_hex h3" "is_hex h4"
  shows "opaque (CHR 0x5C # ''u'' @ [h1, h2, h3, h4])"
  unfolding opaque_def using scan_u[OF assms] assms[THEN is_hex_plain] by simp

lemma opaque_plains:
  "list_all (\<lambda>c. c \<noteq> CHR 0x22 \<and> c \<noteq> CHR 0x5C \<and> 32 \<le> (of_char c :: nat)) u \<Longrightarrow> opaque u"
proof (induction u)
  case (Cons c u)
  then show ?case using opaque_append[OF opaque_plain, of c u] by simp
qed (rule opaque_Nil)

lemma is_hex_digit_char: "d < 16 \<Longrightarrow> is_hex (digit_char d)"
  by (simp add: is_hex_def)

lemma opaque_escape_ascii: "opaque (escape_ascii c)"
proof -
  let ?n = "of_char c :: nat"
  have "?n < 256" by (rule of_char_lt_256)
  then have "opaque (CHR 0x5C # ''u'' @ [CHR ''0'', CHR ''0'', digit_char (?n div 16), digit_char (?n mod 16)])"
    by (intro opaque_u is_hex_digit_char) (simp_all add: is_hex_def hex_val_def less_mult_imp_div_less)
  then show ?thesis
    by (auto simp: escape_ascii_def Let_def intro: opaque_short opaque_plain)
qed

lemma rune_bytes_plain:
  assumes "rune_len s = k" and "1 < k"
  shows "list_all (\<lambda>c. 128 \<le> (of_char c :: nat)) (take k s)"
  using assms
  by (cases s; cases "tl s"; cases "tl (tl s)"; cases "tl (tl (tl s))")
    (auto simp: Let_def cont_byte_def split: if_splits)

lemma opaque_rune:
  assumes "1 < rune_len s"
  shows "opaque (take (rune_len s) s)"
proof (rule opaque_plains)
  have "c \<noteq> CHR 0x22 \<and> c \<noteq> CHR 0x5C \<and> 32 \<le> (of_char c :: nat)" if "128 \<le> (of_char c :: nat)" for c
    using that by auto
  then show "list_all (\<lambda>c. c \<noteq> CHR 0x22 \<and> c \<noteq> CHR 0x5C \<and> 32 \<le> (of_char c :: nat)) (take (rune_len s) s)"
    using rune_bytes_plain[OF refl assms] by (auto simp: list_all_iff)
qed

lemma escape_string_step:
  "escape_string (c # s) =
     (let k = rune_len (c # s); u = take k (c # s) in
      (if k = 0 then CHR 0x5C # ''ufffd'' else if k = 1 then escape_ascii c
       else if u = [CHR 0xE2, CHR 0x80, CHR 0xA8] then CHR 0x5C # ''u2028''
       else if u = [CHR 0xE2, CHR 0x80, CHR 0xA9] then CHR 0x5C # ''u2029'' else u) @
      escape_string (drop (if k = 0 then 1 else k) (c # s)))"
  by (subst escape_string.simps) (simp only: Let_def, simp del: escape_string.simps rune_len.simps)

lemma opaque_escape_string: "opaque (escape_string s)"
proof (induction s rule: length_induct)
  case (1 s)
  show ?case
  proof (cases s)
    case Nil
    then show ?thesis by (simp add: opaque_Nil)
  next
    case (Cons c t)
    let ?k = "rune_len (c # t)"
    let ?u = "take ?k (c # t)"
    have words: "opaque (CHR 0x5C # ''ufffd'')" "opaque (CHR 0x5C # ''u2028'')" "opaque (CHR 0x5C # ''u2029'')"
      using opaque_u[of "CHR ''f''" "CHR ''f''" "CHR ''f''" "CHR ''d''"]
        opaque_u[of "CHR ''2''" "CHR ''0''" "CHR ''2''" "CHR ''8''"]
        opaque_u[of "CHR ''2''" "CHR ''0''" "CHR ''2''" "CHR ''9''"]
      by (simp_all add: is_hex_def hex_val_def)
    have "opaque (escape_string (drop (if ?k = 0 then 1 else ?k) s))"
      using 1 Cons by simp
    moreover have "opaque (if ?k = 0 then CHR 0x5C # ''ufffd'' else if ?k = 1 then escape_ascii c
       else if ?u = [CHR 0xE2, CHR 0x80, CHR 0xA8] then CHR 0x5C # ''u2028''
       else if ?u = [CHR 0xE2, CHR 0x80, CHR 0xA9] then CHR 0x5C # ''u2029'' else ?u)"
      using words opaque_escape_ascii opaque_rune[of "c # t"]
      by (simp only: split: if_split) (simp del: rune_len.simps)
    ultimately show ?thesis
      unfolding Cons escape_string_step Let_def by (rule opaque_append[rotated])
  qed
qed


section \<open>Unquoting what was escaped\<close>

text \<open>The text with every byte that is not UTF-8 replaced, which is what the encoder writes.\<close>

function to_valid :: "string \<Rightarrow> string" where
  "to_valid [] = []"
| "to_valid (c # s) =
     (let k = rune_len (c # s) in
      if k = 0 then replacement @ to_valid s else take k (c # s) @ to_valid (drop k (c # s)))"
  by pat_completeness auto
termination
  by (relation "measure length") auto

fun valid_utf8 :: "nat \<Rightarrow> string \<Rightarrow> bool" where
  "valid_utf8 n [] \<longleftrightarrow> True"
| "valid_utf8 0 (c # s) \<longleftrightarrow> False"
| "valid_utf8 (Suc n) (c # s) \<longleftrightarrow> rune_len (c # s) \<noteq> 0 \<and> valid_utf8 n (drop (rune_len (c # s)) (c # s))"

declare rune_len.simps(2) [simp del] unquote.simps(2) [simp del] to_valid.simps(2) [simp del] escape_string.simps(2) [simp del]

lemma valid_utf8_to_valid: "valid_utf8 n s \<Longrightarrow> to_valid s = s"
  by (induction n s rule: valid_utf8.induct) (simp_all add: to_valid.simps(2) Let_def)

lemma rune_len_ascii: "(of_char c :: nat) < 128 \<Longrightarrow> rune_len (c # s) = 1"
  by (simp add: rune_len.simps Let_def)

lemma rune_len_1: "rune_len (c # s) = 1 \<Longrightarrow> (of_char c :: nat) < 128"
  by (cases s; cases "tl s"; cases "tl (tl s)") (auto simp: rune_len.simps Let_def split: if_splits)

lemma rune_len_take: "1 < rune_len s \<Longrightarrow> rune_len (take (rune_len s) s @ t) = rune_len s"
  by (cases s; cases "tl s"; cases "tl (tl s)"; cases "tl (tl (tl s))")
    (auto simp: rune_len.simps Let_def split: if_splits)

lemma ascii_to_valid: "\<forall>c \<in> set s. (of_char c :: nat) < 128 \<Longrightarrow> to_valid s = s"
  by (induction s) (simp_all add: to_valid.simps(2) rune_len_ascii)

lemma unquote_u:
  assumes "digits_val 16 hex_val 0 [h1, h2, h3, h4] = Some n" "\<not> (0xD800 \<le> n \<and> n < 0xE000)"
  shows "unquote (CHR 0x5C # CHR ''u'' # h1 # h2 # h3 # h4 # r) = utf8 n @ unquote r"
proof -
  have "getu4 (CHR 0x5C # CHR ''u'' # h1 # h2 # h3 # h4 # r) = Some n"
    using assms(1) by (simp add: getu4_def)
  moreover have "drop 5 (CHR ''u'' # h1 # h2 # h3 # h4 # r) = r" by simp
  ultimately show ?thesis
    using assms(2) by (subst unquote.simps(2)) auto
qed

lemma unquote_short:
  assumes "e \<noteq> CHR ''u''"
  shows "unquote (CHR 0x5C # e # t) = short_escape e # unquote t"
proof -
  have "getu4 (CHR 0x5C # e # t) = None" using assms by (simp add: getu4_def split: list.splits)
  then show ?thesis by (subst unquote.simps(2)) simp
qed

lemma unquote_plain: "c \<noteq> CHR 0x5C \<Longrightarrow> (of_char c :: nat) < 128 \<Longrightarrow> unquote (c # s) = c # unquote s"
  by (subst unquote.simps(2)) (simp add: rune_len_ascii)

lemma unquote_rune:
  assumes "1 < rune_len s"
  shows "unquote (take (rune_len s) s @ t) = take (rune_len s) s @ unquote t"
proof -
  let ?u = "take (rune_len s) s"
  have len: "length ?u = rune_len s" using rune_len_le[of s] by simp
  obtain c u where u: "?u = c # u" using assms len by (cases ?u) auto
  have "128 \<le> (of_char c :: nat)" using rune_bytes_plain[OF refl assms] u by simp
  then have "c \<noteq> CHR 0x5C" by auto
  moreover have "rune_len (c # u @ t) = length (c # u)" using rune_len_take[OF assms, of t] u len by simp
  ultimately show ?thesis
    unfolding u append_Cons unquote.simps(2) by simp
qed

lemma utf8_ascii: "n < 128 \<Longrightarrow> utf8 n = [char_of n]"
  by (simp add: utf8_def)

lemma unquote_escape_ascii:
  assumes "(of_char c :: nat) < 128"
  shows "unquote (escape_ascii c @ t) = c # unquote t"
proof -
  let ?n = "of_char c :: nat"
  have "?n div 16 < 16" using assms by linarith
  then have "digits_val 16 hex_val 0 [CHR ''0'', CHR ''0'', digit_char (?n div 16), digit_char (?n mod 16)] = Some ?n"
    by (simp add: hex_val_def[of "CHR ''0''"] div_mult_mod_eq)
  then have u: "unquote (CHR 0x5C # CHR ''u'' # CHR ''0'' # CHR ''0'' # digit_char (?n div 16) # digit_char (?n mod 16) # t) =
      c # unquote t"
    using assms unquote_u[of "CHR ''0''" "CHR ''0''" "digit_char (?n div 16)" "digit_char (?n mod 16)" ?n t]
    by (simp add: utf8_ascii)
  then show ?thesis
    using u assms
    by (auto simp: escape_ascii_def Let_def unquote_short short_escape_def unquote_plain
        dest!: arg_cong[of _ _ "char_of :: nat \<Rightarrow> char"])
qed

lemma unquote_escape_string: "unquote (escape_string s) = to_valid s"
proof (induction s rule: length_induct)
  case (1 s)
  show ?case
  proof (cases s)
    case (Cons c t)
    let ?k = "rune_len (c # t)" and ?u = "take (rune_len (c # t)) (c # t)"
    let ?v = "drop (if ?k = 0 then 1 else ?k) (c # t)"
    have IH: "unquote (escape_string ?v) = to_valid ?v" using 1 Cons by simp
    have words: "unquote (CHR 0x5C # ''ufffd'' @ x) = replacement @ unquote x"
        "unquote (CHR 0x5C # ''u2028'' @ x) = [CHR 0xE2, CHR 0x80, CHR 0xA8] @ unquote x"
        "unquote (CHR 0x5C # ''u2029'' @ x) = [CHR 0xE2, CHR 0x80, CHR 0xA9] @ unquote x" for x
      by (simp_all add: unquote_u hex_val_def replacement_def utf8_def char_of_def bit_0)
    consider (bad) "?k = 0" | (ascii) "?k = 1" | (ls) "1 < ?k" "?u = [CHR 0xE2, CHR 0x80, CHR 0xA8]"
      | (ps) "1 < ?k" "?u = [CHR 0xE2, CHR 0x80, CHR 0xA9]"
      | (rune) "1 < ?k" "?u \<noteq> [CHR 0xE2, CHR 0x80, CHR 0xA8]" "?u \<noteq> [CHR 0xE2, CHR 0x80, CHR 0xA9]"
      by linarith
    then show ?thesis
    proof cases
      case bad
      with IH words(1) show ?thesis unfolding Cons escape_string_step to_valid.simps(2) by simp
    next
      case ascii
      with IH unquote_escape_ascii[OF rune_len_1[OF ascii]] show ?thesis
        unfolding Cons escape_string_step to_valid.simps(2) by simp
    next
      case ls
      with IH words(2) show ?thesis unfolding Cons escape_string_step to_valid.simps(2) Let_def by simp
    next
      case ps
      with IH words(3) show ?thesis unfolding Cons escape_string_step to_valid.simps(2) Let_def by simp
    next
      case rune
      with IH unquote_rune[OF rune(1)] show ?thesis
        unfolding Cons escape_string_step to_valid.simps(2) Let_def by simp
    qed
  qed simp
qed

declare parse_value.simps(2) [simp del] parse_elements.simps(2) [simp del] parse_members.simps(2) [simp del]

section \<open>Reading what was written\<close>

text \<open>The tree a reader gets for a value, and its nesting.\<close>

fun tree_of :: "json \<Rightarrow> jvalue" where
  "tree_of (JString s) = VString (escape_string s)"
| "tree_of (JArray vs) = VArray (map tree_of vs)"
| "tree_of (JObject fs) = VObject (map (\<lambda>(k, v). (escape_string k, tree_of v)) fs)"

fun nesting :: "json \<Rightarrow> nat" where
  "nesting (JString s) = 0"
| "nesting (JArray vs) = Suc (foldr max (map nesting vs) 0)"
| "nesting (JObject fs) = Suc (foldr max (map (\<lambda>(k, v). nesting v) fs) 0)"

lemma scan_quoted: "scan_string (escape_string s @ CHR 0x22 # r) = Some (escape_string s, r)"
  using opaque_escape_string[of s] by (simp add: opaque_def scan_quote)

lemma skip_ws_spaces [simp]: "skip_ws (newline @ replicate n CHR '' '' @ s) = skip_ws s"
  by (simp add: skip_ws_def newline_def is_ws_def dropWhile_append)

lemma starts_same: "\<not> is_ws c \<Longrightarrow> starts c (c # s) = Some s"
  by (simp add: starts_def skip_ws_def)

lemma starts_other: "\<not> is_ws x \<Longrightarrow> x \<noteq> c \<Longrightarrow> starts c (x # s) = None"
  by (simp add: starts_def skip_ws_def)

lemma starts_spaces [simp]: "starts c (newline @ replicate n CHR '' '' @ s) = starts c s"
  by (simp add: starts_def)

lemma starts_space [simp]: "starts c (CHR '' '' # s) = starts c s"
  by (simp add: starts_def skip_ws_def is_ws_def)

lemma parse_value_cong: "skip_ws s = skip_ws s' \<Longrightarrow> parse_value n d s = parse_value n d s'"
  by (cases n) (simp_all only: parse_value.simps)

lemma parse_value_spaces [simp]:
  "parse_value n d (newline @ replicate k CHR '' '' @ s) = parse_value n d s"
  "parse_value n d (CHR '' '' # s) = parse_value n d s"
  by (rule parse_value_cong, simp)+ (rule parse_value_cong, simp add: skip_ws_def is_ws_def)

text \<open>The elements and the members as they are printed, with what separates them.\<close>

definition item_line :: "nat \<Rightarrow> string \<Rightarrow> string" where
  "item_line n t = newline @ replicate (2 * n + 2) CHR '' '' @ t"

definition member_text :: "nat \<Rightarrow> string \<times> json \<Rightarrow> string" where
  "member_text n p = quote_json (fst p) @ '': '' @ indent_json (Suc n) (snd p)"

lemma indent_json_array:
  "vs \<noteq> [] \<Longrightarrow> indent_json n (JArray vs) =
     CHR ''['' # Join '','' (map (\<lambda>v. item_line n (indent_json (Suc n) v)) vs) @ newline @ replicate (2 * n) CHR '' '' @ '']''"
  by (simp add: item_line_def)

lemma indent_json_object:
  "fs \<noteq> [] \<Longrightarrow> indent_json n (JObject fs) =
     CHR ''{'' # Join '','' (map (\<lambda>p. item_line n (member_text n p)) fs) @ newline @ replicate (2 * n) CHR '' '' @ ''}''"
  by (simp add: item_line_def member_text_def case_prod_unfold)

lemma indent_json_starts:
  "\<exists>c t. indent_json n j = c # t \<and> c \<in> {CHR 0x22, CHR ''['', CHR ''{''}"
  by (cases j) (auto simp: quote_json_def)

lemma parse_value_item [simp]: "parse_value n d (item_line k s @ r) = parse_value n d (s @ r)"
  unfolding item_line_def append_assoc by (rule parse_value_spaces(1))

lemma starts_item [simp]: "starts c (item_line k s @ r) = starts c (s @ r)"
  unfolding item_line_def append_assoc by (rule starts_spaces)

lemma starts_indent: "c \<notin> {CHR 0x22, CHR ''['', CHR ''{''} \<Longrightarrow> starts c (indent_json n j @ r) = None"
  using indent_json_starts[of n j] by (auto simp: starts_def skip_ws_def is_ws_def)

lemma parse_elements_step:
  assumes "parse_value n d (s @ r) = Some (v, r)" and "starts (CHR '']'') r = Some r'"
  shows "parse_elements (Suc n) d (item_line k s @ r) = Some ([v], r')"
  using assms by (simp add: parse_elements.simps(2))

lemma parse_elements_more:
  assumes "parse_value n d (s @ CHR '','' # r) = Some (v, CHR '','' # r)" "parse_elements n d r = Some (vs, r')"
  shows "parse_elements (Suc n) d (item_line k s @ CHR '','' # r) = Some (v # vs, r')"
  using assms starts_other[of "CHR '',''" "CHR '']''" r] starts_same[of "CHR '',''" r]
  by (simp add: is_ws_def parse_elements.simps(2))

lemma parse_member:
  assumes "parse_value n d (indent_json (Suc k) (snd p) @ r) = Some (v, r)"
  shows "parse_members (Suc n) d (item_line k (member_text k p) @ r) =
    (case starts (CHR ''}'') r of Some r' \<Rightarrow> Some ([(escape_string (fst p), v)], r')
       | None \<Rightarrow> (case starts (CHR '','') r of None \<Rightarrow> None
         | Some r' \<Rightarrow> map_option (\<lambda>(ms, r2). ((escape_string (fst p), v) # ms, r2)) (parse_members n d r')))"
proof -
  let ?rest = "CHR '':'' # CHR '' '' # indent_json (Suc k) (snd p) @ r"
  have "starts (CHR 0x22) (item_line k (member_text k p) @ r) = Some (escape_string (fst p) @ CHR 0x22 # ?rest)"
    using starts_same[of "CHR 0x22" "escape_string (fst p) @ CHR 0x22 # ?rest"]
    by (simp add: member_text_def quote_json_def is_ws_def)
  moreover have "starts (CHR '':'') ?rest = Some (CHR '' '' # indent_json (Suc k) (snd p) @ r)"
    by (rule starts_same) (simp add: is_ws_def)
  ultimately show ?thesis
    using assms by (simp add: scan_quoted parse_members.simps(2))
qed

text \<open>The closing line of an array or an object.\<close>

definition closing :: "nat \<Rightarrow> char \<Rightarrow> string" where
  "closing n c = newline @ replicate (2 * n) CHR '' '' @ [c]"

lemma starts_closing: "\<not> is_ws x \<Longrightarrow> starts c (closing n x @ r) = (if x = c then Some r else None)"
  unfolding closing_def append_assoc starts_spaces using starts_same[of x r] starts_other[of x c r] by auto

lemma parse_elements_printed:
  assumes "vs \<noteq> []"
    and "\<And>v r. v \<in> set vs \<Longrightarrow> \<exists>n. parse_value n d (indent_json (Suc k) v @ r) = Some (tree_of v, r)"
  shows "\<exists>n. parse_elements n d (Join '','' (map (\<lambda>v. item_line k (indent_json (Suc k) v)) vs) @ closing k (CHR '']'') @ r) =
    Some (map tree_of vs, r)"
  using assms
proof (induction vs rule: list_nonempty_induct)
  case (single v)
  then obtain n where "parse_value n d (indent_json (Suc k) v @ closing k (CHR '']'') @ r) =
      Some (tree_of v, closing k (CHR '']'') @ r)" by auto
  from parse_elements_step[OF this, of r k] show ?case
    by (intro exI[of _ "Suc n"]) (simp add: starts_closing is_ws_def)
next
  case (cons v vs)
  then obtain n1 where n1: "parse_elements n1 d (Join '','' (map (\<lambda>v. item_line k (indent_json (Suc k) v)) vs) @
      closing k (CHR '']'') @ r) = Some (map tree_of vs, r)" by auto
  let ?rest = "Join '','' (map (\<lambda>v. item_line k (indent_json (Suc k) v)) vs) @ closing k (CHR '']'') @ r"
  obtain n2 where n2: "parse_value n2 d (indent_json (Suc k) v @ CHR '','' # ?rest) = Some (tree_of v, CHR '','' # ?rest)"
    using cons.prems by (metis list.set_intros(1))
  obtain m where m: "2 * length ?rest + 1 < m" "2 * length (indent_json (Suc k) v @ CHR '','' # ?rest) < m"
    by (meson less_add_Suc1 less_add_Suc2)
  have "parse_elements m d ?rest = Some (map tree_of vs, r)" using fuel_enough(2)[OF n1 m(1)] .
  moreover have "parse_value m d (indent_json (Suc k) v @ CHR '','' # ?rest) = Some (tree_of v, CHR '','' # ?rest)"
    using fuel_enough(1)[OF n2 m(2)] .
  ultimately have "parse_elements (Suc m) d (item_line k (indent_json (Suc k) v) @ CHR '','' # ?rest) =
      Some (tree_of v # map tree_of vs, r)" by (rule parse_elements_more[rotated])
  moreover have "Join '','' (map (\<lambda>v. item_line k (indent_json (Suc k) v)) (v # vs)) =
      item_line k (indent_json (Suc k) v) @ CHR '','' # Join '','' (map (\<lambda>v. item_line k (indent_json (Suc k) v)) vs)"
    using cons.hyps by (cases vs) simp_all
  ultimately show ?case by (intro exI[of _ "Suc m"]) simp
qed

lemma parse_members_printed:
  assumes "fs \<noteq> []"
    and "\<And>p r. p \<in> set fs \<Longrightarrow> \<exists>n. parse_value n d (indent_json (Suc k) (snd p) @ r) = Some (tree_of (snd p), r)"
  shows "\<exists>n. parse_members n d (Join '','' (map (\<lambda>p. item_line k (member_text k p)) fs) @ closing k (CHR ''}'') @ r) =
    Some (map (\<lambda>(k, v). (escape_string k, tree_of v)) fs, r)"
  using assms
proof (induction fs rule: list_nonempty_induct)
  case (single p)
  then obtain n where "parse_value n d (indent_json (Suc k) (snd p) @ closing k (CHR ''}'') @ r) =
      Some (tree_of (snd p), closing k (CHR ''}'') @ r)" by (metis list.set_intros(1))
  from parse_member[OF this] show ?case
    by (intro exI[of _ "Suc n"]) (simp add: starts_closing is_ws_def case_prod_unfold)
next
  case (cons p fs)
  let ?rest = "Join '','' (map (\<lambda>p. item_line k (member_text k p)) fs) @ closing k (CHR ''}'') @ r"
  obtain n1 where n1: "parse_members n1 d ?rest = Some (map (\<lambda>(k, v). (escape_string k, tree_of v)) fs, r)"
    using cons by auto
  obtain n2 where n2: "parse_value n2 d (indent_json (Suc k) (snd p) @ CHR '','' # ?rest) = Some (tree_of (snd p), CHR '','' # ?rest)"
    using cons.prems by (metis list.set_intros(1))
  obtain m where m: "2 * length ?rest < m" "2 * length (indent_json (Suc k) (snd p) @ CHR '','' # ?rest) < m"
    by (meson less_add_Suc1 less_add_Suc2)
  have "starts (CHR ''}'') (CHR '','' # ?rest) = None" "starts (CHR '','') (CHR '','' # ?rest) = Some ?rest"
    by (simp_all add: starts_other starts_same is_ws_def)
  with parse_member[OF fuel_enough(1)[OF n2 m(2)]] fuel_enough(3)[OF n1 m(1)]
  have "parse_members (Suc m) d (item_line k (member_text k p) @ CHR '','' # ?rest) =
      Some (map (\<lambda>(k, v). (escape_string k, tree_of v)) (p # fs), r)"
    by (simp add: case_prod_unfold)
  moreover have "Join '','' (map (\<lambda>p. item_line k (member_text k p)) (p # fs)) =
      item_line k (member_text k p) @ CHR '','' # Join '','' (map (\<lambda>p. item_line k (member_text k p)) fs)"
    using cons.hyps by (cases fs) simp_all
  ultimately show ?case by (intro exI[of _ "Suc m"]) simp
qed

lemma nesting_array: "v \<in> set vs \<Longrightarrow> nesting v < nesting (JArray vs)"
  by (induction vs) (auto simp: less_Suc_eq_le le_max_iff_disj)

lemma nesting_object: "p \<in> set fs \<Longrightarrow> nesting (snd p) < nesting (JObject fs)"
  by (induction fs) (auto simp: less_Suc_eq_le le_max_iff_disj)

lemma starts_item_list:
  "vs \<noteq> [] \<Longrightarrow> starts c (Join '','' (map (\<lambda>v. item_line k (f v)) vs) @ r) =
     starts c (f (hd vs) @ (if tl vs = [] then r else CHR '','' # Join '','' (map (\<lambda>v. item_line k (f v)) (tl vs)) @ r))"
  by (cases vs; cases "tl vs") auto

lemma parse_printed:
  "nesting j + d \<le> maxNestingDepth \<Longrightarrow> \<exists>n. parse_value n d (indent_json k j @ r) = Some (tree_of j, r)"
proof (induction j arbitrary: k d r)
  case (JString s)
  show ?case
    by (intro exI[of _ 1]) (simp add: parse_value.simps(2) quote_json_def skip_ws_def is_ws_def scan_quoted)
next
  case (JArray vs)
  show ?case
  proof (cases "vs = []")
    case True
    with JArray(2) show ?thesis
      by (intro exI[of _ 1]) (simp add: parse_value.simps(2) skip_ws_def is_ws_def starts_def)
  next
    case False
    have "\<exists>n. parse_value n (Suc d) (indent_json (Suc k) v @ r) = Some (tree_of v, r)" if "v \<in> set vs" for v r
      using JArray(1)[OF that, of "Suc d"] JArray(2) nesting_array[OF that] by (simp del: nesting.simps)
    from parse_elements_printed[OF False this] obtain n where n:
      "parse_elements n (Suc d) (Join '','' (map (\<lambda>v. item_line k (indent_json (Suc k) v)) vs) @ closing k (CHR '']'') @ r) =
        Some (map tree_of vs, r)" by blast
    have "starts (CHR '']'') (Join '','' (map (\<lambda>v. item_line k (indent_json (Suc k) v)) vs) @ closing k (CHR '']'') @ r) = None"
      using False by (simp add: starts_item_list starts_indent)
    moreover have "indent_json k (JArray vs) @ r =
        CHR ''['' # Join '','' (map (\<lambda>v. item_line k (indent_json (Suc k) v)) vs) @ closing k (CHR '']'') @ r"
      unfolding indent_json_array[OF False] closing_def by simp
    ultimately show ?thesis
      using n JArray(2)
      by (intro exI[of _ "Suc n"]) (simp add: parse_value.simps(2) skip_ws_def is_ws_def del: indent_json.simps)
  qed
next
  case (JObject fs)
  show ?case
  proof (cases "fs = []")
    case True
    with JObject(2) show ?thesis
      by (intro exI[of _ 1]) (simp add: parse_value.simps(2) skip_ws_def is_ws_def starts_def)
  next
    case False
    have "\<exists>n. parse_value n (Suc d) (indent_json (Suc k) (snd p) @ r) = Some (tree_of (snd p), r)" if "p \<in> set fs" for p r
      using JObject(1)[OF that, of "snd p" "Suc d"] JObject(2) nesting_object[OF that]
      by (cases p) (simp del: nesting.simps)
    from parse_members_printed[OF False this] obtain n where n:
      "parse_members n (Suc d) (Join '','' (map (\<lambda>p. item_line k (member_text k p)) fs) @ closing k (CHR ''}'') @ r) =
        Some (map (\<lambda>(k, v). (escape_string k, tree_of v)) fs, r)" by blast
    have "starts (CHR ''}'') (member_text k p @ t) = None" for p t
      by (simp add: member_text_def quote_json_def starts_other is_ws_def)
    then have "starts (CHR ''}'') (Join '','' (map (\<lambda>p. item_line k (member_text k p)) fs) @ closing k (CHR ''}'') @ r) = None"
      using False by (simp add: starts_item_list)
    moreover have "indent_json k (JObject fs) @ r =
        CHR ''{'' # Join '','' (map (\<lambda>p. item_line k (member_text k p)) fs) @ closing k (CHR ''}'') @ r"
      unfolding indent_json_object[OF False] closing_def by simp
    ultimately show ?thesis
      using n JObject(2)
      by (intro exI[of _ "Suc n"]) (simp add: parse_value.simps(2) skip_ws_def is_ws_def del: indent_json.simps)
  qed
qed

lemma parse_json_printed:
  assumes "nesting j \<le> maxNestingDepth" "skip_ws r = []"
  shows "parse_json (indent_json k j @ r) = Some (tree_of j)"
proof -
  obtain n where "parse_value n 0 (indent_json k j @ r) = Some (tree_of j, r)"
    using parse_printed[of j 0] assms(1) by auto
  from fuel_enough(1)[OF this] assms(2) show ?thesis by (simp add: parse_json_def)
qed

lemma parse_json_text: "nesting j \<le> maxNestingDepth \<Longrightarrow> parse_json (indent_json k j) = Some (tree_of j)"
  using parse_json_printed[of j "[]" k] by (simp add: skip_ws_def)

lemma show_hex_is_hex: "c \<in> set (show_hex n) \<Longrightarrow> is_hex c"
  by (induction n rule: show_hex.induct) (subst (asm) show_hex.simps, auto simp: is_hex_digit_char split: if_splits)

text \<open>The tree with its strings and keys unquoted, and what that is for a printed value.\<close>

fun unquoted :: "jvalue \<Rightarrow> jvalue" where
  "unquoted (VString raw) = VString (unquote raw)"
| "unquoted (VArray vs) = VArray (map unquoted vs)"
| "unquoted (VObject ms) = VObject (map (\<lambda>(k, v). (unquote k, unquoted v)) ms)"
| "unquoted v = v"

fun as_read :: "json \<Rightarrow> jvalue" where
  "as_read (JString s) = VString (to_valid s)"
| "as_read (JArray vs) = VArray (map as_read vs)"
| "as_read (JObject fs) = VObject (map (\<lambda>(k, v). (to_valid k, as_read v)) fs)"

lemma unquoted_tree_of: "unquoted (tree_of j) = as_read j"
  by (induction j) (auto simp: unquote_escape_string)

end
