(* ===== verification/Decrypt_Rpc.thy ===== *)
theory Decrypt_Rpc
  imports Go_Json
begin

text \<open>
  The bodies of the tee-node's \<open>/decrypt\<close> call: \<open>decryptRequest\<close> and \<open>decryptResponse\<close> of
  \<open>go/internal/extension/utils.go\<close>, structs with one field of type \<open>[]byte\<close>, which
  \<open>encoding/json\<close> writes and reads in standard base64.
\<close>

section \<open>Base64\<close>

definition b64_char :: "nat \<Rightarrow> char" where
  "b64_char n = ''ABCDEFGHIJKLMNOPQRSTUVWXYZabcdefghijklmnopqrstuvwxyz0123456789+/'' ! n"

fun base64 :: "bytes \<Rightarrow> string" where
  "base64 [] = []"
| "base64 [a] = (let n = unat a * 65536 in
     [b64_char (n div 262144), b64_char (n div 4096 mod 64), CHR ''='', CHR ''=''])"
| "base64 [a, b] = (let n = unat a * 65536 + unat b * 256 in
     [b64_char (n div 262144), b64_char (n div 4096 mod 64), b64_char (n div 64 mod 64), CHR ''=''])"
| "base64 (a # b # c # s) = (let n = unat a * 65536 + unat b * 256 + unat c in
     [b64_char (n div 262144), b64_char (n div 4096 mod 64), b64_char (n div 64 mod 64), b64_char (n mod 64)]
     @ base64 s)"

definition b64_val :: "char \<Rightarrow> nat option" where
  "b64_val c = (let n = of_char c in
     if 65 \<le> n \<and> n \<le> 90 then Some (n - 65)
     else if 97 \<le> n \<and> n \<le> 122 then Some (n - 71)
     else if 48 \<le> n \<and> n \<le> 57 then Some (n + 4)
     else if n = 43 then Some 62 else if n = 47 then Some 63 else None)"

text \<open>Groups of four characters; padding ends the text. Unused bits of the last group are ignored.\<close>

fun b64_groups :: "string \<Rightarrow> bytes option" where
  "b64_groups [] = Some []"
| "b64_groups (a # b # c # d # s) = (case (b64_val a, b64_val b) of
     (Some x, Some y) \<Rightarrow>
       if c = CHR ''='' then
         (if d = CHR ''='' \<and> s = [] then Some [of_nat ((x * 262144 + y * 4096) div 65536)] else None)
       else (case b64_val c of None \<Rightarrow> None
         | Some z \<Rightarrow> let m = x * 262144 + y * 4096 + z * 64 in
             if d = CHR ''='' then
               (if s = [] then Some [of_nat (m div 65536), of_nat (m div 256)] else None)
             else (case b64_val d of None \<Rightarrow> None
               | Some u \<Rightarrow> map_option (\<lambda>r. [of_nat ((m + u) div 65536), of_nat ((m + u) div 256), of_nat (m + u)] @ r)
                   (b64_groups s)))
   | _ \<Rightarrow> None)"
| "b64_groups s = None"

text \<open>The decoder skips line breaks.\<close>

definition b64_decode :: "string \<Rightarrow> bytes option" where
  "b64_decode s = b64_groups (filter (\<lambda>c. c \<noteq> CHR 0x0A \<and> c \<noteq> CHR 0x0D) s)"

lemma b64_chars: "list_all (\<lambda>n. b64_val (b64_char n) = Some n) [0..<64]"
proof -
  have "[0..<64] = 0 # 1 # [2..<64]"
    by (subst upt_rec, subst upt_rec) (simp add: numeral_2_eq_2)
  then show ?thesis
    by (simp add: upt_rec_numeral b64_char_def b64_val_def)
qed

lemma b64_val_char [simp]: "n < 64 \<Longrightarrow> b64_val (b64_char n) = Some n"
  using b64_chars by (simp add: list_all_iff)

lemma b64_val_plain:
  "b64_val c = Some n \<Longrightarrow> 32 \<le> (of_char c :: nat) \<and> (of_char c :: nat) < 128 \<and> c \<noteq> CHR 0x22 \<and> c \<noteq> CHR 0x5C \<and>
     c \<noteq> CHR ''='' \<and> c \<noteq> CHR 0x0A \<and> c \<noteq> CHR 0x0D"
  by (auto simp: b64_val_def Let_def split: if_splits)

text \<open>The characters of a base64 text.\<close>

lemma base64_plain:
  "c \<in> set (base64 bs) \<Longrightarrow> c = CHR ''='' \<or> b64_val c \<noteq> None"
proof (induction bs rule: base64.induct)
  case (2 a)
  have "unat a * 65536 div 262144 < 64" using unat_byte_lt[of a] by linarith
  with 2 show ?case by (auto simp: Let_def)
next
  case (3 a b)
  have "(unat a * 65536 + unat b * 256) div 262144 < 64" using unat_byte_lt[of a] unat_byte_lt[of b] by linarith
  with 3 show ?case by (auto simp: Let_def)
next
  case (4 a b c s)
  have "(unat a * 65536 + unat b * 256 + unat c) div 262144 < 64"
    using unat_byte_lt[of a] unat_byte_lt[of b] unat_byte_lt[of c] by linarith
  with 4 show ?case by (auto simp: Let_def)
qed simp

lemma digits_64:
  fixes n :: nat
  shows "n div 262144 * 262144 + n div 4096 mod 64 * 4096 + n div 64 mod 64 * 64 + n mod 64 = n"
proof -
  have "n div 262144 * 64 + n div 4096 mod 64 = n div 4096" "n div 4096 * 64 + n div 64 mod 64 = n div 64"
    using div_mult_mod_eq[of "n div 4096" 64] div_mult_mod_eq[of "n div 64" 64] by (simp_all add: div_mult2_eq[symmetric])
  with div_mult_mod_eq[of n 64] show ?thesis by linarith
qed

lemma byte_shift [simp]: "(x :: byte) * 256 = 0" "(x :: byte) * 65536 = 0"
proof -
  have "(256 :: byte) = 0" "(65536 :: byte) = 0" by simp_all
  then show "x * 256 = 0" "x * 65536 = 0" by (metis mult_zero_right)+
qed

lemma b64_char_no_pad: "n < 64 \<Longrightarrow> b64_char n \<noteq> CHR ''=''"
  using b64_val_plain[of "b64_char n" n] by simp

lemma b64_three:
  assumes "n div 262144 < 64"
  shows "b64_groups ([b64_char (n div 262144), b64_char (n div 4096 mod 64), b64_char (n div 64 mod 64), b64_char (n mod 64)] @ s) =
    map_option (\<lambda>r. [of_nat (n div 65536), of_nat (n div 256), of_nat n] @ r) (b64_groups s)"
  using assms by (cases "b64_groups s") (simp_all add: b64_char_no_pad digits_64 Let_def del: of_nat_add of_nat_mult)

lemma b64_two:
  assumes "n div 262144 < 64" "n mod 64 = 0"
  shows "b64_groups [b64_char (n div 262144), b64_char (n div 4096 mod 64), b64_char (n div 64 mod 64), CHR ''=''] =
    Some [of_nat (n div 65536), of_nat (n div 256)]"
proof -
  have "n div 262144 * 262144 + n div 4096 mod 64 * 4096 + n div 64 mod 64 * 64 = n"
    using digits_64[of n] assms(2) by linarith
  then show ?thesis using assms(1) by (simp add: b64_char_no_pad Let_def)
qed

lemma b64_one:
  assumes "n div 262144 < 64" "n mod 64 = 0" "n div 64 mod 64 = 0"
  shows "b64_groups [b64_char (n div 262144), b64_char (n div 4096 mod 64), CHR ''='', CHR ''=''] = Some [of_nat (n div 65536)]"
proof -
  have "n div 262144 * 262144 + n div 4096 mod 64 * 4096 = n"
    using digits_64[of n] assms(2,3) by linarith
  then show ?thesis using assms(1) by simp
qed

lemma b64_groups_base64: "b64_groups (base64 bs) = Some bs"
proof (induction bs rule: base64.induct)
  case (2 a)
  have "unat a * 65536 div 262144 < 64" using unat_byte_lt[of a] by linarith
  from b64_one[OF this] show ?case by (simp only: base64.simps Let_def) simp
next
  case (3 a b)
  let ?n = "unat a * 65536 + unat b * 256"
  have "?n div 262144 < 64" using unat_byte_lt[of a] unat_byte_lt[of b] by linarith
  moreover have "?n mod 64 = 0" by (simp add: mod_add_eq[symmetric] del: mod_add_eq)
  moreover have "?n div 65536 = unat a" "?n div 256 = unat a * 256 + unat b"
    using unat_byte_lt[of b] by simp_all
  ultimately show ?case using b64_two[of ?n] by (simp only: base64.simps Let_def) simp
next
  case (4 a b c s)
  let ?n = "unat a * 65536 + unat b * 256 + unat c"
  have "?n div 262144 < 64" using unat_byte_lt[of a] unat_byte_lt[of b] unat_byte_lt[of c] by linarith
  moreover have "?n div 65536 = unat a" "?n div 256 = unat a * 256 + unat b"
    using unat_byte_lt[of b] unat_byte_lt[of c] by linarith+
  ultimately show ?case using b64_three[of ?n "base64 s"] 4[OF refl] by (simp only: base64.simps Let_def) simp
qed simp

lemma b64_decode_base64: "b64_decode (base64 bs) = Some bs"
proof -
  have "filter (\<lambda>c. c \<noteq> CHR 0x0A \<and> c \<noteq> CHR 0x0D) (base64 bs) = base64 bs"
    using base64_plain[of _ bs] b64_val_plain by (fastforce simp: filter_id_conv)
  then show ?thesis by (simp add: b64_decode_def b64_groups_base64)
qed

section \<open>The two bodies\<close>

text \<open>\<open>json.Marshal(decryptRequest{...})\<close> for a non-empty ciphertext.\<close>

definition decryptRequest :: "bytes \<Rightarrow> bytes" where
  "decryptRequest ciphertext = str_bytes (''{\"encryptedMessage\":\"'' @ base64 ciphertext @ ''\"}'')"

text \<open>
  Decoding into a \<open>[]byte\<close>: a string holds base64; an array holds one number from 0 to 255 per byte,
  where \<open>null\<close> keeps the byte the slice had at that place; \<open>null\<close> alone makes the slice nil.
\<close>

definition decode_byte :: "jvalue \<Rightarrow> byte \<Rightarrow> byte option" where
  "decode_byte v old = (case v of
     VNull \<Rightarrow> Some old
   | VNumber t \<Rightarrow> (case digits_val 10 dec_val 0 t of
       Some n \<Rightarrow> if n < 256 then Some (of_nat n) else None | None \<Rightarrow> None)
   | _ \<Rightarrow> None)"

fun decode_elements :: "jvalue list \<Rightarrow> bytes \<Rightarrow> bytes option" where
  "decode_elements [] old = Some []"
| "decode_elements (v # vs) old = (case decode_byte v (case old of [] \<Rightarrow> 0 | b # _ \<Rightarrow> b) of
     None \<Rightarrow> None | Some b \<Rightarrow> map_option ((#) b) (decode_elements vs (drop 1 old)))"

definition decode_bytes :: "jvalue \<Rightarrow> bytes \<Rightarrow> bytes option" where
  "decode_bytes v old = (case v of
     VNull \<Rightarrow> Some []
   | VString raw \<Rightarrow> b64_decode (unquote raw)
   | VArray vs \<Rightarrow> decode_elements vs old
   | _ \<Rightarrow> None)"

text \<open>A struct with this one field, read by \<open>json.Decoder\<close> from the start of a body.\<close>

definition decode_field :: "string \<Rightarrow> bytes \<Rightarrow> bytes option" where
  "decode_field name body = Option.bind (parse_first (bytes_str body))
     (\<lambda>v. decode_struct [name] (\<lambda>f. decode_bytes) v [])"

definition decryptResponse :: "bytes \<Rightarrow> bytes option" where
  "decryptResponse body = decode_field ''decryptedMessage'' body"

section \<open>Lemmas\<close>

lemma opaque_base64: "opaque (base64 bs)"
proof (rule opaque_plains)
  show "list_all (\<lambda>c. c \<noteq> CHR 0x22 \<and> c \<noteq> CHR 0x5C \<and> 32 \<le> (of_char c :: nat)) (base64 bs)"
    using base64_plain[of _ bs] b64_val_plain by (fastforce simp: list_all_iff)
qed

lemma unquote_ascii:
  "\<forall>c \<in> set s. (of_char c :: nat) < 128 \<and> c \<noteq> CHR 0x5C \<Longrightarrow> unquote s = s"
  by (induction s) (simp_all add: unquote_plain)

lemma unquote_base64: "unquote (base64 bs) = base64 bs"
  using base64_plain[of _ bs] b64_val_plain by (intro unquote_ascii) fastforce

text \<open>The compact text of an object with one string member.\<close>

lemma parse_one_member:
  assumes "opaque key" "opaque raw"
  shows "parse_first (CHR ''{'' # CHR 0x22 # key @ CHR 0x22 # CHR '':'' # CHR 0x22 # raw @ CHR 0x22 # CHR ''}'' # r) =
    Some (VObject [(key, VString raw)])"
proof -
  let ?r = "CHR ''}'' # r"
  let ?v = "CHR 0x22 # raw @ CHR 0x22 # ?r"
  let ?m = "CHR 0x22 # key @ CHR 0x22 # CHR '':'' # ?v"
  have scan: "scan_string (u @ CHR 0x22 # t) = Some (u, t)" if "opaque u" for u t
    using that by (simp add: opaque_def scan_quote)
  have "parse_value (Suc 0) 1 ?v = Some (VString raw, ?r)"
    using scan[OF assms(2)] by (simp add: parse_value.simps(2) skip_ws_def is_ws_def)
  then have "parse_members (Suc (Suc 0)) 1 ?m = Some ([(key, VString raw)], r)"
    using scan[OF assms(1)] by (simp add: parse_members.simps(2) starts_same is_ws_def)
  moreover have "starts (CHR ''}'') ?m = None" by (rule starts_other) (simp_all add: is_ws_def)
  ultimately have "parse_value (Suc (Suc (Suc 0))) 0 (CHR ''{'' # ?m) = Some (VObject [(key, VString raw)], r)"
    by (simp add: parse_value.simps(2) skip_ws_def is_ws_def maxNestingDepth_def)
  from fuel_enough(1)[OF this] show ?thesis by (simp add: parse_first_def)
qed

lemma opaque_ascii: "list_all (\<lambda>c. c \<noteq> CHR 0x22 \<and> c \<noteq> CHR 0x5C \<and> 32 \<le> (of_char c :: nat)) s \<Longrightarrow> opaque s"
  by (rule opaque_plains)

lemma decode_field_base64:
  assumes "list_all (\<lambda>c. c \<noteq> CHR 0x22 \<and> c \<noteq> CHR 0x5C \<and> 32 \<le> (of_char c :: nat) \<and> (of_char c :: nat) < 128) name"
  shows "decode_field name (str_bytes (''{\"'' @ name @ ''\":\"'' @ base64 bs @ ''\"}'' @ r)) = Some bs"
proof -
  have "opaque name" using assms by (intro opaque_plains) (auto simp: list_all_iff)
  from parse_one_member[OF this opaque_base64] have
    "parse_first (''{\"'' @ name @ ''\":\"'' @ base64 bs @ ''\"}'' @ r) = Some (VObject [(name, VString (base64 bs))])" by simp
  moreover have "unquote name = name" using assms by (intro unquote_ascii) (auto simp: list_all_iff)
  ultimately show ?thesis
    by (simp add: decode_field_def decode_struct_def field_of_def decode_bytes_def unquote_base64 b64_decode_base64)
qed

text \<open>What a tee-node answers with, and what it reads of a request.\<close>

definition decrypt_reply :: "bytes \<Rightarrow> bytes" where
  "decrypt_reply plain = str_bytes (''{\"decryptedMessage\":\"'' @ base64 plain @ ''\"}'')"

lemma decryptResponse_reply: "decryptResponse (decrypt_reply plain) = Some plain"
  using decode_field_base64[of "''decryptedMessage''" plain "[]"]
  by (simp add: decryptResponse_def decrypt_reply_def)

lemma decode_request: "decode_field ''encryptedMessage'' (decryptRequest c) = Some c"
  using decode_field_base64[of "''encryptedMessage''" c "[]"] by (simp add: decryptRequest_def)

end
