(* ===== verification/Extension.thy ===== *)
theory Extension
  imports Abi_Codec Config Decrypt_Rpc
begin

text \<open>
  The extension server: \<open>go/internal/extension/extension.go\<close>, \<open>go/internal/extension/utils.go\<close>
  and the types of \<open>go/pkg/types/types.go\<close>. Its mutable state is the stored key. The packages it
  calls that are not part of the repository (the tee-node types and their JSON, \<open>processorutils\<close>,
  \<open>teeutils.ToHash\<close>, the secp256k1 and Keccak libraries) are the record \<open>ext_lib\<close>, an argument of
  every definition; the tee-node's \<open>/decrypt\<close> endpoint is the argument \<open>node\<close>, the answer to a POST.
\<close>

section \<open>Types\<close>

text \<open>The fields of \<open>teetypes.Action\<close>, \<open>instruction.DataFixed\<close> and \<open>teetypes.ActionResult\<close> the code uses.\<close>

record action =
  aID :: hash
  aSubmissionTag :: string
  aMessage :: bytes

record data_fixed =
  OPType :: hash
  OPCommand :: hash
  OriginalMessage :: bytes

record action_result =
  rID :: hash
  rSubmissionTag :: string
  rVersion :: string
  rOPType :: hash
  rOPCommand :: hash
  rData :: "bytes option"
  rStatus :: byte
  rLog :: string

text \<open>\<open>types.State\<close> and \<open>types.StateResponse\<close>.\<close>

record state_body =
  HasKey :: bool

record state_response =
  StateVersion :: hash
  StateOf :: state_body

record 'key ext_lib =
  ToHash :: "string \<Rightarrow> hash"
  hashHex :: "hash \<Rightarrow> string"
  decodeAction :: "bytes \<Rightarrow> action result"
  ParseFixed :: "bytes \<Rightarrow> data_fixed result"
  marshalResult :: "action_result \<Rightarrow> bytes"
  unmarshalResult :: "bytes \<Rightarrow> action_result option"
  jsonDecodeError :: "bytes \<Rightarrow> go_error"
  PrivKeyFromBytes :: "bytes \<Rightarrow> 'key"
  keyIsZero :: "'key \<Rightarrow> bool"
  Keccak :: "bytes \<Rightarrow> bytes"
  SignCompact :: "'key \<Rightarrow> bytes \<Rightarrow> bool \<Rightarrow> bytes"

text \<open>What a POST returns: a transport error, or a status code and a body.\<close>

datatype http_reply = TransportError string | HttpReply int bytes

text \<open>The POST: URL, content type, body.\<close>

type_synonym node = "string \<Rightarrow> string \<Rightarrow> bytes \<Rightarrow> http_reply"

record 'key ext_state =
  signPort :: int
  privateKey :: "'key option"

section \<open>Results\<close>

text \<open>\<open>buildResult\<close>; \<open>%v\<close> of a nil error prints \<open><nil>\<close>.\<close>

definition buildResult ::
  "action \<Rightarrow> data_fixed \<Rightarrow> bytes option \<Rightarrow> byte \<Rightarrow> go_error option \<Rightarrow> action_result" where
  "buildResult a df data status err =
     (let ar = \<lparr>rID = aID a, rSubmissionTag = aSubmissionTag a, rVersion = Version,
                rOPType = OPType df, rOPCommand = OPCommand df, rData = data,
                rStatus = status, rLog = ''''\<rparr>
      in if status = 0 then ar\<lparr>rLog := ''error: '' @ (case err of None \<Rightarrow> ''<nil>'' | Some e \<Rightarrow> err_text e)\<rparr>
         else if status = 1 then ar\<lparr>rLog := ''ok''\<rparr>
         else ar)"

definition getLogFromBody :: "'key ext_lib \<Rightarrow> bytes \<Rightarrow> string" where
  "getLogFromBody lib body = (case unmarshalResult lib body of None \<Rightarrow> bytes_str body | Some ar \<Rightarrow> rLog ar)"

section \<open>Decryption through the node\<close>

text \<open>The request and the response are those of theory \<open>Decrypt_Rpc\<close>.\<close>

definition decryptViaNode :: "'key ext_lib \<Rightarrow> node \<Rightarrow> int \<Rightarrow> bytes \<Rightarrow> bytes result" where
  "decryptViaNode lib nd port ciphertext =
     (let url = ''http://localhost:'' @ show_int port @ ''/decrypt'';
          reqBody = decryptRequest ciphertext
      in case nd url ''application/json'' reqBody of
           TransportError m \<Rightarrow> Inl (wrapf ''request error: '' (errorf m))
         | HttpReply status body \<Rightarrow>
             if status \<noteq> 200
             then Inl (errorf (''node returned '' @ show_int status @ '': '' @ bytes_str body))
             else (case decryptResponse body of
                     None \<Rightarrow> Inl (wrapf ''decode response: '' (jsonDecodeError lib body))
                   | Some plain \<Rightarrow> Inr plain))"

section \<open>Keys and signatures\<close>

definition parseSecp256k1PrivateKey :: "'key ext_lib \<Rightarrow> bytes \<Rightarrow> 'key result" where
  "parseSecp256k1PrivateKey lib b =
     (if length b = 0 then Inl (errorf ''key bytes are empty'')
      else if length b > 32 then Inl (errorf (''key too long: '' @ show_nat (length b) @ '' bytes''))
      else let key = PrivKeyFromBytes lib (padLeft b 32) in
        if keyIsZero lib key then Inl (errorf ''key is zero'') else Inr key)"

text \<open>
  \<open>signECDSA\<close>: \<open>SignCompact\<close> gives \<open>[flag, r, s]\<close>, the result is \<open>[r, s, v]\<close>. The slice expressions
  panic on an answer shorter than 65 bytes.
\<close>

definition signECDSA :: "'key ext_lib \<Rightarrow> 'key \<Rightarrow> bytes \<Rightarrow> bytes result outcome" where
  "signECDSA lib key message =
     (let h = Keccak lib message; sig = SignCompact lib key h False in
      if length sig < 65 then Panics
      else Returns (Inr (subslice sig 1 33 @ subslice sig 33 65 @ [sig ! 0])))"

section \<open>Handlers\<close>

definition processKeyUpdate ::
  "'key ext_lib \<Rightarrow> node \<Rightarrow> 'key ext_state \<Rightarrow> action \<Rightarrow> data_fixed \<Rightarrow> action_result \<times> 'key ext_state" where
  "processKeyUpdate lib nd e a df =
     (if length (OriginalMessage df) = 0
      then (buildResult a df None 0 (Some (errorf ''originalMessage is empty'')), e)
      else case decryptViaNode lib nd (signPort e) (OriginalMessage df) of
        Inl err \<Rightarrow> (buildResult a df None 0 (Some (prefixf ''decryption failed: '' err)), e)
      | Inr keyBytes \<Rightarrow>
         (case parseSecp256k1PrivateKey lib keyBytes of
            Inl err \<Rightarrow> (buildResult a df None 0 (Some (prefixf ''invalid private key: '' err)), e)
          | Inr privKey \<Rightarrow> (buildResult a df None 1 None, e\<lparr>privateKey := Some privKey\<rparr>)))"

definition processKeySign ::
  "'key ext_lib \<Rightarrow> 'key option \<Rightarrow> action \<Rightarrow> data_fixed \<Rightarrow> action_result outcome" where
  "processKeySign lib stored a df =
     (case stored of
        None \<Rightarrow> Returns (buildResult a df None 0 (Some (errorf ''no private key stored'')))
      | Some key \<Rightarrow>
        if length (OriginalMessage df) = 0
        then Returns (buildResult a df None 0 (Some (errorf ''originalMessage is empty'')))
        else bind_outcome (signECDSA lib key (OriginalMessage df)) (\<lambda>r. Returns (case r of
           Inl err \<Rightarrow> buildResult a df None 0 (Some (prefixf ''signing failed: '' err))
         | Inr sig \<Rightarrow>
           (case abiEncodeTwo (OriginalMessage df) sig of
              Inl err \<Rightarrow> buildResult a df None 0 (Some (prefixf ''ABI encoding failed: '' err))
            | Inr encoded \<Rightarrow> buildResult a df (Some encoded) 1 None))))"

definition unsupported_command :: "'key ext_lib \<Rightarrow> data_fixed \<Rightarrow> string" where
  "unsupported_command lib df =
     ''unsupported op command: received '' @ hashHex lib (OPCommand df) @ '', expected one of ['' @
     hashHex lib (ToHash lib OPCommandUpdate) @ '' ('' @ OPCommandUpdate @ ''), '' @
     hashHex lib (ToHash lib OPCommandSign) @ '' ('' @ OPCommandSign @ '')]''"

definition processKey ::
  "'key ext_lib \<Rightarrow> node \<Rightarrow> 'key ext_state \<Rightarrow> action \<Rightarrow> data_fixed \<Rightarrow> (int \<times> bytes) outcome \<times> 'key ext_state" where
  "processKey lib nd e a df =
     (if OPCommand df = ToHash lib OPCommandUpdate then
        (case processKeyUpdate lib nd e a df of (ar, e') \<Rightarrow> (Returns (200, marshalResult lib ar), e'))
      else if OPCommand df = ToHash lib OPCommandSign then
        (bind_outcome (processKeySign lib (privateKey e) a df) (\<lambda>ar. Returns (200, marshalResult lib ar)), e)
      else (Returns (501, str_bytes (unsupported_command lib df)), e))"

definition processAction ::
  "'key ext_lib \<Rightarrow> node \<Rightarrow> 'key ext_state \<Rightarrow> action \<Rightarrow> (int \<times> bytes) outcome \<times> 'key ext_state" where
  "processAction lib nd e a =
     (case ParseFixed lib (aMessage a) of
        Inl err \<Rightarrow> (Returns (400, str_bytes (''decoding fixed data: '' @ err_text err)), e)
      | Inr df \<Rightarrow>
        if OPType df = ToHash lib OPTypeKey then processKey lib nd e a df
        else (Returns (501, str_bytes (''unsupported op type: received '' @ hashHex lib (OPType df) @
                '', expected '' @ hashHex lib (ToHash lib OPTypeKey) @ '' ('' @ OPTypeKey @ '')'')), e))"

section \<open>HTTP\<close>

record http_request =
  hMethod :: string
  hPath :: string
  hBody :: bytes

text \<open>What the client sees: an answer, or a connection the server aborted after a panic.\<close>

datatype reply = Reply int bytes | Aborted

text \<open>\<open>stateHandler\<close>; \<open>json.Encoder.Encode\<close> ends the value with a newline.\<close>

definition state_response_of :: "'key ext_lib \<Rightarrow> 'key ext_state \<Rightarrow> state_response" where
  "state_response_of lib e =
     \<lparr>StateVersion = ToHash lib Version, StateOf = \<lparr>HasKey = (privateKey e \<noteq> None)\<rparr>\<rparr>"

definition encode_state_response :: "'key ext_lib \<Rightarrow> state_response \<Rightarrow> bytes" where
  "encode_state_response lib r = str_bytes
     (''{\"stateVersion\":\"'' @ hashHex lib (StateVersion r) @ ''\",\"state\":{\"hasKey\":'' @
      (if HasKey (StateOf r) then ''true'' else ''false'') @ ''}}'' @ [CHR 0x0A])"

definition stateHandler :: "'key ext_lib \<Rightarrow> 'key ext_state \<Rightarrow> reply" where
  "stateHandler lib e = Reply 200 (encode_state_response lib (state_response_of lib e))"

text \<open>\<open>actionHandler\<close> with the two lines it logs; \<open>http.Error\<close> ends its text with a newline.\<close>

definition actionHandler ::
  "'key ext_lib \<Rightarrow> node \<Rightarrow> 'key ext_state \<Rightarrow> bytes \<Rightarrow> reply \<times> string list \<times> 'key ext_state" where
  "actionHandler lib nd e body =
     (case decodeAction lib body of
        Inl err \<Rightarrow> (Reply 400 (str_bytes (''decoding action: '' @ err_text err @ [CHR 0x0A])), [], e)
      | Inr a \<Rightarrow>
        let received = ''received action, ID: '' @ hashHex lib (aID a) in
        (case processAction lib nd e a of
           (Panics, e') \<Rightarrow> (Aborted, [received], e')
         | (Returns (status, out), e') \<Rightarrow>
             (Reply status out,
              [received, ''sending action result, ID: '' @ hashHex lib (aID a) @ '', status: '' @
                show_int status @ '', log: '' @ getLogFromBody lib out], e')))"

text \<open>
  The routes of \<open>New\<close>: \<open>GET /state\<close> (which \<open>http.ServeMux\<close> also matches for HEAD) and
  \<open>POST /action\<close>; another method on a known path is 405, another path 404.
\<close>

definition New :: "int \<Rightarrow> 'key ext_state" where
  "New port = \<lparr>signPort = port, privateKey = None\<rparr>"

definition serve ::
  "'key ext_lib \<Rightarrow> node \<Rightarrow> 'key ext_state \<Rightarrow> http_request \<Rightarrow> reply \<times> string list \<times> 'key ext_state" where
  "serve lib nd e req =
     (if hPath req = ''/state'' then
        (if hMethod req = ''GET'' \<or> hMethod req = ''HEAD'' then (stateHandler lib e, [], e)
         else (Reply 405 (str_bytes (''Method Not Allowed'' @ [CHR 0x0A])), [], e))
      else if hPath req = ''/action'' then
        (if hMethod req = ''POST'' then actionHandler lib nd e (hBody req)
         else (Reply 405 (str_bytes (''Method Not Allowed'' @ [CHR 0x0A])), [], e))
      else (Reply 404 (str_bytes (''404 page not found'' @ [CHR 0x0A])), [], e))"

text \<open>One request with the node's behaviour while it is handled, and a sequence of them.\<close>

definition serve_state :: "'key ext_lib \<Rightarrow> 'key ext_state \<Rightarrow> node \<times> http_request \<Rightarrow> 'key ext_state" where
  "serve_state lib e ev = snd (snd (serve lib (fst ev) e (snd ev)))"

definition serve_reply :: "'key ext_lib \<Rightarrow> 'key ext_state \<Rightarrow> node \<times> http_request \<Rightarrow> reply" where
  "serve_reply lib e ev = fst (serve lib (fst ev) e (snd ev))"

section \<open>Lemmas\<close>

lemmas handler_defs = serve_def actionHandler_def processAction_def processKey_def

lemma buildResult_fields [simp]:
  "rID (buildResult a df d st err) = aID a"
  "rSubmissionTag (buildResult a df d st err) = aSubmissionTag a"
  "rVersion (buildResult a df d st err) = Version"
  "rOPType (buildResult a df d st err) = OPType df"
  "rOPCommand (buildResult a df d st err) = OPCommand df"
  "rData (buildResult a df d st err) = d"
  "rStatus (buildResult a df d st err) = st"
  by (simp_all add: buildResult_def Let_def)

lemma buildResult_log [simp]:
  "rLog (buildResult a df d 0 (Some e)) = ''error: '' @ err_text e"
  "rLog (buildResult a df d 1 err) = ''ok''"
  by (simp_all add: buildResult_def Let_def)

lemma buildResult_other_status:
  "st \<noteq> 0 \<Longrightarrow> st \<noteq> 1 \<Longrightarrow> rLog (buildResult a df d st err) = ''''"
  by (simp add: buildResult_def Let_def)

text \<open>The reply and the state of \<open>actionHandler\<close>, without the log lines.\<close>

fun reply_of :: "(int \<times> bytes) outcome \<Rightarrow> reply" where
  "reply_of Panics = Aborted"
| "reply_of (Returns (status, out)) = Reply status out"

lemma actionHandler_reply:
  "decodeAction lib body = Inr a \<Longrightarrow> fst (actionHandler lib nd e body) = reply_of (fst (processAction lib nd e a))"
  "decodeAction lib body = Inr a \<Longrightarrow> snd (snd (actionHandler lib nd e body)) = snd (processAction lib nd e a)"
  by (simp_all add: actionHandler_def Let_def split: prod.splits outcome.splits)

subsection \<open>Keys\<close>

definition usable_key_bytes :: "'key ext_lib \<Rightarrow> bytes \<Rightarrow> bool" where
  "usable_key_bytes lib b \<longleftrightarrow>
     0 < length b \<and> length b \<le> 32 \<and> \<not> keyIsZero lib (PrivKeyFromBytes lib (padLeft b 32))"

lemma parse_key_Inr_iff:
  "parseSecp256k1PrivateKey lib b = Inr k \<longleftrightarrow>
     usable_key_bytes lib b \<and> k = PrivKeyFromBytes lib (padLeft b 32)"
  by (auto simp: parseSecp256k1PrivateKey_def usable_key_bytes_def Let_def)

lemma parse_key_nonzero: "parseSecp256k1PrivateKey lib b = Inr k \<Longrightarrow> \<not> keyIsZero lib k"
  by (simp add: parse_key_Inr_iff usable_key_bytes_def)

subsection \<open>The request as the server reads it\<close>

text \<open>The action and the fixed data of a request, when it is an action that parses.\<close>

definition action_of :: "'key ext_lib \<Rightarrow> http_request \<Rightarrow> (action \<times> data_fixed) option" where
  "action_of lib req =
     (if hPath req = ''/action'' \<and> hMethod req = ''POST''
      then (case decodeAction lib (hBody req) of Inl _ \<Rightarrow> None
            | Inr a \<Rightarrow> (case ParseFixed lib (aMessage a) of Inl _ \<Rightarrow> None | Inr df \<Rightarrow> Some (a, df)))
      else None)"

definition is_update :: "'key ext_lib \<Rightarrow> data_fixed \<Rightarrow> bool" where
  "is_update lib df \<longleftrightarrow> OPType df = ToHash lib OPTypeKey \<and> OPCommand df = ToHash lib OPCommandUpdate"

definition is_sign :: "'key ext_lib \<Rightarrow> data_fixed \<Rightarrow> bool" where
  "is_sign lib df \<longleftrightarrow> OPType df = ToHash lib OPTypeKey \<and> OPCommand df = ToHash lib OPCommandSign \<and>
     OPCommand df \<noteq> ToHash lib OPCommandUpdate"

text \<open>
  The abstract specification of the component is a cell that holds at most one key. A request
  replaces the key exactly when it is an UPDATE whose non-empty message the node decrypts to usable
  key bytes; nothing else ever writes the cell.
\<close>

definition delivered_key :: "'key ext_lib \<Rightarrow> int \<Rightarrow> node \<times> http_request \<Rightarrow> 'key option" where
  "delivered_key lib port ev =
     (case action_of lib (snd ev) of None \<Rightarrow> None
      | Some (a, df) \<Rightarrow>
        if is_update lib df \<and> OriginalMessage df \<noteq> []
        then (case decryptViaNode lib (fst ev) port (OriginalMessage df) of Inl _ \<Rightarrow> None
              | Inr b \<Rightarrow> if usable_key_bytes lib b then Some (PrivKeyFromBytes lib (padLeft b 32)) else None)
        else None)"

definition cell_step :: "'key option \<Rightarrow> 'key option \<Rightarrow> 'key option" where
  "cell_step cell delivered = (case delivered of None \<Rightarrow> cell | Some k \<Rightarrow> Some k)"

lemma processKeyUpdate_state:
  "snd (processKeyUpdate lib nd e a df) =
     e\<lparr>privateKey := cell_step (privateKey e)
        (if OriginalMessage df \<noteq> []
         then (case decryptViaNode lib nd (signPort e) (OriginalMessage df) of Inl _ \<Rightarrow> None
               | Inr b \<Rightarrow> if usable_key_bytes lib b then Some (PrivKeyFromBytes lib (padLeft b 32)) else None)
         else None)\<rparr>"
proof (cases "OriginalMessage df = []")
  case True
  then show ?thesis by (simp add: processKeyUpdate_def cell_step_def)
next
  case msg: False
  show ?thesis
  proof (cases "decryptViaNode lib nd (signPort e) (OriginalMessage df)")
    case (Inl err)
    with msg show ?thesis by (simp add: processKeyUpdate_def cell_step_def)
  next
    case (Inr b)
    show ?thesis
    proof (cases "parseSecp256k1PrivateKey lib b")
      case (Inl err)
      then have "\<not> usable_key_bytes lib b" by (metis Inl_Inr_False parse_key_Inr_iff)
      with Inl Inr msg show ?thesis by (simp add: processKeyUpdate_def cell_step_def)
    next
      case (Inr k)
      with parse_key_Inr_iff[of lib b k] \<open>decryptViaNode _ _ _ _ = Inr b\<close> msg
      show ?thesis by (simp add: processKeyUpdate_def cell_step_def)
    qed
  qed
qed

lemma serve_state_cell:
  "serve_state lib e ev = e\<lparr>privateKey := cell_step (privateKey e) (delivered_key lib (signPort e) ev)\<rparr>"
proof -
  have same: "e\<lparr>privateKey := privateKey e\<rparr> = e" by simp
  show ?thesis
  proof (cases "action_of lib (snd ev)")
    case None
    then have "serve_state lib e ev = e"
      by (auto simp: serve_state_def serve_def actionHandler_def processAction_def action_of_def Let_def
          split: if_splits sum.splits)
    with None show ?thesis by (simp add: delivered_key_def cell_step_def)
  next
    case (Some p)
    obtain a df where p: "p = (a, df)" by (cases p)
    from Some have post: "hPath (snd ev) = ''/action''" "hMethod (snd ev) = ''POST''"
        "decodeAction lib (hBody (snd ev)) = Inr a" "ParseFixed lib (aMessage a) = Inr df"
      unfolding p by (auto simp: action_of_def split: if_splits sum.splits)
    then have "serve_state lib e ev =
        (if is_update lib df then snd (processKeyUpdate lib (fst ev) e a df) else e)"
      by (auto simp: serve_state_def handler_defs is_update_def Let_def
          split: prod.splits outcome.splits if_splits)
    with Some p show ?thesis
      by (simp add: processKeyUpdate_state delivered_key_def cell_step_def)
  qed
qed

lemma serve_state_port [simp]: "signPort (serve_state lib e ev) = signPort e"
  by (simp add: serve_state_cell)

lemma run_port [simp]: "signPort (run_steps (serve_state lib) e evs) = signPort e"
  by (induction evs arbitrary: e) auto

lemma delivered_key_nonzero: "delivered_key lib port ev = Some k \<Longrightarrow> \<not> keyIsZero lib k"
  by (auto simp: delivered_key_def usable_key_bytes_def split: option.splits prod.splits if_splits sum.splits)

text \<open>The invariant of the stored key, kept by every request through the \<open>stepper\<close> interface.\<close>

definition key_ok :: "'key ext_lib \<Rightarrow> 'key ext_state \<Rightarrow> bool" where
  "key_ok lib e \<longleftrightarrow> (\<forall>k. privateKey e = Some k \<longrightarrow> \<not> keyIsZero lib k)"

interpretation ext_run: stepper "serve_state lib" "key_ok lib" for lib
  by unfold_locales
    (auto simp: key_ok_def serve_state_cell cell_step_def dest: delivered_key_nonzero split: option.splits)

subsection \<open>A signature request\<close>

lemma answered_sign:
  assumes "action_of lib req = Some (a, df)" and "is_sign lib df" and "OriginalMessage df \<noteq> []"
    and "privateKey e = Some k"
    and "SignCompact lib k (Keccak lib (OriginalMessage df)) False = v # r @ s"
    and "length r = 32" and "length s = 32"
    and "length (OriginalMessage df) < 2 ^ 62"
  shows "\<exists>ar d. fst (serve lib nd e req) = Reply 200 (marshalResult lib ar) \<and>
      rStatus ar = 1 \<and> rLog ar = ''ok'' \<and> rID ar = aID a \<and> rSubmissionTag ar = aSubmissionTag a \<and>
      rOPType ar = OPType df \<and> rOPCommand ar = OPCommand df \<and> rVersion ar = ''0.1.0'' \<and>
      rData ar = Some d \<and> abiDecodeTwo d = Returns (Inr (OriginalMessage df, r @ s @ [v])) \<and>
      snd (snd (serve lib nd e req)) = e"
proof -
  let ?sig = "r @ s @ [v]"
  let ?ar = "buildResult a df (Some (abi_layout (OriginalMessage df) ?sig)) 1 None"
  from assms(1) have req: "hPath req = ''/action''" "hMethod req = ''POST''"
      "decodeAction lib (hBody req) = Inr a" "ParseFixed lib (aMessage a) = Inr df"
    by (auto simp: action_of_def split: if_splits sum.splits)
  have "signECDSA lib k (OriginalMessage df) = Returns (Inr ?sig)"
    using assms(5-7) by (simp add: signECDSA_def subslice_def Let_def)
  with assms(3,4) have "processKeySign lib (privateKey e) a df = Returns ?ar"
    by (simp add: processKeySign_def abiEncodeTwo_layout)
  then have "processAction lib nd e a = (Returns (200, marshalResult lib ?ar), e)"
    using req(4) assms(2) by (auto simp: processAction_def processKey_def is_sign_def)
  with req have "fst (serve lib nd e req) = Reply 200 (marshalResult lib ?ar)"
      and "snd (snd (serve lib nd e req)) = e"
    by (simp_all add: serve_def actionHandler_def Let_def)
  moreover have "length (padToMultipleOf32 (OriginalMessage df)) < 2 ^ 62 + 32"
    using length_padToMultipleOf32_lt[of "OriginalMessage df"] assms(8) by linarith
  then have "length (abi_layout (OriginalMessage df) ?sig) < 2 ^ 63"
    using length_padToMultipleOf32_lt[of ?sig] assms(6,7) by (simp add: length_abi_layout)
  then have "abiDecodeTwo (abi_layout (OriginalMessage df) ?sig) = Returns (Inr (OriginalMessage df, ?sig))"
    by (rule abi_roundtrip)
  ultimately show ?thesis
    by (intro exI[of _ ?ar] exI[of _ "abi_layout (OriginalMessage df) ?sig"]) (simp add: Version_def)
qed

section \<open>A concrete library for witnesses\<close>

text \<open>
  An instance of the external packages on which the definitions compute: keys are natural numbers,
  the first byte of an action's message selects the command and the rest is the message, hashes of
  names are their bytes read as a number, a compact signature is 27, the key and the message.
\<close>

definition demo_lib :: "nat ext_lib" where
  "demo_lib = \<lparr>
     ToHash = (\<lambda>s. of_nat (be_nat (str_bytes s))),
     hashHex = (\<lambda>h. ''0x'' @ show_hex (unat h)),
     decodeAction = (\<lambda>b. if b = [] then Inl (errorf ''EOF'')
        else Inr \<lparr>aID = 7, aSubmissionTag = ''submit'', aMessage = b\<rparr>),
     ParseFixed = (\<lambda>b. case b of [] \<Rightarrow> Inl (errorf ''empty'')
        | c # m \<Rightarrow> Inr \<lparr>OPType = of_nat (be_nat (str_bytes OPTypeKey)),
             OPCommand = (if c = 1 then of_nat (be_nat (str_bytes OPCommandUpdate))
                          else if c = 2 then of_nat (be_nat (str_bytes OPCommandSign)) else 0),
             OriginalMessage = m\<rparr>),
     marshalResult = (\<lambda>r. rStatus r # (case rData r of None \<Rightarrow> [] | Some d \<Rightarrow> d)),
     unmarshalResult = (\<lambda>b. None),
     jsonDecodeError = (\<lambda>b. errorf ''EOF''),
     PrivKeyFromBytes = be_nat,
     keyIsZero = (\<lambda>k. k = 0),
     Keccak = (\<lambda>m. padLeft m 32),
     SignCompact = (\<lambda>k h c. 27 # padLeft (be_bytes k) 32 @ h)\<rparr>"

definition demo_node :: node where
  "demo_node url ct body = HttpReply 200 (decrypt_reply [5])"

definition demo_update :: "node \<times> http_request" where
  "demo_update = (demo_node, \<lparr>hMethod = ''POST'', hPath = ''/action'', hBody = [1, 9]\<rparr>)"

definition demo_sign :: "node \<times> http_request" where
  "demo_sign = (demo_node, \<lparr>hMethod = ''POST'', hPath = ''/action'', hBody = [2, 10, 20]\<rparr>)"

definition demo_state :: "node \<times> http_request" where
  "demo_state = (demo_node, \<lparr>hMethod = ''GET'', hPath = ''/state'', hBody = []\<rparr>)"

lemma demo_hashes:
  "ToHash demo_lib OPTypeKey = 0x4b4559"
  "ToHash demo_lib OPCommandUpdate = 0x555044415445"
  "ToHash demo_lib OPCommandSign = 0x5349474e"
  by (simp_all add: demo_lib_def OPTypeKey_def OPCommandUpdate_def OPCommandSign_def be_nat_def str_bytes_def)

lemma demo_action_of:
  "action_of demo_lib (snd demo_update) =
     Some (\<lparr>aID = 7, aSubmissionTag = ''submit'', aMessage = [1, 9]\<rparr>,
       \<lparr>OPType = 0x4b4559, OPCommand = 0x555044415445, OriginalMessage = [9]\<rparr>)"
  "action_of demo_lib (snd demo_sign) =
     Some (\<lparr>aID = 7, aSubmissionTag = ''submit'', aMessage = [2, 10, 20]\<rparr>,
       \<lparr>OPType = 0x4b4559, OPCommand = 0x5349474e, OriginalMessage = [10, 20]\<rparr>)"
  by (simp_all add: action_of_def demo_update_def demo_sign_def demo_lib_def OPTypeKey_def OPCommandUpdate_def
      OPCommandSign_def be_nat_def str_bytes_def)

lemma demo_delivered [simp]: "delivered_key demo_lib port demo_update = Some 5"
proof -
  have "decryptViaNode demo_lib (fst demo_update) port [9] = Inr [5]"
    by (simp add: decryptViaNode_def demo_update_def demo_node_def decryptResponse_reply)
  moreover have "usable_key_bytes demo_lib [5]" "PrivKeyFromBytes demo_lib (padLeft [5] 32) = 5"
    by (simp_all add: usable_key_bytes_def demo_lib_def be_nat_padLeft) (simp_all add: be_nat_def)
  ultimately show ?thesis
    by (simp add: delivered_key_def demo_action_of is_update_def demo_hashes)
qed

section \<open>Properties\<close>

text \<open>
  C1: Whatever the requests and the node's answers, the key the extension holds after a run is the
  last key that was delivered: the bytes the node decrypted for an UPDATE action with a non-empty
  message, when they are 1 to 32 bytes that do not give the zero key. No other request (SIGN,
  malformed, unknown command, failed decryption, GET /state) changes it; this is the refinement of
  the server to a cell that only successful updates write.
\<close>

theorem key_history:
  "privateKey (run_steps (serve_state lib) e evs) =
     (case rev (List.map_filter (delivered_key lib (signPort e)) evs) of
        [] \<Rightarrow> privateKey e
      | k # _ \<Rightarrow> Some k)"
proof (induction evs arbitrary: e)
  case Nil
  then show ?case by (simp add: map_filter_simps)
next
  case (Cons ev evs)
  then show ?case
    by (cases "rev (List.map_filter (delivered_key lib (signPort e)) evs)";
        cases "delivered_key lib (signPort e) ev")
      (simp_all add: map_filter_simps serve_state_cell cell_step_def)
qed

text \<open>
  C10: A server that starts without a key never holds the zero key, and any key it ever holds was
  delivered by one of the requests it served.
\<close>

theorem stored_key_provenance:
  assumes "privateKey (run_steps (serve_state lib) (New port) evs) = Some k"
  shows "\<not> keyIsZero lib k \<and> (\<exists>ev \<in> set evs. delivered_key lib port ev = Some k)"
proof -
  have "key_ok lib (run_steps (serve_state lib) (New port) evs)"
    by (rule ext_run.run_inv) (simp add: key_ok_def New_def)
  with assms have "\<not> keyIsZero lib k" by (simp add: key_ok_def)
  moreover have "k \<in> set (List.map_filter (delivered_key lib port) evs)"
    using assms key_history[of lib "New port" evs]
    by (cases "rev (List.map_filter (delivered_key lib port) evs)")
      (auto simp: New_def dest: arg_cong[of _ _ set])
  ultimately show ?thesis by (auto simp: map_filter_def)
qed

theorem stored_key_provenance_witness:
  "\<not> keyIsZero demo_lib 5 \<and> (\<exists>ev \<in> set [demo_update]. delivered_key demo_lib 7701 ev = Some 5)"
  by (rule stored_key_provenance[of demo_lib 7701 "[demo_update]"])
    (simp add: serve_state_cell cell_step_def New_def)

text \<open>
  C7: No reply leaks the key except a signature: two servers on the same port that agree on whether
  they hold a key answer every request that is not a SIGN action alike, log the same lines and
  still agree afterwards.
\<close>

theorem only_signatures_depend_on_key:
  assumes "signPort e = signPort e'" and "(privateKey e = None) = (privateKey e' = None)"
    and "\<And>a df. action_of lib req = Some (a, df) \<Longrightarrow> \<not> is_sign lib df"
  shows "fst (serve lib nd e req) = fst (serve lib nd e' req) \<and>
    fst (snd (serve lib nd e req)) = fst (snd (serve lib nd e' req)) \<and>
    (privateKey (snd (snd (serve lib nd e req))) = None) =
      (privateKey (snd (snd (serve lib nd e' req))) = None)"
proof -
  have upd: "fst (processKeyUpdate lib nd e a df) = fst (processKeyUpdate lib nd e' a df)" for a df
    using assms(1) by (simp add: processKeyUpdate_def split: sum.splits)
  have act: "fst (processAction lib nd e a) = fst (processAction lib nd e' a)"
    if "hPath req = ''/action''" "hMethod req = ''POST''" "decodeAction lib (hBody req) = Inr a" for a
  proof (cases "ParseFixed lib (aMessage a)")
    case (Inr df)
    with that have "action_of lib req = Some (a, df)" by (simp add: action_of_def)
    with assms(3) have "\<not> is_sign lib df" by blast
    with Inr upd[of a df] show ?thesis
      by (auto simp: processAction_def processKey_def is_sign_def split: prod.splits)
  qed (simp add: processAction_def)
  have "fst (serve lib nd e req) = fst (serve lib nd e' req) \<and>
      fst (snd (serve lib nd e req)) = fst (snd (serve lib nd e' req))"
  proof (cases "hPath req = ''/action'' \<and> hMethod req = ''POST''")
    case True
    then show ?thesis
      using act by (cases "decodeAction lib (hBody req)")
        (force simp: serve_def actionHandler_def Let_def split: prod.splits outcome.splits)+
  next
    case False
    then show ?thesis
      using assms(2) by (auto simp: serve_def stateHandler_def state_response_of_def)
  qed
  moreover have "(privateKey (snd (snd (serve lib nd e req))) = None) =
      (privateKey (snd (snd (serve lib nd e' req))) = None)"
    using serve_state_cell[of lib e "(nd, req)"] serve_state_cell[of lib e' "(nd, req)"] assms(1,2)
    by (auto simp: serve_state_def cell_step_def split: option.splits)
  ultimately show ?thesis by blast
qed

theorem only_signatures_depend_on_key_witness:
  "fst (serve demo_lib demo_node \<lparr>signPort = 7701, privateKey = Some 3\<rparr> (snd demo_state)) =
   fst (serve demo_lib demo_node \<lparr>signPort = 7701, privateKey = Some 4\<rparr> (snd demo_state))"
  using only_signatures_depend_on_key[of "\<lparr>signPort = 7701, privateKey = Some 3\<rparr>"
      "\<lparr>signPort = 7701, privateKey = Some 4\<rparr>" demo_lib "snd demo_state" demo_node]
  by (simp add: action_of_def demo_state_def)



text \<open>
  An UPDATE reports success (status 1, log "ok") exactly when its message is not empty, the node
  decrypts it and the plaintext is usable key bytes, and then the key is stored. In every other case
  it reports status 0 with a log that begins with "error: " and the state is the one before. It never
  returns data.
\<close>

theorem update_outcome:
  "let (ar, e') = processKeyUpdate lib nd e a df in
     rData ar = None \<and>
     (if OriginalMessage df \<noteq> [] \<and>
         (\<exists>b. decryptViaNode lib nd (signPort e) (OriginalMessage df) = Inr b \<and> usable_key_bytes lib b)
      then rStatus ar = 1 \<and> rLog ar = ''ok'' \<and>
         (\<exists>b. decryptViaNode lib nd (signPort e) (OriginalMessage df) = Inr b \<and>
            e' = e\<lparr>privateKey := Some (PrivKeyFromBytes lib (padLeft b 32))\<rparr>)
      else rStatus ar = 0 \<and> HasPrefix (rLog ar) ''error: '' \<and> e' = e)"
proof (cases "OriginalMessage df = []")
  case True
  then show ?thesis by (simp add: processKeyUpdate_def HasPrefix_def)
next
  case msg: False
  show ?thesis
  proof (cases "decryptViaNode lib nd (signPort e) (OriginalMessage df)")
    case (Inl err)
    with msg show ?thesis by (simp add: processKeyUpdate_def HasPrefix_def prefixf_def)
  next
    case dec: (Inr b)
    show ?thesis
    proof (cases "parseSecp256k1PrivateKey lib b")
      case (Inl err)
      then have "\<not> usable_key_bytes lib b" by (metis Inl_Inr_False parse_key_Inr_iff)
      with Inl dec msg show ?thesis by (simp add: processKeyUpdate_def HasPrefix_def prefixf_def)
    next
      case (Inr k)
      with parse_key_Inr_iff[of lib b k] dec msg show ?thesis
        by (simp add: processKeyUpdate_def)
    qed
  qed
qed

text \<open>A tee-node that decrypts with \<open>dec\<close>: it answers what the request's field decodes to.\<close>

definition honest_node :: "(bytes \<Rightarrow> bytes) \<Rightarrow> node" where
  "honest_node dec url ct body = (case decode_field ''encryptedMessage'' body of
     None \<Rightarrow> HttpReply 400 [] | Some c \<Rightarrow> HttpReply 200 (decrypt_reply (dec c)))"

lemma update_through_node_plain: "decryptViaNode lib (honest_node dec) port c = Inr (dec c)"
  by (simp add: decryptViaNode_def honest_node_def decode_request decryptResponse_reply)

text \<open>
  C6: The exchange with the node loses nothing: when the node decrypts the field it reads from the
  request and answers in the same form, the extension gets exactly the plaintext of the message it
  sent, and an UPDATE stores the key of these bytes if they are usable and keeps the old key if not.
\<close>

theorem update_through_node:
  assumes "action_of lib req = Some (a, df)" "is_update lib df" "OriginalMessage df \<noteq> []"
  shows "decryptViaNode lib (honest_node dec) port (OriginalMessage df) = Inr (dec (OriginalMessage df)) \<and>
    privateKey (serve_state lib e (honest_node dec, req)) =
      (if usable_key_bytes lib (dec (OriginalMessage df))
       then Some (PrivKeyFromBytes lib (padLeft (dec (OriginalMessage df)) 32)) else privateKey e)"
  using assms by (simp add: update_through_node_plain serve_state_cell delivered_key_def cell_step_def)

theorem update_through_node_witness:
  "privateKey (serve_state demo_lib (New 7701) (honest_node (\<lambda>c. [3]), snd demo_update)) =
     (if usable_key_bytes demo_lib [3] then Some (PrivKeyFromBytes demo_lib (padLeft [3] 32)) else None)"
  using update_through_node[OF demo_action_of(1), of "\<lambda>c. [3]" 7701 "New 7701"]
  by (simp add: is_update_def demo_hashes New_def)

definition expected_status :: "'key ext_lib \<Rightarrow> http_request \<Rightarrow> int" where
  "expected_status lib req =
     (if hPath req = ''/state'' then (if hMethod req \<in> {''GET'', ''HEAD''} then 200 else 405)
      else if hPath req \<noteq> ''/action'' then 404
      else if hMethod req \<noteq> ''POST'' then 405
      else case action_of lib req of
        None \<Rightarrow> 400
      | Some (a, df) \<Rightarrow> if is_update lib df \<or> is_sign lib df then 200 else 501)"


definition scalar_law :: "'key ext_lib \<Rightarrow> ('key \<Rightarrow> nat) \<Rightarrow> nat \<Rightarrow> bool" where
  "scalar_law lib val n \<longleftrightarrow>
     (\<forall>b. length b = 32 \<longrightarrow> val (PrivKeyFromBytes lib b) = be_nat b mod n) \<and>
     (\<forall>k. keyIsZero lib k \<longleftrightarrow> val k = 0)"

text \<open>
  C13: What the library documents of \<open>PrivKeyFromBytes\<close> (32 bytes are read as a big-endian number
  modulo the group order) makes the accepted keys exactly the strings of 1 to 32 bytes whose value is
  not a multiple of the order, and the stored scalar that value modulo the order. A value above the
  order is therefore accepted as another key instead of being refused.
\<close>

theorem accepted_scalars:
  assumes "scalar_law lib val n"
  shows "(case parseSecp256k1PrivateKey lib b of
       Inr k \<Rightarrow> 0 < length b \<and> length b \<le> 32 \<and> \<not> n dvd be_nat b \<and> val k = be_nat b mod n
     | Inl err \<Rightarrow> length b = 0 \<or> 32 < length b \<or> n dvd be_nat b)"
proof (cases "0 < length b \<and> length b \<le> 32")
  case True
  then have "val (PrivKeyFromBytes lib (padLeft b 32)) = be_nat b mod n"
    using assms by (simp add: scalar_law_def be_nat_padLeft)
  with True assms show ?thesis
    by (auto simp: parseSecp256k1PrivateKey_def scalar_law_def Let_def dvd_eq_mod_eq_0)
next
  case False
  then show ?thesis by (auto simp: parseSecp256k1PrivateKey_def)
qed

theorem accepted_scalars_witness:
  "case parseSecp256k1PrivateKey (demo_lib\<lparr>PrivKeyFromBytes := \<lambda>b. be_nat b mod 7\<rparr>) [8] of
     Inr k \<Rightarrow> 0 < length [8 :: byte] \<and> length [8 :: byte] \<le> 32 \<and> \<not> 7 dvd be_nat [8] \<and> id k = be_nat [8] mod 7
   | Inl err \<Rightarrow> length [8 :: byte] = 0 \<or> 32 < length [8 :: byte] \<or> 7 dvd be_nat [8]"
  by (rule accepted_scalars) (simp add: scalar_law_def demo_lib_def)

end
