(* ===== verification/Ext_Concurrency.thy ===== *)
theory Ext_Concurrency
  imports Extension
begin

text \<open>
  The extension under concurrent requests. \<open>net/http\<close> runs a goroutine per request; the mutex of
  \<open>Extension\<close> protects only the read and the write of the key, so decrypting and signing of
  different requests overlap. The goroutines are program counters indexed by a request number; each
  rule of \<open>cstep\<close> is one stretch of a handler between two accesses to the shared key
  (\<open>stateHandler\<close>, \<open>processKeyUpdate\<close>, \<open>processKeySign\<close> in \<open>extension.go\<close>). The list
  \<open>order\<close> records, for the proofs only, in which order the requests took effect.
\<close>

datatype 'key pc =
    Waiting
  | Arrived
  | Decrypted 'key
  | HasSnapshot action data_fixed "'key option"
  | Answered reply

record 'key sys =
  ext :: "'key ext_state"
  pcs :: "nat \<Rightarrow> 'key pc"
  order :: "nat list"

definition init_sys :: "'key ext_state \<Rightarrow> 'key sys" where
  "init_sys e = \<lparr>ext = e, pcs = (\<lambda>_. Waiting), order = []\<rparr>"

text \<open>The answer of a SIGN handler that read \<open>stored\<close> under the lock.\<close>

definition sign_answer :: "'key ext_lib \<Rightarrow> 'key option \<Rightarrow> action \<Rightarrow> data_fixed \<Rightarrow> reply" where
  "sign_answer lib stored a df =
     reply_of (bind_outcome (processKeySign lib stored a df) (\<lambda>ar. Returns (200, marshalResult lib ar)))"

inductive cstep :: "'key ext_lib \<Rightarrow> (nat \<Rightarrow> node \<times> http_request) \<Rightarrow> 'key sys \<Rightarrow> 'key sys \<Rightarrow> bool"
  for lib reqs where
  arrive: "pcs s i = Waiting \<Longrightarrow> cstep lib reqs s (s\<lparr>pcs := (pcs s)(i := Arrived)\<rparr>)"
| no_access: "pcs s i = Arrived \<Longrightarrow> hPath (snd (reqs i)) \<noteq> ''/state'' \<Longrightarrow>
    (\<And>a df. action_of lib (snd (reqs i)) = Some (a, df) \<Longrightarrow> \<not> is_sign lib df) \<Longrightarrow>
    delivered_key lib (signPort (ext s)) (reqs i) = None \<Longrightarrow>
    cstep lib reqs s (s\<lparr>pcs := (pcs s)(i := Answered (serve_reply lib (ext s) (reqs i))), order := order s @ [i]\<rparr>)"
| state_read: "pcs s i = Arrived \<Longrightarrow> hPath (snd (reqs i)) = ''/state'' \<Longrightarrow>
    cstep lib reqs s (s\<lparr>pcs := (pcs s)(i := Answered (serve_reply lib (ext s) (reqs i))), order := order s @ [i]\<rparr>)"
| update_ready: "pcs s i = Arrived \<Longrightarrow> delivered_key lib (signPort (ext s)) (reqs i) = Some k \<Longrightarrow>
    cstep lib reqs s (s\<lparr>pcs := (pcs s)(i := Decrypted k)\<rparr>)"
| update_store: "pcs s i = Decrypted k \<Longrightarrow> action_of lib (snd (reqs i)) = Some (a, df) \<Longrightarrow>
    cstep lib reqs s (s\<lparr>ext := (ext s)\<lparr>privateKey := Some k\<rparr>,
      pcs := (pcs s)(i := Answered (Reply 200 (marshalResult lib (buildResult a df None 1 None)))),
      order := order s @ [i]\<rparr>)"
| sign_read: "pcs s i = Arrived \<Longrightarrow> action_of lib (snd (reqs i)) = Some (a, df) \<Longrightarrow> is_sign lib df \<Longrightarrow>
    cstep lib reqs s (s\<lparr>pcs := (pcs s)(i := HasSnapshot a df (privateKey (ext s))), order := order s @ [i]\<rparr>)"
| sign_finish: "pcs s i = HasSnapshot a df stored \<Longrightarrow>
    cstep lib reqs s (s\<lparr>pcs := (pcs s)(i := Answered (sign_answer lib stored a df))\<rparr>)"

inductive_cases cstep_elim: "cstep lib reqs s t"

text \<open>The same requests one after the other, with the answer of each.\<close>

fun seq_replies ::
  "'key ext_lib \<Rightarrow> (nat \<Rightarrow> node \<times> http_request) \<Rightarrow> 'key ext_state \<Rightarrow> nat list \<Rightarrow> (nat \<times> reply) list" where
  "seq_replies lib reqs e [] = []"
| "seq_replies lib reqs e (i # is) =
     (i, serve_reply lib e (reqs i)) # seq_replies lib reqs (serve_state lib e (reqs i)) is"

lemma seq_replies_snoc:
  "seq_replies lib reqs e (is @ [i]) =
     seq_replies lib reqs e is @ [(i, serve_reply lib (run_steps (serve_state lib) e (map reqs is)) (reqs i))]"
  by (induction "is" arbitrary: e) auto

text \<open>The answer and the effect of a single request by its kind.\<close>

lemma serve_reply_sign:
  assumes "action_of lib (snd ev) = Some (a, df)" and "is_sign lib df"
  shows "serve_reply lib e ev = sign_answer lib (privateKey e) a df"
proof -
  from assms(1) have req: "hPath (snd ev) = ''/action''" "hMethod (snd ev) = ''POST''"
      "decodeAction lib (hBody (snd ev)) = Inr a" "ParseFixed lib (aMessage a) = Inr df"
    by (auto simp: action_of_def split: if_splits sum.splits)
  have "fst (processAction lib (fst ev) e a) =
      bind_outcome (processKeySign lib (privateKey e) a df) (\<lambda>ar. Returns (200, marshalResult lib ar))"
    using req(4) assms(2) by (auto simp: processAction_def processKey_def is_sign_def)
  with req show ?thesis
    by (simp add: serve_reply_def serve_def actionHandler_reply sign_answer_def)
qed

lemma serve_reply_update:
  assumes "delivered_key lib (signPort e) ev = Some k" and "action_of lib (snd ev) = Some (a, df)"
  shows "serve_reply lib e ev = Reply 200 (marshalResult lib (buildResult a df None 1 None))"
proof -
  from assms(2) have req: "hPath (snd ev) = ''/action''" "hMethod (snd ev) = ''POST''"
      "decodeAction lib (hBody (snd ev)) = Inr a" "ParseFixed lib (aMessage a) = Inr df"
    by (auto simp: action_of_def split: if_splits sum.splits)
  from assms obtain b where upd: "is_update lib df" "OriginalMessage df \<noteq> []"
      "decryptViaNode lib (fst ev) (signPort e) (OriginalMessage df) = Inr b" "usable_key_bytes lib b"
    by (auto simp: delivered_key_def split: if_splits sum.splits)
  then have "parseSecp256k1PrivateKey lib b = Inr (PrivKeyFromBytes lib (padLeft b 32))"
    by (simp add: parse_key_Inr_iff)
  with upd have "fst (processKeyUpdate lib (fst ev) e a df) = buildResult a df None 1 None"
    by (simp add: processKeyUpdate_def)
  with upd(1) req(4) have "fst (processAction lib (fst ev) e a) =
      Returns (200, marshalResult lib (buildResult a df None 1 None))"
    by (cases "processKeyUpdate lib (fst ev) e a df") (simp add: processAction_def processKey_def is_update_def)
  with req show ?thesis
    by (simp add: serve_reply_def serve_def actionHandler_reply)
qed

lemma delivered_not_sign:
  "action_of lib (snd ev) = Some (a, df) \<Longrightarrow> is_sign lib df \<Longrightarrow> delivered_key lib port ev = None"
  by (auto simp: delivered_key_def is_sign_def is_update_def)

lemma delivered_not_state: "hPath (snd ev) = ''/state'' \<Longrightarrow> delivered_key lib port ev = None"
  by (simp add: delivered_key_def action_of_def)

lemma serve_state_undelivered: "delivered_key lib (signPort e) ev = None \<Longrightarrow> serve_state lib e ev = e"
  by (simp add: serve_state_cell cell_step_def)

text \<open>The invariant: how the program counters, the shared key and the recorded order agree.\<close>

fun thread_ok ::
  "'key ext_lib \<Rightarrow> (nat \<Rightarrow> node \<times> http_request) \<Rightarrow> 'key ext_state \<Rightarrow> nat list \<Rightarrow> nat \<Rightarrow> 'key pc \<Rightarrow> bool" where
  "thread_ok lib reqs e0 ord i Waiting \<longleftrightarrow> i \<notin> set ord"
| "thread_ok lib reqs e0 ord i Arrived \<longleftrightarrow> i \<notin> set ord"
| "thread_ok lib reqs e0 ord i (Decrypted k) \<longleftrightarrow>
     i \<notin> set ord \<and> delivered_key lib (signPort e0) (reqs i) = Some k"
| "thread_ok lib reqs e0 ord i (HasSnapshot a df stored) \<longleftrightarrow>
     (i, sign_answer lib stored a df) \<in> set (seq_replies lib reqs e0 ord)"
| "thread_ok lib reqs e0 ord i (Answered r) \<longleftrightarrow> (i, r) \<in> set (seq_replies lib reqs e0 ord)"

definition lin_inv ::
  "'key ext_lib \<Rightarrow> (nat \<Rightarrow> node \<times> http_request) \<Rightarrow> 'key ext_state \<Rightarrow> 'key sys \<Rightarrow> bool" where
  "lin_inv lib reqs e0 s \<longleftrightarrow>
     ext s = run_steps (serve_state lib) e0 (map reqs (order s)) \<and>
     distinct (order s) \<and> (\<forall>i. thread_ok lib reqs e0 (order s) i (pcs s i))"

lemma seq_replies_fst: "(i, r) \<in> set (seq_replies lib reqs e is) \<Longrightarrow> i \<in> set is"
  by (induction "is" arbitrary: e) auto

lemma thread_ok_other:
  "i \<noteq> j \<Longrightarrow> thread_ok lib reqs e0 ord j p \<Longrightarrow> thread_ok lib reqs e0 (ord @ [i]) j p"
  by (cases p) (auto simp: seq_replies_snoc)

text \<open>A step that does not touch the key only moves one counter.\<close>

lemma lin_inv_local:
  assumes "lin_inv lib reqs e0 s" and "thread_ok lib reqs e0 (order s) i p"
  shows "lin_inv lib reqs e0 (s\<lparr>pcs := (pcs s)(i := p)\<rparr>)"
  using assms by (simp add: lin_inv_def)

text \<open>Taking effect: request \<open>i\<close> is appended to the order and its counter moves on.\<close>

lemma lin_inv_effect:
  assumes inv: "lin_inv lib reqs e0 s" and i: "i \<notin> set (order s)"
    and e': "e' = serve_state lib (ext s) (reqs i)"
    and p: "thread_ok lib reqs e0 (order s @ [i]) i p"
  shows "lin_inv lib reqs e0 (s\<lparr>ext := e', pcs := (pcs s)(i := p), order := order s @ [i]\<rparr>)"
proof -
  have "thread_ok lib reqs e0 (order s @ [i]) j (((pcs s)(i := p)) j)" for j
    using inv p by (cases "j = i") (auto simp: lin_inv_def intro: thread_ok_other)
  moreover have "run_steps (serve_state lib) e0 (map reqs (order s)) = ext s"
    using inv by (simp add: lin_inv_def)
  ultimately show ?thesis
    using inv i e' by (simp add: lin_inv_def run_steps_append)
qed

lemma reply_in_order:
  assumes "lin_inv lib reqs e0 s"
  shows "(i, serve_reply lib (ext s) (reqs i)) \<in> set (seq_replies lib reqs e0 (order s @ [i]))"
  using assms by (simp add: lin_inv_def seq_replies_snoc)

lemma lin_inv_thread: "lin_inv lib reqs e0 s \<Longrightarrow> pcs s i = p \<Longrightarrow> thread_ok lib reqs e0 (order s) i p"
  by (auto simp: lin_inv_def)

lemma lin_inv_port: "lin_inv lib reqs e0 s \<Longrightarrow> signPort (ext s) = signPort e0"
  by (simp add: lin_inv_def)

lemma lin_inv_step:
  assumes "cstep lib reqs s t" and inv: "lin_inv lib reqs e0 s"
  shows "lin_inv lib reqs e0 t"
  using assms(1)
proof cases
  case (arrive i)
  with inv lin_inv_thread[OF inv arrive(2)] show ?thesis by (simp add: lin_inv_local)
next
  case (no_access i)
  have "i \<notin> set (order s)" using lin_inv_thread[OF inv no_access(2)] by simp
  from lin_inv_effect[OF inv this, of "ext s" "Answered (serve_reply lib (ext s) (reqs i))"]
  show ?thesis
    using no_access reply_in_order[OF inv] by (simp add: serve_state_undelivered)
next
  case (state_read i)
  have "i \<notin> set (order s)" using lin_inv_thread[OF inv state_read(2)] by simp
  from lin_inv_effect[OF inv this, of "ext s" "Answered (serve_reply lib (ext s) (reqs i))"]
  show ?thesis
    using state_read reply_in_order[OF inv] by (simp add: serve_state_undelivered delivered_not_state)
next
  case (update_ready i k)
  with inv lin_inv_thread[OF inv update_ready(2)] lin_inv_port[OF inv] show ?thesis
    by (simp add: lin_inv_local)
next
  case (update_store i k a df)
  have i: "i \<notin> set (order s)" and k: "delivered_key lib (signPort (ext s)) (reqs i) = Some k"
    using lin_inv_thread[OF inv update_store(2)] lin_inv_port[OF inv] by simp_all
  have "(ext s)\<lparr>privateKey := Some k\<rparr> = serve_state lib (ext s) (reqs i)"
    by (simp add: serve_state_cell k cell_step_def)
  moreover have "serve_reply lib (ext s) (reqs i) = Reply 200 (marshalResult lib (buildResult a df None 1 None))"
    using k update_store(3) by (rule serve_reply_update)
  ultimately show ?thesis
    using update_store(1) reply_in_order[OF inv, of i] lin_inv_effect[OF inv i] by simp
next
  case (sign_read i a df)
  have i: "i \<notin> set (order s)" using lin_inv_thread[OF inv sign_read(2)] by simp
  have "serve_state lib (ext s) (reqs i) = ext s"
    using sign_read by (simp add: serve_state_undelivered delivered_not_sign)
  moreover have "serve_reply lib (ext s) (reqs i) = sign_answer lib (privateKey (ext s)) a df"
    using sign_read(3,4) by (rule serve_reply_sign)
  ultimately show ?thesis
    using sign_read(1) reply_in_order[OF inv, of i]
      lin_inv_effect[OF inv i, of "ext s" "HasSnapshot a df (privateKey (ext s))"] by simp
next
  case (sign_finish i a df stored)
  with inv lin_inv_thread[OF inv sign_finish(2)] show ?thesis by (simp add: lin_inv_local)
qed

interpretation linearized: step_invariant "init_sys e0" "cstep lib reqs" "lin_inv lib reqs e0"
  for lib reqs e0
  by unfold_locales (simp add: lin_inv_def init_sys_def, rule lin_inv_step)

text \<open>
  C2: However the goroutines interleave, there is an order of the requests that took effect, each
  once, such that handling them one at a time in that order gives the key the server holds now and
  the very answer each finished request got.
\<close>

theorem linearizable:
  assumes "reach (init_sys e0) (cstep lib reqs) s"
  shows "\<exists>ord. distinct ord \<and> ext s = run_steps (serve_state lib) e0 (map reqs ord) \<and>
    (\<forall>i r. pcs s i = Answered r \<longrightarrow> (i, r) \<in> set (seq_replies lib reqs e0 ord))"
proof -
  have "lin_inv lib reqs e0 s" using assms by (rule linearized.reach_inv)
  then show ?thesis
    by (intro exI[of _ "order s"]) (auto simp: lin_inv_def dest!: lin_inv_thread[rotated])
qed

text \<open>A request that waits for the second while the first is decrypting, and takes effect before it.\<close>

definition demo_reqs :: "nat \<Rightarrow> node \<times> http_request" where
  "demo_reqs i = (if i = 0 then demo_update else demo_state)"

lemma linearized_exI:
  "\<exists>ord. distinct ord \<and> ext s = f ord \<Longrightarrow> pcs s 0 = p \<and> pcs s 1 = q \<Longrightarrow>
   \<exists>ord. \<exists>s :: 'key sys. distinct ord \<and> ext s = f ord \<and> pcs s 0 = p \<and> pcs s 1 = q"
  for s :: "'key sys"
  by blast

theorem linearizable_witness:
  "\<exists>ord. \<exists>s :: nat sys. distinct ord \<and> ext s = run_steps (serve_state demo_lib) (New 7701) (map demo_reqs ord) \<and>
    pcs s 0 = Decrypted 5 \<and> pcs s 1 = Answered (stateHandler demo_lib (New 7701))"
proof -
  let ?s0 = "init_sys (New 7701) :: nat sys"
  let ?s1 = "?s0\<lparr>pcs := (pcs ?s0)(0 := Arrived)\<rparr>"
  let ?s2 = "?s1\<lparr>pcs := (pcs ?s1)(1 := Arrived)\<rparr>"
  let ?s3 = "?s2\<lparr>pcs := (pcs ?s2)(0 := Decrypted 5)\<rparr>"
  let ?s4 = "?s3\<lparr>pcs := (pcs ?s3)(1 := Answered (serve_reply demo_lib (ext ?s3) (demo_reqs 1))), order := order ?s3 @ [1]\<rparr>"
  have "reach ?s0 (cstep demo_lib demo_reqs) ?s1"
    by (rule reach_step[OF reach_init]) (rule arrive, simp add: init_sys_def)
  then have "reach ?s0 (cstep demo_lib demo_reqs) ?s2"
    by (rule reach_step) (rule arrive, simp add: init_sys_def)
  then have "reach ?s0 (cstep demo_lib demo_reqs) ?s3"
    by (rule reach_step) (rule update_ready, simp_all add: demo_reqs_def)
  then have "reach ?s0 (cstep demo_lib demo_reqs) ?s4"
    by (rule reach_step) (rule state_read, simp_all add: demo_reqs_def demo_state_def)
  from linearizable[OF this] have "\<exists>ord. distinct ord \<and>
      ext ?s4 = run_steps (serve_state demo_lib) (New 7701) (map demo_reqs ord)" by blast
  moreover have "pcs ?s4 0 = Decrypted 5 \<and> pcs ?s4 1 = Answered (stateHandler demo_lib (New 7701))"
    by (simp add: serve_reply_def serve_def demo_reqs_def demo_state_def init_sys_def)
  ultimately show ?thesis by (rule linearized_exI)
qed

section \<open>Every request is answered\<close>

text \<open>How many steps a request still has to take at most.\<close>

fun steps_left :: "'key pc \<Rightarrow> nat" where
  "steps_left Waiting = 3"
| "steps_left Arrived = 2"
| "steps_left (Decrypted k) = 1"
| "steps_left (HasSnapshot a df stored) = 1"
| "steps_left (Answered r) = 0"

lemma steps_left_0: "steps_left p = 0 \<longleftrightarrow> (\<exists>r. p = Answered r)"
  by (cases p) auto

lemma cstep_progress:
  "cstep lib reqs s t \<Longrightarrow> pcs t i = pcs s i \<or> steps_left (pcs t i) < steps_left (pcs s i)"
  by (auto elim!: cstep_elim)

definition can_move :: "'key ext_lib \<Rightarrow> (nat \<Rightarrow> node \<times> http_request) \<Rightarrow> nat \<Rightarrow> 'key sys \<Rightarrow> bool" where
  "can_move lib reqs i s \<longleftrightarrow> (\<exists>t. cstep lib reqs s t \<and> pcs t i \<noteq> pcs s i)"

lemma can_moveI: "cstep lib reqs s t \<Longrightarrow> pcs t i \<noteq> pcs s i \<Longrightarrow> can_move lib reqs i s"
  by (auto simp: can_move_def)

text \<open>No request is ever blocked: whatever the others do, one that is not answered can take a step.\<close>

lemma arrived_can_move:
  assumes "pcs s i = Arrived"
  shows "can_move lib reqs i s"
proof (cases "delivered_key lib (signPort (ext s)) (reqs i)")
  case (Some k)
  show ?thesis by (rule can_moveI, rule update_ready, rule assms, rule Some) (simp add: assms)
next
  case None
  consider "hPath (snd (reqs i)) = ''/state''"
    | a df where "action_of lib (snd (reqs i)) = Some (a, df)" "is_sign lib df"
    | "hPath (snd (reqs i)) \<noteq> ''/state''"
      "\<And>a df. action_of lib (snd (reqs i)) = Some (a, df) \<Longrightarrow> \<not> is_sign lib df"
    by blast
  then show ?thesis
  proof cases
    case 1
    show ?thesis by (rule can_moveI, rule state_read, rule assms, rule 1) (simp add: assms)
  next
    case 2
    show ?thesis by (rule can_moveI, rule sign_read, rule assms, rule 2, rule 2) (simp add: assms)
  next
    case 3
    show ?thesis
      by (rule can_moveI, rule no_access, rule assms, rule 3, erule 3, rule None) (simp add: assms)
  qed
qed

lemma never_blocked:
  assumes "lin_inv lib reqs e0 s" and "steps_left (pcs s i) \<noteq> 0"
  shows "can_move lib reqs i s"
proof (cases "pcs s i")
  case Waiting
  show ?thesis by (rule can_moveI, rule arrive, rule Waiting) (simp add: Waiting)
next
  case Arrived
  then show ?thesis by (rule arrived_can_move)
next
  case (Decrypted k)
  then obtain a df where "action_of lib (snd (reqs i)) = Some (a, df)"
    using lin_inv_thread[OF assms(1) Decrypted] by (auto simp: delivered_key_def split: option.splits)
  note act = this
  show ?thesis by (rule can_moveI, rule update_store, rule Decrypted, rule act) (simp add: Decrypted)
next
  case (HasSnapshot a df stored)
  show ?thesis by (rule can_moveI, rule sign_finish, rule HasSnapshot) (simp add: HasSnapshot)
next
  case (Answered r)
  with assms show ?thesis by simp
qed

text \<open>A run of the server: each moment is a step of some handler, or nothing happens.\<close>

definition server_run :: "'key ext_lib \<Rightarrow> (nat \<Rightarrow> node \<times> http_request) \<Rightarrow> 'key ext_state \<Rightarrow> (nat \<Rightarrow> 'key sys) \<Rightarrow> bool" where
  "server_run lib reqs e0 \<sigma> \<longleftrightarrow> \<sigma> 0 = init_sys e0 \<and>
     (\<forall>n. cstep lib reqs (\<sigma> n) (\<sigma> (Suc n)) \<or> \<sigma> (Suc n) = \<sigma> n)"

lemma server_run_reach: "server_run lib reqs e0 \<sigma> \<Longrightarrow> reach (init_sys e0) (cstep lib reqs) (\<sigma> n)"
proof (induction n)
  case (Suc n)
  from Suc.prems consider "cstep lib reqs (\<sigma> n) (\<sigma> (Suc n))" | "\<sigma> (Suc n) = \<sigma> n"
    by (auto simp: server_run_def)
  then show ?case
    by cases (use Suc reach_step in auto)
qed (simp add: server_run_def reach_init)

lemma server_run_step:
  "server_run lib reqs e0 \<sigma> \<Longrightarrow> pcs (\<sigma> (Suc n)) i = pcs (\<sigma> n) i \<or> steps_left (pcs (\<sigma> (Suc n)) i) < steps_left (pcs (\<sigma> n) i)"
  by (metis cstep_progress server_run_def)

lemma server_run_mono:
  assumes "server_run lib reqs e0 \<sigma>" and "n \<le> m"
  shows "pcs (\<sigma> m) i = pcs (\<sigma> n) i \<or> steps_left (pcs (\<sigma> m) i) < steps_left (pcs (\<sigma> n) i)"
  using assms(2)
proof (induction rule: dec_induct)
  case (step m)
  with server_run_step[OF assms(1), of m i] show ?case by auto
qed simp


text \<open>A run that answers one state request and then idles.\<close>

definition demo_arrived :: "nat sys" where
  "demo_arrived = (init_sys (New 7701))\<lparr>pcs := (pcs (init_sys (New 7701)))(1 := Arrived)\<rparr>"

definition demo_answered :: "nat sys" where
  "demo_answered = demo_arrived\<lparr>pcs := (pcs demo_arrived)
     (1 := Answered (serve_reply demo_lib (ext demo_arrived) (demo_reqs 1))), order := order demo_arrived @ [1]\<rparr>"

definition demo_run :: "nat \<Rightarrow> nat sys" where
  "demo_run n = (if n = 0 then init_sys (New 7701) else if n = 1 then demo_arrived else demo_answered)"

lemma demo_server_run: "server_run demo_lib demo_reqs (New 7701) demo_run"
proof -
  have "cstep demo_lib demo_reqs (init_sys (New 7701)) demo_arrived"
    unfolding demo_arrived_def by (rule arrive) (simp add: init_sys_def)
  moreover have "cstep demo_lib demo_reqs demo_arrived demo_answered"
    unfolding demo_answered_def
    by (rule state_read) (simp_all add: demo_reqs_def demo_state_def demo_arrived_def)
  ultimately have "cstep demo_lib demo_reqs (demo_run n) (demo_run (Suc n)) \<or> demo_run (Suc n) = demo_run n" for n
    by (cases "n = 0"; cases "n = 1") (simp_all add: demo_run_def)
  then show ?thesis by (simp add: server_run_def demo_run_def)
qed

lemma answered_stays: "pcs s i = Answered r \<Longrightarrow> \<not> can_move lib reqs i s"
  by (auto simp: can_move_def dest: cstep_progress[of _ _ _ _ i])


end
