(* ===== verification/Tool_Lib.thy ===== *)
theory Tool_Lib
  imports Prelude
begin

text \<open>
  What the tools use of packages outside the repository without talking to anyone: go-ethereum's
  printing (EIP-55) and parsing of addresses, the address of a key, the EVM key type of the tee-node
  package, and the Unicode table behind \<open>%q\<close>.
\<close>

record 'k tool_lib =
  AddrHex :: "address \<Rightarrow> string"
  HexToAddress :: "string \<Rightarrow> address"
  PubkeyToAddress :: "'k \<Rightarrow> address"
  EVMType :: bytes
  isPrint :: "string \<Rightarrow> bool"

end
