(* ===== verification/Chain.thy ===== *)
theory Chain
  imports Tool_Lib Config Go_Json
begin

text \<open>
  The connection to the chain the tools share: \<open>go/tools/pkg/support/support.go\<close>, the revert decoding
  of \<open>go/tools/pkg/fccutils/revert.go\<close> and the diagnostics of \<open>diag.go\<close>. The node, the contracts and
  the ABI library are outside the repository: they are the fields of the record \<open>chain\<close>, where a call
  that talks to the node takes the world and returns the next one. Log lines of the \<open>logger\<close> package
  are left out, except in the diagnostics, whose only result they are.
\<close>

section \<open>Values\<close>

type_synonym log = bytes

record receipt =
  rcStatus :: nat
  rcLogs :: "log list"
  rcTxHash :: hash

record tx_opts =
  txFrom :: address
  txValue :: "int option"

record tx_view =
  tvTo :: "address option"
  tvGas :: nat
  tvGasPrice :: int
  tvValue :: int
  tvData :: bytes

record call_msg =
  cmFrom :: address
  cmTo :: "address option"
  cmGas :: nat
  cmGasPrice :: "int option"
  cmValue :: "int option"
  cmData :: bytes

text \<open>A custom error of an ABI: its name, its selector and the decoder of its arguments (printed with \<open>%v\<close>).\<close>

record abi_error =
  aeName :: string
  aeSelector :: bytes
  aeUnpack :: "bytes \<Rightarrow> string result"

record ('w, 'k) chain = "'k tool_lib" +
  HashHex :: "hash \<Rightarrow> string"
  FromHex :: "string \<Rightarrow> bytes"
  NewTransactor :: "'k \<Rightarrow> int \<Rightarrow> tx_opts result"
  WaitMined :: "hash \<Rightarrow> ('w, receipt result) io"
  TransactionByHash :: "hash \<Rightarrow> ('w, tx_view result) io"
  TxSender :: "tx_view \<Rightarrow> address result"
  CallContract :: "call_msg \<Rightarrow> ('w, bytes result) io"
  UnpackRevert :: "bytes \<Rightarrow> string result"

section \<open>Addresses\<close>

record Addresses =
  FlareSystemManager :: address
  Fdc2Hub :: address
  FlareTeeManager :: address

definition no_addresses :: Addresses where
  "no_addresses = \<lparr>FlareSystemManager = 0, Fdc2Hub = 0, FlareTeeManager = 0\<rparr>"

record RawContract =
  rawName :: string
  rawContractName :: string
  rawAddress :: string

text \<open>
  \<open>fieldMap\<close>: the JSON tag of each field of \<open>Addresses\<close> (all three are addresses) with the assignment
  through the pointer it maps to.
\<close>

definition fieldMap :: "string \<rightharpoonup> (address \<Rightarrow> Addresses \<Rightarrow> Addresses)" where
  "fieldMap = map_of
     [(''FlareSystemsManager'', \<lambda>a r. r\<lparr>FlareSystemManager := a\<rparr>),
      (''Fdc2Hub'', \<lambda>a r. r\<lparr>Fdc2Hub := a\<rparr>),
      (''FlareTeeManager'', \<lambda>a r. r\<lparr>FlareTeeManager := a\<rparr>)]"

fun assign_contracts :: "(string \<Rightarrow> address) \<Rightarrow> RawContract list \<Rightarrow> Addresses \<Rightarrow> Addresses" where
  "assign_contracts toAddr [] addrs = addrs"
| "assign_contracts toAddr (c # raw) addrs = assign_contracts toAddr raw
     (case fieldMap (rawName c) of None \<Rightarrow> addrs | Some dest \<Rightarrow> dest (toAddr (rawAddress c)) addrs)"

text \<open>
  The two readers of the addresses file: an object with the fields of \<open>Addresses\<close>
  (\<open>configs.ReadAddresses\<close>), or a list of entries (\<open>ParseAddresses\<close>). An address decodes itself from
  the raw text of a string (\<open>fromText\<close>, go-ethereum) and refuses every other value; \<open>jsonErr\<close> is the error
  that \<open>encoding/json\<close> reports for an input it refuses.
\<close>

definition raw_fields :: "string list" where "raw_fields = [''name'', ''contractName'', ''address'']"

definition no_contract :: RawContract where
  "no_contract = \<lparr>rawName = '''', rawContractName = '''', rawAddress = ''''\<rparr>"

definition decode_raw_field :: "string \<Rightarrow> jvalue \<Rightarrow> RawContract \<Rightarrow> RawContract option" where
  "decode_raw_field f v c =
     (if f = ''name'' then map_option (\<lambda>t. c\<lparr>rawName := t\<rparr>) (decode_string v (rawName c))
      else if f = ''contractName'' then map_option (\<lambda>t. c\<lparr>rawContractName := t\<rparr>) (decode_string v (rawContractName c))
      else map_option (\<lambda>t. c\<lparr>rawAddress := t\<rparr>) (decode_string v (rawAddress c)))"

definition decode_contracts :: "jvalue \<Rightarrow> RawContract list option" where
  "decode_contracts v = (case v of
     VArray vs \<Rightarrow> those (map (\<lambda>e. decode_struct raw_fields decode_raw_field e no_contract) vs)
   | VNull \<Rightarrow> Some []
   | _ \<Rightarrow> None)"

definition ParseAddresses ::
  "(string \<Rightarrow> address) \<Rightarrow> (bytes \<Rightarrow> go_error) \<Rightarrow> bytes result \<Rightarrow> Addresses result" where
  "ParseAddresses toAddr jsonErr file = (case file of
     Inl err \<Rightarrow> Inl err
   | Inr content \<Rightarrow> (case Option.bind (parse_json (bytes_str content)) decode_contracts of
       None \<Rightarrow> Inl (jsonErr content)
     | Some raw \<Rightarrow> Inr (assign_contracts toAddr raw no_addresses)))"

definition address_fields :: "string list" where
  "address_fields = [''FlareSystemsManager'', ''Fdc2Hub'', ''FlareTeeManager'']"

definition decode_address_field ::
  "(string \<Rightarrow> address option) \<Rightarrow> string \<Rightarrow> jvalue \<Rightarrow> Addresses \<Rightarrow> Addresses option" where
  "decode_address_field fromText f v r = (case v of
     VString raw \<Rightarrow> (case fromText raw of None \<Rightarrow> None
       | Some a \<Rightarrow> Some (case fieldMap f of None \<Rightarrow> r | Some dest \<Rightarrow> dest a r))
   | _ \<Rightarrow> None)"

definition ReadAddresses ::
  "(string \<Rightarrow> address option) \<Rightarrow> (bytes \<Rightarrow> go_error) \<Rightarrow> bytes result \<Rightarrow> Addresses result" where
  "ReadAddresses fromText jsonErr file = (case file of
     Inl err \<Rightarrow> Inl err
   | Inr content \<Rightarrow>
       (case Option.bind (parse_json (bytes_str content))
           (\<lambda>v. decode_struct address_fields (decode_address_field fromText) v no_addresses) of
          None \<Rightarrow> Inl (jsonErr content)
        | Some r \<Rightarrow> Inr r))"

text \<open>The object form is tried first; its error is dropped. Both read the same file.\<close>

definition read_either ::
  "(string \<Rightarrow> address) \<Rightarrow> (string \<Rightarrow> address option) \<Rightarrow> (bytes \<Rightarrow> go_error) \<Rightarrow> bytes result \<Rightarrow> Addresses result" where
  "read_either toAddr fromText jsonErr file = (case ReadAddresses fromText jsonErr file of
     Inr addr \<Rightarrow> Inr addr
   | Inl _ \<Rightarrow> (case ParseAddresses toAddr jsonErr file of Inl err \<Rightarrow> Inl (restate err) | Inr addr \<Rightarrow> Inr addr))"

section \<open>Support\<close>

record 'k support =
  Prv :: 'k
  SupChainID :: int
  AddressesOf :: Addresses
  bindings :: "(string \<times> address) list"

text \<open>
  \<open>NewSupport\<close>: the contract bindings in the order they are made, each to its address, then the chain
  id. Making a binding (\<open>newBinding\<close>) and asking for the chain id are arguments.
\<close>

definition binding_plan :: "Addresses \<Rightarrow> (string \<times> address) list" where
  "binding_plan addresses =
     (let diamond = FlareTeeManager addresses in
      [(''MachineManager'', diamond), (''WalletManager'', diamond), (''WalletKeyManager'', diamond),
       (''WalletProjectManager'', diamond), (''FlareSystemsManager'', FlareSystemManager addresses),
       (''Fdc2Hub'', Fdc2Hub addresses), (''Verification'', diamond), (''ExtensionManager'', diamond),
       (''OwnerAllowlist'', diamond), (''ExtensionGovernance'', diamond)])"

fun bind_all :: "(string \<Rightarrow> address \<Rightarrow> go_error option) \<Rightarrow> (string \<times> address) list \<Rightarrow> go_error option" where
  "bind_all newBinding [] = None"
| "bind_all newBinding ((facet, addr) # rest) = (case newBinding facet addr of
     Some err \<Rightarrow> Some err | None \<Rightarrow> bind_all newBinding rest)"

definition NewSupport ::
  "(string \<Rightarrow> address \<Rightarrow> go_error option) \<Rightarrow> int result \<Rightarrow> 'k \<Rightarrow> Addresses \<Rightarrow> 'k support result" where
  "NewSupport newBinding chainID prv addresses =
     (case bind_all newBinding (binding_plan addresses) of
        Some err \<Rightarrow> Inl err
      | None \<Rightarrow>
        (case chainID of Inl err \<Rightarrow> Inl err
         | Inr n \<Rightarrow> Inr \<lparr>Prv = prv, SupChainID = n, AddressesOf = addresses, bindings = binding_plan addresses\<rparr>))"

text \<open>\<open>DefaultPrivateKey\<close>, after \<open>godotenv.Load\<close>: \<open>hexToECDSA\<close> and the funded key come from go-ethereum.\<close>

definition strip_0x :: "string \<Rightarrow> string" where
  "strip_0x s = (if HasPrefix s ''0x'' \<or> HasPrefix s ''0X'' then drop 2 s else s)"

definition DefaultPrivateKey :: "(string \<Rightarrow> 'k result) \<Rightarrow> 'k \<Rightarrow> env \<Rightarrow> 'k result" where
  "DefaultPrivateKey hexToECDSA prvWithFunds e =
     (let privKeyString = e ''DEPLOYMENT_PRIVATE_KEY'' in
      if privKeyString = '''' then Inr prvWithFunds
      else case hexToECDSA (strip_0x privKeyString) of Inl err \<Rightarrow> Inl (restate err) | Inr k \<Rightarrow> Inr k)"

definition DefaultSupport ::
  "(string \<Rightarrow> address) \<Rightarrow> (string \<Rightarrow> address option) \<Rightarrow> (bytes \<Rightarrow> go_error) \<Rightarrow> bytes result \<Rightarrow> go_error option \<Rightarrow>
   'k result \<Rightarrow> (string \<Rightarrow> address \<Rightarrow> go_error option) \<Rightarrow> int result \<Rightarrow> 'k support result" where
  "DefaultSupport toAddr fromText jsonErr file dial privKey newBinding chainID =
     (case read_either toAddr fromText jsonErr file of
        Inl err \<Rightarrow> Inl err
      | Inr addr \<Rightarrow>
        (case dial of Some err \<Rightarrow> Inl (restate err)
         | None \<Rightarrow>
           (case privKey of Inl err \<Rightarrow> Inl err | Inr k \<Rightarrow> NewSupport newBinding chainID k addr)))"

section \<open>Revert reasons\<close>

definition decodeRevertHex :: "('w, 'k) chain \<Rightarrow> string \<Rightarrow> string" where
  "decodeRevertHex ch hexStr0 =
     (let hexStr = TrimPrefix hexStr0 ''0x'' in
      case hex_decode hexStr of
        None \<Rightarrow> ''''
      | Some decoded \<Rightarrow>
          if length decoded < 4 then ''''
          else (case UnpackRevert ch decoded of Inr reason \<Rightarrow> reason | Inl _ \<Rightarrow> ''0x'' @ hexStr))"

text \<open>The error's \<open>ErrorData()\<close>: \<open>PNil\<close> is Go's nil, only a string is decoded.\<close>

definition DecodeRevertReason :: "('w, 'k) chain \<Rightarrow> go_error option \<Rightarrow> string" where
  "DecodeRevertReason ch err = (case err of None \<Rightarrow> ''''
   | Some e \<Rightarrow> (case err_data e of Some (PStr hexStr) \<Rightarrow> decodeRevertHex ch hexStr | _ \<Rightarrow> ''''))"

definition SimulateAndDecodeRevert ::
  "('w, 'k) chain \<Rightarrow> address \<Rightarrow> address \<Rightarrow> int option \<Rightarrow> bytes \<Rightarrow> ('w, string) io" where
  "SimulateAndDecodeRevert ch frm to val dat = then_io
     (CallContract ch \<lparr>cmFrom = frm, cmTo = Some to, cmGas = 0, cmGasPrice = None, cmValue = val, cmData = dat\<rparr>)
     (\<lambda>r. return_io (case r of
        Inl err \<Rightarrow> let reason = DecodeRevertReason ch (Some err) in if reason \<noteq> '''' then reason else err_text err
      | Inr res \<Rightarrow> if 4 \<le> length res then decodeRevertHex ch (hex_encode res) else ''''))"

definition decodeRevertFromError :: "('w, 'k) chain \<Rightarrow> go_error \<Rightarrow> string" where
  "decodeRevertFromError ch err = (case err_data err of
     Some (PStr hexStr) \<Rightarrow>
       (case hex_decode (TrimPrefix hexStr ''0x'') of
          None \<Rightarrow> ''''
        | Some decoded \<Rightarrow> (case UnpackRevert ch decoded of Inr reason \<Rightarrow> reason | Inl _ \<Rightarrow> ''''))
   | _ \<Rightarrow> '''')"

definition failing_text :: "('w, 'k) chain \<Rightarrow> bytes result \<Rightarrow> string" where
  "failing_text ch r = (case r of
     Inl err \<Rightarrow> let reason = decodeRevertFromError ch err in if reason \<noteq> '''' then reason else err_text err
   | Inr res \<Rightarrow>
       (case UnpackRevert ch res of
          Inr reason \<Rightarrow> reason
        | Inl _ \<Rightarrow> if length res > 0 then ''0x'' @ hex_encode res else ''unknown revert reason''))"

definition getFailingMessage :: "('w, 'k) chain \<Rightarrow> hash \<Rightarrow> ('w, string result) io" where
  "getFailingMessage ch h = try_io (TransactionByHash ch h) restate (\<lambda>tx.
     case TxSender ch tx of
       Inl err \<Rightarrow> return_io (Inl (restate err))
     | Inr frm \<Rightarrow> then_io
         (CallContract ch \<lparr>cmFrom = frm, cmTo = tvTo tx, cmGas = tvGas tx, cmGasPrice = Some (tvGasPrice tx),
            cmValue = Some (tvValue tx), cmData = tvData tx\<rparr>)
         (\<lambda>r. return_io (Inr (failing_text ch r))))"

definition CheckTx :: "('w, 'k) chain \<Rightarrow> hash \<Rightarrow> ('w, receipt result) io" where
  "CheckTx ch tx = try_io (WaitMined ch tx)
     (prefixf (''transaction not mined within 2 minutes (tx: '' @ HashHex ch tx @ ''): ''))
     (\<lambda>receipt.
        if rcStatus receipt = 0
        then try_io (getFailingMessage ch tx) (\<lambda>err. err)
               (\<lambda>reason. return_io (Inl (errorf (''error: Transaction fail: '' @ reason))))
        else return_io (Inr receipt))"

section \<open>Diagnostics\<close>

definition extractRevertData :: "('w, 'k) chain \<Rightarrow> go_error \<Rightarrow> bytes" where
  "extractRevertData ch err = (case err_data err of
     Some (PStr d) \<Rightarrow> FromHex ch d | Some (PBytes d) \<Rightarrow> d | _ \<Rightarrow> [])"

text \<open>
  The search through the custom errors of the ABIs that load, in order; within an ABI the order is
  that of Go's map iteration. \<open>None\<close> when no selector matches.
\<close>

fun match_error :: "bytes \<Rightarrow> (string \<times> abi_error list option) list \<Rightarrow> (string \<times> abi_error) option" where
  "match_error selector [] = None"
| "match_error selector ((name, errs) # rest) = (case errs of
     None \<Rightarrow> match_error selector rest
   | Some es \<Rightarrow>
       (case find (\<lambda>e. take 4 (aeSelector e) = selector) es of
          Some e \<Rightarrow> Some (name, e)
        | None \<Rightarrow> match_error selector rest))"

text \<open>
  What \<open>diagAvailabilityCheckRevert\<close> and \<open>diagToProductionRevert\<close> log about the replayed call; the
  two (in the theory on registration) have the same body and differ in the ABI that packs the call data
  and in that data, arguments here.
\<close>

definition error_selector :: bytes where "error_selector = [0x08, 0xc3, 0x79, 0xa0]"

definition diag_revert ::
  "('w, 'k) chain \<Rightarrow> (string \<times> abi_error list option) list \<Rightarrow> bytes result \<Rightarrow> string" where
  "diag_revert ch abis r = (case r of
     Inr _ \<Rightarrow> ''diag: eth_call unexpectedly succeeded'' @ [CHR 0x20, CHR 0xE2, CHR 0x80, CHR 0x94] @
              '' revert may be tx-time/gas-related''
   | Inl callErr \<Rightarrow>
       let revertData = extractRevertData ch callErr; selector = take 4 revertData in
       if length revertData = 0 then ''diag: eth_call error has no revert data: '' @ err_text callErr
       else if length revertData < 4
         then ''diag: revert data too short to contain a selector: 0x'' @ hex_encode revertData
       else if selector = error_selector \<and> is_ok (UnpackRevert ch revertData)
         then ''diag: revert reason (string): '' @
              quote_go (isPrint ch) (case UnpackRevert ch revertData of Inr reason \<Rightarrow> reason | Inl _ \<Rightarrow> '''')
       else (case match_error selector abis of
           Some (name, e) \<Rightarrow>
             (case aeUnpack e (drop 4 revertData) of
                Inl unpackErr \<Rightarrow> ''diag: revert -> '' @ name @ ''.'' @ aeName e @ '' (arg unpack failed: '' @
                  err_text unpackErr @ '') data=0x'' @ hex_encode revertData
              | Inr args \<Rightarrow> ''diag: revert -> '' @ name @ ''.'' @ aeName e @ ''('' @ args @ '')'')
         | None \<Rightarrow> ''diag: revert with unknown selector 0x'' @ hex_encode selector @ ''; full data: 0x'' @
                   hex_encode revertData))"

definition diag_call ::
  "('w, 'k) chain \<Rightarrow> (string \<times> abi_error list option) list \<Rightarrow> 'k support \<Rightarrow> tx_opts \<Rightarrow>
   string \<Rightarrow> go_error option \<Rightarrow> bytes result \<Rightarrow> ('w, string) io" where
  "diag_call ch abis s opts abiName loadErr calldata = (case loadErr of
     Some err \<Rightarrow> return_io (''diag: load '' @ abiName @ '' ABI: '' @ err_text err)
   | None \<Rightarrow> (case calldata of
       Inl err \<Rightarrow> return_io (''diag: pack calldata: '' @ err_text err)
     | Inr dat \<Rightarrow> then_io
         (CallContract ch \<lparr>cmFrom = PubkeyToAddress ch (Prv s), cmTo = Some (FlareTeeManager (AddressesOf s)),
            cmGas = 0, cmGasPrice = None, cmValue = txValue opts, cmData = dat\<rparr>)
         (\<lambda>r. return_io (diag_revert ch abis r))))"

section \<open>Transactions\<close>

text \<open>
  The shape every state-changing call of the tools has: send a transaction (its binding returns an
  error or the transaction), wait for it with \<open>CheckTx\<close>, go on with the receipt.
\<close>

definition submit ::
  "('w, 'k) chain \<Rightarrow> ('w, hash result) io \<Rightarrow> (go_error \<Rightarrow> go_error) \<Rightarrow> (go_error \<Rightarrow> go_error) \<Rightarrow>
   (receipt \<Rightarrow> ('w, 'a result) io) \<Rightarrow> ('w, 'a result) io" where
  "submit ch send wrapSend wrapCheck k = try_io send wrapSend (\<lambda>tx. try_io (CheckTx ch tx) wrapCheck k)"

text \<open>
  What a client of a transaction checker relies on: a receipt it returns is that of a successful
  transaction the node has mined, and the checker did nothing else.
\<close>

locale tx_checker =
  fixes wait :: "hash \<Rightarrow> ('w, receipt result) io"
    and checkTx :: "hash \<Rightarrow> ('w, receipt result) io"
  assumes checked: "checkTx tx w = (Inr receipt, w') \<longleftrightarrow> wait tx w = (Inr receipt, w') \<and> rcStatus receipt \<noteq> 0"
begin

lemma success_is_mined:
  "checkTx tx w = (Inr receipt, w') \<Longrightarrow> rcStatus receipt \<noteq> 0 \<and> wait tx w = (Inr receipt, w')"
  by (simp add: checked)

lemma failed_never_passes: "wait tx w = (Inr receipt, w1) \<Longrightarrow> rcStatus receipt = 0 \<Longrightarrow> checkTx tx w \<noteq> (Inr r, w2)"
  by (auto simp: checked)

lemma not_mined_never_passes: "wait tx w = (Inl err, w1) \<Longrightarrow> checkTx tx w \<noteq> (Inr r, w2)"
  by (simp add: checked)

end

lemma CheckTx_Inr_iff:
  "CheckTx ch tx w = (Inr receipt, w') \<longleftrightarrow> WaitMined ch tx w = (Inr receipt, w') \<and> rcStatus receipt \<noteq> 0"
  by (auto simp: CheckTx_def try_io_def split: prod.splits sum.splits if_splits)

interpretation check_tx: tx_checker "WaitMined ch" "CheckTx ch" for ch
  by unfold_locales (rule CheckTx_Inr_iff)

lemma submit_ok_iff:
  "submit ch send wrapSend wrapCheck k w = (Inr y, w') \<longleftrightarrow>
     (\<exists>tx w1 receipt w2. send w = (Inr tx, w1) \<and> WaitMined ch tx w1 = (Inr receipt, w2) \<and>
        rcStatus receipt \<noteq> 0 \<and> k receipt w2 = (Inr y, w'))"
proof
  assume "submit ch send wrapSend wrapCheck k w = (Inr y, w')"
  then show "\<exists>tx w1 receipt w2. send w = (Inr tx, w1) \<and> WaitMined ch tx w1 = (Inr receipt, w2) \<and>
        rcStatus receipt \<noteq> 0 \<and> k receipt w2 = (Inr y, w')"
    unfolding submit_def
    by (elim try_io_ok) (auto simp: CheckTx_Inr_iff)
next
  assume "\<exists>tx w1 receipt w2. send w = (Inr tx, w1) \<and> WaitMined ch tx w1 = (Inr receipt, w2) \<and>
        rcStatus receipt \<noteq> 0 \<and> k receipt w2 = (Inr y, w')"
  then show "submit ch send wrapSend wrapCheck k w = (Inr y, w')"
    by (auto simp: submit_def go_simps CheckTx_Inr_iff)
qed

section \<open>Properties\<close>

text \<open>The entry a name ends up with: the last of that name, the zero address when there is none.\<close>

definition last_address :: "(string \<Rightarrow> address) \<Rightarrow> RawContract list \<Rightarrow> string \<Rightarrow> address \<Rightarrow> address" where
  "last_address toAddr raw name d =
     (case filter (\<lambda>c. rawName c = name) raw of [] \<Rightarrow> d | cs \<Rightarrow> toAddr (rawAddress (last cs)))"

lemma last_address_Cons:
  "last_address toAddr (c # raw) name d =
     last_address toAddr raw name (if rawName c = name then toAddr (rawAddress c) else d)"
  by (auto simp: last_address_def split: list.splits)

lemma assign_contracts_last:
  "assign_contracts toAddr raw addrs =
     \<lparr>FlareSystemManager = last_address toAddr raw ''FlareSystemsManager'' (FlareSystemManager addrs),
      Fdc2Hub = last_address toAddr raw ''Fdc2Hub'' (Fdc2Hub addrs),
      FlareTeeManager = last_address toAddr raw ''FlareTeeManager'' (FlareTeeManager addrs)\<rparr>"
proof (induction raw arbitrary: addrs)
  case Nil
  then show ?case by (simp add: last_address_def)
next
  case (Cons c raw)
  then show ?case
    by (simp add: last_address_Cons fieldMap_def)
qed

text \<open>A list of entries as a JSON text, and an object with the three addresses.\<close>

definition contract_json :: "RawContract \<Rightarrow> json" where
  "contract_json c = JObject [(''name'', JString (rawName c)), (''contractName'', JString (rawContractName c)),
     (''address'', JString (rawAddress c))]"

definition readable_contract :: "RawContract \<Rightarrow> bool" where
  "readable_contract c \<longleftrightarrow> to_valid (rawName c) = rawName c \<and> to_valid (rawContractName c) = rawContractName c \<and>
     to_valid (rawAddress c) = rawAddress c"

lemma raw_field_names:
  "field_of raw_fields (to_valid ''name'') = Some ''name''"
  "field_of raw_fields (to_valid ''contractName'') = Some ''contractName''"
  "field_of raw_fields (to_valid ''address'') = Some ''address''"
  by (simp_all add: ascii_to_valid field_of_def raw_fields_def)

lemma decode_contract_json:
  "readable_contract c \<Longrightarrow> decode_struct raw_fields decode_raw_field (tree_of (contract_json c)) no_contract = Some c"
  by (simp add: contract_json_def decode_struct_def raw_field_names decode_raw_field_def decode_string_def
      unquote_escape_string readable_contract_def)

lemma decode_contracts_json:
  "list_all readable_contract raw \<Longrightarrow> decode_contracts (tree_of (JArray (map contract_json raw))) = Some raw"
proof (induction raw)
  case (Cons c raw)
  then show ?case by (simp add: decode_contracts_def decode_contract_json o_def)
qed (simp add: decode_contracts_def)

lemma nesting_contracts: "nesting (JArray (map contract_json raw)) \<le> maxNestingDepth"
proof -
  have "foldr max (map nesting (map contract_json raw)) 0 \<le> 1"
    by (induction raw) (simp_all add: contract_json_def)
  then show ?thesis by (simp add: maxNestingDepth_def)
qed

text \<open>
  C38: From a file with a list of contract entries, whatever they are (in UTF-8) and however deep the
  text is indented, each address is that of the last entry whose name is the field's JSON name (which
  for the systems manager is not the name of the Go field), and the zero address when there is no
  such entry.
\<close>

theorem addresses_from_list:
  assumes "list_all readable_contract raw"
  shows "read_either toAddr fromText jsonErr (Inr (str_bytes (indent_json k (JArray (map contract_json raw))))) =
     Inr \<lparr>FlareSystemManager = last_address toAddr raw ''FlareSystemsManager'' 0,
       Fdc2Hub = last_address toAddr raw ''Fdc2Hub'' 0,
       FlareTeeManager = last_address toAddr raw ''FlareTeeManager'' 0\<rparr>"
proof -
  have "parse_json (indent_json k (JArray (map contract_json raw))) = Some (tree_of (JArray (map contract_json raw)))"
    by (rule parse_json_text[OF nesting_contracts])
  then show ?thesis
    using decode_contracts_json[OF assms]
    by (simp add: read_either_def ReadAddresses_def ParseAddresses_def decode_struct_def assign_contracts_last
        no_addresses_def del: indent_json.simps)
qed

definition demo_contract :: RawContract where
  "demo_contract = \<lparr>rawName = ''Fdc2Hub'', rawContractName = ''Fdc2Hub.sol'', rawAddress = ''0x05''\<rparr>"

theorem addresses_from_list_witness:
  "read_either (\<lambda>t. of_nat (length t)) (\<lambda>t. None) (\<lambda>b. errorf ''syntax'')
     (Inr (str_bytes (indent_json 0 (JArray (map contract_json [demo_contract]))))) =
   Inr \<lparr>FlareSystemManager = last_address (\<lambda>t. of_nat (length t)) [demo_contract] ''FlareSystemsManager'' 0,
     Fdc2Hub = last_address (\<lambda>t. of_nat (length t)) [demo_contract] ''Fdc2Hub'' 0,
     FlareTeeManager = last_address (\<lambda>t. of_nat (length t)) [demo_contract] ''FlareTeeManager'' 0\<rparr>"
  by (rule addresses_from_list) (simp add: readable_contract_def demo_contract_def ascii_to_valid)


text \<open>The replay of a mined transaction by \<open>getFailingMessage\<close>.\<close>

definition replay_of :: "tx_view \<Rightarrow> address \<Rightarrow> call_msg" where
  "replay_of tx frm = \<lparr>cmFrom = frm, cmTo = tvTo tx, cmGas = tvGas tx, cmGasPrice = Some (tvGasPrice tx),
     cmValue = Some (tvValue tx), cmData = tvData tx\<rparr>"

lemma getFailingMessage_replay:
  assumes "TransactionByHash ch h w = (Inr tx, w1)" "TxSender ch tx = Inr frm"
  shows "getFailingMessage ch h w =
    (Inr (failing_text ch (fst (CallContract ch (replay_of tx frm) w1))), snd (CallContract ch (replay_of tx frm) w1))"
  using assms by (simp add: getFailingMessage_def go_simps replay_of_def then_io_def case_prod_unfold)


text \<open>
  A replay that SUCCEEDS and returns at least four bytes is reported as a revert reason all the same:
  the message the ABI library reads from the result, or the result in hexadecimal.
\<close>

theorem successful_replay_reported:
  assumes "CallContract ch \<lparr>cmFrom = frm, cmTo = Some to, cmGas = 0, cmGasPrice = None, cmValue = val, cmData = dat\<rparr> w
      = (Inr res, w')" "4 \<le> length res"
  shows "SimulateAndDecodeRevert ch frm to val dat w =
    (case UnpackRevert ch res of Inr reason \<Rightarrow> reason | Inl _ \<Rightarrow> ''0x'' @ hex_encode res, w')"
  using assms hex_encode_no_prefix[of res]
  by (simp add: SimulateAndDecodeRevert_def go_simps decodeRevertHex_def TrimPrefix_def Let_def split: sum.splits)

text \<open>A chain on which the definitions compute: the world counts the calls, the key is a number.\<close>

definition demo_tx :: tx_view where
  "demo_tx = \<lparr>tvTo = Some 9, tvGas = 21000, tvGasPrice = 1, tvValue = 0, tvData = []\<rparr>"

definition demo_ch :: "(nat, nat) chain" where
  "demo_ch = \<lparr>AddrHex = (\<lambda>a. ''0x'' @ show_hex (unat a)), HexToAddress = (\<lambda>s. of_nat (length s)),
     PubkeyToAddress = of_nat, EVMType = [1], isPrint = (\<lambda>u. False),
     HashHex = (\<lambda>h. ''0x'' @ show_hex (unat h)), FromHex = (\<lambda>s. []),
     NewTransactor = (\<lambda>k n. Inr \<lparr>txFrom = of_nat k, txValue = None\<rparr>),
     WaitMined = (\<lambda>h n. (if h = 0 then Inl (errorf ''timeout'')
       else Inr \<lparr>rcStatus = (if h = 1 then 0 else 1), rcLogs = [], rcTxHash = h\<rparr>, n + 1)),
     TransactionByHash = (\<lambda>h n. (Inr demo_tx, n + 1)), TxSender = (\<lambda>tx. Inr 3),
     CallContract = (\<lambda>m n. (if cmTo m = Some 9 then Inl (errorf ''execution reverted'') else Inr [1, 2, 3, 4], n + 1)),
     UnpackRevert = (\<lambda>d. Inl (errorf ''no reason''))\<rparr>"


theorem successful_replay_reported_witness:
  "fst (SimulateAndDecodeRevert demo_ch 3 4 None [] 0) = ''0x'' @ hex_encode [1, 2, 3, 4]"
  by (subst successful_replay_reported[where res = "[1, 2, 3, 4]" and w' = 1]) (simp_all add: demo_ch_def)

end
