(* ===== verification/Tee_Calls.thy ===== *)
theory Tee_Calls
  imports Extension Chain
begin

text \<open>
  The calls of the tools to a TEE and its proxy: \<open>go/tools/pkg/fccutils/tee_calls.go\<close>,
  \<open>common.go\<close>, the constants of \<open>encoding.go\<close>, and the policy check of
  \<open>policy_consistency.go\<close>. HTTP, the clock, the JSON of the tee-node types and the attestation
  and signature libraries are the fields of \<open>tee_lib\<close>.
\<close>

section \<open>Values\<close>

type_synonym pub = "hash \<times> hash"

record tee_info =
  tiPublicKey :: pub
  tiChainID :: int
  tiLastSigningPolicyID :: "32 word"

record machine_data =
  mdExtensionID :: hash
  mdInitialOwner :: address
  mdCodeHash :: hash
  mdPlatform :: hash
  mdPublicKey :: pub
  mdGovernanceHash :: hash

record signed_tee_info =
  TeeInfoOf :: tee_info
  MachineData :: machine_data
  Attestation :: bytes
  DataSignature :: bytes
  ProxySignature :: bytes

text \<open>\<open>types.ActionResponse\<close>: the code reads the \<open>Result\<close>.\<close>

record ('w, 'p) tee_lib =
  httpGET :: "string \<Rightarrow> ('w, http_reply) io"
  httpPOST :: "string \<Rightarrow> string \<Rightarrow> bytes \<Rightarrow> ('w, http_reply) io"
  Sleep :: "nat \<Rightarrow> 'w \<Rightarrow> 'w"
  decodeTeeInfo :: "bytes \<Rightarrow> signed_tee_info result"
  decodeActionResponse :: "bytes \<Rightarrow> action_result result"
  parseClaims :: "string \<Rightarrow> (hash result \<times> hash result) result"
  ParsePubKey :: "pub \<Rightarrow> 'p result"
  pubAddress :: "'p \<Rightarrow> address"
  infoHash :: "tee_info \<Rightarrow> bytes result"
  proxyInfoPayload :: "int \<Rightarrow> bytes \<Rightarrow> bytes result"
  TextHash :: "bytes \<Rightarrow> bytes"
  SigToPub :: "bytes \<Rightarrow> bytes \<Rightarrow> 'p result"
  tlHashHex :: "hash \<Rightarrow> string"
  marshalField :: "string \<Rightarrow> string \<Rightarrow> bytes result"
  tlAddrHex :: "address \<Rightarrow> string"

definition PlatformIntel :: hash where
  "PlatformIntel = 0x4743505f494e54454c5f54445800000000000000000000000000000000000000"
definition PlatformAMD :: hash where
  "PlatformAMD = 0x4743505f414d445f534556000000000000000000000000000000000000000000"
definition PlatformAMDESEV :: hash where
  "PlatformAMDESEV = 0x4743505f414d445f5345565f4553000000000000000000000000000000000000"
definition TestPlatform :: hash where
  "TestPlatform = 0x544553545f504c4154464f524d00000000000000000000000000000000000000"
definition TeeCodeHash :: hash where
  "TeeCodeHash = 0x194844cf417dde867073e5ab7199fa4d21fd82b5dbe2bdea8b3d7fc18d10fdc2"

section \<open>Reading from the TEE\<close>

definition TeeInfo :: "('w, 'p) tee_lib \<Rightarrow> string \<Rightarrow> ('w, signed_tee_info result) io" where
  "TeeInfo net nodeURL = then_io (httpGET net (nodeURL @ ''/info'')) (\<lambda>r. return_io (case r of
     TransportError m \<Rightarrow> Inl (errorf m)
   | HttpReply status body \<Rightarrow>
       (case decodeTeeInfo net body of Inl err \<Rightarrow> Inl (restate err) | Inr info \<Rightarrow> Inr info)))"

definition CodeHashAndPlatform :: "('w, 'p) tee_lib \<Rightarrow> string \<Rightarrow> (hash \<times> hash) result" where
  "CodeHashAndPlatform net attestationString = (case parseClaims net attestationString of
     Inl err \<Rightarrow> Inl (restate err)
   | Inr (codeHash, platform) \<Rightarrow>
       (case codeHash of Inl err \<Rightarrow> Inl (restate err)
        | Inr c \<Rightarrow> (case platform of Inl err \<Rightarrow> Inl (restate err) | Inr p \<Rightarrow> Inr (c, p))))"

definition TeeProxyId :: "('w, 'p) tee_lib \<Rightarrow> signed_tee_info \<Rightarrow> (address \<times> address) result" where
  "TeeProxyId net teeInfo = (case ParsePubKey net (tiPublicKey (TeeInfoOf teeInfo)) of
     Inl err \<Rightarrow> Inl (restate err)
   | Inr pubKey \<Rightarrow>
     let teeID = pubAddress net pubKey in
     (case infoHash net (TeeInfoOf teeInfo) of
        Inl err \<Rightarrow> Inl (restate err)
      | Inr h \<Rightarrow>
        (case proxyInfoPayload net (tiChainID (TeeInfoOf teeInfo)) h of
           Inl err \<Rightarrow> Inl (restate err)
         | Inr infoSignHash \<Rightarrow>
           (case SigToPub net (TextHash net infoSignHash) (ProxySignature teeInfo) of
              Inl err \<Rightarrow> Inl (restate err)
            | Inr proxyPubKey \<Rightarrow> Inr (teeID, pubAddress net proxyPubKey)))))"

definition GetTeeProxyID :: "('w, 'p) tee_lib \<Rightarrow> string \<Rightarrow> ('w, (address \<times> address) result) io" where
  "GetTeeProxyID net proxyURL = try_io (TeeInfo net proxyURL) (\<lambda>err. err) (\<lambda>teeInfo. return_io (TeeProxyId net teeInfo))"

text \<open>\<open>%s\<close> of a \<open>common.Hash\<close> prints its hexadecimal form.\<close>

definition GetCodeHashAndPlatform :: "('w, 'p) tee_lib \<Rightarrow> env \<Rightarrow> signed_tee_info \<Rightarrow> (hash \<times> hash) result" where
  "GetCodeHashAndPlatform net e teeInfo =
     (case (if e ''SIMULATED_TEE'' = ''true'' then Inr (TeeCodeHash, TestPlatform)
            else CodeHashAndPlatform net (bytes_str (Attestation teeInfo))) of
        Inl err \<Rightarrow> Inl err
      | Inr (codeHash, platform) \<Rightarrow>
          if codeHash \<noteq> mdCodeHash (MachineData teeInfo) then Inl (errorf (''code hashes do not match: '' @
            tlHashHex net codeHash @ '', '' @ tlHashHex net (mdCodeHash (MachineData teeInfo))))
          else if platform \<noteq> mdPlatform (MachineData teeInfo) then Inl (errorf (''platforms do not matc: '' @
            tlHashHex net platform @ '', '' @ tlHashHex net (mdPlatform (MachineData teeInfo))))
          else Inr (codeHash, platform))"

section \<open>Polling\<close>

definition repeats :: nat where "repeats = 15"

text \<open>
  The loop of \<open>ActionResult\<close>: up to \<open>n\<close> GETs, stopping at the first answer 200; after any other
  answer it sleeps two seconds (after the last one too). The result is the last answer.
\<close>

fun poll :: "('w, 'p) tee_lib \<Rightarrow> string \<Rightarrow> nat \<Rightarrow> http_reply \<Rightarrow> ('w, http_reply) io" where
  "poll net url 0 prev = return_io prev"
| "poll net url (Suc n) prev = (\<lambda>w.
     case httpGET net url w of (r, w1) \<Rightarrow>
       (case r of
          HttpReply status body \<Rightarrow>
            if status = 200 then (r, w1) else poll net url n r (Sleep net 2000 w1)
        | TransportError m \<Rightarrow> poll net url n r (Sleep net 2000 w1)))"

definition result_url :: "('w, 'p) tee_lib \<Rightarrow> string \<Rightarrow> hash \<Rightarrow> string" where
  "result_url net nodeURL actionID = nodeURL @ ''/action/result/'' @ tlHashHex net actionID"

definition ActionResult :: "('w, 'p) tee_lib \<Rightarrow> string \<Rightarrow> hash \<Rightarrow> ('w, action_result result) io" where
  "ActionResult net nodeURL actionID =
     then_io (poll net (result_url net nodeURL actionID) repeats (TransportError ''''))
     (\<lambda>r. return_io (case r of
        TransportError m \<Rightarrow> Inl (errorf m)
      | HttpReply status body \<Rightarrow>
          if status \<noteq> 200 then Inl (errorf (''action result status not ok, got: '' @ show_int status))
          else (case decodeActionResponse net body of Inl err \<Rightarrow> Inl (restate err) | Inr resp \<Rightarrow> Inr resp)))"

section \<open>Configuring the TEE\<close>

text \<open>
  The three POSTs to the configuration port: the JSON of the request types is \<open>marshalField\<close> (field and
  value printed).
\<close>

definition post_ok :: "('w, 'p) tee_lib \<Rightarrow> string \<Rightarrow> bytes \<Rightarrow> ('w, unit result) io" where
  "post_ok net url body = then_io (httpPOST net url ''application/json'' body) (\<lambda>r. return_io (case r of
     TransportError m \<Rightarrow> Inl (errorf m)
   | HttpReply status reply \<Rightarrow>
       if status \<noteq> 200 then Inl (errorf (''unexpected status code: '' @ show_int status)) else Inr ()))"

definition config_url :: "int \<Rightarrow> string \<Rightarrow> string" where
  "config_url port path = ''http://localhost:'' @ show_int port @ path"

definition SetProxyUrl :: "('w, 'p) tee_lib \<Rightarrow> int \<Rightarrow> int \<Rightarrow> ('w, unit result) io" where
  "SetProxyUrl net configurationPort proxyPort =
     (case marshalField net ''URL'' (''http://localhost:'' @ show_int proxyPort) of
        Inl err \<Rightarrow> return_io (Inl err)
      | Inr body \<Rightarrow> post_ok net (config_url configurationPort ''/proxy'') body)"

definition SetInitialOwner :: "('w, 'p) tee_lib \<Rightarrow> int \<Rightarrow> address \<Rightarrow> ('w, unit result) io" where
  "SetInitialOwner net configurationPort ownerAddress =
     (case marshalField net ''Owner'' (tlAddrHex net ownerAddress) of
        Inl err \<Rightarrow> return_io (Inl err)
      | Inr body \<Rightarrow> post_ok net (config_url configurationPort ''/initial-owner'') body)"

definition SetExtensionID :: "('w, 'p) tee_lib \<Rightarrow> int \<Rightarrow> hash \<Rightarrow> ('w, unit result) io" where
  "SetExtensionID net configurationPort extensionID =
     (case marshalField net ''ExtensionID'' (tlHashHex net extensionID) of
        Inl err \<Rightarrow> return_io (Inl err)
      | Inr body \<Rightarrow> post_ok net (config_url configurationPort ''/extension-id'') body)"

section \<open>Signing policy\<close>

definition policyInSync :: "u64 \<Rightarrow> u64 \<Rightarrow> bool" where
  "policyInSync onchainEpoch proxyPolicyID \<longleftrightarrow> proxyPolicyID = onchainEpoch \<or> proxyPolicyID = onchainEpoch + 1"

definition sentinel_text :: string where
  "sentinel_text = ''FTDC proxy signing policy out of sync with on-chain reward epoch''"

definition outOfSyncError :: "u64 \<Rightarrow> u64 \<Rightarrow> go_error" where
  "outOfSyncError onchainEpoch proxyPolicyID =
     (let rel = (if proxyPolicyID < onchainEpoch
         then ''proxy is '' @ show_u64 (onchainEpoch - proxyPolicyID) @ '' epoch(s) behind''
         else ''proxy is '' @ show_u64 (proxyPolicyID - onchainEpoch) @ '' epoch(s) ahead'')
      in \<lparr>err_text = sentinel_text @ '': proxy signing policy '' @ show_u64 proxyPolicyID @
            '' vs on-chain current reward epoch '' @ show_u64 onchainEpoch @ '' ('' @ rel @ ''); '' @
            ''data providers will reject the availability check with 404 \"no round\"; '' @
            ''wait for the proxy to catch up to the current signing policy, or check the proxy'' @ [CHR 0x27] @
            ''s initial_signing_policy_offset and C-chain indexer sync'',
          err_data = None, err_is = [ErrPolicyOutOfSync]\<rparr>)"

text \<open>
  \<open>CheckFTDCProxyPolicyConsistency\<close>: the on-chain epoch is \<open>getEpoch\<close>, whose answer may be an error or
  nil (\<open>Inr None\<close>).
\<close>

definition CheckFTDCProxyPolicyConsistency ::
  "('w, int option result) io \<Rightarrow> ('w, 'p) tee_lib \<Rightarrow> string \<Rightarrow> ('w, go_error option) io" where
  "CheckFTDCProxyPolicyConsistency getEpoch net ftdcProxyURL = then_io getEpoch (\<lambda>onchain.
     case onchain of
       Inl err \<Rightarrow> return_io None
     | Inr None \<Rightarrow> return_io None
     | Inr (Some epoch) \<Rightarrow> then_io (TeeInfo net ftdcProxyURL) (\<lambda>info. return_io (
         case info of
           Inl err \<Rightarrow> None
         | Inr i \<Rightarrow>
             let onchainEpoch = (word_of_int epoch :: u64);
                 proxyPolicyID = (ucast (tiLastSigningPolicyID (TeeInfoOf i)) :: u64) in
             if \<not> policyInSync onchainEpoch proxyPolicyID then Some (outOfSyncError onchainEpoch proxyPolicyID)
             else None)))"

section \<open>Properties\<close>

text \<open>The world before the attempt with a given number (from 0), while no attempt answers 200.\<close>

fun before_attempt :: "('w, 'p) tee_lib \<Rightarrow> string \<Rightarrow> 'w \<Rightarrow> nat \<Rightarrow> 'w" where
  "before_attempt net url w 0 = w"
| "before_attempt net url w (Suc n) = Sleep net 2000 (snd (httpGET net url (before_attempt net url w n)))"

definition attempt :: "('w, 'p) tee_lib \<Rightarrow> string \<Rightarrow> 'w \<Rightarrow> nat \<Rightarrow> http_reply" where
  "attempt net url w n = fst (httpGET net url (before_attempt net url w n))"

fun is_200 :: "http_reply \<Rightarrow> bool" where
  "is_200 (TransportError m) = False"
| "is_200 (HttpReply status body) = (status = 200)"

lemma before_attempt_shift:
  "before_attempt net url (Sleep net 2000 (snd (httpGET net url w))) n = before_attempt net url w (Suc n)"
  by (induction n) auto

lemma attempt_shift:
  "attempt net url (Sleep net 2000 (snd (httpGET net url w))) n = attempt net url w (Suc n)"
  by (simp add: attempt_def before_attempt_shift del: before_attempt.simps)

lemma poll_Suc:
  "poll net url (Suc n) prev w =
     (if is_200 (attempt net url w 0) then (attempt net url w 0, snd (httpGET net url w))
      else poll net url n (attempt net url w 0) (Sleep net 2000 (snd (httpGET net url w))))"
  by (cases "httpGET net url w"; cases "fst (httpGET net url w)") (auto simp: attempt_def)

text \<open>The answer of the loop: that of the first attempt with status 200, of the last attempt when there is none.\<close>

lemma poll_first_ok:
  "k < n \<Longrightarrow> is_200 (attempt net url w k) \<Longrightarrow> list_all (\<lambda>j. \<not> is_200 (attempt net url w j)) [0..<k] \<Longrightarrow>
   fst (poll net url n prev w) = attempt net url w k"
proof (induction n arbitrary: k w prev)
  case (Suc n)
  show ?case
  proof (cases k)
    case 0
    with Suc.prems show ?thesis by (simp add: poll_Suc del: poll.simps)
  next
    case (Suc m)
    let ?w1 = "Sleep net 2000 (snd (httpGET net url w))"
    have none: "j < k \<Longrightarrow> \<not> is_200 (attempt net url w j)" for j
      using Suc.prems(3) by (simp add: list_all_iff)
    have "fst (poll net url n (attempt net url w 0) ?w1) = attempt net url ?w1 m"
      using Suc Suc.prems none by (intro Suc.IH) (auto simp: attempt_shift list_all_iff)
    moreover have "\<not> is_200 (attempt net url w 0)" using none Suc by simp
    ultimately show ?thesis
      using Suc by (simp add: poll_Suc attempt_shift del: poll.simps)
  qed
qed simp

lemma poll_none_ok:
  "list_all (\<lambda>j. \<not> is_200 (attempt net url w j)) [0..<Suc n] \<Longrightarrow>
   fst (poll net url (Suc n) prev w) = attempt net url w n"
proof (induction n arbitrary: w prev)
  case 0
  then show ?case by (simp add: poll_Suc del: poll.simps(2))
next
  case (Suc n)
  let ?w1 = "Sleep net 2000 (snd (httpGET net url w))"
  have none: "j < Suc (Suc n) \<Longrightarrow> \<not> is_200 (attempt net url w j)" for j
    using Suc.prems unfolding list_all_iff by (metis atLeastLessThan_iff set_upt zero_le)
  have "fst (poll net url (Suc n) (attempt net url w 0) ?w1) = attempt net url ?w1 n"
    by (rule Suc.IH) (use none in \<open>auto simp: list_all_iff attempt_shift\<close>)
  then show ?case
    using none[of 0] by (subst poll_Suc) (simp add: attempt_shift del: poll.simps)
qed

lemma first_ok_cases:
  obtains (some) k where "k < n" "is_200 (f k)" "list_all (\<lambda>j. \<not> is_200 (f j)) [0..<k]"
    | (none) "list_all (\<lambda>j. \<not> is_200 (f j)) [0..<n]"
proof (cases "\<exists>k < n. is_200 (f k)")
  case True
  define k where "k = (LEAST k. is_200 (f k))"
  from True have "is_200 (f k)" unfolding k_def by (auto intro: LeastI)
  moreover have "k < n" using True unfolding k_def by (meson Least_le order_le_less_trans)
  moreover have "list_all (\<lambda>j. \<not> is_200 (f j)) [0..<k]"
    unfolding list_all_iff k_def by (metis atLeastLessThan_iff not_less_Least set_upt)
  ultimately show ?thesis using some by blast
next
  case False
  then show ?thesis using none by (auto simp: list_all_iff)
qed


text \<open>
  The code hash and platform are returned only when they are those of the machine data the TEE
  signed, and they are the fixed test values in simulated mode, those of the attestation otherwise.
\<close>

theorem code_hash_checked:
  "GetCodeHashAndPlatform net e info = Inr (c, p) \<longleftrightarrow>
     c = mdCodeHash (MachineData info) \<and> p = mdPlatform (MachineData info) \<and>
     (if e ''SIMULATED_TEE'' = ''true'' then c = TeeCodeHash \<and> p = TestPlatform
      else CodeHashAndPlatform net (bytes_str (Attestation info)) = Inr (c, p))"
  by (auto simp: GetCodeHashAndPlatform_def split: sum.splits if_splits)

text \<open>
  The policy gate never blocks a registration on a lookup that fails: when the reward epoch cannot
  be read, is nil, or the proxy's information cannot be fetched, it reports no error.
\<close>

theorem policy_gate_lenient:
  assumes "\<not> (\<exists>epoch. fst (getEpoch w) = Inr (Some epoch) \<and> is_ok (fst (TeeInfo net url (snd (getEpoch w)))))"
  shows "fst (CheckFTDCProxyPolicyConsistency getEpoch net url w) = None"
proof (cases "fst (getEpoch w)")
  case (Inl err)
  then show ?thesis
    by (cases "getEpoch w") (simp add: CheckFTDCProxyPolicyConsistency_def then_io_def)
next
  case (Inr onchain)
  show ?thesis
  proof (cases onchain)
    case None
    with Inr show ?thesis
      by (cases "getEpoch w") (simp add: CheckFTDCProxyPolicyConsistency_def then_io_def)
  next
    case (Some epoch)
    with Inr assms show ?thesis
      by (cases "getEpoch w"; cases "TeeInfo net url (snd (getEpoch w))")
        (auto simp: CheckFTDCProxyPolicyConsistency_def then_io_def is_ok_def split: sum.splits)
  qed
qed

lemma Contains_middle: "Contains (a @ b @ c) b"
  by (auto simp: Contains_iff)

lemma uint_of_epoch: "0 \<le> e \<Longrightarrow> e < 2 ^ 64 \<Longrightarrow> uint (word_of_int e :: u64) = e"
  by (simp add: unsigned_of_int take_bit_int_eq_self)

lemma uint_next_epoch: "0 \<le> e \<Longrightarrow> e < 2 ^ 64 - 1 \<Longrightarrow> uint (word_of_int e + 1 :: u64) = e + 1"
  using uint_of_epoch[of "e + 1"] by (simp add: wi_hom_add[symmetric] del: wi_hom_add)

lemma uint_policy_id: "uint (ucast (p :: 32 word) :: u64) = uint p"
  by (simp add: uint_up_ucast is_up)

text \<open>
  C26: With both lookups answered, the gate passes exactly when the proxy's policy id is the on-chain epoch
  or the next one; otherwise it reports the out-of-sync error (found by \<open>errors.Is\<close>) and the message
  says by how many epochs the proxy is behind or ahead.
\<close>

theorem policy_gate:
  assumes "getEpoch w = (Inr (Some epoch), w1)" "fst (TeeInfo net url w1) = Inr info"
    and "0 \<le> epoch" "epoch < 2 ^ 64 - 1" "uint (tiLastSigningPolicyID (TeeInfoOf info)) = policy"
  shows "case fst (CheckFTDCProxyPolicyConsistency getEpoch net url w) of
      None \<Rightarrow> policy = epoch \<or> policy = epoch + 1
    | Some err \<Rightarrow> policy \<noteq> epoch \<and> policy \<noteq> epoch + 1 \<and> err_is err = [ErrPolicyOutOfSync] \<and>
        Contains (err_text err) (''proxy is '' @ show_nat (nat \<bar>policy - epoch\<bar>) @ '' epoch(s) '' @
          (if policy < epoch then ''behind'' else ''ahead''))"
proof -
  let ?e = "word_of_int epoch :: u64"
  let ?p = "ucast (tiLastSigningPolicyID (TeeInfoOf info)) :: u64"
  have e: "uint ?e = epoch" "uint (?e + 1) = epoch + 1"
    using assms(3,4) by (simp_all only: uint_next_epoch, simp add: uint_of_epoch)
  have p: "uint ?p = policy" using assms(5) by (simp only: uint_policy_id)
  have sync: "policyInSync ?e ?p \<longleftrightarrow> policy = epoch \<or> policy = epoch + 1"
    unfolding policyInSync_def by (metis e p word_uint_eq_iff)
  have result: "fst (CheckFTDCProxyPolicyConsistency getEpoch net url w) =
      (if policyInSync ?e ?p then None else Some (outOfSyncError ?e ?p))"
    using assms(1,2) by (simp add: CheckFTDCProxyPolicyConsistency_def then_io_def case_prod_unfold Let_def)
  have rel: "(if ?p < ?e then ''proxy is '' @ show_u64 (?e - ?p) @ '' epoch(s) behind''
         else ''proxy is '' @ show_u64 (?p - ?e) @ '' epoch(s) ahead'') =
      ''proxy is '' @ show_nat (nat \<bar>policy - epoch\<bar>) @ '' epoch(s) '' @ (if policy < epoch then ''behind'' else ''ahead'')"
  proof (cases "policy < epoch")
    case True
    then have "?p < ?e" by (simp only: word_less_def e p)
    moreover have "unat (?e - ?p) = nat \<bar>policy - epoch\<bar>"
      using True e p by (simp add: unat_sub_if_size uint_sub_if' unat_eq_nat_uint)
    ultimately show ?thesis using True by (simp add: show_u64_def)
  next
    case False
    then have "\<not> ?p < ?e" by (simp only: word_less_def e p not_less)
    moreover have "unat (?p - ?e) = nat \<bar>policy - epoch\<bar>"
      using False e p by (simp add: uint_sub_if' unat_eq_nat_uint)
    ultimately show ?thesis using False by (simp add: show_u64_def)
  qed
  have "Contains (err_text (outOfSyncError ?e ?p)) (''proxy is '' @ show_nat (nat \<bar>policy - epoch\<bar>) @
      '' epoch(s) '' @ (if policy < epoch then ''behind'' else ''ahead''))"
    unfolding outOfSyncError_def Let_def rel go_error.simps by (intro Contains_append Contains_refl)
  moreover have "err_is (outOfSyncError ?e ?p) = [ErrPolicyOutOfSync]"
    by (simp add: outOfSyncError_def Let_def)
  ultimately show ?thesis
    unfolding result sync by simp
qed

section \<open>Witnesses\<close>

text \<open>A proxy whose information decodes to policy 8, down for the paths that are not \<open>/info\<close>.\<close>

definition demo_info :: signed_tee_info where
  "demo_info = \<lparr>TeeInfoOf = \<lparr>tiPublicKey = (1, 2), tiChainID = 114, tiLastSigningPolicyID = 8\<rparr>,
     MachineData = \<lparr>mdExtensionID = 5, mdInitialOwner = 6, mdCodeHash = TeeCodeHash, mdPlatform = TestPlatform,
       mdPublicKey = (1, 2), mdGovernanceHash = 7\<rparr>,
     Attestation = [], DataSignature = replicate 65 1, ProxySignature = []\<rparr>"

definition demo_net :: "(nat, nat) tee_lib" where
  "demo_net = \<lparr>httpGET = (\<lambda>u n. (if HasSuffix u ''/info'' then HttpReply 200 [] else TransportError ''down'', n + 1)),
     httpPOST = (\<lambda>u t b n. (HttpReply 200 [], n + 1)), Sleep = (\<lambda>ms n. n),
     decodeTeeInfo = (\<lambda>b. Inr demo_info), decodeActionResponse = (\<lambda>b. Inl (errorf ''EOF'')),
     parseClaims = (\<lambda>a. Inl (errorf ''no token'')), ParsePubKey = (\<lambda>p. Inr 4), pubAddress = of_nat,
     infoHash = (\<lambda>i. Inr []), proxyInfoPayload = (\<lambda>c h. Inr []), TextHash = (\<lambda>h. h),
     SigToPub = (\<lambda>h sig. Inr 9), tlHashHex = (\<lambda>h. ''0x'' @ show_hex (unat h)),
     marshalField = (\<lambda>f v. Inr (str_bytes v)), tlAddrHex = (\<lambda>a. ''0x'' @ show_hex (unat a))\<rparr>"

lemma demo_TeeInfo: "TeeInfo demo_net ''p'' n = (Inr demo_info, n + 1)"
  by (simp add: TeeInfo_def demo_net_def then_io_def HasSuffix_def)

theorem policy_gate_witness:
  "fst (CheckFTDCProxyPolicyConsistency (\<lambda>n. (Inr (Some 8), n)) demo_net ''p'' 0) = None \<and>
   fst (CheckFTDCProxyPolicyConsistency (\<lambda>n. (Inr (Some 10), n)) demo_net ''p'' 0) \<noteq> None"
  using policy_gate[of "\<lambda>n. (Inr (Some 8), n)" 0 8 0 demo_net "''p''" demo_info 8]
    policy_gate[of "\<lambda>n. (Inr (Some 10), n)" 0 10 0 demo_net "''p''" demo_info 8]
  by (auto simp: demo_TeeInfo demo_info_def split: option.splits)

theorem policy_gate_lenient_witness:
  "fst (CheckFTDCProxyPolicyConsistency (\<lambda>n. (Inl (errorf ''rpc down''), n)) demo_net ''p'' 0) = None"
  by (rule policy_gate_lenient) simp

end
