(* ===== verification/Governance.thy ===== *)
theory Governance
  imports Tee_Calls
begin

text \<open>
  The TEE governance of an extension: \<open>go/tools/pkg/fccutils/governance.go\<close> and the command
  \<open>set-governance\<close>. Also the interface of the updates that look first and write only when needed,
  which the later theories share.
\<close>

section \<open>Updates that look first\<close>

text \<open>
  An operation that reads whether its work is already done and then does nothing. What its callers get
  from that: on a chain whose reads see what a successful write did, running it again changes nothing.
\<close>

locale settled_update =
  fixes look :: "('w, 'v result) io"
    and settled :: "'v \<Rightarrow> bool"
    and act :: "('w, unit result) io"
    and op :: "('w, unit result) io"
  assumes op_done: "look w = (Inr v, w1) \<Longrightarrow> settled v \<Longrightarrow> op w = (Inr (), w1)"
    and op_ok: "op w = (Inr (), w') \<Longrightarrow> look w = (r, w1) \<Longrightarrow> (\<And>v. r = Inr v \<Longrightarrow> \<not> settled v) \<Longrightarrow>
      act w1 = (Inr (), w')"
begin

lemma idempotent:
  assumes view: "\<And>w. snd (look w) = w"
    and visible: "\<And>w w'. act w = (Inr (), w') \<Longrightarrow> \<exists>v. fst (look w') = Inr v \<and> settled v"
    and ran: "op w = (Inr (), w')"
  shows "op w' = (Inr (), w')"
proof -
  obtain r where look: "look w = (r, w)" using view[of w] by (metis prod.collapse)
  have "\<exists>v. look w' = (Inr v, w') \<and> settled v"
  proof (cases "\<exists>v. r = Inr v \<and> settled v")
    case True
    with look ran op_done show ?thesis by (metis prod.inject)
  next
    case False
    then have "act w = (Inr (), w')" using op_ok[OF ran look] by blast
    with visible view[of w'] show ?thesis by (metis prod.collapse)
  qed
  then show ?thesis using op_done by blast
qed

end

text \<open>The stronger contract of an operation that also goes on when the look itself fails.\<close>

locale guarded_update =
  fixes look :: "('w, 'v result) io"
    and settled :: "'v \<Rightarrow> bool"
    and act :: "('w, unit result) io"
    and op :: "('w, unit result) io"
  assumes op_settled: "look w = (Inr v, w1) \<Longrightarrow> settled v \<Longrightarrow> op w = (Inr (), w1)"
    and op_acts: "look w = (r, w1) \<Longrightarrow> (\<And>v. r = Inr v \<Longrightarrow> \<not> settled v) \<Longrightarrow> op w = act w1"
begin

lemma op_cases:
  obtains (settled) v w1 where "look w = (Inr v, w1)" "settled v" "op w = (Inr (), w1)"
    | (acts) r w1 where "look w = (r, w1)" "op w = act w1"
  using op_settled op_acts by (metis surj_pair)

end

sublocale guarded_update \<subseteq> settled_update look settled act op
proof
  show "op w = (Inr (), w1)" if "look w = (Inr v, w1)" "settled v" for w v w1
    using that by (rule op_settled)
  show "act w1 = (Inr (), w')"
    if "op w = (Inr (), w')" "look w = (r, w1)" "\<And>v. r = Inr v \<Longrightarrow> \<not> settled v" for w w' r w1
    using op_acts[OF that(2,3)] that(1) by simp
qed

section \<open>Setting the governance\<close>

record 'w governance_ops =
  GovernanceHash :: "address list \<Rightarrow> u64 \<Rightarrow> hash result"
  GetLatestTeeGovernanceHash :: "int \<Rightarrow> ('w, hash result) io"
  SetNewTeeGovernance :: "tx_opts \<Rightarrow> int \<Rightarrow> address list \<Rightarrow> u64 \<Rightarrow> ('w, hash result) io"

text \<open>The transaction part of \<open>SetTeeGovernance\<close>, after the look at the current hash.\<close>

definition send_governance ::
  "('w, 'k) chain \<Rightarrow> 'w governance_ops \<Rightarrow> 'k support \<Rightarrow> 'k \<Rightarrow> int \<Rightarrow> address list \<Rightarrow> u64 \<Rightarrow> ('w, unit result) io"
  where
  "send_governance ch gov s privKey extensionId signers threshold =
     (case NewTransactor ch privKey (SupChainID s) of
        Inl err \<Rightarrow> return_io (Inl (restate err))
      | Inr opts \<Rightarrow> submit ch (SetNewTeeGovernance gov opts extensionId signers threshold)
          (prefixf ''SetNewTeeGovernance failed: '') restate (\<lambda>receipt. return_io (Inr ())))"

definition SetTeeGovernance ::
  "('w, 'k) chain \<Rightarrow> 'w governance_ops \<Rightarrow> 'k support \<Rightarrow> 'k \<Rightarrow> int \<Rightarrow> address list \<Rightarrow> u64 \<Rightarrow> ('w, unit result) io"
  where
  "SetTeeGovernance ch gov s privKey extensionId signers threshold =
     (if length signers = 0
      then return_io (Inl (errorf ''at least one governance signer is required (set GOVERNANCE_SIGNERS)''))
      else if threshold = 0 \<or> threshold > of_nat (length signers)
      then return_io (Inl (errorf (''invalid GOVERNANCE_THRESHOLD '' @ show_u64 threshold @ '' for '' @
             show_nat (length signers) @ '' signer(s)'')))
      else case GovernanceHash gov signers threshold of
        Inl err \<Rightarrow> return_io (Inl (prefixf ''computing governance hash: '' err))
      | Inr desiredHash \<Rightarrow> then_io (GetLatestTeeGovernanceHash gov extensionId) (\<lambda>current.
          if current = Inr desiredHash then return_io (Inr ())
          else send_governance ch gov s privKey extensionId signers threshold))"

text \<open>Whether the arguments pass the guards, and then what hash is wanted.\<close>

definition wanted_hash :: "'w governance_ops \<Rightarrow> address list \<Rightarrow> u64 \<Rightarrow> hash option" where
  "wanted_hash gov signers threshold =
     (if signers = [] \<or> threshold = 0 \<or> threshold > of_nat (length signers) then None
      else case GovernanceHash gov signers threshold of Inl err \<Rightarrow> None | Inr h \<Rightarrow> Some h)"

lemma SetTeeGovernance_wanted:
  "wanted_hash gov signers threshold = Some h \<Longrightarrow>
   SetTeeGovernance ch gov s privKey extensionId signers threshold =
     then_io (GetLatestTeeGovernanceHash gov extensionId) (\<lambda>current.
       if current = Inr h then return_io (Inr ())
       else send_governance ch gov s privKey extensionId signers threshold)"
  by (auto simp: SetTeeGovernance_def wanted_hash_def split: if_splits sum.splits)

lemma SetTeeGovernance_unwanted:
  "wanted_hash gov signers threshold = None \<Longrightarrow>
   \<exists>err. SetTeeGovernance ch gov s privKey extensionId signers threshold w = (Inl err, w)"
  by (auto simp: SetTeeGovernance_def wanted_hash_def split: if_splits sum.splits)

text \<open>The operation as its callers see it: refused arguments are an error, not a transaction.\<close>

definition governance_act ::
  "('w, 'k) chain \<Rightarrow> 'w governance_ops \<Rightarrow> 'k support \<Rightarrow> 'k \<Rightarrow> int \<Rightarrow> address list \<Rightarrow> u64 \<Rightarrow> ('w, unit result) io"
  where
  "governance_act ch gov s k i signers threshold =
     (if wanted_hash gov signers threshold = None then SetTeeGovernance ch gov s k i signers threshold
      else send_governance ch gov s k i signers threshold)"

definition governance_look ::
  "'w governance_ops \<Rightarrow> int \<Rightarrow> address list \<Rightarrow> u64 \<Rightarrow> ('w, hash result) io" where
  "governance_look gov i signers threshold =
     (if wanted_hash gov signers threshold = None then return_io (Inr 0) else GetLatestTeeGovernanceHash gov i)"

interpretation governance: guarded_update
  "governance_look gov i signers threshold" "\<lambda>h. wanted_hash gov signers threshold = Some h"
  "governance_act ch gov s k i signers threshold" "SetTeeGovernance ch gov s k i signers threshold"
  for ch gov s k i signers threshold
  by unfold_locales
    (auto simp: governance_look_def governance_act_def SetTeeGovernance_wanted go_simps split: if_splits)

text \<open>
  C30: A successful run leaves the chain with the wanted governance: either the latest hash was already
  that of the signers and the threshold and nothing was sent, or a transaction with exactly these
  signers and this threshold was mined successfully. It succeeds only for at least one signer and a
  threshold between 1 and their number.
\<close>

theorem governance_set:
  assumes "SetTeeGovernance ch gov s k i signers threshold w = (Inr (), w')" "length signers < 2 ^ 64"
  shows "\<exists>h current w1. GovernanceHash gov signers threshold = Inr h \<and>
    1 \<le> unat threshold \<and> unat threshold \<le> length signers \<and>
    GetLatestTeeGovernanceHash gov i w = (current, w1) \<and>
    (if current = Inr h then w' = w1
     else \<exists>opts tx w2 receipt. NewTransactor ch k (SupChainID s) = Inr opts \<and>
       SetNewTeeGovernance gov opts i signers threshold w1 = (Inr tx, w2) \<and>
       WaitMined ch tx w2 = (Inr receipt, w') \<and> rcStatus receipt \<noteq> 0)"
proof -
  obtain h where h: "wanted_hash gov signers threshold = Some h"
    using assms(1) SetTeeGovernance_unwanted[of gov signers threshold ch s k i w] by fastforce
  obtain current w1 where look: "GetLatestTeeGovernanceHash gov i w = (current, w1)" by fastforce
  have bounds: "1 \<le> unat threshold" "unat threshold \<le> length signers" "GovernanceHash gov signers threshold = Inr h"
    using h assms(2)
    by (auto simp: wanted_hash_def word_le_nat_alt not_less unat_of_nat_u64 unat_gt_0 Suc_le_eq
        split: if_splits sum.splits)
  show ?thesis
  proof (cases "current = Inr h")
    case True
    then have "w' = w1"
      using assms(1) look by (simp add: SetTeeGovernance_wanted[OF h] go_simps)
    with True look bounds show ?thesis by auto
  next
    case False
    then have "send_governance ch gov s k i signers threshold w1 = (Inr (), w')"
      using assms(1) look by (simp add: SetTeeGovernance_wanted[OF h] go_simps)
    then have "\<exists>opts tx w2 receipt. NewTransactor ch k (SupChainID s) = Inr opts \<and>
       SetNewTeeGovernance gov opts i signers threshold w1 = (Inr tx, w2) \<and>
       WaitMined ch tx w2 = (Inr receipt, w') \<and> rcStatus receipt \<noteq> 0"
      by (auto simp: send_governance_def submit_ok_iff split: sum.splits)
    with False look bounds show ?thesis by auto
  qed
qed

text \<open>
  C31: Setting the governance is idempotent: on a chain whose reads change nothing and whose latest
  governance hash, after a successful transaction, is that of the signers and threshold sent, a run
  after a successful run succeeds and leaves the chain as it is.
\<close>

theorem governance_idempotent:
  assumes view: "\<And>w. snd (GetLatestTeeGovernanceHash gov i w) = w"
    and visible: "\<And>opts w tx w1 receipt w2 h. SetNewTeeGovernance gov opts i signers threshold w = (Inr tx, w1) \<Longrightarrow>
      WaitMined ch tx w1 = (Inr receipt, w2) \<Longrightarrow> rcStatus receipt \<noteq> 0 \<Longrightarrow>
      GovernanceHash gov signers threshold = Inr h \<Longrightarrow> fst (GetLatestTeeGovernanceHash gov i w2) = Inr h"
    and ran: "SetTeeGovernance ch gov s k i signers threshold w = (Inr (), w')"
  shows "SetTeeGovernance ch gov s k i signers threshold w' = (Inr (), w')"
proof (rule governance.idempotent[OF _ _ ran])
  show "snd (governance_look gov i signers threshold w) = w" for w
    by (simp add: governance_look_def view)
next
  fix w w'
  assume act: "governance_act ch gov s k i signers threshold w = (Inr (), w')"
  obtain h where h: "wanted_hash gov signers threshold = Some h"
    using act SetTeeGovernance_unwanted[of gov signers threshold ch s k i w]
    by (fastforce simp: governance_act_def)
  then have sent: "send_governance ch gov s k i signers threshold w = (Inr (), w')"
    using act by (simp add: governance_act_def)
  have "GovernanceHash gov signers threshold = Inr h"
    using h by (auto simp: wanted_hash_def split: if_splits sum.splits)
  then have "fst (GetLatestTeeGovernanceHash gov i w') = Inr h"
    using sent visible by (auto simp: send_governance_def submit_ok_iff split: sum.splits)
  then show "\<exists>v. fst (governance_look gov i signers threshold w') = Inr v \<and> wanted_hash gov signers threshold = Some v"
    using h by (simp add: governance_look_def)
qed

section \<open>The command\<close>

fun collect_signers :: "(string \<Rightarrow> address) \<Rightarrow> string list \<Rightarrow> address list" where
  "collect_signers toAddr [] = []"
| "collect_signers toAddr (part # rest) =
     (if TrimSpace part \<noteq> '''' then toAddr (TrimSpace part) # collect_signers toAddr rest
      else collect_signers toAddr rest)"

definition parseSigners :: "(string \<Rightarrow> address) \<Rightarrow> string \<Rightarrow> address \<Rightarrow> address list" where
  "parseSigners toAddr raw fallback =
     (let signers = collect_signers toAddr (Split CHR '','' raw) in
      if length signers = 0 then [fallback] else signers)"

definition parseThreshold :: "string \<Rightarrow> u64" where
  "parseThreshold raw = (case ParseUint64 (TrimSpace raw) of
     Some v \<Rightarrow> if v > 0 then v else 1 | None \<Rightarrow> 1)"

text \<open>The key of the extension's owner: \<open>EXTENSION_OWNER_KEY\<close> without its prefix, the deployment key when unset.\<close>

definition governance_key :: "(string \<Rightarrow> 'k result) \<Rightarrow> env \<Rightarrow> 'k support \<Rightarrow> 'k result" where
  "governance_key hexToECDSA e s =
     (let privKeyString = e ''EXTENSION_OWNER_KEY'' in
      if privKeyString \<noteq> '''' then hexToECDSA (TrimPrefix (TrimPrefix privKeyString ''0x'') ''0X'')
      else Inr (Prv s))"

definition default_signer :: "('w, 'k) chain \<Rightarrow> env \<Rightarrow> 'k \<Rightarrow> address" where
  "default_signer ch e privKey =
     (let io = TrimSpace (e ''INITIAL_OWNER'') in
      if io \<noteq> '''' then HexToAddress ch io else PubkeyToAddress ch privKey)"

text \<open>\<open>main\<close> of \<open>set-governance\<close>: an error ends the process (\<open>FatalWithCause\<close>).\<close>

definition set_governance_main ::
  "('w, 'k) chain \<Rightarrow> ('w, 'p) tee_lib \<Rightarrow> 'w governance_ops \<Rightarrow> (string \<Rightarrow> 'k result) \<Rightarrow> 'k support result \<Rightarrow>
   env \<Rightarrow> string \<Rightarrow> ('w, unit result) io" where
  "set_governance_main ch net gov hexToECDSA testSupport e proxyURL = (case testSupport of
     Inl err \<Rightarrow> return_io (Inl err)
   | Inr s \<Rightarrow> (case governance_key hexToECDSA e s of
       Inl err \<Rightarrow> return_io (Inl err)
     | Inr privKey \<Rightarrow> try_io (TeeInfo net proxyURL) (\<lambda>err. err) (\<lambda>teeInfo.
         let extensionID = uint (mdExtensionID (MachineData teeInfo));
             signers = parseSigners (HexToAddress ch) (e ''GOVERNANCE_SIGNERS'') (default_signer ch e privKey);
             threshold = parseThreshold (e ''GOVERNANCE_THRESHOLD'')
         in SetTeeGovernance ch gov s privKey extensionID signers threshold)))"

lemma collect_signers_eq:
  "collect_signers toAddr parts = map toAddr (filter (\<lambda>t. t \<noteq> '''') (map TrimSpace parts))"
  by (induction parts) auto

text \<open>
  The command never asks for an empty signer set or a zero threshold: the signers are the non-blank
  parts of the list in order, the fallback alone when there is none, and the threshold is the number
  given when it is a positive decimal below 2^64, otherwise 1. So an unconfigured environment asks for
  one signer and threshold 1, which the guards of \<open>SetTeeGovernance\<close> accept.
\<close>

theorem governance_inputs:
  "parseSigners toAddr raw fallback \<noteq> [] \<and>
   (parseSigners toAddr raw fallback = map toAddr (filter (\<lambda>t. t \<noteq> '''') (map TrimSpace (Split CHR '','' raw))) \<or>
    parseSigners toAddr raw fallback = [fallback]) \<and>
   parseSigners toAddr '''' fallback = [fallback] \<and>
   0 < parseThreshold rawT \<and> parseThreshold '''' = 1 \<and>
   parseThreshold (show_u64 t) = (if t = 0 then 1 else t)"
proof -
  have "unat t < 2 ^ 64" using unsigned_less[of t] by simp
  then have "ParseUint64 (TrimSpace (show_u64 t)) = Some t"
    using ParseUint64_show_nat[of "unat t"] by (simp add: show_u64_def)
  then have "parseThreshold (show_u64 t) = (if t = 0 then 1 else t)"
    by (simp add: parseThreshold_def word_gt_0)
  then show ?thesis
    by (auto simp: parseSigners_def collect_signers_eq parseThreshold_def ParseUint64_def parse_dec_def Let_def
        word_gt_0 split: option.splits)
qed

section \<open>Witnesses\<close>

text \<open>A chain whose world is its current governance hash; setting it makes it 7.\<close>

definition gov_ch :: "(nat, nat) chain" where
  "gov_ch = demo_ch\<lparr>WaitMined := (\<lambda>h n. (Inr \<lparr>rcStatus = 1, rcLogs = [], rcTxHash = h\<rparr>, n))\<rparr>"

definition demo_gov :: "nat governance_ops" where
  "demo_gov = \<lparr>GovernanceHash = (\<lambda>signers t. Inr 7), GetLatestTeeGovernanceHash = (\<lambda>i n. (Inr (of_nat n), n)),
     SetNewTeeGovernance = (\<lambda>opts i signers t n. (Inr 1, 7))\<rparr>"

definition gov_support :: "nat support" where
  "gov_support = \<lparr>Prv = 3, SupChainID = 114, AddressesOf = no_addresses, bindings = []\<rparr>"

lemma demo_governance_run: "SetTeeGovernance gov_ch demo_gov gov_support 3 5 [4, 6] 2 0 = (Inr (), 7)"
  by (simp add: SetTeeGovernance_def send_governance_def submit_def CheckTx_def demo_gov_def gov_ch_def demo_ch_def
      gov_support_def try_io_def then_io_def)

theorem governance_set_witness:
  "GovernanceHash demo_gov [4, 6] 2 = Inr 7 \<and>
   (\<exists>h current w1. GovernanceHash demo_gov [4, 6] 2 = Inr h \<and> 1 \<le> unat (2 :: u64) \<and> unat (2 :: u64) \<le> length [4, 6 :: address] \<and>
    GetLatestTeeGovernanceHash demo_gov 5 0 = (current, w1) \<and>
    (if current = Inr h then 7 = w1
     else \<exists>opts tx w2 receipt. NewTransactor gov_ch 3 (SupChainID gov_support) = Inr opts \<and>
       SetNewTeeGovernance demo_gov opts 5 [4, 6] 2 w1 = (Inr tx, w2) \<and>
       WaitMined gov_ch tx w2 = (Inr receipt, 7) \<and> rcStatus receipt \<noteq> 0))"
  by (rule conjI, simp add: demo_gov_def, rule governance_set[OF demo_governance_run], simp)

theorem governance_idempotent_witness:
  "SetTeeGovernance gov_ch demo_gov gov_support 3 5 [4, 6] 2 7 = (Inr (), 7)"
  by (rule governance_idempotent[OF _ _ demo_governance_run])
    (auto simp: demo_gov_def gov_ch_def)

end
