(* ===== verification/Validate_Report.thy ===== *)
theory Validate_Report
  imports Go_Json "HOL-Library.Multiset" "HOL-Library.Sublist"
begin

text \<open>
  The verification report: \<open>go/tools/pkg/validate/report.go\<close>. A report is the list of results in
  the order they were added; the terminal form groups them by step, the JSON form keeps their order.
\<close>

section \<open>Statuses\<close>

text \<open>A Go enumeration is an integer type: other values than the four constants exist and print UNKNOWN.\<close>

datatype Status = Status (status_code: int)

definition PASS :: Status where "PASS = Status 0"
definition WARN :: Status where "WARN = Status 1"
definition FAIL :: Status where "FAIL = Status 2"
definition SKIP :: Status where "SKIP = Status 3"

lemma status_distinct [simp]:
  "PASS \<noteq> WARN" "WARN \<noteq> PASS" "PASS \<noteq> FAIL" "FAIL \<noteq> PASS" "PASS \<noteq> SKIP" "SKIP \<noteq> PASS"
  "WARN \<noteq> FAIL" "FAIL \<noteq> WARN" "WARN \<noteq> SKIP" "SKIP \<noteq> WARN" "FAIL \<noteq> SKIP" "SKIP \<noteq> FAIL"
  by (simp_all add: PASS_def WARN_def FAIL_def SKIP_def)

text \<open>The constants are ordered as the integers behind them.\<close>

instantiation Status :: linorder
begin

definition less_eq_Status :: "Status \<Rightarrow> Status \<Rightarrow> bool" where
  "less_eq_Status s t \<longleftrightarrow> status_code s \<le> status_code t"

definition less_Status :: "Status \<Rightarrow> Status \<Rightarrow> bool" where
  "less_Status s t \<longleftrightarrow> status_code s < status_code t"

instance
  by standard (auto simp: less_eq_Status_def less_Status_def intro: Status.expand)

end

definition String :: "Status \<Rightarrow> string" where
  "String s =
     (if s = PASS then ''PASS''
      else if s = WARN then ''WARN''
      else if s = FAIL then ''FAIL''
      else if s = SKIP then ''SKIP''
      else ''UNKNOWN'')"

section \<open>Reports\<close>

record CheckResult =
  Step :: string
  ID :: string
  Name :: string
  StatusOf :: Status
  Message :: string
  Fix :: string

record Report =
  Results :: "CheckResult list"

definition Add :: "Report \<Rightarrow> CheckResult \<Rightarrow> Report" where
  "Add r result = r\<lparr>Results := Results r @ [result]\<rparr>"

fun has_failure :: "CheckResult list \<Rightarrow> bool" where
  "has_failure [] = False"
| "has_failure (res # rest) = (if StatusOf res = FAIL then True else has_failure rest)"

definition HasFailures :: "Report \<Rightarrow> bool" where
  "HasFailures r = has_failure (Results r)"

text \<open>The four counters of \<open>Summary\<close> after the loop.\<close>

fun count_statuses :: "CheckResult list \<Rightarrow> nat \<times> nat \<times> nat \<times> nat \<Rightarrow> nat \<times> nat \<times> nat \<times> nat" where
  "count_statuses [] c = c"
| "count_statuses (res # rest) (passed, warning, failed, skipped) = count_statuses rest
     (if StatusOf res = PASS then (Suc passed, warning, failed, skipped)
      else if StatusOf res = WARN then (passed, Suc warning, failed, skipped)
      else if StatusOf res = FAIL then (passed, warning, Suc failed, skipped)
      else if StatusOf res = SKIP then (passed, warning, failed, Suc skipped)
      else (passed, warning, failed, skipped))"

definition Summary :: "Report \<Rightarrow> string" where
  "Summary r = (case count_statuses (Results r) (0, 0, 0, 0) of (passed, warning, failed, skipped) \<Rightarrow>
     show_nat passed @ '' passed, '' @ show_nat warning @ '' warning, '' @
     show_nat failed @ '' failed, '' @ show_nat skipped @ '' skipped'')"

section \<open>Terminal form\<close>

definition colour :: "string \<Rightarrow> string" where "colour code = CHR 0x1B # ''['' @ code @ ''m''"

definition colorReset :: string where "colorReset = colour ''0''"
definition colorRed :: string where "colorRed = colour ''31''"
definition colorGreen :: string where "colorGreen = colour ''32''"
definition colorYellow :: string where "colorYellow = colour ''33''"
definition colorCyan :: string where "colorCyan = colour ''36''"
definition colorGray :: string where "colorGray = colour ''90''"

definition statusColor :: "Status \<Rightarrow> string" where
  "statusColor s =
     (if s = PASS then colorGreen
      else if s = WARN then colorYellow
      else if s = FAIL then colorRed
      else if s = SKIP then colorGray
      else colorReset)"

definition stepLabel :: "string \<Rightarrow> string option" where
  "stepLabel = map_of
     [(''deploy'', ''Contract Deployment''),
      (''register'', ''Extension Registration''),
      (''services'', ''Service Startup''),
      (''tee-version'', ''TEE Version Registration''),
      (''tee-machine'', ''TEE Machine Registration''),
      (''test'', ''Testing'')]"

text \<open>The label of a step: the table's, the step itself when the table has none (or an empty one).\<close>

definition step_heading :: "string \<Rightarrow> string" where
  "step_heading step = (let label = (case stepLabel step of None \<Rightarrow> '''' | Some l \<Rightarrow> l)
     in if label = '''' then step else label)"

text \<open>The distinct steps in the order of their first result.\<close>

fun collect_steps :: "string set \<Rightarrow> CheckResult list \<Rightarrow> string list" where
  "collect_steps seen [] = []"
| "collect_steps seen (res # rest) =
     (if Step res \<in> seen then collect_steps seen rest
      else Step res # collect_steps (insert (Step res) seen) rest)"

definition print_result :: "CheckResult \<Rightarrow> string" where
  "print_result res =
     ''  '' @ statusColor (StatusOf res) @ ''['' @ String (StatusOf res) @ '']'' @ colorReset @ '' '' @
     ID res @ ''  '' @ Name res @ newline @
     (if StatusOf res = FAIL \<or> StatusOf res = WARN
      then (if Message res \<noteq> '''' then ''         '' @ Message res @ newline else '''') @
           (if Fix res \<noteq> '''' then ''         Fix: '' @ Fix res @ newline else '''')
      else '''')"

definition print_step :: "Report \<Rightarrow> string \<Rightarrow> string" where
  "print_step r step =
     step_heading step @ '':'' @ newline @
     concat (map print_result (filter (\<lambda>res. Step res = step) (Results r))) @ newline"

definition Fprint :: "Report \<Rightarrow> string" where
  "Fprint r =
     newline @ colorCyan @ ''=== Deployment Verification Report ==='' @ colorReset @ newline @ newline @
     concat (map (print_step r) (collect_steps {} (Results r))) @
     Summary r @ newline"

section \<open>JSON form\<close>

record jsonResult =
  jStep :: string
  jID :: string
  jName :: string
  jStatus :: string
  jMessage :: string
  jFix :: string

record jsonReport =
  jResults :: "jsonResult list"
  jSummary :: string

definition json_report :: "Report \<Rightarrow> jsonReport" where
  "json_report r = \<lparr>
     jResults = map (\<lambda>res. \<lparr>jStep = Step res, jID = ID res, jName = Name res, jStatus = String (StatusOf res),
       jMessage = TrimSpace (Message res), jFix = TrimSpace (Fix res)\<rparr>) (Results r),
     jSummary = Summary r\<rparr>"

text \<open>The struct tags: the names of the fields; \<open>omitempty\<close> leaves out an empty message or fix.\<close>

definition json_of_result :: "jsonResult \<Rightarrow> json" where
  "json_of_result j = JObject
     ([(''step'', JString (jStep j)), (''id'', JString (jID j)), (''name'', JString (jName j)),
       (''status'', JString (jStatus j))] @
      (if jMessage j = '''' then [] else [(''message'', JString (jMessage j))]) @
      (if jFix j = '''' then [] else [(''fix'', JString (jFix j))]))"

definition json_of_report :: "jsonReport \<Rightarrow> json" where
  "json_of_report j = JObject
     [(''results'', JArray (map json_of_result (jResults j))), (''summary'', JString (jSummary j))]"

definition FprintJSON :: "Report \<Rightarrow> string" where
  "FprintJSON r = indent_json 0 (json_of_report (json_report r)) @ newline"

section \<open>Grouping\<close>

lemma collect_steps_set: "set (collect_steps seen rs) = Step ` set rs - seen"
  by (induction seen rs rule: collect_steps.induct) auto

lemma collect_steps_distinct: "distinct (collect_steps seen rs)"
  by (induction seen rs rule: collect_steps.induct) (auto simp: collect_steps_set)

text \<open>Splitting a list by the value of a key and joining the parts again only reorders it.\<close>

lemma mset_groups:
  "distinct ks \<Longrightarrow> mset (concat (map (\<lambda>k. filter (\<lambda>x. f x = k) xs) ks)) = filter_mset (\<lambda>x. f x \<in> set ks) (mset xs)"
proof (induction ks)
  case (Cons k ks)
  then show ?case by (auto simp: multiset_eq_iff)
qed simp

definition print_group :: "string \<times> CheckResult list \<Rightarrow> string" where
  "print_group g = step_heading (fst g) @ '':'' @ newline @ concat (map print_result (snd g)) @ newline"

text \<open>
  The terminal report is the banner, one block per group and the summary, where the groups are the
  results partitioned by step: together they are a rearrangement of the results (each printed exactly
  once), no step has two blocks, no block is empty, and inside a block the results keep their order.
\<close>

theorem report_groups:
  "\<exists>groups.
     Fprint r = newline @ colorCyan @ ''=== Deployment Verification Report ==='' @ colorReset @ newline @ newline @
       concat (map print_group groups) @ Summary r @ newline \<and>
     mset (concat (map snd groups)) = mset (Results r) \<and>
     distinct (map fst groups) \<and>
     list_all (\<lambda>(step, rs). rs \<noteq> [] \<and> subseq rs (Results r) \<and> list_all (\<lambda>res. Step res = step) rs) groups"
proof -
  let ?steps = "collect_steps {} (Results r)"
  let ?group = "\<lambda>step. (step, filter (\<lambda>res. Step res = step) (Results r))"
  have fprint: "concat (map (print_step r) ?steps) = concat (map print_group (map ?group ?steps))"
  proof -
    have "print_step r = print_group \<circ> ?group"
      by (rule ext) (simp add: print_step_def print_group_def)
    then show ?thesis by simp
  qed
  have parts: "mset (concat (map snd (map ?group ?steps))) = mset (Results r)"
    using mset_groups[OF collect_steps_distinct, of Step "Results r" "{}" "Results r"]
    by (simp add: collect_steps_set o_def filter_mset_eq_conv)
  have names: "map fst (map ?group ?steps) = ?steps"
    by (simp add: o_def)
  have "list_all (\<lambda>(step, rs). rs \<noteq> [] \<and> subseq rs (Results r) \<and> list_all (\<lambda>res. Step res = step) rs)
      (map ?group ?steps)"
    by (auto simp: list_all_iff collect_steps_set filter_empty_conv)
  then show ?thesis
    using parts collect_steps_distinct[of "{}" "Results r"]
    by (intro exI[of _ "map ?group ?steps"] conjI) (simp_all only: Fprint_def fprint names)
qed

section \<open>Verdict\<close>

definition with_status :: "Status \<Rightarrow> CheckResult list \<Rightarrow> nat" where
  "with_status s rs = length (filter (\<lambda>res. StatusOf res = s) rs)"

lemma count_statuses_eq:
  "count_statuses rs (p, w, f, k) =
     (p + with_status PASS rs, w + with_status WARN rs, f + with_status FAIL rs, k + with_status SKIP rs)"
  by (induction rs arbitrary: p w f k) (auto simp: with_status_def)

lemma has_failure_iff: "has_failure rs \<longleftrightarrow> (\<exists>res \<in> set rs. StatusOf res = FAIL)"
  by (induction rs) auto

lemma with_status_sum:
  "with_status PASS rs + with_status WARN rs + with_status FAIL rs + with_status SKIP rs +
     length (filter (\<lambda>res. StatusOf res \<notin> {PASS, WARN, FAIL, SKIP}) rs) = length rs"
  by (induction rs) (auto simp: with_status_def)

lemma has_failure_count: "has_failure rs \<longleftrightarrow> with_status FAIL rs \<noteq> 0"
  by (induction rs) (auto simp: with_status_def)

text \<open>
  The summary line prints four counts that are the numbers of results with each status; together
  with the results of no known status they account for every result, and \<open>HasFailures\<close> holds exactly
  when the printed number of failures is not zero.
\<close>

theorem summary_counts:
  "\<exists>p w f k. Summary r = show_nat p @ '' passed, '' @ show_nat w @ '' warning, '' @ show_nat f @
       '' failed, '' @ show_nat k @ '' skipped'' \<and>
     p + w + f + k + length (filter (\<lambda>res. String (StatusOf res) = ''UNKNOWN'') (Results r)) = length (Results r) \<and>
     p = length (filter (\<lambda>res. String (StatusOf res) = ''PASS'') (Results r)) \<and>
     f = length (filter (\<lambda>res. String (StatusOf res) = ''FAIL'') (Results r)) \<and>
     (HasFailures r \<longleftrightarrow> f \<noteq> 0)"
proof -
  let ?rs = "Results r"
  have label: "(String s = ''UNKNOWN'') = (s \<notin> {PASS, WARN, FAIL, SKIP})"
      "(String s = ''PASS'') = (s = PASS)" "(String s = ''FAIL'') = (s = FAIL)" for s
    by (simp_all add: String_def)
  have "Summary r = show_nat (with_status PASS ?rs) @ '' passed, '' @ show_nat (with_status WARN ?rs) @
      '' warning, '' @ show_nat (with_status FAIL ?rs) @ '' failed, '' @ show_nat (with_status SKIP ?rs) @ '' skipped''"
    unfolding Summary_def count_statuses_eq by simp
  moreover have "HasFailures r \<longleftrightarrow> with_status FAIL ?rs \<noteq> 0"
    by (simp add: HasFailures_def has_failure_count)
  ultimately show ?thesis
    using with_status_sum[of ?rs] unfolding label with_status_def by blast
qed

section \<open>Reading the report back\<close>


end
