(* ===== verification/Registration.thy ===== *)
theory Registration
  imports Governance Validate_Report
begin

text \<open>
  The registration of a TEE node: \<open>go/tools/pkg/fccutils/registration.go\<close> and the command
  \<open>register-tee\<close>. \<open>RegisterNode\<close> runs up to four phases named by the letters of its command
  (\<open>r\<close> pre-registration, \<open>R\<close> attestation request, \<open>a\<close> availability check, \<open>p\<close> production) and keeps a
  state file so that a later run can take up where one failed. Contract calls and decoders are the
  record \<open>register_ops\<close>, the file system is \<open>file_ops\<close>.
\<close>

section \<open>State file\<close>

record registrationState =
  CompletedSteps :: string
  TeeAttestInstructionID :: hash
  InstructionID :: hash

definition fresh_state :: registrationState where
  "fresh_state = \<lparr>CompletedSteps = '''', TeeAttestInstructionID = 0, InstructionID = 0\<rparr>"

datatype read_result = NoSuchFile | ReadFailed go_error | FileBytes bytes

text \<open>
  \<open>hashFromText\<close> is go-ethereum's decoding of the quoted text of a hash, \<open>jsonError\<close> the error that
  \<open>encoding/json\<close> reports for an input it refuses.
\<close>

record 'w file_ops =
  ReadFile :: "string \<Rightarrow> ('w, read_result) io"
  WriteFile :: "string \<Rightarrow> bytes \<Rightarrow> ('w, go_error option) io"
  RemoveFile :: "string \<Rightarrow> ('w, unit result) io"
  hashFromText :: "string \<Rightarrow> hash option"
  jsonError :: "bytes \<Rightarrow> go_error"

text \<open>
  \<open>json.Unmarshal\<close> into the state. A hash decodes itself from the raw text of a string and refuses every
  other value.
\<close>

definition state_fields :: "string list" where
  "state_fields = [''completed_steps'', ''tee_attest_instruction_id'', ''instruction_id'']"

definition decode_hash :: "'w file_ops \<Rightarrow> jvalue \<Rightarrow> hash option" where
  "decode_hash fs v = (case v of VString raw \<Rightarrow> hashFromText fs raw | _ \<Rightarrow> None)"

definition decode_state_field ::
  "'w file_ops \<Rightarrow> string \<Rightarrow> jvalue \<Rightarrow> registrationState \<Rightarrow> registrationState option" where
  "decode_state_field fs f v st =
     (if f = ''completed_steps''
      then map_option (\<lambda>t. st\<lparr>CompletedSteps := t\<rparr>) (decode_string v (CompletedSteps st))
      else if f = ''tee_attest_instruction_id''
      then map_option (\<lambda>h. st\<lparr>TeeAttestInstructionID := h\<rparr>) (decode_hash fs v)
      else map_option (\<lambda>h. st\<lparr>InstructionID := h\<rparr>) (decode_hash fs v))"

definition unmarshalState :: "'w file_ops \<Rightarrow> bytes \<Rightarrow> registrationState result" where
  "unmarshalState fs content =
     (case Option.bind (parse_json (bytes_str content))
         (\<lambda>v. decode_struct state_fields (decode_state_field fs) v fresh_state) of
        None \<Rightarrow> Inl (jsonError fs content)
      | Some st \<Rightarrow> Inr st)"

definition loadState :: "'w file_ops \<Rightarrow> string \<Rightarrow> ('w, registrationState result) io" where
  "loadState fs path = then_io (ReadFile fs path) (\<lambda>r. return_io (case r of
     NoSuchFile \<Rightarrow> Inr fresh_state
   | ReadFailed err \<Rightarrow> Inl (prefixf ''failed to read state file: '' err)
   | FileBytes content \<Rightarrow> (case unmarshalState fs content of
       Inl err \<Rightarrow> Inl (prefixf ''failed to parse state file: '' err) | Inr state \<Rightarrow> Inr state)))"

text \<open>\<open>json.MarshalIndent\<close> of the state; a hash is a JSON string of its hexadecimal form.\<close>

definition marshal_state :: "('w, 'k) chain \<Rightarrow> registrationState \<Rightarrow> string" where
  "marshal_state ch st = indent_json 0 (JObject
     [(''completed_steps'', JString (CompletedSteps st)),
      (''tee_attest_instruction_id'', JString (HashHex ch (TeeAttestInstructionID st))),
      (''instruction_id'', JString (HashHex ch (InstructionID st)))])"

definition saveState ::
  "('w, 'k) chain \<Rightarrow> 'w file_ops \<Rightarrow> string \<Rightarrow> registrationState \<Rightarrow> ('w, go_error option) io" where
  "saveState ch fs path st = then_io (WriteFile fs path (str_bytes (marshal_state ch st)))
     (\<lambda>r. return_io (case r of None \<Rightarrow> None | Some err \<Rightarrow> Some (prefixf ''failed to write state file: '' err)))"

text \<open>
  What go-ethereum documents of a hash's text: hexadecimal digits after \<open>0x\<close>, from which decoding gives
  the hash back. Such a text needs no escapes.
\<close>

definition hash_texts :: "('w, 'k) chain \<Rightarrow> 'w file_ops \<Rightarrow> bool" where
  "hash_texts ch fs \<longleftrightarrow> (\<forall>h. hashFromText fs (HashHex ch h) = Some h \<and>
     (\<forall>c \<in> set (HashHex ch h). is_hex c \<or> c = CHR ''x''))"

lemma escape_plain:
  "\<forall>c \<in> set s. is_hex c \<or> c = CHR ''x'' \<Longrightarrow> escape_string s = s"
proof (induction s)
  case (Cons c s)
  then have "is_hex c \<or> c = CHR ''x''" by simp
  then have c: "(of_char c :: nat) < 128 \<and> escape_ascii c = [c]"
    by (auto simp: is_hex_def hex_val_def escape_ascii_def Let_def split: if_splits)
  then show ?case using Cons by (simp add: escape_string.simps(2) rune_len_ascii)
qed simp

lemma field_of_state:
  "field_of state_fields (unquote (escape_string ''completed_steps'')) = Some ''completed_steps''"
  "field_of state_fields (unquote (escape_string ''tee_attest_instruction_id'')) = Some ''tee_attest_instruction_id''"
  "field_of state_fields (unquote (escape_string ''instruction_id'')) = Some ''instruction_id''"
  by (simp_all add: unquote_escape_string ascii_to_valid field_of_def state_fields_def)

lemma unmarshal_marshal:
  assumes "hash_texts ch fs" "to_valid (CompletedSteps st) = CompletedSteps st"
  shows "unmarshalState fs (str_bytes (marshal_state ch st)) = Inr st"
proof -
  have hash: "decode_hash fs (VString (escape_string (HashHex ch h))) = Some h" for h
    using assms(1) by (simp add: hash_texts_def decode_hash_def escape_plain)
  have "parse_json (marshal_state ch st) = Some (tree_of (JObject
     [(''completed_steps'', JString (CompletedSteps st)),
      (''tee_attest_instruction_id'', JString (HashHex ch (TeeAttestInstructionID st))),
      (''instruction_id'', JString (HashHex ch (InstructionID st)))]))"
    unfolding marshal_state_def by (rule parse_json_text) (simp add: maxNestingDepth_def)
  moreover have "unquote (escape_string (CompletedSteps st)) = CompletedSteps st"
    using assms(2) by (simp add: unquote_escape_string)
  ultimately show ?thesis
    by (simp add: unmarshalState_def decode_struct_def field_of_state decode_state_field_def hash decode_string_def
        fresh_state_def)
qed

section \<open>Chain calls\<close>

record availability_request =
  arTeeId :: address
  arRest :: bytes

record availability_response =
  avStatus :: byte
  avTeeTimestamp :: u64
  avCodeHash :: hash
  avPlatform :: hash
  avInitialSigningPolicyId :: "32 word"
  avLastSigningPolicyId :: "32 word"
  avState :: bytes

record availability_proof =
  apSignatures :: bytes
  apHeader :: bytes
  apRequest :: availability_request
  apResponse :: availability_response

record prove_response =
  prSignatures :: bytes
  prHeader :: bytes
  prRequestBody :: bytes
  prResponseBody :: bytes

text \<open>The machine data sent on-chain, and a signature in its three parts.\<close>

record registry_data =
  rdExtensionId :: int
  rdInitialOwner :: address
  rdCodeHash :: hash
  rdPlatform :: hash
  rdPublicKey :: pub
  rdGovernanceHash :: hash

record vrs =
  sigV :: byte
  sigR :: bytes
  sigS :: bytes

record 'w register_ops =
  GetTeeMachine :: "address \<Rightarrow> ('w, address result) io"
  RegisterMachine :: "tx_opts \<Rightarrow> registry_data \<Rightarrow> vrs \<Rightarrow> address \<Rightarrow> string \<Rightarrow> address \<Rightarrow> ('w, hash result) io"
  ParseTeeAttestationRequested :: "log \<Rightarrow> hash result"
  ParseTeeInstructionsSent :: "log \<Rightarrow> hash result"
  RequestAttestation :: "tx_opts \<Rightarrow> address \<Rightarrow> address \<Rightarrow> ('w, hash result) io"
  RequestAvailability :: "tx_opts \<Rightarrow> address \<Rightarrow> hash \<Rightarrow> address \<Rightarrow> address \<Rightarrow> address \<Rightarrow> ('w, hash result) io"
  packAvailability :: "address \<Rightarrow> hash \<Rightarrow> address \<Rightarrow> address \<Rightarrow> address \<Rightarrow> bytes result"
  GetTeeMachineStatus :: "address \<Rightarrow> ('w, byte result) io"
  SendToProduction :: "tx_opts \<Rightarrow> availability_proof \<Rightarrow> ('w, hash result) io"
  packToProduction :: "availability_proof \<Rightarrow> bytes result"
  abiOf :: "string \<Rightarrow> abi_error list result"
  SendTeeVersion :: "tx_opts \<Rightarrow> int \<Rightarrow> bytes \<Rightarrow> hash \<Rightarrow> hash list \<Rightarrow> ('w, hash result) io"
  GetCurrentRewardEpochId :: "('w, int option result) io"
  RSVtoVRS :: "bytes \<Rightarrow> bytes result"
  unmarshalProof :: "bytes \<Rightarrow> prove_response result"
  DecodeHeader :: "bytes \<Rightarrow> bytes result"
  decodeToRequest :: "bytes \<Rightarrow> availability_request result"
  decodeToResponse :: "bytes \<Rightarrow> availability_response result"

text \<open>\<open>NewKeyedTransactorWithChainID\<close> for the support's key, with 10^9 wei attached.\<close>

definition paying_opts :: "('w, 'k) chain \<Rightarrow> 'k support \<Rightarrow> tx_opts result" where
  "paying_opts ch s = (case NewTransactor ch (Prv s) (SupChainID s) of
     Inl err \<Rightarrow> Inl (restate err) | Inr opts \<Rightarrow> Inr (opts\<lparr>txValue := Some 1000000000\<rparr>))"

definition registry_data_of :: "machine_data \<Rightarrow> registry_data" where
  "registry_data_of md = \<lparr>rdExtensionId = uint (mdExtensionID md), rdInitialOwner = mdInitialOwner md,
     rdCodeHash = mdCodeHash md, rdPlatform = mdPlatform md, rdPublicKey = mdPublicKey md,
     rdGovernanceHash = mdGovernanceHash md\<rparr>"

definition vrs_of :: "bytes \<Rightarrow> vrs" where
  "vrs_of b = \<lparr>sigV = b ! 0, sigR = subslice b 1 33, sigS = subslice b 33 65\<rparr>"

definition pre_registration_logs :: "'w register_ops \<Rightarrow> receipt \<Rightarrow> (hash \<times> hash) result" where
  "pre_registration_logs ops receipt = (case rcLogs receipt of
     log0 # log1 # _ \<Rightarrow>
       (case ParseTeeAttestationRequested ops log1 of
          Inl err \<Rightarrow> Inl (prefixf ''failed to parse TeeAttestationRequested event: '' err)
        | Inr challenge \<Rightarrow>
            (case ParseTeeInstructionsSent ops log0 of
               Inl err \<Rightarrow> Inl (prefixf ''failed to parse TeeInstructionsSent event: '' err)
             | Inr instructionID \<Rightarrow> Inr (challenge, instructionID)))
   | _ \<Rightarrow> Inl (errorf ''unexpected logs, this should not happen''))"

definition PreRegistration ::
  "('w, 'k) chain \<Rightarrow> 'w register_ops \<Rightarrow> 'k support \<Rightarrow> string \<Rightarrow> address \<Rightarrow> address \<Rightarrow> signed_tee_info \<Rightarrow>
   ('w, (hash \<times> hash) result) io" where
  "PreRegistration ch ops s hostURL teeID proxyID teeInfo = (case paying_opts ch s of
     Inl err \<Rightarrow> return_io (Inl err)
   | Inr opts \<Rightarrow>
     if length (DataSignature teeInfo) \<noteq> 65 then return_io (Inl (errorf ''signature error''))
     else case RSVtoVRS ops (DataSignature teeInfo) of
       Inl err \<Rightarrow> return_io (Inl (restate err))
     | Inr sigVRS \<Rightarrow>
         submit ch (RegisterMachine ops opts (registry_data_of (MachineData teeInfo)) (vrs_of sigVRS) proxyID hostURL
             (PubkeyToAddress ch (Prv s)))
           (prefixf ''error: '') (\<lambda>err. err) (\<lambda>receipt. return_io (pre_registration_logs ops receipt)))"

definition RequestTeeAttestation ::
  "('w, 'k) chain \<Rightarrow> 'w register_ops \<Rightarrow> 'k support \<Rightarrow> address \<Rightarrow> ('w, hash result) io" where
  "RequestTeeAttestation ch ops s teeID = (case paying_opts ch s of
     Inl err \<Rightarrow> return_io (Inl err)
   | Inr opts \<Rightarrow>
       submit ch (RequestAttestation ops opts teeID (PubkeyToAddress ch (Prv s))) (prefixf ''error: '') (\<lambda>err. err)
         (\<lambda>receipt. return_io (case rcLogs receipt of
            log0 # log1 # _ \<Rightarrow> (case ParseTeeInstructionsSent ops log0 of
              Inl err \<Rightarrow> Inl (prefixf ''failed to parse TeeInstructionsSent event: '' err)
            | Inr instructionID \<Rightarrow> Inr instructionID)
          | _ \<Rightarrow> Inl (errorf ''unexpected logs, this should not happen''))))"

text \<open>
  The two diagnostics of \<open>diag.go\<close> (see \<open>diag_call\<close>): the call that failed is replayed and the revert looked
  up in the errors of four ABIs; an ABI that does not load is skipped there, but ends the diagnosis when
  it is the one the call data is packed with.
\<close>

definition diag_sources :: "'w register_ops \<Rightarrow> (string \<times> abi_error list option) list" where
  "diag_sources ops = map (\<lambda>name. (name, case abiOf ops name of Inl err \<Rightarrow> None | Inr errs \<Rightarrow> Some errs))
     [''Verification'', ''Fdc2Hub'', ''MachineManager'', ''ExtensionManager'']"

definition diag_with ::
  "('w, 'k) chain \<Rightarrow> 'w register_ops \<Rightarrow> 'k support \<Rightarrow> tx_opts \<Rightarrow> string \<Rightarrow> bytes result \<Rightarrow> ('w, string) io" where
  "diag_with ch ops s opts abiName calldata = diag_call ch (diag_sources ops) s opts abiName
     (case abiOf ops abiName of Inl err \<Rightarrow> Some err | Inr errs \<Rightarrow> None) calldata"

definition diagAvailabilityCheckRevert ::
  "('w, 'k) chain \<Rightarrow> 'w register_ops \<Rightarrow> 'k support \<Rightarrow> tx_opts \<Rightarrow> address \<Rightarrow> hash \<Rightarrow> address \<Rightarrow> address \<Rightarrow> address \<Rightarrow>
   ('w, string) io" where
  "diagAvailabilityCheckRevert ch ops s opts teeID instructionID externalTeeID proofOwner claimBackAddress =
     diag_with ch ops s opts ''Verification''
       (packAvailability ops teeID instructionID externalTeeID proofOwner claimBackAddress)"

definition diagToProductionRevert ::
  "('w, 'k) chain \<Rightarrow> 'w register_ops \<Rightarrow> 'k support \<Rightarrow> tx_opts \<Rightarrow> availability_proof \<Rightarrow> ('w, string) io" where
  "diagToProductionRevert ch ops s opts proof =
     diag_with ch ops s opts ''MachineManager'' (packToProduction ops proof)"

text \<open>A send whose failure is first diagnosed (the diagnosis only logs) and then reported.\<close>

definition diagnosed :: "('w, hash result) io \<Rightarrow> ('w, string) io \<Rightarrow> ('w, hash result) io" where
  "diagnosed send diag = then_io send (\<lambda>r. case r of
     Inl err \<Rightarrow> then_io diag (\<lambda>_. return_io (Inl err)) | Inr tx \<Rightarrow> return_io (Inr tx))"

definition RequestFTDCAvailabilityCheck ::
  "('w, 'k) chain \<Rightarrow> 'w register_ops \<Rightarrow> 'k support \<Rightarrow> address \<Rightarrow> address \<Rightarrow> hash \<Rightarrow> ('w, hash result) io" where
  "RequestFTDCAvailabilityCheck ch ops s teeID externalTeeID teeAttestInstructionID = (case paying_opts ch s of
     Inl err \<Rightarrow> return_io (Inl err)
   | Inr opts \<Rightarrow>
       let claimBack = PubkeyToAddress ch (Prv s) in
       submit ch (diagnosed (RequestAvailability ops opts teeID teeAttestInstructionID externalTeeID claimBack claimBack)
             (diagAvailabilityCheckRevert ch ops s opts teeID teeAttestInstructionID externalTeeID claimBack claimBack))
         restate restate (\<lambda>receipt. return_io (case rcLogs receipt of
            [] \<Rightarrow> Inl (errorf ''no logs found in receipt'')
          | log0 # _ \<Rightarrow> (case ParseTeeInstructionsSent ops log0 of
              Inl err \<Rightarrow> Inl (prefixf ''failed to parse TeeInstructionsSent event: '' err)
            | Inr instructionID \<Rightarrow> Inr instructionID))))"

text \<open>The two decoders of \<open>encoding.go\<close> over \<open>structs.DecodeTo\<close>, which is outside the repository.\<close>

definition DecodeFTDCTeeAvailabilityCheckRequest :: "'w register_ops \<Rightarrow> bytes \<Rightarrow> availability_request result" where
  "DecodeFTDCTeeAvailabilityCheckRequest ops dat = (case decodeToRequest ops dat of
     Inl err \<Rightarrow> Inl (restate err) | Inr request \<Rightarrow> Inr request)"

definition DecodeFTDCTeeAvailabilityCheckResponse :: "'w register_ops \<Rightarrow> bytes \<Rightarrow> availability_response result" where
  "DecodeFTDCTeeAvailabilityCheckResponse ops dat = (case decodeToResponse ops dat of
     Inl err \<Rightarrow> Inl (restate err) | Inr request \<Rightarrow> Inr request)"

definition assemble_proof :: "'w register_ops \<Rightarrow> bytes \<Rightarrow> availability_proof result" where
  "assemble_proof ops dat = (case unmarshalProof ops dat of
     Inl err \<Rightarrow> Inl (restate err)
   | Inr pr \<Rightarrow> (case DecodeHeader ops (prHeader pr) of
       Inl err \<Rightarrow> Inl (restate err)
     | Inr header \<Rightarrow> (case DecodeFTDCTeeAvailabilityCheckRequest ops (prRequestBody pr) of
         Inl err \<Rightarrow> Inl (restate err)
       | Inr request \<Rightarrow> (case DecodeFTDCTeeAvailabilityCheckResponse ops (prResponseBody pr) of
           Inl err \<Rightarrow> Inl (restate err)
         | Inr response \<Rightarrow> Inr \<lparr>apSignatures = prSignatures pr, apHeader = header, apRequest = request,
             apResponse = response\<rparr>))))"

definition GetFTDCAvailabilityCheckResult ::
  "('w, 'p) tee_lib \<Rightarrow> 'w register_ops \<Rightarrow> string \<Rightarrow> hash \<Rightarrow> ('w, availability_proof result) io" where
  "GetFTDCAvailabilityCheckResult net ops hostURL instructionId =
     try_io (ActionResult net hostURL instructionId) (\<lambda>err. err)
       (\<lambda>res. return_io (assemble_proof ops (case rData res of None \<Rightarrow> [] | Some d \<Rightarrow> d)))"

definition teeStatusProduction :: byte where "teeStatusProduction = 2"

definition promote ::
  "('w, 'k) chain \<Rightarrow> 'w register_ops \<Rightarrow> 'k support \<Rightarrow> availability_proof \<Rightarrow> ('w, unit result) io" where
  "promote ch ops s proof =
     (case NewTransactor ch (Prv s) (SupChainID s) of
        Inl err \<Rightarrow> return_io (Inl (restate err))
      | Inr opts \<Rightarrow>
          submit ch (diagnosed (SendToProduction ops opts proof) (diagToProductionRevert ch ops s opts proof)) restate restate
            (\<lambda>receipt. try_io (GetTeeMachine ops (arTeeId (apRequest proof))) restate (\<lambda>machineTeeId.
               if machineTeeId \<noteq> arTeeId (apRequest proof)
               then return_io (Inl (errorf ''tee machine not set up correctly''))
               else return_io (Inr ()))))"

definition ToProduction ::
  "('w, 'k) chain \<Rightarrow> 'w register_ops \<Rightarrow> 'k support \<Rightarrow> availability_proof \<Rightarrow> ('w, unit result) io" where
  "ToProduction ch ops s proof =
     then_io (GetTeeMachineStatus ops (arTeeId (apRequest proof))) (\<lambda>status.
       if status = Inr teeStatusProduction then return_io (Inr ()) else promote ch ops s proof)"

definition AddTeeVersion ::
  "('w, 'k) chain \<Rightarrow> 'w register_ops \<Rightarrow> 'k support \<Rightarrow> 'k \<Rightarrow> int \<Rightarrow> hash \<Rightarrow> hash \<Rightarrow> string \<Rightarrow> ('w, unit result) io" where
  "AddTeeVersion ch ops s privKey extensionId codeHash platform version =
     (case NewTransactor ch privKey (SupChainID s) of
        Inl err \<Rightarrow> return_io (Inl (restate err))
      | Inr opts \<Rightarrow>
        (case stringToBytes32 (quote_go (isPrint ch)) version of
           Inl err \<Rightarrow> return_io (Inl err)
         | Inr versionBytes \<Rightarrow>
             submit ch (SendTeeVersion ops opts extensionId versionBytes codeHash [platform])
               (prefixf ''TeeExtensionRegistry.AddTeeVersion failed: '') restate (\<lambda>receipt. return_io (Inr ()))))"

end
