(* ===== verification/Env_File.thy ===== *)
theory Env_File
  imports Go_Num
begin

text \<open>
  The reading of \<open>extension.env\<close> in \<open>go/tools/pkg/validate/checks.go\<close>: lines as \<open>bufio.Scanner\<close>
  delivers them, \<open>key=value\<close> entries, the two readers of the file (the map that
  \<open>CheckExtensionEnvFormat\<close> builds and the two strings \<open>parseExtensionEnv\<close> returns) and the two
  regular expressions.
\<close>

section \<open>Files and lines\<close>

text \<open>
  A path as the code sees it: no such file, a file that cannot be opened, or one that opens and
  delivers these bytes before its end or its first read error (a directory delivers none).
\<close>

datatype file_state = NotExist | OpenError | Content string

definition isNotExist :: "file_state \<Rightarrow> bool" where
  "isNotExist f \<longleftrightarrow> f = NotExist"

definition dropCR :: "string \<Rightarrow> string" where
  "dropCR l = (if l \<noteq> [] \<and> last l = CHR 0x0D then butlast l else l)"

text \<open>
  \<open>bufio.Scanner\<close> with \<open>ScanLines\<close>: the scanner gives up silently at a line of 65536 bytes or more
  (\<open>MaxScanTokenSize\<close>); nothing follows a final newline.
\<close>

fun scan_lines :: "string list \<Rightarrow> string list" where
  "scan_lines [] = []"
| "scan_lines [l] = (if l = [] \<or> 65536 \<le> length l then [] else [dropCR l])"
| "scan_lines (l # ls) = (if 65536 \<le> length l then [] else dropCR l # scan_lines ls)"

definition lines_of :: "string \<Rightarrow> string list" where
  "lines_of text = scan_lines (Split (CHR 0x0A) text)"

section \<open>Entries\<close>

text \<open>One line of the loop both readers have: comments, empty lines and lines without \<open>=\<close> give nothing.\<close>

definition env_entry :: "string \<Rightarrow> (string \<times> string) option" where
  "env_entry l =
     (let line = TrimSpace l in
      if line = '''' \<or> HasPrefix line ''#'' then None
      else case SplitN2 CHR ''='' line of
        [k, v] \<Rightarrow> Some (TrimSpace k, TrimSpace v)
      | _ \<Rightarrow> None)"

text \<open>The map of \<open>CheckExtensionEnvFormat\<close>.\<close>

fun env_vars :: "string list \<Rightarrow> (string \<rightharpoonup> string) \<Rightarrow> (string \<rightharpoonup> string)" where
  "env_vars [] vars = vars"
| "env_vars (l # ls) vars =
     env_vars ls (case env_entry l of None \<Rightarrow> vars | Some (k, v) \<Rightarrow> vars(k \<mapsto> v))"

text \<open>The loop of \<open>parseExtensionEnv\<close> on its two results.\<close>

fun scan_env :: "string list \<Rightarrow> string \<times> string \<Rightarrow> string \<times> string" where
  "scan_env [] r = r"
| "scan_env (l # ls) (extensionID, instructionSender) = scan_env ls
     (case env_entry l of
        None \<Rightarrow> (extensionID, instructionSender)
      | Some (k, v) \<Rightarrow>
          if k = ''EXTENSION_ID'' then (v, instructionSender)
          else if k = ''INSTRUCTION_SENDER'' then (extensionID, v)
          else (extensionID, instructionSender))"

definition parseExtensionEnv :: "file_state \<Rightarrow> (string \<times> string) result" where
  "parseExtensionEnv f = (case f of
     Content text \<Rightarrow> Inr (scan_env (lines_of text) ('''', ''''))
   | _ \<Rightarrow> Inr ('''', ''''))"

section \<open>Formats\<close>

definition hex_literal :: "nat \<Rightarrow> string \<Rightarrow> bool" where
  "hex_literal n s \<longleftrightarrow> length s = n + 2 \<and> HasPrefix s ''0x'' \<and> list_all (\<lambda>c. hex_val c \<noteq> None) (drop 2 s)"

definition addressRegex :: "string \<Rightarrow> bool" where "addressRegex s = hex_literal 40 s"
definition extensionIDRegex :: "string \<Rightarrow> bool" where "extensionIDRegex s = hex_literal 64 s"

lemma hex_literal_nonempty [simp]: "\<not> hex_literal n []"
  by (simp add: hex_literal_def)

lemma regex_nonempty [simp]: "\<not> addressRegex []" "\<not> extensionIDRegex []"
  by (simp_all add: addressRegex_def extensionIDRegex_def)

section \<open>The two readers agree\<close>

definition or_empty :: "string option \<Rightarrow> string" where
  "or_empty x = (case x of None \<Rightarrow> '''' | Some v \<Rightarrow> v)"

lemma or_empty_simps [simp]: "or_empty None = ''''" "or_empty (Some v) = v"
  by (simp_all add: or_empty_def)

lemma scan_env_vars:
  "scan_env ls (or_empty (vars ''EXTENSION_ID''), or_empty (vars ''INSTRUCTION_SENDER'')) =
     (or_empty (env_vars ls vars ''EXTENSION_ID''), or_empty (env_vars ls vars ''INSTRUCTION_SENDER''))"
proof (induction ls arbitrary: vars)
  case (Cons l ls)
  show ?case
  proof (cases "env_entry l")
    case None
    with Cons show ?thesis by simp
  next
    case (Some p)
    obtain k v where p: "p = (k, v)" by (cases p)
    have "scan_env (l # ls) (or_empty (vars ''EXTENSION_ID''), or_empty (vars ''INSTRUCTION_SENDER'')) =
        scan_env ls (or_empty ((vars(k \<mapsto> v)) ''EXTENSION_ID''), or_empty ((vars(k \<mapsto> v)) ''INSTRUCTION_SENDER''))"
      using Some p by simp
    also note Cons[of "vars(k \<mapsto> v)"]
    finally show ?thesis
      using Some p by (simp del: fun_upd_apply)
  qed
qed simp

lemma parse_vars:
  "parseExtensionEnv (Content text) =
     Inr (or_empty (env_vars (lines_of text) Map.empty ''EXTENSION_ID''),
          or_empty (env_vars (lines_of text) Map.empty ''INSTRUCTION_SENDER''))"
  using scan_env_vars[of "lines_of text" Map.empty] by (simp add: parseExtensionEnv_def or_empty_def)

end
