(* ===== verification/Validate_Checks.thy ===== *)
theory Validate_Checks
  imports Validate_Report Env_File Tool_Lib
begin

text \<open>
  The deployment checks: \<open>go/tools/pkg/validate/validate.go\<close> and \<open>checks.go\<close>. The checks only read:
  environment variables, the \<open>extension.env\<close> file, a TCP port, HTTP servers and view functions of
  contracts. What they read is the record \<open>outside\<close> and the views of the chain client and the two
  contracts (\<open>None\<close> is a nil pointer), all arguments: one run of the checks sees one snapshot of them.
  Address printing and parsing, key addresses and the EVM key type come from other packages and are
  the record \<open>tool_lib\<close> (theory \<open>Tool_Lib\<close>).
\<close>

section \<open>What the checks read\<close>

record outside =
  getenv :: "string \<Rightarrow> string"
  fileAt :: "string \<Rightarrow> file_state"
  dialTCP :: "string \<Rightarrow> bool"
  httpGet :: "string \<Rightarrow> int option"

record chain_view =
  CodeAt :: "address \<Rightarrow> bytes result"
  BalanceAt :: "address \<Rightarrow> int result"
  ChainID :: "int result"

record registry_view =
  NextPublicExtensionId :: "int result"
  GetTeeExtensionInstructionsSender :: "int \<Rightarrow> address result"
  IsKeyTypeSupported :: "int \<Rightarrow> bytes \<Rightarrow> bool result"

record allowlist_view =
  IsAllowedTeeMachineOwner :: "int \<Rightarrow> address \<Rightarrow> bool result"

text \<open>The em dash of the messages, in UTF-8.\<close>

definition emdash :: string where "emdash = [CHR 0xE2, CHR 0x80, CHR 0x94]"

section \<open>Primitive checks\<close>

definition MinDeployBalance :: int where "MinDeployBalance = 10000000000000000"

definition AddressNotZero :: "'k tool_lib \<Rightarrow> address \<Rightarrow> string \<Rightarrow> go_error option" where
  "AddressNotZero lib addr label =
     (if addr = 0
      then Some (errorf (label @ '' is the zero address ('' @ AddrHex lib addr @ '') in the addresses file''))
      else None)"

definition AddressHasCode ::
  "'k tool_lib \<Rightarrow> chain_view option \<Rightarrow> address \<Rightarrow> string \<Rightarrow> go_error option" where
  "AddressHasCode lib client addr label = (case client of
     None \<Rightarrow> Some (errorf (''cannot check '' @ label @ '': no chain client connected''))
   | Some c \<Rightarrow>
     (case CodeAt c addr of
        Inl err \<Rightarrow> Some (wrapf (''cannot check '' @ label @ '': '') err)
      | Inr code \<Rightarrow>
          if length code = 0
          then Some (errorf (label @ '' at '' @ AddrHex lib addr @ '' has no deployed code. '' @
            ''This address will be set as immutable in the contract constructor and cannot be changed. '' @
            ''Check your deployed-addresses.json file '' @ emdash @ '' are you on the right network?''))
          else None))"

definition KeyHasFunds :: "'k tool_lib \<Rightarrow> chain_view option \<Rightarrow> 'k \<Rightarrow> int \<Rightarrow> go_error option" where
  "KeyHasFunds lib client key minWei = (case client of
     None \<Rightarrow> Some (errorf ''cannot check deployer balance: no chain client connected'')
   | Some c \<Rightarrow>
     let addr = PubkeyToAddress lib key in
     (case BalanceAt c addr of
        Inl err \<Rightarrow> Some (wrapf ''cannot check deployer balance: '' err)
      | Inr balance \<Rightarrow>
          if balance < minWei
          then Some (errorf (''deployer '' @ AddrHex lib addr @ '' has insufficient funds (balance: '' @
            show_int balance @ '' wei, minimum required: '' @ show_int minWei @ '' wei). '' @
            ''Fund this account before deploying''))
          else None))"

definition IsUsingDevKey :: "outside \<Rightarrow> bool" where
  "IsUsingDevKey w \<longleftrightarrow> getenv w ''DEPLOYMENT_PRIVATE_KEY'' = ''''"

text \<open>A \<open>CheckResult\<close> literal; a field the code leaves out is the empty string.\<close>

definition check :: "string \<Rightarrow> string \<Rightarrow> string \<Rightarrow> Status \<Rightarrow> string \<Rightarrow> string \<Rightarrow> CheckResult" where
  "check step i name st msg fix =
     \<lparr>Step = step, ID = i, Name = name, StatusOf = st, Message = msg, Fix = fix\<rparr>"

lemma check_sel [simp]:
  "Step (check step i name st msg fix) = step" "ID (check step i name st msg fix) = i"
  "StatusOf (check step i name st msg fix) = st"
  by (simp_all add: check_def)

section \<open>Step 1: deployment\<close>

text \<open>
  The two loops over the address map. Go iterates over a map in an unspecified order, and in a new
  one each time: the two loops have an order each.
\<close>

definition check_zero :: "'k tool_lib \<Rightarrow> string \<Rightarrow> address \<Rightarrow> CheckResult" where
  "check_zero lib label addr = (case AddressNotZero lib addr label of
     Some err \<Rightarrow> check ''deploy'' ''D3'' (label @ '' address not zero'') FAIL (err_text err)
       ''Re-run the deploy script or check deployed-addresses.json''
   | None \<Rightarrow> check ''deploy'' ''D3'' (label @ '' address not zero'') PASS (AddrHex lib addr) '''')"

fun zero_loop ::
  "'k tool_lib \<Rightarrow> (string \<times> address) list \<Rightarrow> Report \<Rightarrow> string set \<Rightarrow> Report \<times> string set" where
  "zero_loop lib [] r zeroAddrs = (r, zeroAddrs)"
| "zero_loop lib ((label, addr) # rest) r zeroAddrs =
     zero_loop lib rest (Add r (check_zero lib label addr))
       (if AddressNotZero lib addr label = None then zeroAddrs else insert label zeroAddrs)"

definition check_code :: "'k tool_lib \<Rightarrow> chain_view option \<Rightarrow> string \<Rightarrow> address \<Rightarrow> CheckResult" where
  "check_code lib client label addr = (case AddressHasCode lib client addr label of
     Some err \<Rightarrow> check ''deploy'' ''D1'' (label @ '' has deployed code'') FAIL (err_text err)
       ''Deploy contracts or check CHAIN_URL / deployed-addresses.json''
   | None \<Rightarrow> check ''deploy'' ''D1'' (label @ '' has deployed code'') PASS (''code found at '' @ AddrHex lib addr) '''')"

fun code_loop ::
  "'k tool_lib \<Rightarrow> chain_view option \<Rightarrow> string set \<Rightarrow> (string \<times> address) list \<Rightarrow> Report \<Rightarrow> Report" where
  "code_loop lib client zeroAddrs [] r = r"
| "code_loop lib client zeroAddrs ((label, addr) # rest) r =
     (if label \<in> zeroAddrs then code_loop lib client zeroAddrs rest r
      else code_loop lib client zeroAddrs rest (Add r (check_code lib client label addr)))"

definition CheckDeployerKeySource :: "outside \<Rightarrow> CheckResult" where
  "CheckDeployerKeySource w =
     (let privKey = getenv w ''DEPLOYMENT_PRIVATE_KEY''; localMode = getenv w ''LOCAL_MODE'' in
      if privKey \<noteq> '''' then
        check ''deploy'' ''D5'' ''deployer key source'' PASS ''DEPLOYMENT_PRIVATE_KEY is set'' ''''
      else if localMode = ''true'' \<or> localMode = '''' then
        check ''deploy'' ''D5'' ''deployer key source'' PASS ''using Hardhat dev key (LOCAL_MODE)'' ''''
      else check ''deploy'' ''D5'' ''deployer key source'' WARN
        (''DEPLOYMENT_PRIVATE_KEY not set '' @ emdash @ '' using Hardhat dev key which has no funds on Coston2'')
        ''Set DEPLOYMENT_PRIVATE_KEY in .env to a funded account on the target network'')"

definition chainName :: "int \<Rightarrow> string" where
  "chainName n =
     (if show_int n = ''31337'' then ''Hardhat/Anvil (local devnet)''
      else if show_int n = ''114'' then ''Coston2 (testnet)''
      else if show_int n = ''14'' then ''Flare (mainnet)''
      else ''unknown network'')"

definition checkChainID :: "chain_view \<Rightarrow> CheckResult" where
  "checkChainID c = (case ChainID c of
     Inl err \<Rightarrow> check ''deploy'' ''D6'' ''chain ID'' FAIL (''failed to get chain ID: '' @ err_text err) ''Check CHAIN_URL''
   | Inr chainID \<Rightarrow> check ''deploy'' ''D6'' ''chain ID'' PASS
       (''chain ID '' @ show_int chainID @ '' ('' @ chainName chainID @ '')'') '''')"

definition format_fix :: string where
  "format_fix = ''Delete config/extension.env and re-run scripts/pre-build.sh''"

text \<open>One entry of \<open>extension.env\<close> as \<open>CheckExtensionEnvFormat\<close> judges it (the code has it twice).\<close>

definition check_entry ::
  "'k tool_lib \<Rightarrow> (string \<Rightarrow> bool) \<Rightarrow> (string \<rightharpoonup> string) \<Rightarrow> string \<Rightarrow> CheckResult" where
  "check_entry lib good vars key = (case vars key of
     None \<Rightarrow> check ''deploy'' ''D7'' (key @ '' in extension.env'') FAIL (key @ '' not found in extension.env'') format_fix
   | Some val \<Rightarrow>
       if \<not> good val then check ''deploy'' ''D7'' (key @ '' in extension.env'') FAIL
         (key @ '' has invalid format: '' @ quote_go (isPrint lib) val) format_fix
       else check ''deploy'' ''D7'' (key @ '' in extension.env'') PASS val '''')"

definition CheckExtensionEnvFormat :: "'k tool_lib \<Rightarrow> outside \<Rightarrow> string \<Rightarrow> CheckResult list" where
  "CheckExtensionEnvFormat lib w path = (case fileAt w path of
     Content text \<Rightarrow>
       let vars = env_vars (lines_of text) Map.empty in
       [check_entry lib addressRegex vars ''INSTRUCTION_SENDER'',
        check_entry lib extensionIDRegex vars ''EXTENSION_ID'']
   | _ \<Rightarrow> [check ''deploy'' ''D7'' ''extension.env exists'' SKIP (''file not found: '' @ path) ''''])"

definition RegisterDeployChecks ::
  "'k tool_lib \<Rightarrow> outside \<Rightarrow> chain_view option \<Rightarrow> 'k option \<Rightarrow>
   (string \<times> address) list \<times> (string \<times> address) list \<Rightarrow> string \<Rightarrow> Report \<Rightarrow> Report" where
  "RegisterDeployChecks lib w client key addresses extensionEnvPath r =
     (let (r1, zeroAddrs) = zero_loop lib (fst addresses) r {};
          r2 = code_loop lib client zeroAddrs (snd addresses) r1;
          r3 = Add r2 (CheckDeployerKeySource w);
          r4 = (case (key, client) of
                  (Some k, Some c) \<Rightarrow>
                    (case KeyHasFunds lib client k MinDeployBalance of
                       Some err \<Rightarrow> Add r3 (check ''deploy'' ''D5'' ''deployer has sufficient funds'' FAIL
                         (err_text err) ''Fund the deployer account before deploying'')
                     | None \<Rightarrow> Add r3 (check ''deploy'' ''D5'' ''deployer has sufficient funds'' PASS
                         ''balance above minimum threshold'' ''''))
                | _ \<Rightarrow> r3);
          r5 = (case client of None \<Rightarrow> r4 | Some c \<Rightarrow> Add r4 (checkChainID c))
      in if extensionEnvPath \<noteq> '''' then fold (\<lambda>res r. Add r res) (CheckExtensionEnvFormat lib w extensionEnvPath) r5
         else r5)"

section \<open>Registration (R1-R7)\<close>

text \<open>R1, with the counter the later checks use (\<open>None\<close> while the pointer is nil).\<close>

definition check_R1 :: "registry_view \<Rightarrow> CheckResult" where
  "check_R1 reg = (case NextPublicExtensionId reg of
     Inl err \<Rightarrow> check ''register'' ''R1'' ''next public extension id'' FAIL
       (''failed to query nextPublicExtensionId: '' @ err_text err) ''''
   | Inr counter \<Rightarrow>
       if counter = 0 then check ''register'' ''R1'' ''next public extension id'' WARN
         (''nextPublicExtensionId is 0 '' @ emdash @ '' no public extensions registered yet'') ''''
       else check ''register'' ''R1'' ''next public extension id'' PASS
         (''nextPublicExtensionId = '' @ show_int counter) '''')"

definition R1_counter :: "registry_view \<Rightarrow> int option" where
  "R1_counter reg = (case NextPublicExtensionId reg of Inl err \<Rightarrow> None | Inr counter \<Rightarrow> Some counter)"

definition check_R2 :: "'k tool_lib \<Rightarrow> registry_view \<Rightarrow> int \<Rightarrow> string \<Rightarrow> CheckResult" where
  "check_R2 lib reg extensionID instrSender =
     (case GetTeeExtensionInstructionsSender reg extensionID of
        Inl err \<Rightarrow> check ''register'' ''R2'' ''instruction sender matches on-chain'' FAIL
          (''failed to query instruction sender: '' @ err_text err) ''''
      | Inr onChainSender \<Rightarrow>
          let expectedAddr = HexToAddress lib instrSender in
          if onChainSender = expectedAddr
          then check ''register'' ''R2'' ''instruction sender matches on-chain'' PASS
            (''on-chain sender '' @ AddrHex lib onChainSender @ '' matches extension.env'') ''''
          else check ''register'' ''R2'' ''instruction sender matches on-chain'' FAIL
            (''on-chain sender '' @ AddrHex lib onChainSender @ '' != extension.env '' @ instrSender)
            ''Re-register the extension or update extension.env'')"

definition check_R3 :: "'k tool_lib \<Rightarrow> allowlist_view \<Rightarrow> int \<Rightarrow> 'k \<Rightarrow> CheckResult" where
  "check_R3 lib allowlist extensionID key =
     (case IsAllowedTeeMachineOwner allowlist extensionID (PubkeyToAddress lib key) of
        Inl err \<Rightarrow> check ''register'' ''R3'' ''deployer is allowed TEE machine owner'' FAIL
          (''failed to query allowlist: '' @ err_text err) ''''
      | Inr allowed \<Rightarrow>
          if allowed then check ''register'' ''R3'' ''deployer is allowed TEE machine owner'' PASS
            ''deployer is on the TEE machine owner allowlist'' ''''
          else check ''register'' ''R3'' ''deployer is allowed TEE machine owner'' FAIL
            ''deployer is NOT on the TEE machine owner allowlist''
            ''Run the register step to add the deployer as a TEE machine owner'')"

definition check_R4 :: "'k tool_lib \<Rightarrow> registry_view \<Rightarrow> int \<Rightarrow> CheckResult" where
  "check_R4 lib reg extensionID =
     (case IsKeyTypeSupported reg extensionID (EVMType lib) of
        Inl err \<Rightarrow> check ''register'' ''R4'' ''EVM key type supported'' FAIL
          (''failed to query key type support: '' @ err_text err) ''''
      | Inr supported \<Rightarrow>
          if supported then check ''register'' ''R4'' ''EVM key type supported'' PASS
            ''EVM key type is supported for this extension'' ''''
          else check ''register'' ''R4'' ''EVM key type supported'' FAIL
            ''EVM key type is NOT supported for this extension''
            ''Run the register step to add EVM key type support'')"

text \<open>
  The scan of R7. \<open>counter.Int64()\<close> keeps the low 64 bits of a larger counter, read as a signed number;
  ids whose query fails are skipped.
\<close>

definition Int64 :: "int \<Rightarrow> int" where
  "Int64 n = sint (word_of_int n :: u64)"

definition matches_sender :: "registry_view \<Rightarrow> address \<Rightarrow> int \<Rightarrow> bool" where
  "matches_sender reg expectedAddr i = (case GetTeeExtensionInstructionsSender reg i of
     Inl err \<Rightarrow> False | Inr sender \<Rightarrow> sender = expectedAddr)"

function matchingIDs :: "registry_view \<Rightarrow> address \<Rightarrow> int \<Rightarrow> int \<Rightarrow> string list" where
  "matchingIDs reg expectedAddr i n =
     (if i < n then
        (if matches_sender reg expectedAddr i then show_int i # matchingIDs reg expectedAddr (i + 1) n
         else matchingIDs reg expectedAddr (i + 1) n)
      else [])"
  by pat_completeness auto
termination
  by (relation "measure (\<lambda>(reg, a, i, n). nat (n - i))") auto

declare matchingIDs.simps [simp del]

definition check_R7 :: "'k tool_lib \<Rightarrow> registry_view \<Rightarrow> int \<Rightarrow> string \<Rightarrow> CheckResult" where
  "check_R7 lib reg counter instrSender =
     (let ids = matchingIDs reg (HexToAddress lib instrSender) 0 (Int64 counter) in
      if length ids > 1 then check ''register'' ''R7'' ''unique instruction sender'' WARN
        (''INSTRUCTION_SENDER '' @ instrSender @ '' is used by multiple extensions: '' @ Join '', '' ids) ''''
      else check ''register'' ''R7'' ''unique instruction sender'' PASS
        ''instruction sender is unique across registered extensions'' '''')"

text \<open>\<open>extensionID.SetString(extIDStr[2:], 16)\<close>; the string has passed the regular expression.\<close>

definition parse_extension_id :: "string \<Rightarrow> int" where
  "parse_extension_id s = (case digits_val 16 hex_val 0 (drop 2 s) of None \<Rightarrow> 0 | Some n \<Rightarrow> int n)"

definition skip_registration :: "Status \<Rightarrow> string \<Rightarrow> CheckResult" where
  "skip_registration st msg = check ''register'' ''R1-R7'' ''registration checks'' st msg ''''"

definition RegisterRegistrationChecks ::
  "'k tool_lib \<Rightarrow> outside \<Rightarrow> chain_view option \<Rightarrow> 'k option \<Rightarrow> registry_view option \<Rightarrow>
   allowlist_view option \<Rightarrow> string \<Rightarrow> Report \<Rightarrow> Report" where
  "RegisterRegistrationChecks lib w client key registry allowlist extensionEnvPath r =
     (if extensionEnvPath = '''' then Add r (skip_registration SKIP ''no --config path provided'')
      else case parseExtensionEnv (fileAt w extensionEnvPath) of
        Inl err \<Rightarrow> Add r (skip_registration FAIL (''failed to parse extension.env: '' @ err_text err))
      | Inr (extIDStr, instrSender) \<Rightarrow>
        if extIDStr = '''' \<and> instrSender = ''''
        then Add r (skip_registration SKIP (''config/extension.env not found '' @ emdash @ '' run pre-build.sh first''))
        else
          let connected = (if client = None then None else registry);
              r1 = (case connected of None \<Rightarrow> r | Some reg \<Rightarrow> Add r (check_R1 reg));
              counter = Option.bind connected R1_counter
          in if \<not> extensionIDRegex extIDStr
             then Add r1 (check ''register'' ''R2'' ''EXTENSION_ID format'' FAIL
               (''malformed EXTENSION_ID: '' @ quote_go (isPrint lib) extIDStr) format_fix)
             else
               let extensionID = parse_extension_id extIDStr;
                   r2 = (case connected of None \<Rightarrow> r1 | Some reg \<Rightarrow>
                     if addressRegex instrSender then Add r1 (check_R2 lib reg extensionID instrSender) else r1);
                   r3 = (case (key, allowlist) of
                     (Some k, Some al) \<Rightarrow> if client = None then r2 else Add r2 (check_R3 lib al extensionID k)
                   | _ \<Rightarrow> r2);
                   r4 = (case connected of None \<Rightarrow> r3 | Some reg \<Rightarrow> Add r3 (check_R4 lib reg extensionID))
               in case (counter, connected) of
                    (Some n, Some reg) \<Rightarrow>
                      if n > 0 \<and> addressRegex instrSender then Add r4 (check_R7 lib reg n instrSender) else r4
                  | _ \<Rightarrow> r4)"

section \<open>Services, TEE version, TEE machine, test\<close>

text \<open>A GET of \<open><base>/info\<close> that answers 200.\<close>

definition info_ok :: "outside \<Rightarrow> string \<Rightarrow> bool" where
  "info_ok w base \<longleftrightarrow> httpGet w (base @ ''/info'') = Some 200"

definition check_S2 :: "'k tool_lib \<Rightarrow> outside \<Rightarrow> string \<Rightarrow> CheckResult" where
  "check_S2 lib w path =
     (if path = '''' then check ''services'' ''S2'' ''EXTENSION_ID is set and well-formed'' SKIP ''run pre-build.sh first'' ''''
      else let extID = (case parseExtensionEnv (fileAt w path) of Inl err \<Rightarrow> '''' | Inr p \<Rightarrow> fst p) in
        if extID = '''' then check ''services'' ''S2'' ''EXTENSION_ID is set and well-formed'' FAIL
          ''EXTENSION_ID is empty or not found in extension.env'' format_fix
        else if \<not> extensionIDRegex extID then check ''services'' ''S2'' ''EXTENSION_ID is set and well-formed'' FAIL
          (''EXTENSION_ID has invalid format: '' @ quote_go (isPrint lib) extID) format_fix
        else check ''services'' ''S2'' ''EXTENSION_ID is set and well-formed'' PASS extID '''')"

definition check_S5 :: "outside \<Rightarrow> CheckResult" where
  "check_S5 w =
     (let port = (if getenv w ''EXTENSION_PORT'' = '''' then ''7702'' else getenv w ''EXTENSION_PORT'') in
      if dialTCP w (''localhost:'' @ port) then check ''services'' ''S5'' ''extension port not in use'' WARN
        (''port '' @ port @ '' is already in use '' @ emdash @ '' extension server will fail to bind'')
        ''Stop the process using that port or change EXTENSION_PORT''
      else check ''services'' ''S5'' ''extension port not in use'' PASS ''port available'' '''')"

definition check_S7 :: "outside \<Rightarrow> CheckResult" where
  "check_S7 w =
     (let extPort = getenv w ''EXTENSION_PORT''; sgnPort = getenv w ''SIGN_PORT'' in
      if extPort \<noteq> '''' \<or> sgnPort \<noteq> '''' then check ''services'' ''S7'' ''port configuration'' PASS
        (''EXTENSION_PORT='' @ extPort @ '', SIGN_PORT='' @ sgnPort) ''''
      else check ''services'' ''S7'' ''port configuration'' PASS
        ''using defaults (standalone: 8080/9090, Docker: 7702/7701)'' '''')"

definition check_S9 :: "outside \<Rightarrow> CheckResult" where
  "check_S9 w =
     (let proxyURL = getenv w ''EXT_PROXY_URL'' in
      if proxyURL = '''' then check ''services'' ''S9'' ''EXT_PROXY_URL reachable'' SKIP ''EXT_PROXY_URL not set'' ''''
      else if info_ok w proxyURL then check ''services'' ''S9'' ''EXT_PROXY_URL reachable'' PASS
        (''proxy reachable at '' @ proxyURL) ''''
      else check ''services'' ''S9'' ''EXT_PROXY_URL reachable'' WARN
        (''proxy not reachable at '' @ proxyURL @ '' '' @ emdash @ '' is the proxy running?'')
        ''Start the proxy or check EXT_PROXY_URL'')"

definition check_S10 :: "outside \<Rightarrow> CheckResult" where
  "check_S10 w =
     (let localMode = getenv w ''LOCAL_MODE''; prv = getenv w ''PROXY_PRIVATE_KEY'' in
      if localMode = ''true'' \<or> localMode = '''' then
        check ''services'' ''S10'' ''PROXY_PRIVATE_KEY set on non-local'' PASS ''local mode, dev key OK'' ''''
      else if localMode = ''false'' \<and> prv = '''' then
        check ''services'' ''S10'' ''PROXY_PRIVATE_KEY set on non-local'' WARN
          (''PROXY_PRIVATE_KEY not set in non-local mode '' @ emdash @ '' proxy will use default key'')
          ''Set PROXY_PRIVATE_KEY in .env for non-local deployments''
      else check ''services'' ''S10'' ''PROXY_PRIVATE_KEY set on non-local'' PASS ''PROXY_PRIVATE_KEY is configured'' '''')"

definition RegisterServicesChecks :: "'k tool_lib \<Rightarrow> outside \<Rightarrow> string \<Rightarrow> Report \<Rightarrow> Report" where
  "RegisterServicesChecks lib w path r =
     Add (Add (Add (Add (Add r (check_S2 lib w path)) (check_S5 w)) (check_S7 w)) (check_S9 w)) (check_S10 w)"

definition check_V2 :: "outside \<Rightarrow> CheckResult" where
  "check_V2 w =
     (let extOwnerKey = getenv w ''EXTENSION_OWNER_KEY''; privKey = getenv w ''DEPLOYMENT_PRIVATE_KEY'';
          localMode = getenv w ''LOCAL_MODE'' in
      if extOwnerKey \<noteq> '''' then
        check ''tee-version'' ''V2'' ''extension owner key'' PASS ''EXTENSION_OWNER_KEY is configured'' ''''
      else if privKey \<noteq> '''' then check ''tee-version'' ''V2'' ''extension owner key'' PASS
        ''using DEPLOYMENT_PRIVATE_KEY (EXTENSION_OWNER_KEY not set)'' ''''
      else if localMode \<noteq> ''true'' \<and> localMode \<noteq> '''' then check ''tee-version'' ''V2'' ''extension owner key'' WARN
        (''neither EXTENSION_OWNER_KEY nor DEPLOYMENT_PRIVATE_KEY set '' @ emdash @
         '' AddTeeVersion will use dev key which isn'' @ [CHR 0x27] @ ''t the extension owner on Coston2'')
        ''Set EXTENSION_OWNER_KEY or DEPLOYMENT_PRIVATE_KEY in .env''
      else check ''tee-version'' ''V2'' ''extension owner key'' PASS ''using dev key (local mode)'' '''')"

definition check_V4 :: "outside \<Rightarrow> string \<Rightarrow> CheckResult" where
  "check_V4 w path =
     (if path = '''' then check ''tee-version'' ''V4'' ''EXTENSION_ID valid'' SKIP ''no --config provided'' ''''
      else case parseExtensionEnv (fileAt w path) of
        Inl err \<Rightarrow> check ''tee-version'' ''V4'' ''EXTENSION_ID valid'' FAIL
          (''failed to parse extension.env: '' @ err_text err) ''''
      | Inr (extID, instrSender) \<Rightarrow>
          if extID = '''' then
            (if isNotExist (fileAt w path) then check ''tee-version'' ''V4'' ''EXTENSION_ID valid'' SKIP
               (''extension.env not found '' @ emdash @ '' run pre-build.sh first'') ''''
             else check ''tee-version'' ''V4'' ''EXTENSION_ID valid'' FAIL ''EXTENSION_ID not set'' format_fix)
          else if \<not> extensionIDRegex extID then
            check ''tee-version'' ''V4'' ''EXTENSION_ID valid'' FAIL ''EXTENSION_ID malformed'' format_fix
          else check ''tee-version'' ''V4'' ''EXTENSION_ID valid'' PASS extID '''')"

definition check_V6 :: "outside \<Rightarrow> CheckResult" where
  "check_V6 w =
     (let proxyURL = getenv w ''EXT_PROXY_URL'' in
      if proxyURL = '''' then check ''tee-version'' ''V6'' ''proxy reachable'' SKIP
        (''EXT_PROXY_URL not set '' @ emdash @ '' allow-tee-version uses -p flag'') ''''
      else if info_ok w proxyURL then check ''tee-version'' ''V6'' ''proxy reachable'' PASS
        (''proxy reachable at '' @ proxyURL) ''''
      else check ''tee-version'' ''V6'' ''proxy reachable'' WARN
        (''proxy not reachable at '' @ proxyURL @ '' '' @ emdash @ '' start services first'')
        ''Start the proxy or check EXT_PROXY_URL'')"

definition RegisterTeeVersionChecks :: "outside \<Rightarrow> string \<Rightarrow> Report \<Rightarrow> Report" where
  "RegisterTeeVersionChecks w path r = Add (Add (Add r (check_V2 w)) (check_V4 w path)) (check_V6 w)"

definition check_T1 :: "outside \<Rightarrow> CheckResult" where
  "check_T1 w =
     (let simulatedTee = getenv w ''SIMULATED_TEE''; localMode = getenv w ''LOCAL_MODE'' in
      if simulatedTee = ''true'' \<and> localMode = ''false'' then check ''tee-machine'' ''T1'' ''SIMULATED_TEE mode'' WARN
        (''SIMULATED_TEE=true on non-local deployment '' @ emdash @ '' machine will be registered with test '' @
         ''attestation values. Set SIMULATED_TEE=false for real TEE hardware'')
        ''Set SIMULATED_TEE=false in .env when deploying to a real GCP TEE''
      else if simulatedTee = ''true'' then
        check ''tee-machine'' ''T1'' ''SIMULATED_TEE mode'' PASS ''simulated TEE mode (local)'' ''''
      else check ''tee-machine'' ''T1'' ''SIMULATED_TEE mode'' PASS ''real attestation mode'' '''')"

definition check_T5 :: "outside \<Rightarrow> CheckResult" where
  "check_T5 w =
     (let url = getenv w ''NORMAL_PROXY_URL'' in
      if url = '''' then check ''tee-machine'' ''T5'' ''NORMAL_PROXY_URL reachable'' SKIP ''NORMAL_PROXY_URL not set'' ''''
      else if info_ok w url then check ''tee-machine'' ''T5'' ''NORMAL_PROXY_URL reachable'' PASS
        (''normal proxy reachable at '' @ url) ''''
      else check ''tee-machine'' ''T5'' ''NORMAL_PROXY_URL reachable'' WARN
        (''normal proxy not reachable at '' @ url @ '' '' @ emdash @ '' required for FTDC availability check'')
        ''Ensure the normal/FTDC proxy is running and NORMAL_PROXY_URL is correct in .env'')"

definition check_T10 :: "outside \<Rightarrow> CheckResult" where
  "check_T10 w =
     (let url = getenv w ''EXT_PROXY_URL'' in
      if url = '''' then check ''tee-machine'' ''T10'' ''host URL reachable'' SKIP ''EXT_PROXY_URL not set'' ''''
      else if info_ok w url then check ''tee-machine'' ''T10'' ''host URL reachable'' PASS
        (''host URL reachable at '' @ url) ''''
      else check ''tee-machine'' ''T10'' ''host URL reachable'' WARN
        (''host URL not reachable at '' @ url @ '' '' @ emdash @ '' machine will be registered with unreachable host. '' @
         ''Data providers can'' @ [CHR 0x27] @ ''t relay instructions'')
        ''Ensure the host is accessible and EXT_PROXY_URL or -h flag points to the right URL'')"

definition RegisterTeeMachineChecks :: "outside \<Rightarrow> string \<Rightarrow> Report \<Rightarrow> Report" where
  "RegisterTeeMachineChecks w path r = Add (Add (Add r (check_T1 w)) (check_T5 w)) (check_T10 w)"

definition check_E1 :: "outside \<Rightarrow> string \<Rightarrow> CheckResult" where
  "check_E1 w path =
     (if path = '''' then check ''test'' ''E1'' ''INSTRUCTION_SENDER valid'' SKIP ''no --config provided'' ''''
      else let instrSender = (case parseExtensionEnv (fileAt w path) of Inl err \<Rightarrow> '''' | Inr p \<Rightarrow> snd p) in
        if isNotExist (fileAt w path) then check ''test'' ''E1'' ''INSTRUCTION_SENDER valid'' SKIP
          (''extension.env not found '' @ emdash @ '' run pre-build.sh first'') ''''
        else if instrSender = '''' then check ''test'' ''E1'' ''INSTRUCTION_SENDER valid'' FAIL
          (''INSTRUCTION_SENDER not set '' @ emdash @ '' run pre-build.sh'')
          ''Run scripts/pre-build.sh to deploy and register the extension''
        else if \<not> addressRegex instrSender then
          check ''test'' ''E1'' ''INSTRUCTION_SENDER valid'' FAIL ''INSTRUCTION_SENDER malformed'' format_fix
        else check ''test'' ''E1'' ''INSTRUCTION_SENDER valid'' PASS instrSender '''')"

definition check_E3 :: "outside \<Rightarrow> CheckResult" where
  "check_E3 w =
     (let proxyURL = getenv w ''EXT_PROXY_URL'' in
      if proxyURL = '''' then check ''test'' ''E3'' ''proxy reachable for test results'' SKIP ''EXT_PROXY_URL not set'' ''''
      else if info_ok w proxyURL then check ''test'' ''E3'' ''proxy reachable for test results'' PASS
        ''proxy reachable for test result polling'' ''''
      else check ''test'' ''E3'' ''proxy reachable for test results'' WARN
        (''proxy not reachable '' @ emdash @ '' test results cannot be polled'')
        ''Start the proxy or check EXT_PROXY_URL'')"

definition check_E6 :: CheckResult where
  "check_E6 = check ''test'' ''E6'' ''OPType/OPCommand alignment info'' PASS
     (''OPType/OPCommand hashes are validated at runtime '' @ emdash @
      '' if a 501 error occurs, check the hash values in the error message'') ''''"

definition RegisterTestChecks :: "outside \<Rightarrow> string \<Rightarrow> Report \<Rightarrow> Report" where
  "RegisterTestChecks w path r = Add (Add (Add r (check_E1 w path)) (check_E3 w)) check_E6"

definition RegisterStubChecks :: "string \<Rightarrow> string \<Rightarrow> string \<Rightarrow> Report \<Rightarrow> Report" where
  "RegisterStubChecks step idRange name r = Add r (check step idRange name SKIP ''not yet implemented'' '''')"

section \<open>A step of checks only appends\<close>

definition empty_report :: Report where "empty_report = \<lparr>Results = []\<rparr>"

lemma Results_Add [simp]: "Results (Add r x) = Results r @ [x]"
  by (simp add: Add_def)

lemma Results_empty [simp]: "Results empty_report = []"
  by (simp add: empty_report_def)

text \<open>
  The contract between a group of checks and the report: it appends results that do not depend on
  what the report holds, all labelled with the step's name.
\<close>

locale step_checks =
  fixes checks :: "Report \<Rightarrow> Report"
    and step :: string
  assumes appends: "Results (checks r) = Results r @ Results (checks empty_report)"
    and labelled: "list_all (\<lambda>res. Step res = step) (Results (checks empty_report))"
begin

lemma keeps: "prefix (Results r) (Results (checks r))"
  by (subst appends) (rule prefixI, rule refl)

lemma failures: "HasFailures (checks r) \<longleftrightarrow> HasFailures r \<or> HasFailures (checks empty_report)"
  unfolding HasFailures_def has_failure_iff by (subst appends) auto

lemma one_group: "set (map Step (Results (checks empty_report))) \<subseteq> {step}"
  using labelled by (auto simp: list_all_iff)

end

lemma Results_zero_loop:
  "Results (fst (zero_loop lib l r z)) = Results r @ map (\<lambda>(label, addr). check_zero lib label addr) l"
  by (induction lib l r z rule: zero_loop.induct) auto

lemma AddressNotZero_iff: "AddressNotZero lib addr label = None \<longleftrightarrow> addr \<noteq> 0"
  by (simp add: AddressNotZero_def)

lemma zero_loop_set: "snd (zero_loop lib l r z) = z \<union> {label. (label, 0) \<in> set l}"
  by (induction lib l r z rule: zero_loop.induct) (auto simp: AddressNotZero_iff)

lemma Results_code_loop:
  "Results (code_loop lib c z l r) = Results r @
     map (\<lambda>(label, addr). check_code lib c label addr) (filter (\<lambda>p. fst p \<notin> z) l)"
  by (induction lib c z l r rule: code_loop.induct) auto

lemma Results_fold_Add: "Results (fold (\<lambda>res r. Add r res) l r) = Results r @ l"
  by (induction l arbitrary: r) auto

text \<open>The results of the first step, in order.\<close>

definition funds_result :: "'k tool_lib \<Rightarrow> chain_view option \<Rightarrow> 'k \<Rightarrow> CheckResult" where
  "funds_result lib client k = (case KeyHasFunds lib client k MinDeployBalance of
     Some err \<Rightarrow> check ''deploy'' ''D5'' ''deployer has sufficient funds'' FAIL
       (err_text err) ''Fund the deployer account before deploying''
   | None \<Rightarrow> check ''deploy'' ''D5'' ''deployer has sufficient funds'' PASS ''balance above minimum threshold'' '''')"

definition deploy_results ::
  "'k tool_lib \<Rightarrow> outside \<Rightarrow> chain_view option \<Rightarrow> 'k option \<Rightarrow>
   (string \<times> address) list \<times> (string \<times> address) list \<Rightarrow> string \<Rightarrow> CheckResult list" where
  "deploy_results lib w client key addresses path =
     map (\<lambda>(label, addr). check_zero lib label addr) (fst addresses) @
     map (\<lambda>(label, addr). check_code lib client label addr)
       (filter (\<lambda>p. (fst p, 0) \<notin> set (fst addresses)) (snd addresses)) @
     [CheckDeployerKeySource w] @
     (case (key, client) of (Some k, Some c) \<Rightarrow> [funds_result lib client k] | _ \<Rightarrow> []) @
     (case client of None \<Rightarrow> [] | Some c \<Rightarrow> [checkChainID c]) @
     (if path \<noteq> '''' then CheckExtensionEnvFormat lib w path else [])"

lemma Results_deploy:
  "Results (RegisterDeployChecks lib w client key addresses path r) =
     Results r @ deploy_results lib w client key addresses path"
proof -
  obtain r1 z where loop: "zero_loop lib (fst addresses) r {} = (r1, z)" by (cases "zero_loop lib (fst addresses) r {}")
  have r1: "Results r1 = Results r @ map (\<lambda>(label, addr). check_zero lib label addr) (fst addresses)"
    using Results_zero_loop[of lib "fst addresses" r "{}"] loop by simp
  have z: "z = {label. (label, 0) \<in> set (fst addresses)}"
    using zero_loop_set[of lib "fst addresses" r "{}"] loop by simp
  show ?thesis
    by (cases client; cases key)
      (simp_all add: RegisterDeployChecks_def Let_def loop r1 z Results_code_loop Results_fold_Add
        deploy_results_def funds_result_def split: option.splits)
qed

lemma check_steps [simp]:
  "Step (check_zero lib l a) = ''deploy''" "Step (check_code lib c l a) = ''deploy''"
  "Step (CheckDeployerKeySource w) = ''deploy''" "Step (funds_result lib c k) = ''deploy''"
  "Step (checkChainID v) = ''deploy''" "Step (check_entry lib g vars key) = ''deploy''"
  by (simp_all add: check_zero_def check_code_def CheckDeployerKeySource_def funds_result_def
      checkChainID_def check_entry_def Let_def split: option.splits sum.splits)

lemma deploy_labelled: "list_all (\<lambda>res. Step res = ''deploy'') (deploy_results lib w client key addresses path)"
  by (auto simp: deploy_results_def CheckExtensionEnvFormat_def Let_def list_all_iff
      split: option.splits file_state.splits)

interpretation deploy: step_checks "RegisterDeployChecks lib w client key addresses path" "''deploy''"
  for lib w client key addresses path
  by unfold_locales (simp_all add: Results_deploy deploy_labelled)

lemma register_steps [simp]:
  "Step (check_R1 reg) = ''register''" "Step (check_R2 lib reg i s) = ''register''"
  "Step (check_R3 lib al i k) = ''register''" "Step (check_R4 lib reg i) = ''register''"
  "Step (check_R7 lib reg n s) = ''register''" "Step (skip_registration st msg) = ''register''"
  by (simp_all add: check_R1_def check_R2_def check_R3_def check_R4_def check_R7_def skip_registration_def
      Let_def split: sum.splits)

lemma later_steps [simp]:
  "Step (check_S2 lib w p) = ''services''" "Step (check_S5 w) = ''services''" "Step (check_S7 w) = ''services''"
  "Step (check_S9 w) = ''services''" "Step (check_S10 w) = ''services''"
  "Step (check_V2 w) = ''tee-version''" "Step (check_V4 w p) = ''tee-version''" "Step (check_V6 w) = ''tee-version''"
  "Step (check_T1 w) = ''tee-machine''" "Step (check_T5 w) = ''tee-machine''" "Step (check_T10 w) = ''tee-machine''"
  "Step (check_E1 w p) = ''test''" "Step (check_E3 w) = ''test''" "Step check_E6 = ''test''"
  by (simp_all add: check_S2_def check_S5_def check_S7_def check_S9_def check_S10_def check_V2_def check_V4_def
      check_V6_def check_T1_def check_T5_def check_T10_def check_E1_def check_E3_def check_E6_def
      Let_def split: sum.splits)

lemma registration_appends:
  "Results (RegisterRegistrationChecks lib w client key registry allowlist path r) =
     Results r @ Results (RegisterRegistrationChecks lib w client key registry allowlist path empty_report)"
  by (cases client; cases registry)
    (simp_all add: RegisterRegistrationChecks_def Let_def split: sum.splits option.splits)

lemma registration_labelled:
  "list_all (\<lambda>res. Step res = ''register'')
     (Results (RegisterRegistrationChecks lib w client key registry allowlist path empty_report))"
  by (cases client; cases registry)
    (simp_all add: RegisterRegistrationChecks_def Let_def split: sum.splits option.splits)

interpretation registration: step_checks
  "RegisterRegistrationChecks lib w client key registry allowlist path" "''register''"
  for lib w client key registry allowlist path
  by unfold_locales (rule registration_appends, rule registration_labelled)

interpretation services: step_checks "RegisterServicesChecks lib w path" "''services''" for lib w path
  by unfold_locales (simp_all add: RegisterServicesChecks_def)

interpretation tee_version: step_checks "RegisterTeeVersionChecks w path" "''tee-version''" for w path
  by unfold_locales (simp_all add: RegisterTeeVersionChecks_def)

interpretation tee_machine: step_checks "RegisterTeeMachineChecks w path" "''tee-machine''" for w path
  by unfold_locales (simp_all add: RegisterTeeMachineChecks_def)

interpretation testing: step_checks "RegisterTestChecks w path" "''test''" for w path
  by unfold_locales (simp_all add: RegisterTestChecks_def)

section \<open>What makes a step fail\<close>

definition has_code :: "chain_view option \<Rightarrow> address \<Rightarrow> bool" where
  "has_code client addr = (case client of None \<Rightarrow> False
     | Some c \<Rightarrow> (case CodeAt c addr of Inl err \<Rightarrow> False | Inr code \<Rightarrow> code \<noteq> []))"

definition funded :: "'k tool_lib \<Rightarrow> chain_view \<Rightarrow> 'k \<Rightarrow> bool" where
  "funded lib c k = (case BalanceAt c (PubkeyToAddress lib k) of
     Inl err \<Rightarrow> False | Inr balance \<Rightarrow> MinDeployBalance \<le> balance)"

text \<open>The two values \<open>parseExtensionEnv\<close> reads; empty strings when it reads none.\<close>

definition env_pair :: "outside \<Rightarrow> string \<Rightarrow> string \<times> string" where
  "env_pair w path = (case parseExtensionEnv (fileAt w path) of Inl err \<Rightarrow> ('''', '''') | Inr p \<Rightarrow> p)"

definition readable :: "outside \<Rightarrow> string \<Rightarrow> bool" where
  "readable w path = (case fileAt w path of Content text \<Rightarrow> True | _ \<Rightarrow> False)"

lemma parse_env_pair: "parseExtensionEnv (fileAt w path) = Inr (env_pair w path)"
  by (simp add: env_pair_def parseExtensionEnv_def split: file_state.splits)

lemma env_pair_unreadable: "\<not> readable w path \<Longrightarrow> env_pair w path = ('''', '''')"
  by (simp add: env_pair_def parseExtensionEnv_def readable_def split: file_state.splits)

lemma fail_zero: "StatusOf (check_zero lib label addr) = FAIL \<longleftrightarrow> addr = 0"
  by (simp add: check_zero_def AddressNotZero_def)

lemma fail_code: "StatusOf (check_code lib client label addr) = FAIL \<longleftrightarrow> \<not> has_code client addr"
  by (simp add: check_code_def AddressHasCode_def has_code_def split: option.splits sum.splits)

lemma fail_key_source: "StatusOf (CheckDeployerKeySource w) \<noteq> FAIL"
  by (simp add: CheckDeployerKeySource_def Let_def)

lemma fail_funds: "StatusOf (funds_result lib (Some c) k) = FAIL \<longleftrightarrow> \<not> funded lib c k"
  by (auto simp: funds_result_def KeyHasFunds_def funded_def Let_def split: option.splits sum.splits)

lemma fail_chain: "StatusOf (checkChainID c) = FAIL \<longleftrightarrow> \<not> is_ok (ChainID c)"
  by (simp add: checkChainID_def is_ok_def split: sum.splits)

lemma fail_entry:
  "\<not> good [] \<Longrightarrow> StatusOf (check_entry lib good vars key) = FAIL \<longleftrightarrow> \<not> good (or_empty (vars key))"
  by (simp add: check_entry_def split: option.splits)

lemma format_failure:
  "has_failure (CheckExtensionEnvFormat lib w path) \<longleftrightarrow> readable w path \<and>
     \<not> (extensionIDRegex (fst (env_pair w path)) \<and> addressRegex (snd (env_pair w path)))"
proof (cases "fileAt w path")
  case (Content str)
  then show ?thesis
    by (auto simp: CheckExtensionEnvFormat_def Let_def readable_def env_pair_def parse_vars fail_entry)
qed (simp_all add: CheckExtensionEnvFormat_def readable_def)

lemma has_failure_append [simp]: "has_failure (xs @ ys) \<longleftrightarrow> has_failure xs \<or> has_failure ys"
  by (auto simp: has_failure_iff)

lemma HasFailures_deploy:
  "HasFailures (RegisterDeployChecks lib w client key addresses path r) \<longleftrightarrow>
     HasFailures r \<or> has_failure (deploy_results lib w client key addresses path)"
  by (simp add: HasFailures_def Results_deploy)

text \<open>
  C19: The deployment step fails exactly when an address of the file is zero, an address has no code on
  the chain (or no chain is connected), the deployer's balance cannot be read or is below 0.01 ETH, the
  chain id cannot be read, or the environment file can be read and one of the two entries is missing or
  malformed. An unset deployer key and a missing environment file never fail it.
\<close>

theorem deploy_step_fails_iff:
  assumes "set (snd addresses) = set (fst addresses)"
  shows "HasFailures (RegisterDeployChecks lib w client key addresses path empty_report) \<longleftrightarrow>
    (\<exists>label addr. (label, addr) \<in> set (fst addresses) \<and> (addr = 0 \<or> \<not> has_code client addr)) \<or>
    (\<exists>k c. key = Some k \<and> client = Some c \<and> \<not> funded lib c k) \<or>
    (\<exists>c. client = Some c \<and> \<not> is_ok (ChainID c)) \<or>
    (path \<noteq> '''' \<and> readable w path \<and>
      \<not> (extensionIDRegex (fst (env_pair w path)) \<and> addressRegex (snd (env_pair w path))))"
proof -
  have zeros: "has_failure (map (\<lambda>(label, addr). check_zero lib label addr) l) \<longleftrightarrow>
      (\<exists>label addr. (label, addr) \<in> set l \<and> addr = 0)" for l
    by (force simp: has_failure_iff fail_zero)
  have codes: "has_failure (map (\<lambda>(label, addr). check_code lib client label addr) l) \<longleftrightarrow>
      (\<exists>label addr. (label, addr) \<in> set l \<and> \<not> has_code client addr)" for l
    by (force simp: has_failure_iff fail_code)
  have addrs: "has_failure (map (\<lambda>(label, addr). check_zero lib label addr) (fst addresses)) \<or>
      has_failure (map (\<lambda>(label, addr). check_code lib client label addr)
        (filter (\<lambda>p. (fst p, 0) \<notin> set (fst addresses)) (snd addresses))) \<longleftrightarrow>
      (\<exists>label addr. (label, addr) \<in> set (fst addresses) \<and> (addr = 0 \<or> \<not> has_code client addr))"
    unfolding zeros codes using assms by auto
  have key: "has_failure (case (key, client) of (Some k, Some c) \<Rightarrow> [funds_result lib client k] | _ \<Rightarrow> []) \<longleftrightarrow>
      (\<exists>k c. key = Some k \<and> client = Some c \<and> \<not> funded lib c k)"
    by (cases key; cases client) (simp_all add: fail_funds)
  have chain: "has_failure (case client of None \<Rightarrow> [] | Some c \<Rightarrow> [checkChainID c]) \<longleftrightarrow>
      (\<exists>c. client = Some c \<and> \<not> is_ok (ChainID c))"
    by (cases client) (simp_all add: fail_chain)
  have env: "has_failure (if path \<noteq> '''' then CheckExtensionEnvFormat lib w path else []) \<longleftrightarrow>
      path \<noteq> '''' \<and> readable w path \<and>
      \<not> (extensionIDRegex (fst (env_pair w path)) \<and> addressRegex (snd (env_pair w path)))"
    by (simp add: format_failure)
  have "\<not> HasFailures empty_report" "\<not> has_failure [CheckDeployerKeySource w]"
    by (simp_all add: HasFailures_def fail_key_source)
  then show ?thesis
    unfolding HasFailures_deploy deploy_results_def has_failure_append env key chain addrs[symmetric] by blast
qed

text \<open>
  The order in which Go walks the address map does not matter: for any two orders in each of the
  two loops the step adds the same results, at most rearranged, and the same verdict.
\<close>

theorem deploy_order_irrelevant:
  assumes "mset a1 = mset b1" "mset a2 = mset b2"
  shows "mset (Results (RegisterDeployChecks lib w client key (a1, a2) path r)) =
      mset (Results (RegisterDeployChecks lib w client key (b1, b2) path r)) \<and>
    HasFailures (RegisterDeployChecks lib w client key (a1, a2) path r) =
      HasFailures (RegisterDeployChecks lib w client key (b1, b2) path r)"
proof -
  have sets: "set a1 = set b1" using assms(1) by (rule mset_eq_setD)
  have "mset (filter P a2) = mset (filter P b2)" for P
    using assms(2) by (simp add: mset_filter)
  then have same: "mset (Results (RegisterDeployChecks lib w client key (a1, a2) path r)) =
      mset (Results (RegisterDeployChecks lib w client key (b1, b2) path r))"
    using assms(1) sets by (simp add: Results_deploy deploy_results_def)
  then have "set (Results (RegisterDeployChecks lib w client key (a1, a2) path r)) =
      set (Results (RegisterDeployChecks lib w client key (b1, b2) path r))"
    by (rule mset_eq_setD)
  then show ?thesis
    using same by (simp add: HasFailures_def has_failure_iff)
qed

section \<open>Witnesses\<close>

definition demo_tools :: "nat tool_lib" where
  "demo_tools = \<lparr>AddrHex = (\<lambda>a. ''0x'' @ show_hex (unat a)), HexToAddress = (\<lambda>s. of_nat (length s)),
     PubkeyToAddress = of_nat, EVMType = [1], isPrint = (\<lambda>u. False)\<rparr>"

definition demo_outside :: outside where
  "demo_outside = \<lparr>getenv = (\<lambda>k. ''''), fileAt = (\<lambda>p. NotExist), dialTCP = (\<lambda>a. False), httpGet = (\<lambda>u. None)\<rparr>"

definition demo_chain :: chain_view where
  "demo_chain = \<lparr>CodeAt = (\<lambda>a. if a = 7 then Inr [0x60] else Inr []), BalanceAt = (\<lambda>a. Inr MinDeployBalance),
     ChainID = Inr 114\<rparr>"

theorem deploy_step_fails_iff_witness:
  "HasFailures (RegisterDeployChecks demo_tools demo_outside (Some demo_chain) (Some 3)
     ([(''FlareTeeManager'', 8)], [(''FlareTeeManager'', 8)]) '''' empty_report) \<and>
   \<not> HasFailures (RegisterDeployChecks demo_tools demo_outside (Some demo_chain) (Some 3)
     ([(''FlareTeeManager'', 7)], [(''FlareTeeManager'', 7)]) '''' empty_report)"
  by (subst (1 2) deploy_step_fails_iff)
    (simp_all add: demo_chain_def has_code_def funded_def)

theorem deploy_order_irrelevant_witness:
  "HasFailures (RegisterDeployChecks demo_tools demo_outside None None
     ([(''A'', 0), (''B'', 7)], [(''B'', 7), (''A'', 0)]) '''' empty_report) =
   HasFailures (RegisterDeployChecks demo_tools demo_outside None None
     ([(''B'', 7), (''A'', 0)], [(''A'', 0), (''B'', 7)]) '''' empty_report)"
  by (rule conjunct2[OF deploy_order_irrelevant]) simp_all

end
