(* ===== verification/Instructions.thy ===== *)
theory Instructions
  imports Registration Validate_Checks
begin

text \<open>
  The instructions sent through the InstructionSender contract: \<open>go/tools/pkg/utils/instructions.go\<close>
  and the command \<open>deploy-contract\<close>. The generated binding of the contract is the record
  \<open>sender_ops\<close>.
\<close>

section \<open>The contract binding\<close>

text \<open>
  \<open>packCall\<close> is the call data the contract's ABI packs for a method (\<open>None\<close> when the ABI does not load
  or packing fails). \<open>DeploySender\<close> gives the address the contract will have, and the transaction.
\<close>

record 'w sender_ops =
  bindSender :: "address \<Rightarrow> go_error option"
  DeploySender :: "tx_opts \<Rightarrow> address \<Rightarrow> address \<Rightarrow> ('w, (address \<times> hash) result) io"
  CallSetExtensionId :: "address \<Rightarrow> tx_opts \<Rightarrow> ('w, hash result) io"
  CallUpdateKey :: "address \<Rightarrow> bytes \<Rightarrow> tx_opts \<Rightarrow> ('w, hash result) io"
  CallSign :: "address \<Rightarrow> bytes \<Rightarrow> tx_opts \<Rightarrow> ('w, hash result) io"
  packCall :: "string \<Rightarrow> bytes option \<Rightarrow> bytes option"
  ParseInstructionSent :: "log \<Rightarrow> hash result"

section \<open>Deployment\<close>

definition DeployInstructionSender ::
  "('w, 'k) chain \<Rightarrow> 'w sender_ops \<Rightarrow> 'k support \<Rightarrow> ('w, address result) io" where
  "DeployInstructionSender ch snd_ops s = (case NewTransactor ch (Prv s) (SupChainID s) of
     Inl err \<Rightarrow> return_io (Inl (prefixf ''failed to create transactor: '' err))
   | Inr opts \<Rightarrow>
       try_io (DeploySender snd_ops opts (FlareTeeManager (AddressesOf s)) (FlareTeeManager (AddressesOf s)))
         (prefixf ''failed to deploy contract: '') (\<lambda>(contractAddr, tx).
         try_io (WaitMined ch tx)
           (prefixf (''deployment tx not mined within 2 minutes (tx: '' @ HashHex ch tx @ ''): ''))
           (\<lambda>receipt. return_io
             (if rcStatus receipt \<noteq> 1 then Inl (errorf ''contract deployment failed'') else Inr contractAddr))))"

section \<open>Failures\<close>

text \<open>
  The reason of a refused call: what the error itself carries, else what a replay of the call says
  (when its data can be packed).
\<close>

definition refusal_reason ::
  "('w, 'k) chain \<Rightarrow> 'k support \<Rightarrow> address \<Rightarrow> int option \<Rightarrow> bytes option \<Rightarrow> go_error \<Rightarrow> ('w, string) io" where
  "refusal_reason ch s sender val callData err =
     (let reason = DecodeRevertReason ch (Some err) in
      if reason = '''' then (case callData of
          None \<Rightarrow> return_io ''''
        | Some d \<Rightarrow> SimulateAndDecodeRevert ch (PubkeyToAddress ch (Prv s)) sender val d)
      else return_io reason)"

definition refusal_error :: "string \<Rightarrow> go_error \<Rightarrow> string \<Rightarrow> go_error" where
  "refusal_error label err reason =
     (if reason \<noteq> '''' then errorf (label @ err_text err @ '' (revert reason: '' @ reason @ '')'')
      else prefixf label err)"

definition refused ::
  "('w, 'k) chain \<Rightarrow> 'k support \<Rightarrow> address \<Rightarrow> int option \<Rightarrow> bytes option \<Rightarrow> string \<Rightarrow> go_error \<Rightarrow>
   ('w, 'a result) io" where
  "refused ch s sender val callData label err =
     then_io (refusal_reason ch s sender val callData err) (\<lambda>reason. return_io (Inl (refusal_error label err reason)))"

section \<open>Instructions\<close>

definition SetExtensionId ::
  "('w, 'k) chain \<Rightarrow> 'w sender_ops \<Rightarrow> 'k support \<Rightarrow> address \<Rightarrow> ('w, unit result) io" where
  "SetExtensionId ch snd_ops s sender = (case bindSender snd_ops sender of
     Some err \<Rightarrow> return_io (Inl (prefixf ''failed to bind contract: '' err))
   | None \<Rightarrow> (case NewTransactor ch (Prv s) (SupChainID s) of
       Inl err \<Rightarrow> return_io (Inl (prefixf ''failed to create transactor: '' err))
     | Inr opts \<Rightarrow> then_io (CallSetExtensionId snd_ops sender opts) (\<lambda>sent.
         let callData = packCall snd_ops ''setExtensionId'' None in
         case sent of
           Inl err \<Rightarrow> refused ch s sender None callData ''failed to call setExtensionId: '' err
         | Inr tx \<Rightarrow> try_io (WaitMined ch tx) (prefixf ''failed waiting for transaction: '') (\<lambda>receipt.
             if rcStatus receipt \<noteq> 1 then
               (case callData of
                  None \<Rightarrow> return_io (Inl (errorf ''setExtensionId transaction failed''))
                | Some d \<Rightarrow> then_io (SimulateAndDecodeRevert ch (PubkeyToAddress ch (Prv s)) sender None d)
                    (\<lambda>reason. return_io (Inl (if reason \<noteq> ''''
                       then errorf (''setExtensionId transaction failed (revert reason: '' @ reason @ '')'')
                       else errorf ''setExtensionId transaction failed''))))
             else return_io (Inr ())))))"

text \<open>
  \<open>SendUpdateKey\<close> and \<open>SendSign\<close> have the same body, with the method \<open>m\<close> of the binding and of the ABI
  in its place; \<open>fee\<close> is the variable \<open>DefaultFee\<close>. The result is the instruction id and the
  transaction hash.
\<close>

definition send_instruction ::
  "('w, 'k) chain \<Rightarrow> 'w sender_ops \<Rightarrow> int \<Rightarrow> 'k support \<Rightarrow> address \<Rightarrow> string \<Rightarrow>
   (tx_opts \<Rightarrow> ('w, hash result) io) \<Rightarrow> bytes \<Rightarrow> ('w, (hash \<times> hash) result) io" where
  "send_instruction ch snd_ops fee s sender m call payload = (case bindSender snd_ops sender of
     Some err \<Rightarrow> return_io (Inl (prefixf ''failed to bind contract: '' err))
   | None \<Rightarrow> (case NewTransactor ch (Prv s) (SupChainID s) of
       Inl err \<Rightarrow> return_io (Inl (prefixf ''failed to create transactor: '' err))
     | Inr opts0 \<Rightarrow> then_io (call (opts0\<lparr>txValue := Some fee\<rparr>)) (\<lambda>sent. case sent of
         Inl err \<Rightarrow> refused ch s sender (Some fee) (packCall snd_ops m (Some payload))
           (''failed to send '' @ m @ '': '') err
       | Inr tx \<Rightarrow> try_io (WaitMined ch tx) (prefixf ''failed waiting for transaction: '') (\<lambda>receipt. return_io
           (if rcStatus receipt \<noteq> 1
            then Inl (errorf (m @ '' transaction failed with status: '' @ show_nat (rcStatus receipt)))
            else case rcLogs receipt of
              [] \<Rightarrow> Inl (errorf ''no logs found in receipt'')
            | log0 # _ \<Rightarrow> (case ParseInstructionSent snd_ops log0 of
                Inl err \<Rightarrow> Inl (prefixf ''failed to parse TeeInstructionsSent event: '' err)
              | Inr instructionID \<Rightarrow> Inr (instructionID, rcTxHash receipt)))))))"

definition SendUpdateKey ::
  "('w, 'k) chain \<Rightarrow> 'w sender_ops \<Rightarrow> int \<Rightarrow> 'k support \<Rightarrow> address \<Rightarrow> bytes \<Rightarrow> ('w, (hash \<times> hash) result) io" where
  "SendUpdateKey ch snd_ops fee s sender encryptedKey =
     send_instruction ch snd_ops fee s sender ''updateKey'' (CallUpdateKey snd_ops sender encryptedKey) encryptedKey"

definition SendSign ::
  "('w, 'k) chain \<Rightarrow> 'w sender_ops \<Rightarrow> int \<Rightarrow> 'k support \<Rightarrow> address \<Rightarrow> bytes \<Rightarrow> ('w, (hash \<times> hash) result) io" where
  "SendSign ch snd_ops fee s sender message =
     send_instruction ch snd_ops fee s sender ''sign'' (CallSign snd_ops sender message) message"

section \<open>The command deploy-contract\<close>

text \<open>
  \<open>main\<close> of \<open>deploy-contract\<close>: three checks, each fatal, then the deployment unless only the checks
  were asked for. \<open>client\<close> is what the checks read from the node. The result is the text written to
  standard output; \<open>makeParent\<close> is \<open>os.MkdirAll(filepath.Dir(path))\<close>, whose error the code ignores, as it
  does that of writing the file.
\<close>

record deploy_flags =
  dfOut :: string
  dfPreflightOnly :: bool

definition preflight :: "('w, 'k) chain \<Rightarrow> chain_view option \<Rightarrow> 'k support \<Rightarrow> go_error option" where
  "preflight ch client s =
     (let lib = tool_lib.truncate ch; manager = FlareTeeManager (AddressesOf s) in
      case AddressNotZero lib manager ''FlareTeeManager'' of
        Some err \<Rightarrow> Some err
      | None \<Rightarrow> (case AddressHasCode lib client manager ''FlareTeeManager'' of
          Some err \<Rightarrow> Some err
        | None \<Rightarrow> KeyHasFunds lib client (Prv s) MinDeployBalance))"

definition write_address ::
  "('w, 'k) chain \<Rightarrow> 'w file_ops \<Rightarrow> (string \<Rightarrow> 'w \<Rightarrow> 'w) \<Rightarrow> string \<Rightarrow> address \<Rightarrow> 'w \<Rightarrow> 'w" where
  "write_address ch fs makeParent path addr w =
     (if path \<noteq> '''' then snd (WriteFile fs path (str_bytes (AddrHex ch addr)) (makeParent path w)) else w)"

definition deploy_contract_main ::
  "('w, 'k) chain \<Rightarrow> 'w sender_ops \<Rightarrow> 'w file_ops \<Rightarrow> (string \<Rightarrow> 'w \<Rightarrow> 'w) \<Rightarrow> chain_view option \<Rightarrow>
   'k support result \<Rightarrow> deploy_flags \<Rightarrow> ('w, string result) io" where
  "deploy_contract_main ch snd_ops fs makeParent client testSupport fl = (case testSupport of
     Inl err \<Rightarrow> return_io (Inl err)
   | Inr s \<Rightarrow> (case preflight ch client s of
       Some err \<Rightarrow> return_io (Inl err)
     | None \<Rightarrow>
         if dfPreflightOnly fl then return_io (Inr '''')
         else try_io (DeployInstructionSender ch snd_ops s) (\<lambda>err. err) (\<lambda>addr w.
           (Inr (AddrHex ch addr @ [CHR 0x0A]), write_address ch fs makeParent (dfOut fl) addr w))))"

section \<open>Lemmas\<close>

text \<open>When the contract may be deployed: the manager exists, the deployer can pay.\<close>

definition deploy_ready :: "('w, 'k) chain \<Rightarrow> chain_view option \<Rightarrow> 'k support \<Rightarrow> bool" where
  "deploy_ready ch client s \<longleftrightarrow> FlareTeeManager (AddressesOf s) \<noteq> 0 \<and>
     (\<exists>c code balance. client = Some c \<and> CodeAt c (FlareTeeManager (AddressesOf s)) = Inr code \<and> code \<noteq> [] \<and>
        BalanceAt c (PubkeyToAddress ch (Prv s)) = Inr balance \<and> 10 ^ 16 \<le> balance)"

lemma preflight_ok_iff: "preflight ch client s = None \<longleftrightarrow> deploy_ready ch client s"
  by (cases client)
    (auto simp: deploy_ready_def preflight_def AddressNotZero_def AddressHasCode_def KeyHasFunds_def MinDeployBalance_def Let_def
      tool_lib.defs split: sum.splits)

lemma DeployInstructionSender_ok_iff:
  "DeployInstructionSender ch snd_ops s w = (Inr addr, w') \<longleftrightarrow>
     (\<exists>opts tx w1 receipt. NewTransactor ch (Prv s) (SupChainID s) = Inr opts \<and>
        DeploySender snd_ops opts (FlareTeeManager (AddressesOf s)) (FlareTeeManager (AddressesOf s)) w =
          (Inr (addr, tx), w1) \<and>
        WaitMined ch tx w1 = (Inr receipt, w') \<and> rcStatus receipt = 1)"
  by (auto simp: DeployInstructionSender_def try_io_def split: sum.splits prod.splits if_splits)

lemma send_instruction_ok_iff:
  "send_instruction ch snd_ops fee s sender m call payload w = (Inr (i, txh), w') \<longleftrightarrow>
     bindSender snd_ops sender = None \<and>
     (\<exists>opts tx w1 receipt log0 logs. NewTransactor ch (Prv s) (SupChainID s) = Inr opts \<and>
        call (opts\<lparr>txValue := Some fee\<rparr>) w = (Inr tx, w1) \<and> WaitMined ch tx w1 = (Inr receipt, w') \<and>
        rcStatus receipt = 1 \<and> rcLogs receipt = log0 # logs \<and> ParseInstructionSent snd_ops log0 = Inr i \<and>
        txh = rcTxHash receipt)"
  by (auto simp: send_instruction_def refused_def try_io_def then_io_def split: sum.splits prod.splits if_splits
      option.splits list.splits)

section \<open>Properties\<close>

text \<open>
  C32: An instruction id comes back exactly when the contract could be bound, the call was sent with the
  fee attached and the given payload, the transaction was mined with status 1, and the first log of its
  receipt parses as that id; the hash returned is that of the receipt. This holds for \<open>updateKey\<close> and
  for \<open>sign\<close> alike.
\<close>

theorem instruction_sent:
  "(SendUpdateKey ch snd_ops fee s sender payload w = (Inr (i, txh), w') \<longleftrightarrow>
     bindSender snd_ops sender = None \<and>
     (\<exists>opts tx w1 receipt log0 logs. NewTransactor ch (Prv s) (SupChainID s) = Inr opts \<and>
        CallUpdateKey snd_ops sender payload (opts\<lparr>txValue := Some fee\<rparr>) w = (Inr tx, w1) \<and>
        WaitMined ch tx w1 = (Inr receipt, w') \<and> rcStatus receipt = 1 \<and> rcLogs receipt = log0 # logs \<and>
        ParseInstructionSent snd_ops log0 = Inr i \<and> txh = rcTxHash receipt)) \<and>
   (SendSign ch snd_ops fee s sender payload w = (Inr (i, txh), w') \<longleftrightarrow>
     bindSender snd_ops sender = None \<and>
     (\<exists>opts tx w1 receipt log0 logs. NewTransactor ch (Prv s) (SupChainID s) = Inr opts \<and>
        CallSign snd_ops sender payload (opts\<lparr>txValue := Some fee\<rparr>) w = (Inr tx, w1) \<and>
        WaitMined ch tx w1 = (Inr receipt, w') \<and> rcStatus receipt = 1 \<and> rcLogs receipt = log0 # logs \<and>
        ParseInstructionSent snd_ops log0 = Inr i \<and> txh = rcTxHash receipt))"
  by (rule conjI; unfold SendUpdateKey_def SendSign_def; rule send_instruction_ok_iff)

text \<open>
  C33: The deployment command deploys only a contract it may: it sends nothing when the manager's address
  is zero or has no code, when the deployer holds less than \<open>10^16\<close> wei, or when only the checks were
  asked for; and the address it prints is that of a contract whose deployment was mined with status 1.
\<close>

theorem deploy_contract_guarded:
  "(let (r, w') = deploy_contract_main ch snd_ops fs makeParent client (Inr s) fl w
    in if \<not> deploy_ready ch client s then \<not> is_ok r \<and> w' = w
       else if dfPreflightOnly fl then r = Inr '''' \<and> w' = w
       else case r of
          Inl err \<Rightarrow> DeployInstructionSender ch snd_ops s w = (Inl err, w')
        | Inr out \<Rightarrow> \<exists>addr opts tx w1 receipt w2. out = AddrHex ch addr @ [CHR 0x0A] \<and>
            NewTransactor ch (Prv s) (SupChainID s) = Inr opts \<and>
            DeploySender snd_ops opts (FlareTeeManager (AddressesOf s)) (FlareTeeManager (AddressesOf s)) w =
              (Inr (addr, tx), w1) \<and>
            WaitMined ch tx w1 = (Inr receipt, w2) \<and> rcStatus receipt = 1 \<and>
            w' = write_address ch fs makeParent (dfOut fl) addr w2)"
proof (cases "preflight ch client s")
  case None
  then have ready: "deploy_ready ch client s" by (simp add: preflight_ok_iff)
  show ?thesis
  proof (cases "dfPreflightOnly fl")
    case True
    with None ready show ?thesis
      by (simp add: deploy_contract_main_def)
  next
    case False
    show ?thesis
    proof (cases "DeployInstructionSender ch snd_ops s w" rule: prod.exhaust)
      case (Pair r w2)
      show ?thesis
      proof (cases r)
        case (Inl err)
        with Pair None ready False show ?thesis
          by (simp add: deploy_contract_main_def go_simps)
      next
        case (Inr addr)
        with Pair have "DeployInstructionSender ch snd_ops s w = (Inr addr, w2)" by simp
        with DeployInstructionSender_ok_iff[of ch snd_ops s w addr w2] None ready False show ?thesis
          by (simp add: deploy_contract_main_def go_simps) blast
      qed
    qed
  qed
next
  case (Some err)
  then have "\<not> deploy_ready ch client s" by (simp flip: preflight_ok_iff)
  with Some show ?thesis
    by (simp add: deploy_contract_main_def)
qed

end
