(* ===== verification/Register_Node.thy ===== *)
theory Register_Node
  imports Registration
begin

text \<open>
  \<open>RegisterNode\<close> of \<open>registration.go\<close>, the resumable sequence of phases, and the command
  \<open>register-tee\<close> (\<open>go/tools/cmd/register-tee/main.go\<close>).
\<close>

section \<open>Phases\<close>

text \<open>
  The shape of the three phases that record progress. When the command names the letter: a letter the
  state has already is skipped (the recorded id is used), otherwise the work is done, the letter and
  the id are recorded, and the state is saved (a failed save is only warned about); then the code
  sleeps a second. When it does not, the id is what it was.
\<close>

definition phase ::
  "('w, 'k) chain \<Rightarrow> 'w file_ops \<Rightarrow> (nat \<Rightarrow> 'w \<Rightarrow> 'w) \<Rightarrow> string \<Rightarrow> string \<Rightarrow> string \<Rightarrow>
   (registrationState \<Rightarrow> hash) \<Rightarrow> (hash \<Rightarrow> registrationState \<Rightarrow> registrationState) \<Rightarrow>
   ('w, hash result) io \<Rightarrow> hash \<Rightarrow> registrationState \<Rightarrow> ('w, (hash \<times> registrationState) result) io" where
  "phase ch fs sleep path command letter stored record work cur st =
     (if Contains command letter then
        (if Contains (CompletedSteps st) letter then (\<lambda>w. (Inr (stored st, st), sleep 1000 w))
         else try_io work (\<lambda>err. err) (\<lambda>i w.
           let st' = record i (st\<lparr>CompletedSteps := CompletedSteps st @ letter\<rparr>) in
           case saveState ch fs path st' w of (_, w1) \<Rightarrow> (Inr (i, st'), sleep 1000 w1)))
      else return_io (Inr (cur, st)))"

definition record_attest :: "hash \<Rightarrow> registrationState \<Rightarrow> registrationState" where
  "record_attest i st = st\<lparr>TeeAttestInstructionID := i\<rparr>"

definition record_check :: "hash \<Rightarrow> registrationState \<Rightarrow> registrationState" where
  "record_check i st = st\<lparr>InstructionID := i\<rparr>"

text \<open>The work of phase \<open>r\<close>: a machine that is registered already only gets a fresh attestation request.\<close>

definition work_r ::
  "('w, 'k) chain \<Rightarrow> 'w register_ops \<Rightarrow> 'k support \<Rightarrow> string \<Rightarrow> address \<Rightarrow> address \<Rightarrow> signed_tee_info \<Rightarrow>
   ('w, hash result) io" where
  "work_r ch ops s hostURL teeID proxyID teeInfo = then_io (GetTeeMachine ops teeID) (\<lambda>machine.
     if (case machine of Inl err \<Rightarrow> False | Inr registeredId \<Rightarrow> registeredId \<noteq> 0)
     then RequestTeeAttestation ch ops s teeID
     else try_io (PreRegistration ch ops s hostURL teeID proxyID teeInfo) (\<lambda>err. err)
       (\<lambda>r. return_io (Inr (snd r))))"

text \<open>The work of phase \<open>a\<close>: the policy gate, then the availability check for the attestation id at hand.\<close>

definition work_a ::
  "('w, 'k) chain \<Rightarrow> ('w, 'p) tee_lib \<Rightarrow> 'w register_ops \<Rightarrow> 'k support \<Rightarrow> string \<Rightarrow> address \<Rightarrow> address \<Rightarrow> hash \<Rightarrow>
   ('w, hash result) io" where
  "work_a ch net ops s ftdcTeeURL teeID ftdcTee attestID =
     then_io (CheckFTDCProxyPolicyConsistency (GetCurrentRewardEpochId ops) net ftdcTeeURL) (\<lambda>gate.
       case gate of
         Some err \<Rightarrow> return_io (Inl err)
       | None \<Rightarrow> RequestFTDCAvailabilityCheck ch ops s teeID ftdcTee attestID)"

definition run_p ::
  "('w, 'k) chain \<Rightarrow> ('w, 'p) tee_lib \<Rightarrow> 'w register_ops \<Rightarrow> 'k support \<Rightarrow> string \<Rightarrow> string \<Rightarrow> hash \<Rightarrow>
   ('w, unit result) io" where
  "run_p ch net ops s command ftdcTeeURL instructionID =
     (if Contains command ''p''
      then try_io (GetFTDCAvailabilityCheckResult net ops ftdcTeeURL instructionID) (\<lambda>err. err) (ToProduction ch ops s)
      else return_io (Inr ()))"

definition RegisterNode ::
  "('w, 'k) chain \<Rightarrow> ('w, 'p) tee_lib \<Rightarrow> 'w register_ops \<Rightarrow> 'w file_ops \<Rightarrow> (string \<Rightarrow> hash) \<Rightarrow> 'k support \<Rightarrow>
   signed_tee_info \<Rightarrow> string \<Rightarrow> string \<Rightarrow> address \<Rightarrow> string \<Rightarrow> string \<Rightarrow> string \<Rightarrow> ('w, unit result) io" where
  "RegisterNode ch net ops fs hexToHash s teeInfo hostURL ftdcTeeURL ftdcTee command instructionIDstring stateFilePath =
     (case TeeProxyId net teeInfo of
        Inl err \<Rightarrow> return_io (Inl err)
      | Inr (teeID, proxyID) \<Rightarrow>
        try_io (loadState fs stateFilePath) (\<lambda>err. err) (\<lambda>st0.
        try_io (phase ch fs (Sleep net) stateFilePath command ''r'' TeeAttestInstructionID record_attest
            (work_r ch ops s hostURL teeID proxyID teeInfo) 0 st0) (\<lambda>err. err) (\<lambda>(attest1, st1).
        try_io (phase ch fs (Sleep net) stateFilePath command ''R'' TeeAttestInstructionID record_attest
            (RequestTeeAttestation ch ops s teeID) attest1 st1) (\<lambda>err. err) (\<lambda>(attest2, st2).
        try_io (phase ch fs (Sleep net) stateFilePath command ''a'' InstructionID record_check
            (work_a ch net ops s ftdcTeeURL teeID ftdcTee attest2) (hexToHash instructionIDstring) st2)
          (\<lambda>err. err) (\<lambda>(instructionID, st3).
        try_io (run_p ch net ops s command ftdcTeeURL instructionID) (\<lambda>err. err) (\<lambda>_.
        then_io (RemoveFile fs stateFilePath) (\<lambda>_. return_io (Inr ()))))))))"

section \<open>Resuming\<close>

text \<open>
  The contract of a phase: once it has succeeded, a later run with the state it left skips it and gets
  the same id; it never forgets what was completed before.
\<close>

locale resumable_phase =
  fixes run :: "hash \<Rightarrow> registrationState \<Rightarrow> ('w, (hash \<times> registrationState) result) io"
    and selected :: bool
    and letter :: string
    and stored :: "registrationState \<Rightarrow> hash"
    and sleep :: "nat \<Rightarrow> 'w \<Rightarrow> 'w"
  assumes skips: "selected \<Longrightarrow> Contains (CompletedSteps st) letter \<Longrightarrow>
      run cur st w = (Inr (stored st, st), sleep 1000 w)"
    and ignores: "\<not> selected \<Longrightarrow> run cur st w = (Inr (cur, st), w)"
    and completes: "selected \<Longrightarrow> run cur st w = (Inr (i, st'), w') \<Longrightarrow>
      Contains (CompletedSteps st') letter \<and> stored st' = i"
    and keeps: "run cur st w = (Inr (i, st'), w') \<Longrightarrow> prefix (CompletedSteps st) (CompletedSteps st')"
begin

lemma resumed:
  "selected \<Longrightarrow> run cur st w = (Inr (i, st'), w') \<Longrightarrow> run cur' st' w2 = (Inr (i, st'), sleep 1000 w2)"
  using completes[of cur st w i st' w'] skips[of st' cur' w2] by simp

lemma later_keeps_completed:
  "run cur st w = (Inr (i, st'), w') \<Longrightarrow> Contains (CompletedSteps st) l \<Longrightarrow> Contains (CompletedSteps st') l"
  using keeps[of cur st w i st' w'] by (auto simp: prefix_def Contains_append)

end

lemma phase_ok:
  assumes "phase ch fs sleep path command letter stored record work cur st w = (Inr (i, st'), w')"
    and "Contains command letter" "\<not> Contains (CompletedSteps st) letter"
  shows "\<exists>w1. work w = (Inr i, w1) \<and> st' = record i (st\<lparr>CompletedSteps := CompletedSteps st @ letter\<rparr>) \<and>
    w' = sleep 1000 (snd (saveState ch fs path st' w1))"
  using assms by (auto simp: phase_def Let_def elim!: try_io_ok split: prod.splits)

lemma phase_resumable:
  assumes rec: "\<And>i st. stored (record i st) = i" "\<And>i st. CompletedSteps (record i st) = CompletedSteps st"
  shows "resumable_phase (phase ch fs sleep path command letter stored record work) (Contains command letter)
    letter stored sleep"
proof
  show "Contains command letter \<Longrightarrow> Contains (CompletedSteps st) letter \<Longrightarrow>
      phase ch fs sleep path command letter stored record work cur st w = (Inr (stored st, st), sleep 1000 w)"
    for st cur w by (simp add: phase_def)
  show "\<not> Contains command letter \<Longrightarrow>
      phase ch fs sleep path command letter stored record work cur st w = (Inr (cur, st), w)"
    for st cur w by (simp add: phase_def)
  show "Contains (CompletedSteps st') letter \<and> stored st' = i"
    if "Contains command letter" "phase ch fs sleep path command letter stored record work cur st w = (Inr (i, st'), w')"
    for cur st w i st' w'
  proof (cases "Contains (CompletedSteps st) letter")
    case True
    with that show ?thesis by (auto simp: phase_def)
  next
    case False
    from phase_ok[OF that(2,1) False] rec show ?thesis
      by (auto simp: Contains_append Contains_refl)
  qed
  show "prefix (CompletedSteps st) (CompletedSteps st')"
    if run: "phase ch fs sleep path command letter stored record work cur st w = (Inr (i, st'), w')"
    for cur st w i st' w'
  proof (cases "Contains command letter \<and> \<not> Contains (CompletedSteps st) letter")
    case True
    with phase_ok[OF run] rec show ?thesis by auto
  next
    case False
    with run show ?thesis by (auto simp: phase_def split: if_splits)
  qed
qed

interpretation phase_r: resumable_phase
  "phase ch fs sleep path command ''r'' TeeAttestInstructionID record_attest work" "Contains command ''r''" "''r''"
  TeeAttestInstructionID sleep
  for ch fs sleep path command work
  by (rule phase_resumable) (simp_all add: record_attest_def)

interpretation phase_R: resumable_phase
  "phase ch fs sleep path command ''R'' TeeAttestInstructionID record_attest work" "Contains command ''R''" "''R''"
  TeeAttestInstructionID sleep
  for ch fs sleep path command work
  by (rule phase_resumable) (simp_all add: record_attest_def)

interpretation phase_a: resumable_phase
  "phase ch fs sleep path command ''a'' InstructionID record_check work" "Contains command ''a''" "''a''"
  InstructionID sleep
  for ch fs sleep path command work
  by (rule phase_resumable) (simp_all add: record_check_def)

text \<open>\<open>ToProduction\<close> looks first: a machine in production is left alone.\<close>

interpretation production: guarded_update
  "GetTeeMachineStatus ops (arTeeId (apRequest pr))" "\<lambda>status. status = teeStatusProduction"
  "promote ch ops s pr" "ToProduction ch ops s pr"
  for ch ops s pr
  by unfold_locales (auto simp: ToProduction_def go_simps)

section \<open>The command\<close>

record register_flags =
  rfProxy :: string
  rfHost :: string
  rfExternalProxy :: string
  rfInstruction :: string
  rfCommand :: string
  rfState :: string
  rfResume :: bool

text \<open>
  \<open>main\<close> of \<open>register-tee\<close>. Unless \<open>-resume\<close> is given the state file is removed first (a failure is
  only warned about). Errors end the process.
\<close>

definition register_tee_main ::
  "('w, 'k) chain \<Rightarrow> ('w, 'p) tee_lib \<Rightarrow> 'w register_ops \<Rightarrow> 'w file_ops \<Rightarrow> (string \<Rightarrow> hash) \<Rightarrow> 'k support result \<Rightarrow>
   env \<Rightarrow> register_flags \<Rightarrow> ('w, unit result) io" where
  "register_tee_main ch net ops fs hexToHash testSupport e fl =
     then_io (if rfResume fl then return_io (Inr ()) else RemoveFile fs (rfState fl)) (\<lambda>_.
     case testSupport of
       Inl err \<Rightarrow> return_io (Inl err)
     | Inr s \<Rightarrow>
       try_io (TeeInfo net (rfProxy fl)) (\<lambda>err. err) (\<lambda>teeInfo.
         case TeeProxyId net teeInfo of
           Inl err \<Rightarrow> return_io (Inl err)
         | Inr (teeID, _) \<Rightarrow>
           try_io (GetTeeProxyID net (rfExternalProxy fl)) (\<lambda>err. err) (\<lambda>(ftdcTeeID, _).
             case GetCodeHashAndPlatform net e teeInfo of
               Inl err \<Rightarrow> return_io (Inl err)
             | Inr _ \<Rightarrow>
                 RegisterNode ch net ops fs hexToHash s teeInfo
                   (if rfHost fl = '''' then rfProxy fl else rfHost fl)
                   (rfExternalProxy fl) ftdcTeeID (rfCommand fl) (rfInstruction fl) (rfState fl))))"

section \<open>Properties\<close>

text \<open>What follows phase \<open>a\<close>: production, then the removal of the state file.\<close>

definition finish ::
  "('w, 'k) chain \<Rightarrow> ('w, 'p) tee_lib \<Rightarrow> 'w register_ops \<Rightarrow> 'w file_ops \<Rightarrow> 'k support \<Rightarrow> string \<Rightarrow> string \<Rightarrow> string \<Rightarrow>
   hash \<times> registrationState \<Rightarrow> ('w, unit result) io" where
  "finish ch net ops fs s command ftdcTeeURL path r =
     try_io (run_p ch net ops s command ftdcTeeURL (fst r)) (\<lambda>err. err) (\<lambda>_.
       then_io (RemoveFile fs path) (\<lambda>_. return_io (Inr ())))"

lemma finish_eta:
  "finish ch net ops fs s command ftdcTeeURL path = (\<lambda>(instructionID, st3).
     try_io (run_p ch net ops s command ftdcTeeURL instructionID) (\<lambda>err. err) (\<lambda>_.
       then_io (RemoveFile fs path) (\<lambda>_. return_io (Inr ()))))"
  by (simp add: fun_eq_iff finish_def)

lemma RegisterNode_finish:
  "RegisterNode ch net ops fs hexToHash s teeInfo hostURL ftdcTeeURL ftdcTee command instructionIDstring path =
     (case TeeProxyId net teeInfo of
        Inl err \<Rightarrow> return_io (Inl err)
      | Inr (teeID, proxyID) \<Rightarrow>
        try_io (loadState fs path) (\<lambda>err. err) (\<lambda>st0.
        try_io (phase ch fs (Sleep net) path command ''r'' TeeAttestInstructionID record_attest
            (work_r ch ops s hostURL teeID proxyID teeInfo) 0 st0) (\<lambda>err. err) (\<lambda>(attest1, st1).
        try_io (phase ch fs (Sleep net) path command ''R'' TeeAttestInstructionID record_attest
            (RequestTeeAttestation ch ops s teeID) attest1 st1) (\<lambda>err. err) (\<lambda>(attest2, st2).
        try_io (phase ch fs (Sleep net) path command ''a'' InstructionID record_check
            (work_a ch net ops s ftdcTeeURL teeID ftdcTee attest2) (hexToHash instructionIDstring) st2)
          (\<lambda>err. err) (finish ch net ops fs s command ftdcTeeURL path)))))"
  unfolding RegisterNode_def finish_eta ..

lemma loadState_saved:
  "ReadFile fs path w = (FileBytes content, w1) \<Longrightarrow> unmarshalState fs content = Inr st \<Longrightarrow>
   loadState fs path w = (Inr st, w1)"
  by (simp add: loadState_def go_simps)

text \<open>
  C15: A run that failed after pre-registration can be taken up: when an earlier run completed phase \<open>r\<close>
  and the state file holds what it wrote (hashes being printed and read as go-ethereum documents), a new run with the
  default command sends no registration and no attestation request, but goes straight to the
  availability check, with the very attestation id the first run obtained.
\<close>

theorem resume_uses_saved_id:
  assumes "TeeProxyId net teeInfo = Inr (teeID, proxyID)"
    and first: "phase ch fs (Sleep net) path ''rap'' ''r'' TeeAttestInstructionID record_attest work1 0 fresh_state w0 =
      (Inr (i, st1), w1)"
    and "ReadFile fs path w = (FileBytes (str_bytes (marshal_state ch st1)), w2)"
    and "hash_texts ch fs"
  shows "RegisterNode ch net ops fs hexToHash s teeInfo hostURL ftdcTeeURL ftdcTee ''rap'' instructionIDstring path w =
    try_io (phase ch fs (Sleep net) path ''rap'' ''a'' InstructionID record_check
        (work_a ch net ops s ftdcTeeURL teeID ftdcTee i) (hexToHash instructionIDstring) st1)
      (\<lambda>err. err) (finish ch net ops fs s ''rap'' ftdcTeeURL path) (Sleep net 1000 w2)"
proof -
  have selected: "Contains ''rap'' ''r''" "\<not> Contains ''rap'' ''R''"
    by (simp_all add: Contains_char)
  from phase_r.completes[OF selected(1) first]
  have "phase ch fs (Sleep net) path ''rap'' ''r'' TeeAttestInstructionID record_attest work 0 st1 w2 =
      (Inr (i, st1), Sleep net 1000 w2)" for work
    using phase_r.skips[OF selected(1), of st1 ch fs "Sleep net" path work 0 w2] by simp
  moreover have "phase ch fs (Sleep net) path ''rap'' ''R'' TeeAttestInstructionID record_attest work i st1 w3 =
      (Inr (i, st1), w3)" for work w3
    using selected(2) by (rule phase_R.ignores)
  moreover have "CompletedSteps st1 = ''r''"
    using phase_ok[OF first selected(1)] by (auto simp: fresh_state_def record_attest_def)
  then have "unmarshalState fs (str_bytes (marshal_state ch st1)) = Inr st1"
    using assms(4) by (simp add: unmarshal_marshal ascii_to_valid)
  ultimately show ?thesis
    using loadState_saved[OF assms(3)] assms(1)
    by (simp add: RegisterNode_finish go_simps)
qed

text \<open>
  C16: The state file is read back as it was written: on a file system that returns the bytes of a
  successful write, loading the state after saving it gives the same steps and ids, whatever steps the
  state lists (as UTF-8) and whatever the ids are.
\<close>

theorem state_file_roundtrip:
  assumes "hash_texts ch fs" "valid_utf8 n (CompletedSteps st)"
    and "\<And>b w w'. WriteFile fs path b w = (None, w') \<Longrightarrow> ReadFile fs path w' = (FileBytes b, w')"
    and "saveState ch fs path st w = (None, w')"
  shows "loadState fs path w' = (Inr st, w')"
proof -
  have "WriteFile fs path (str_bytes (marshal_state ch st)) w = (None, w')"
    using assms(4) by (auto simp: saveState_def then_io_def split: prod.splits option.splits)
  then have "ReadFile fs path w' = (FileBytes (str_bytes (marshal_state ch st)), w')" by (rule assms(3))
  then show ?thesis
    using unmarshal_marshal[OF assms(1) valid_utf8_to_valid[OF assms(2)]] by (rule loadState_saved)
qed

text \<open>
  A run that starts at the availability check (\<open>ap\<close>) asks for it with attestation id zero,
  whatever attestation id the state file records.
\<close>

theorem resumed_check_loses_id:
  assumes "TeeProxyId net teeInfo = Inr (teeID, proxyID)" "loadState fs path w = (Inr st, w1)"
  shows "RegisterNode ch net ops fs hexToHash s teeInfo hostURL ftdcTeeURL ftdcTee ''ap'' instructionIDstring path w =
    try_io (phase ch fs (Sleep net) path ''ap'' ''a'' InstructionID record_check
        (work_a ch net ops s ftdcTeeURL teeID ftdcTee 0) (hexToHash instructionIDstring) st)
      (\<lambda>err. err) (finish ch net ops fs s ''ap'' ftdcTeeURL path) w1"
proof -
  have none: "\<not> Contains ''ap'' ''r''" "\<not> Contains ''ap'' ''R''"
    by (simp_all add: Contains_char)
  have "phase ch fs (Sleep net) path ''ap'' ''r'' TeeAttestInstructionID record_attest work 0 st w1 = (Inr (0, st), w1)" for work
    using none(1) by (rule phase_r.ignores)
  moreover have "phase ch fs (Sleep net) path ''ap'' ''R'' TeeAttestInstructionID record_attest work 0 st w1 = (Inr (0, st), w1)" for work
    using none(2) by (rule phase_R.ignores)
  ultimately show ?thesis
    using assms by (simp add: RegisterNode_finish go_simps)
qed

text \<open>
  Whatever the command, a run that succeeds ends by removing the state file, also when the command
  names only some of the phases; and when it names \<open>p\<close> it has brought the machine of the proof it
  fetched to production.
\<close>

theorem success_removes_state:
  assumes "RegisterNode ch net ops fs hexToHash s teeInfo hostURL ftdcTeeURL ftdcTee command instructionIDstring path w =
    (Inr (), w')"
  shows "\<exists>instructionID w1 w2. w' = snd (RemoveFile fs path w2) \<and>
    run_p ch net ops s command ftdcTeeURL instructionID w1 = (Inr (), w2) \<and>
    (if Contains command ''p''
     then \<exists>pr w3. GetFTDCAvailabilityCheckResult net ops ftdcTeeURL instructionID w1 = (Inr pr, w3) \<and>
       ToProduction ch ops s pr w3 = (Inr (), w2)
     else w2 = w1)"
proof -
  obtain r w1 where "finish ch net ops fs s command ftdcTeeURL path r w1 = (Inr (), w')"
    using assms unfolding RegisterNode_finish
    by (auto split: sum.splits elim!: try_io_ok)
  then obtain w2 where p: "run_p ch net ops s command ftdcTeeURL (fst r) w1 = (Inr (), w2)"
      and "w' = snd (RemoveFile fs path w2)"
    unfolding finish_def by (elim try_io_ok) (auto simp: then_io_def split: prod.splits)
  moreover have "if Contains command ''p''
     then \<exists>pr w3. GetFTDCAvailabilityCheckResult net ops ftdcTeeURL (fst r) w1 = (Inr pr, w3) \<and>
       ToProduction ch ops s pr w3 = (Inr (), w2)
     else w2 = w1"
    using p by (auto simp: run_p_def elim!: try_io_ok split: if_splits)
  ultimately show ?thesis by blast
qed

lemma diagnosed_ok: "diagnosed send diag w = (Inr tx, w') \<longleftrightarrow> send w = (Inr tx, w')"
  by (auto simp: diagnosed_def then_io_def split: prod.splits sum.splits)

text \<open>
  C17: When bringing a machine to production succeeds, either the chain already had it in production and
  nothing was sent, or a transaction with exactly this proof was mined successfully and the chain then
  knows the machine under the id of the proof.
\<close>

theorem to_production_done:
  assumes "ToProduction ch ops s pr w = (Inr (), w')"
  shows "\<exists>status w1. GetTeeMachineStatus ops (arTeeId (apRequest pr)) w = (status, w1) \<and>
    (if status = Inr teeStatusProduction then w' = w1
     else \<exists>opts tx w2 receipt w3. NewTransactor ch (Prv s) (SupChainID s) = Inr opts \<and>
       SendToProduction ops opts pr w1 = (Inr tx, w2) \<and> WaitMined ch tx w2 = (Inr receipt, w3) \<and>
       rcStatus receipt \<noteq> 0 \<and> GetTeeMachine ops (arTeeId (apRequest pr)) w3 = (Inr (arTeeId (apRequest pr)), w'))"
proof -
  obtain status w1 where look: "GetTeeMachineStatus ops (arTeeId (apRequest pr)) w = (status, w1)" by fastforce
  show ?thesis
  proof (cases "status = Inr teeStatusProduction")
    case True
    with assms look show ?thesis by (auto simp: ToProduction_def go_simps)
  next
    case False
    with assms look have "promote ch ops s pr w1 = (Inr (), w')"
      by (simp add: ToProduction_def go_simps)
    then have "\<exists>opts tx w2 receipt w3. NewTransactor ch (Prv s) (SupChainID s) = Inr opts \<and>
       SendToProduction ops opts pr w1 = (Inr tx, w2) \<and> WaitMined ch tx w2 = (Inr receipt, w3) \<and>
       rcStatus receipt \<noteq> 0 \<and> GetTeeMachine ops (arTeeId (apRequest pr)) w3 = (Inr (arTeeId (apRequest pr)), w')"
      unfolding promote_def
      by (auto simp: submit_ok_iff diagnosed_ok split: sum.splits if_splits elim!: try_io_ok)
    with False look show ?thesis by auto
  qed
qed

text \<open>
  C18: Bringing a machine to production is idempotent: on a chain whose status reads change nothing and
  show production after a successful promotion, a second run succeeds and sends nothing.
\<close>

theorem to_production_idempotent:
  assumes view: "\<And>w. snd (GetTeeMachineStatus ops (arTeeId (apRequest pr)) w) = w"
    and visible: "\<And>opts tx w w1 receipt w2 w3. SendToProduction ops opts pr w = (Inr tx, w1) \<Longrightarrow>
      WaitMined ch tx w1 = (Inr receipt, w2) \<Longrightarrow> rcStatus receipt \<noteq> 0 \<Longrightarrow>
      GetTeeMachine ops (arTeeId (apRequest pr)) w2 = (Inr (arTeeId (apRequest pr)), w3) \<Longrightarrow>
      fst (GetTeeMachineStatus ops (arTeeId (apRequest pr)) w3) = Inr teeStatusProduction"
    and ran: "ToProduction ch ops s pr w = (Inr (), w')"
  shows "ToProduction ch ops s pr w' = (Inr (), w')"
proof (rule production.idempotent[OF view _ ran])
  fix w w'
  assume "promote ch ops s pr w = (Inr (), w')"
  then have "fst (GetTeeMachineStatus ops (arTeeId (apRequest pr)) w') = Inr teeStatusProduction"
    unfolding promote_def
    by (auto simp: submit_ok_iff diagnosed_ok split: sum.splits if_splits elim!: try_io_ok intro: visible)
  then show "\<exists>v. fst (GetTeeMachineStatus ops (arTeeId (apRequest pr)) w') = Inr v \<and> v = teeStatusProduction"
    by simp
qed

section \<open>Witnesses\<close>

text \<open>A chain whose world is the status of the machine; a state file that records phase \<open>r\<close> with id 77.\<close>

definition reg_ch :: "(nat, nat) chain" where
  "reg_ch = demo_ch\<lparr>WaitMined := (\<lambda>h n. (Inr \<lparr>rcStatus = 1, rcLogs = [[1], [2]], rcTxHash = h\<rparr>, n))\<rparr>"

definition saved_state :: registrationState where
  "saved_state = \<lparr>CompletedSteps = ''r'', TeeAttestInstructionID = 77, InstructionID = 0\<rparr>"

definition demo_fs :: "nat file_ops" where
  "demo_fs = \<lparr>ReadFile = (\<lambda>p n. (FileBytes (str_bytes (marshal_state reg_ch saved_state)), n)),
     WriteFile = (\<lambda>p b n. (None, n)), RemoveFile = (\<lambda>p n. (Inr (), n)),
     hashFromText = (\<lambda>t. map_option of_nat (digits_val 16 hex_val 0 (drop 2 t))),
     jsonError = (\<lambda>b. errorf ''invalid character'')\<rparr>"

definition demo_reg :: "nat register_ops" where
  "demo_reg = \<lparr>GetTeeMachine = (\<lambda>a n. (Inr a, n)),
     RegisterMachine = (\<lambda>opts d sig p u c n. (Inr 1, n)), ParseTeeAttestationRequested = (\<lambda>l. Inr 1),
     ParseTeeInstructionsSent = (\<lambda>l. Inr 77), RequestAttestation = (\<lambda>opts t c n. (Inr 1, n)),
     RequestAvailability = (\<lambda>opts t i e pr c n. (Inr 1, n)), packAvailability = (\<lambda>t i e pr c. Inr []),
     GetTeeMachineStatus = (\<lambda>a n. (Inr (of_nat n), n)), SendToProduction = (\<lambda>opts pr n. (Inr 1, 2)),
     packToProduction = (\<lambda>pr. Inr []), abiOf = (\<lambda>name. Inr []), SendTeeVersion = (\<lambda>opts i v c ps n. (Inr 1, n)),
     GetCurrentRewardEpochId = (\<lambda>n. (Inr (Some 8), n)), RSVtoVRS = Inr,
     unmarshalProof = (\<lambda>b. Inl (errorf ''EOF'')), DecodeHeader = Inr,
     decodeToRequest = (\<lambda>b. Inr \<lparr>arTeeId = 4, arRest = []\<rparr>), decodeToResponse = (\<lambda>b. Inl (errorf ''EOF''))\<rparr>"

definition demo_proof :: availability_proof where
  "demo_proof = \<lparr>apSignatures = [], apHeader = [], apRequest = \<lparr>arTeeId = 4, arRest = []\<rparr>,
     apResponse = \<lparr>avStatus = 0, avTeeTimestamp = 0, avCodeHash = 0, avPlatform = 0, avInitialSigningPolicyId = 0,
       avLastSigningPolicyId = 0, avState = []\<rparr>\<rparr>"

lemma demo_ids: "TeeProxyId demo_net demo_info = Inr (4, 9)"
  by (simp add: TeeProxyId_def demo_net_def)

lemma demo_hash_texts: "hash_texts reg_ch demo_fs"
proof -
  have "is_hex (CHR ''0'')" by (simp add: is_hex_def hex_val_def)
  then show ?thesis
    by (auto simp: hash_texts_def reg_ch_def demo_ch_def demo_fs_def intro: show_hex_is_hex)
qed

lemma demo_phase_r:
  "phase reg_ch demo_fs (Sleep demo_net) ''reg.state'' ''rap'' ''r'' TeeAttestInstructionID record_attest
     (\<lambda>n. (Inr 77, n)) 0 fresh_state 0 = (Inr (77, saved_state), 0)"
  by (simp add: phase_def fresh_state_def record_attest_def saved_state_def saveState_def demo_fs_def demo_net_def
      try_io_def then_io_def HasPrefix_def)

lemma demo_load: "loadState demo_fs ''reg.state'' n = (Inr saved_state, n)"
proof (rule loadState_saved)
  show "unmarshalState demo_fs (str_bytes (marshal_state reg_ch saved_state)) = Inr saved_state"
    using demo_hash_texts by (rule unmarshal_marshal) (simp add: saved_state_def ascii_to_valid)
qed (simp add: demo_fs_def)

theorem resume_uses_saved_id_witness:
  "RegisterNode reg_ch demo_net demo_reg demo_fs (\<lambda>s. 0) gov_support demo_info ''host'' ''ftdc'' 9 ''rap'' '''' ''reg.state'' 1 =
    try_io (phase reg_ch demo_fs (Sleep demo_net) ''reg.state'' ''rap'' ''a'' InstructionID record_check
        (work_a reg_ch demo_net demo_reg gov_support ''ftdc'' 4 9 77) 0 saved_state)
      (\<lambda>err. err) (finish reg_ch demo_net demo_reg demo_fs gov_support ''rap'' ''ftdc'' ''reg.state'') (Sleep demo_net 1000 1)"
  by (rule resume_uses_saved_id[OF demo_ids demo_phase_r _ demo_hash_texts]) (simp add: demo_fs_def)

theorem resumed_check_loses_id_witness:
  "RegisterNode reg_ch demo_net demo_reg demo_fs (\<lambda>s. 0) gov_support demo_info ''host'' ''ftdc'' 9 ''ap'' '''' ''reg.state'' 1 =
    try_io (phase reg_ch demo_fs (Sleep demo_net) ''reg.state'' ''ap'' ''a'' InstructionID record_check
        (work_a reg_ch demo_net demo_reg gov_support ''ftdc'' 4 9 0) 0 saved_state)
      (\<lambda>err. err) (finish reg_ch demo_net demo_reg demo_fs gov_support ''ap'' ''ftdc'' ''reg.state'') 1"
  by (rule resumed_check_loses_id[OF demo_ids demo_load])

lemma demo_attest: "RequestTeeAttestation reg_ch demo_reg gov_support 4 n = (Inr 77, n)"
  by (simp add: RequestTeeAttestation_def paying_opts_def submit_def CheckTx_def demo_reg_def reg_ch_def demo_ch_def
      gov_support_def try_io_def then_io_def)

lemma demo_phase_R:
  "phase reg_ch demo_fs (Sleep demo_net) ''reg.state'' ''R'' ''R'' TeeAttestInstructionID record_attest
     (RequestTeeAttestation reg_ch demo_reg gov_support 4) 0 saved_state n =
   (Inr (77, record_attest 77 (saved_state\<lparr>CompletedSteps := ''r'' @ ''R''\<rparr>)), n)"
proof -
  have "Contains ''R'' ''R''" "\<not> Contains (CompletedSteps saved_state) ''R''"
    by (simp_all add: Contains_char saved_state_def)
  moreover have "saveState reg_ch demo_fs ''reg.state'' st k = (None, k)" for st k
    by (simp add: saveState_def demo_fs_def then_io_def)
  moreover have "Sleep demo_net k n = n" for k by (simp add: demo_net_def)
  ultimately show ?thesis
    by (simp add: phase_def demo_attest try_io_def then_io_def saved_state_def)
qed

lemma demo_register:
  "RegisterNode reg_ch demo_net demo_reg demo_fs (\<lambda>s. 0) gov_support demo_info ''host'' ''ftdc'' 9 ''R'' '''' ''reg.state'' 1 =
    (Inr (), 1)"
proof -
  have none: "\<not> Contains ''R'' ''r''" "\<not> Contains ''R'' ''a''" "\<not> Contains ''R'' ''p''"
    by (simp_all add: Contains_char)
  have "RemoveFile demo_fs path n = (Inr (), n)" for path n by (simp add: demo_fs_def)
  then have "finish reg_ch demo_net demo_reg demo_fs gov_support ''R'' ''ftdc'' ''reg.state'' (i, st) n = (Inr (), n)" for i st n
    using none(3) by (simp add: finish_def run_p_def go_simps)
  then show ?thesis
    by (simp add: RegisterNode_finish demo_ids demo_load phase_r.ignores[OF none(1)] demo_phase_R
        phase_a.ignores[OF none(2)] go_simps)
qed

theorem success_removes_state_witness:
  "\<exists>instructionID w1 w2. 1 = snd (RemoveFile demo_fs ''reg.state'' w2) \<and>
    run_p reg_ch demo_net demo_reg gov_support ''R'' ''ftdc'' instructionID w1 = (Inr (), w2)"
  using success_removes_state[OF demo_register] by blast

lemma demo_production: "ToProduction reg_ch demo_reg gov_support demo_proof 1 = (Inr (), 2)"
  by (simp add: ToProduction_def promote_def submit_def CheckTx_def diagnosed_def demo_reg_def reg_ch_def demo_ch_def
      gov_support_def demo_proof_def teeStatusProduction_def try_io_def then_io_def)

theorem to_production_done_witness:
  "\<exists>status w1. GetTeeMachineStatus demo_reg (arTeeId (apRequest demo_proof)) 1 = (status, w1) \<and>
    (if status = Inr teeStatusProduction then 2 = w1
     else \<exists>opts tx w2 receipt w3. NewTransactor reg_ch (Prv gov_support) (SupChainID gov_support) = Inr opts \<and>
       SendToProduction demo_reg opts demo_proof w1 = (Inr tx, w2) \<and> WaitMined reg_ch tx w2 = (Inr receipt, w3) \<and>
       rcStatus receipt \<noteq> 0 \<and> GetTeeMachine demo_reg (arTeeId (apRequest demo_proof)) w3 = (Inr (arTeeId (apRequest demo_proof)), 2))"
  by (rule to_production_done[OF demo_production])

theorem to_production_idempotent_witness:
  "ToProduction reg_ch demo_reg gov_support demo_proof 2 = (Inr (), 2)"
  by (rule to_production_idempotent[OF _ _ demo_production])
    (auto simp: demo_reg_def reg_ch_def teeStatusProduction_def)

text \<open>A file system that takes this one text.\<close>

definition one_file :: "nat file_ops" where
  "one_file = demo_fs\<lparr>WriteFile := (\<lambda>p b n.
     (if b = str_bytes (marshal_state reg_ch saved_state) then None else Some (errorf ''disk full''), n))\<rparr>"

theorem state_file_roundtrip_witness: "loadState one_file ''reg.state'' 0 = (Inr saved_state, 0)"
proof (rule state_file_roundtrip)
  show "hash_texts reg_ch one_file"
    using demo_hash_texts by (simp add: hash_texts_def one_file_def)
  show "valid_utf8 1 (CompletedSteps saved_state)" by (simp add: saved_state_def rune_len_ascii)
  show "saveState reg_ch one_file ''reg.state'' saved_state 0 = (None, 0)"
    by (simp add: saveState_def one_file_def then_io_def)
  show "ReadFile one_file ''reg.state'' w' = (FileBytes b, w')" if "WriteFile one_file ''reg.state'' b w = (None, w')" for b w w'
    using that by (simp add: one_file_def demo_fs_def split: if_splits)
qed

end
