(* ===== verification/Run_Test.thy ===== *)
theory Run_Test
  imports Instructions Register_Node
begin

text \<open>
  The end-to-end test \<open>go/tools/cmd/run-test/main.go\<close> (its decoder and \<open>normalizeV\<close> are in theory
  \<open>Abi_Codec\<close>) and the command \<open>allow-tee-version\<close>.
\<close>

section \<open>The test\<close>

text \<open>Encryption reads random bytes, so it may move the world.\<close>

record ('w, 'p, 'k) test_lib =
  EciesEncrypt :: "'p \<Rightarrow> bytes \<Rightarrow> ('w, bytes result) io"
  ToECDSA :: "bytes \<Rightarrow> 'k result"
  Keccak256 :: "bytes \<Rightarrow> bytes"

definition testPrivKeyHex :: string where
  "testPrivKeyHex = ''fad9c8855b740a0b7ed4c221dbad0f33a83a49cad6b3fe8d5817ac83d38b6a19''"

text \<open>The error of \<open>hex.DecodeString\<close> is dropped; the literal is well formed.\<close>

definition testPrivKeyBytes :: bytes where
  "testPrivKeyBytes = (case hex_decode testPrivKeyHex of None \<Rightarrow> [] | Some b \<Rightarrow> b)"

definition testMessage :: bytes where
  "testMessage = str_bytes ''Hello from the sign extension e2e test!''"

text \<open>
  The last step: the answer's data is decoded, the signer of the message is recovered from the second
  item and compared with the address of the test key. The first item is not looked at. The decoder
  may panic.
\<close>

definition check_signature ::
  "('w, 'k) chain \<Rightarrow> ('w, 'p) tee_lib \<Rightarrow> (bytes \<Rightarrow> bytes) \<Rightarrow> bytes \<Rightarrow> address \<Rightarrow> bytes \<Rightarrow> unit result outcome" where
  "check_signature ch net keccak message testAddress dat =
     bind_outcome (abiDecodeTwo dat) (\<lambda>decoded. Returns (case decoded of
       Inl err \<Rightarrow> Inl (prefixf ''ABI decode (bytes,bytes): '' err)
     | Inr (_, sigBytes) \<Rightarrow>
       (case SigToPub net (keccak message) (normalizeV sigBytes) of
          Inl err \<Rightarrow> Inl (prefixf ''ecrecover: '' err)
        | Inr recoveredPub \<Rightarrow>
            let recoveredAddr = pubAddress net recoveredPub in
            if recoveredAddr \<noteq> testAddress
            then Inl (errorf (''FAIL: recovered signer '' @ AddrHex ch recoveredAddr @
                   '' does not match expected '' @ AddrHex ch testAddress))
            else Inr ())))"

text \<open>\<open>setExtensionId\<close> may have been called before: the contract then reverts, which is accepted.\<close>

definition set_id_step ::
  "('w, 'k) chain \<Rightarrow> 'w sender_ops \<Rightarrow> 'k support \<Rightarrow> address \<Rightarrow> ('w, unit result) io" where
  "set_id_step ch snd_ops s sender = then_io (SetExtensionId ch snd_ops s sender) (\<lambda>r. return_io (case r of
     Inr _ \<Rightarrow> Inr ()
   | Inl err \<Rightarrow>
       if Contains (err_text err) ''already set'' \<or> Contains (err_text err) ''Extension ID already set'' then Inr ()
       else Inl (prefixf (''setExtensionId failed '' @ emdash @
         '' is the extension registered? Check pre-build.sh completed. Error: '') err)))"

text \<open>An instruction is sent, five seconds later its result is polled for; status 0 is a failure.\<close>

definition instruction_result ::
  "('w, 'p) tee_lib \<Rightarrow> string \<Rightarrow> string \<Rightarrow> ('w, (hash \<times> hash) result) io \<Rightarrow> ('w, action_result result) io" where
  "instruction_result net proxyURL label send =
     try_io send (prefixf (label @ '': '')) (\<lambda>(instructionID, _) w.
       try_io (ActionResult net proxyURL instructionID) (prefixf (''poll '' @ label @ '': '')) (\<lambda>resp. return_io
         (if rStatus resp = 0 then Inl (errorf (label @ '' instruction failed: '' @ rLog resp)) else Inr resp))
       (Sleep net 5000 w))"

text \<open>Steps 1 to 6 up to the answer to the sign instruction: the test key's address and the data.\<close>

definition obtain_signature ::
  "('w, 'k) chain \<Rightarrow> ('w, 'p) tee_lib \<Rightarrow> 'w sender_ops \<Rightarrow> ('w, 'p, 'k) test_lib \<Rightarrow> int \<Rightarrow> 'k support \<Rightarrow> string \<Rightarrow>
   address \<Rightarrow> ('w, (address \<times> bytes) result) io" where
  "obtain_signature ch net snd_ops lib fee s proxyURL sender =
     try_io (set_id_step ch snd_ops s sender) (\<lambda>err. err) (\<lambda>_.
     try_io (TeeInfo net proxyURL) (prefixf ''fetch TEE info: '') (\<lambda>teeInfo.
     case ParsePubKey net (mdPublicKey (MachineData teeInfo)) of
       Inl err \<Rightarrow> return_io (Inl (prefixf ''parse TEE public key: '' err))
     | Inr teePub \<Rightarrow>
       (case ToECDSA lib testPrivKeyBytes of
          Inl err \<Rightarrow> return_io (Inl (prefixf ''parse test private key: '' err))
        | Inr testPrivKey \<Rightarrow>
          try_io (EciesEncrypt lib teePub testPrivKeyBytes) (prefixf ''ECIES encrypt: '') (\<lambda>ciphertext.
          try_io (instruction_result net proxyURL ''updateKey'' (SendUpdateKey ch snd_ops fee s sender ciphertext))
            (\<lambda>err. err) (\<lambda>_.
          try_io (instruction_result net proxyURL ''sign'' (SendSign ch snd_ops fee s sender testMessage))
            (\<lambda>err. err) (\<lambda>signResp. return_io
              (Inr (PubkeyToAddress ch testPrivKey, case rData signResp of None \<Rightarrow> [] | Some d \<Rightarrow> d))))))))"

text \<open>\<open>main\<close>; \<open>senderText\<close> is the flag, whose default is \<open>INSTRUCTION_SENDER\<close>.\<close>

definition run_test_main ::
  "('w, 'k) chain \<Rightarrow> ('w, 'p) tee_lib \<Rightarrow> 'w sender_ops \<Rightarrow> ('w, 'p, 'k) test_lib \<Rightarrow> int \<Rightarrow> 'k support result \<Rightarrow>
   string \<Rightarrow> string \<Rightarrow> ('w, unit result outcome) io" where
  "run_test_main ch net snd_ops lib fee testSupport proxyURL senderText =
     (if senderText = ''''
      then return_io (Returns (Inl (errorf ''--instructionSender flag is required (or set INSTRUCTION_SENDER in .env)'')))
      else case testSupport of
        Inl err \<Rightarrow> return_io (Returns (Inl err))
      | Inr s \<Rightarrow> then_io (obtain_signature ch net snd_ops lib fee s proxyURL (HexToAddress ch senderText)) (\<lambda>r.
          return_io (case r of
            Inl err \<Rightarrow> Returns (Inl err)
          | Inr (testAddress, dat) \<Rightarrow> check_signature ch net (Keccak256 lib) testMessage testAddress dat)))"

section \<open>allow-tee-version\<close>

definition version_key :: "(string \<Rightarrow> 'k result) \<Rightarrow> env \<Rightarrow> 'k support \<Rightarrow> 'k result" where
  "version_key hexToECDSA e s = (let privKeyString = e ''EXTENSION_OWNER_KEY'' in
     if privKeyString \<noteq> '''' then hexToECDSA (strip_0x privKeyString) else Inr (Prv s))"

text \<open>\<open>IsCodeHashPlatformSupported\<close> is the view of the registry: extension, code hash, platform.\<close>

type_synonym 'w version_view = "int \<Rightarrow> hash \<Rightarrow> hash \<Rightarrow> ('w, bool result) io"

definition register_version ::
  "('w, 'k) chain \<Rightarrow> 'w register_ops \<Rightarrow> 'k support \<Rightarrow> 'k \<Rightarrow> machine_data \<Rightarrow> string \<Rightarrow> ('w, unit result) io" where
  "register_version ch ops s privKey md version =
     then_io (AddTeeVersion ch ops s privKey (uint (mdExtensionID md)) (mdCodeHash md) (mdPlatform md) version)
       (\<lambda>r. return_io (case r of
          Inr _ \<Rightarrow> Inr ()
        | Inl err \<Rightarrow> if Contains (err_text err) ''VersionAlreadyExists'' then Inr () else Inl err))"

definition allow_version ::
  "('w, 'k) chain \<Rightarrow> 'w register_ops \<Rightarrow> 'w version_view \<Rightarrow> 'k support \<Rightarrow> 'k \<Rightarrow> machine_data \<Rightarrow> string \<Rightarrow>
   ('w, unit result) io" where
  "allow_version ch ops isSupported s privKey md version =
     try_io (isSupported (uint (mdExtensionID md)) (mdCodeHash md) (mdPlatform md)) (\<lambda>err. err) (\<lambda>supported.
       if supported then return_io (Inr ()) else register_version ch ops s privKey md version)"

definition allow_tee_version_main ::
  "('w, 'k) chain \<Rightarrow> ('w, 'p) tee_lib \<Rightarrow> 'w register_ops \<Rightarrow> 'w version_view \<Rightarrow> (string \<Rightarrow> 'k result) \<Rightarrow> env \<Rightarrow>
   'k support result \<Rightarrow> string \<Rightarrow> string \<Rightarrow> ('w, unit result) io" where
  "allow_tee_version_main ch net ops isSupported hexToECDSA e testSupport proxyURL version = (case testSupport of
     Inl err \<Rightarrow> return_io (Inl err)
   | Inr s \<Rightarrow> try_io (TeeInfo net proxyURL) (\<lambda>err. err) (\<lambda>teeInfo.
       case version_key hexToECDSA e s of
         Inl err \<Rightarrow> return_io (Inl err)
       | Inr privKey \<Rightarrow> (case TeeProxyId net teeInfo of
           Inl err \<Rightarrow> return_io (Inl err)
         | Inr _ \<Rightarrow> allow_version ch ops isSupported s privKey (MachineData teeInfo) version)))"

text \<open>The look at the registry is authoritative: when it fails nothing is sent.\<close>

interpretation version_update: settled_update
  "isSupported (uint (mdExtensionID md)) (mdCodeHash md) (mdPlatform md)" "\<lambda>supported. supported"
  "register_version ch ops s privKey md version" "allow_version ch ops isSupported s privKey md version"
  for ch ops isSupported s privKey md version
  by unfold_locales (auto simp: allow_version_def go_simps split: sum.splits elim!: try_io_ok)

section \<open>Lemmas\<close>

lemma check_signature_ok_iff:
  "check_signature ch net keccak message addr dat = Returns (Inr ()) \<longleftrightarrow>
     (\<exists>m sig pub. abiDecodeTwo dat = Returns (Inr (m, sig)) \<and>
        SigToPub net (keccak message) (normalizeV sig) = Inr pub \<and> pubAddress net pub = addr)"
  by (cases "abiDecodeTwo dat") (auto simp: check_signature_def Let_def split: sum.splits if_splits)

lemma instruction_result_ok:
  assumes "instruction_result net proxyURL label send w = (Inr resp, w')"
  obtains i txh w1 where "send w = (Inr (i, txh), w1)"
    "ActionResult net proxyURL i (Sleep net 5000 w1) = (Inr resp, w')" "rStatus resp \<noteq> 0"
  using assms unfolding instruction_result_def
  by (auto elim!: try_io_ok split: if_splits)

text \<open>A server that was given a key keeps it while no request delivers another.\<close>

lemma run_quiet:
  "\<forall>ev \<in> set evs. delivered_key lib (signPort e) ev = None \<Longrightarrow>
   privateKey (run_steps (serve_state lib) e evs) = privateKey e"
  by (induction evs arbitrary: e) (auto simp: serve_state_cell cell_step_def)

lemma key_after_update:
  assumes "delivered_key lib port update = Some k"
    and "\<forall>ev \<in> set later. delivered_key lib port ev = None"
  shows "privateKey (run_steps (serve_state lib) (New port) (earlier @ update # later)) = Some k"
proof -
  have port: "signPort (New port) = port" by (simp add: New_def)
  let ?e = "run_steps (serve_state lib) (New port) earlier"
  have "privateKey (serve_state lib ?e update) = Some k"
    using assms(1) by (simp add: serve_state_cell cell_step_def port)
  then show ?thesis
    using run_quiet[of later lib "serve_state lib ?e update"] assms(2) by (simp add: run_steps_append port)
qed

section \<open>Properties\<close>

text \<open>
  What the crypto libraries document: a compact signature of a hash with a usable key is a flag of at
  least 27 followed by two 32-byte words, and recovery from the words and the flag less 27 gives the
  public key, whose address is that of the key.
\<close>

definition recovery_law :: "'k ext_lib \<Rightarrow> ('w, 'p) tee_lib \<Rightarrow> ('k \<Rightarrow> address) \<Rightarrow> bool" where
  "recovery_law lib net addr \<longleftrightarrow> (\<forall>k message. \<not> keyIsZero lib k \<longrightarrow> (\<exists>v r t pub.
     SignCompact lib k (Keccak lib message) False = v # r @ t \<and> length r = 32 \<and> length t = 32 \<and> 27 \<le> v \<and>
     SigToPub net (Keccak lib message) (r @ t @ [v - 27]) = Inr pub \<and> pubAddress net pub = addr k))"

lemma signature_accepted:
  assumes law: "recovery_law lib net addr" and k: "\<not> keyIsZero lib k" and key: "privateKey e = Some k"
    and act: "action_of lib req = Some (a, df)" "is_sign lib df"
    and "OriginalMessage df \<noteq> []" "length (OriginalMessage df) < 2 ^ 62"
  shows "\<exists>ar d. fst (serve lib nd e req) = Reply 200 (marshalResult lib ar) \<and> rStatus ar = 1 \<and> rData ar = Some d \<and>
      check_signature ch net (Keccak lib) (OriginalMessage df) (addr k) d = Returns (Inr ())"
proof -
  from k law obtain v r t pub where
      sig: "SignCompact lib k (Keccak lib (OriginalMessage df)) False = v # r @ t" "length r = 32" "length t = 32"
      and v: "27 \<le> v"
      and rec: "SigToPub net (Keccak lib (OriginalMessage df)) (r @ t @ [v - 27]) = Inr pub" "pubAddress net pub = addr k"
    unfolding recovery_law_def by blast
  have "normalizeV (r @ t @ [v]) = r @ t @ [v - 27]"
    using normalizeV_eq[of "r @ t" v] sig(2,3) v by simp
  moreover obtain ar d where "fst (serve lib nd e req) = Reply 200 (marshalResult lib ar)" "rStatus ar = 1"
      "rData ar = Some d" "abiDecodeTwo d = Returns (Inr (OriginalMessage df, r @ t @ [v]))"
    using answered_sign[OF act assms(6) key sig assms(7), of nd] by blast
  ultimately show ?thesis using rec by (auto simp: check_signature_ok_iff)
qed

text \<open>
  C5: The extension passes the end-to-end test: after an UPDATE has delivered a key, and whatever other
  requests were served before it or, without delivering another key, after it, a SIGN action for a
  non-empty message is answered with a result of status 1 whose data the test's last step accepts for
  that message and the address of the delivered key.
\<close>

theorem extension_passes_test:
  assumes law: "recovery_law lib net addr"
    and "delivered_key lib port update = Some k"
    and "\<forall>ev \<in> set later. delivered_key lib port ev = None"
    and "action_of lib req = Some (a, df)" "is_sign lib df"
    and "OriginalMessage df \<noteq> []" "length (OriginalMessage df) < 2 ^ 62"
  shows "\<exists>ar d. fst (serve lib nd (run_steps (serve_state lib) (New port) (earlier @ update # later)) req) =
      Reply 200 (marshalResult lib ar) \<and> rStatus ar = 1 \<and> rData ar = Some d \<and>
      check_signature ch net (Keccak lib) (OriginalMessage df) (addr k) d = Returns (Inr ())"
proof -
  have "privateKey (run_steps (serve_state lib) (New port) (earlier @ update # later)) = Some k"
    using assms(2,3) by (rule key_after_update)
  from signature_accepted[OF law delivered_key_nonzero[OF assms(2)] this assms(4-7)] show ?thesis .
qed

text \<open>
  C14: When the test passes, the update and the sign instruction were both sent and answered with a
  status that is not 0, and the data of the answer to the latter decodes to a pair whose second item is
  a signature of the test message that recovers to the address of the test key.
\<close>

theorem test_passed:
  assumes "run_test_main ch net snd_ops lib fee (Inr s) proxyURL senderText w = (Returns (Inr ()), w')"
  shows "senderText \<noteq> '''' \<and> (\<exists>k ciphertext updateID updateTx w1 w2 updated w3 signID signTx w4 signed dat m sig pub.
    ToECDSA lib testPrivKeyBytes = Inr k \<and>
    SendUpdateKey ch snd_ops fee s (HexToAddress ch senderText) ciphertext w1 = (Inr (updateID, updateTx), w2) \<and>
    ActionResult net proxyURL updateID (Sleep net 5000 w2) = (Inr updated, w3) \<and> rStatus updated \<noteq> 0 \<and>
    SendSign ch snd_ops fee s (HexToAddress ch senderText) testMessage w3 = (Inr (signID, signTx), w4) \<and>
    ActionResult net proxyURL signID (Sleep net 5000 w4) = (Inr signed, w') \<and> rStatus signed \<noteq> 0 \<and>
    dat = (case rData signed of None \<Rightarrow> [] | Some d \<Rightarrow> d) \<and> abiDecodeTwo dat = Returns (Inr (m, sig)) \<and>
    SigToPub net (Keccak256 lib testMessage) (normalizeV sig) = Inr pub \<and>
    pubAddress net pub = PubkeyToAddress ch k)"
proof -
  have given: "senderText \<noteq> ''''" using assms by (auto simp: run_test_main_def)
  with assms obtain addr dat where got: "obtain_signature ch net snd_ops lib fee s proxyURL (HexToAddress ch senderText) w =
      (Inr (addr, dat), w')" and ok: "check_signature ch net (Keccak256 lib) testMessage addr dat = Returns (Inr ())"
    by (auto simp: run_test_main_def then_io_def split: prod.splits sum.splits)
  from got obtain k ciphertext w1 updated w3 signed where
      "ToECDSA lib testPrivKeyBytes = Inr k" "addr = PubkeyToAddress ch k"
      and upd: "instruction_result net proxyURL ''updateKey''
        (SendUpdateKey ch snd_ops fee s (HexToAddress ch senderText) ciphertext) w1 = (Inr updated, w3)"
      and sgn: "instruction_result net proxyURL ''sign''
        (SendSign ch snd_ops fee s (HexToAddress ch senderText) testMessage) w3 = (Inr signed, w')"
      and "dat = (case rData signed of None \<Rightarrow> [] | Some d \<Rightarrow> d)"
    unfolding obtain_signature_def by (auto elim!: try_io_ok split: sum.splits)
  from upd obtain updateID updateTx w2 where
      "SendUpdateKey ch snd_ops fee s (HexToAddress ch senderText) ciphertext w1 = (Inr (updateID, updateTx), w2)"
      "ActionResult net proxyURL updateID (Sleep net 5000 w2) = (Inr updated, w3)" "rStatus updated \<noteq> 0"
    by (rule instruction_result_ok)
  moreover from sgn obtain signID signTx w4 where
      "SendSign ch snd_ops fee s (HexToAddress ch senderText) testMessage w3 = (Inr (signID, signTx), w4)"
      "ActionResult net proxyURL signID (Sleep net 5000 w4) = (Inr signed, w')" "rStatus signed \<noteq> 0"
    by (rule instruction_result_ok)
  ultimately show ?thesis
    using given ok \<open>ToECDSA _ _ = _\<close> \<open>addr = _\<close> \<open>dat = _\<close> unfolding check_signature_ok_iff by blast
qed


section \<open>Witnesses\<close>

text \<open>A recovery that reads the key out of the signature, as the library \<open>demo_lib\<close> writes it.\<close>

definition sig_net :: "(nat, nat) tee_lib" where
  "sig_net = demo_net\<lparr>SigToPub := (\<lambda>h sig. Inr (be_nat (take 32 sig)))\<rparr>"

definition demo_addr :: "nat \<Rightarrow> address" where
  "demo_addr k = of_nat (be_nat (padLeft (be_bytes k) 32))"

lemma demo_recovery: "recovery_law demo_lib sig_net demo_addr"
proof -
  have len: "length (padLeft b 32) = 32" for b by (simp add: padLeft_def)
  have "\<exists>v r t pub. SignCompact demo_lib k (Keccak demo_lib m) False = v # r @ t \<and> length r = 32 \<and> length t = 32 \<and>
      27 \<le> v \<and> SigToPub sig_net (Keccak demo_lib m) (r @ t @ [v - 27]) = Inr pub \<and> pubAddress sig_net pub = demo_addr k"
    for k m
    by (intro exI[of _ 27] exI[of _ "padLeft (be_bytes k) 32"] exI[of _ "padLeft m 32"]
        exI[of _ "be_nat (padLeft (be_bytes k) 32)"])
      (simp add: demo_lib_def sig_net_def demo_net_def demo_addr_def len)
  then show ?thesis by (simp add: recovery_law_def)
qed

theorem extension_passes_test_witness:
  "\<exists>ar d. fst (serve demo_lib demo_node (run_steps (serve_state demo_lib) (New 7701) ([] @ demo_update # [demo_state]))
      (snd demo_sign)) = Reply 200 (marshalResult demo_lib ar) \<and> rStatus ar = 1 \<and> rData ar = Some d \<and>
    check_signature demo_ch sig_net (Keccak demo_lib) [10, 20] (demo_addr 5) d = Returns (Inr ())"
proof -
  have "delivered_key demo_lib 7701 demo_state = None"
    by (simp add: delivered_key_def action_of_def demo_state_def)
  then show ?thesis
    using extension_passes_test[OF demo_recovery demo_delivered _ demo_action_of(2), where later = "[demo_state]" and nd = demo_node and earlier = "[]" and ch = demo_ch]
    by (simp add: is_sign_def demo_hashes)
qed

text \<open>A chain that mines everything and a proxy whose results carry a signature of key 5.\<close>

definition demo_answer :: action_result where
  "demo_answer = \<lparr>rID = 7, rSubmissionTag = ''submit'', rVersion = Version, rOPType = 0, rOPCommand = 0,
     rData = Some (abi_layout testMessage (padLeft [5] 32 @ replicate 32 0 @ [27])), rStatus = 1, rLog = ''ok''\<rparr>"

definition answer_net :: "(nat, nat) tee_lib" where
  "answer_net = sig_net\<lparr>httpGET := (\<lambda>u n. (HttpReply 200 [], n)), decodeActionResponse := (\<lambda>b. Inr demo_answer)\<rparr>"

definition demo_sender :: "nat sender_ops" where
  "demo_sender = \<lparr>bindSender = (\<lambda>a. None), DeploySender = (\<lambda>opts a b n. (Inr (8, 1), n)),
     CallSetExtensionId = (\<lambda>a opts n. (Inr 1, n)), CallUpdateKey = (\<lambda>a b opts n. (Inr 1, n)),
     CallSign = (\<lambda>a b opts n. (Inr 1, n)), packCall = (\<lambda>m b. None), ParseInstructionSent = (\<lambda>l. Inr 77)\<rparr>"

definition demo_test_lib :: "(nat, nat, nat) test_lib" where
  "demo_test_lib = \<lparr>EciesEncrypt = (\<lambda>p b n. (Inr b, n)), ToECDSA = (\<lambda>b. Inr 5), Keccak256 = (\<lambda>m. padLeft m 32)\<rparr>"

lemma demo_sends:
  "SetExtensionId reg_ch demo_sender gov_support a n = (Inr (), n)"
  "SendUpdateKey reg_ch demo_sender fee gov_support a b n = (Inr (77, 1), n)"
  "SendSign reg_ch demo_sender fee gov_support a b n = (Inr (77, 1), n)"
  by (simp_all add: SetExtensionId_def SendUpdateKey_def SendSign_def send_instruction_def demo_sender_def reg_ch_def
      demo_ch_def gov_support_def then_io_def try_io_def)

lemma demo_polled: "ActionResult answer_net ''p'' i n = (Inr demo_answer, n)"
  by (simp add: ActionResult_def repeats_def answer_net_def then_io_def eval_nat_numeral)

lemma demo_test_ran:
  "run_test_main reg_ch answer_net demo_sender demo_test_lib 1 (Inr gov_support) ''p'' ''sender'' 0 = (Returns (Inr ()), 0)"
proof -
  have nap: "Sleep answer_net ms n = n" for ms n by (simp add: answer_net_def sig_net_def demo_net_def)
  have status: "rStatus demo_answer \<noteq> 0" by (simp add: demo_answer_def)
  have sent: "instruction_result answer_net ''p'' label (SendUpdateKey reg_ch demo_sender fee gov_support a b) n = (Inr demo_answer, n)"
      "instruction_result answer_net ''p'' label (SendSign reg_ch demo_sender fee gov_support a b) n = (Inr demo_answer, n)"
    for label fee a b n
    by (simp_all add: instruction_result_def demo_sends demo_polled nap status try_io_def)
  have info: "TeeInfo answer_net ''p'' n = (Inr demo_info, n)" for n
    by (simp add: TeeInfo_def answer_net_def sig_net_def demo_net_def then_io_def)
  have "length (abi_layout testMessage (padLeft [5] 32 @ replicate 32 0 @ [27])) < 2 ^ 63"
    by (simp add: length_abi_layout padToMultipleOf32_def padLeft_def testMessage_def str_bytes_def)
  then have "abiDecodeTwo (abi_layout testMessage (padLeft [5] 32 @ replicate 32 0 @ [27])) =
      Returns (Inr (testMessage, padLeft [5] 32 @ replicate 32 0 @ [27]))"
    by (rule abi_roundtrip)
  moreover have len: "length (padLeft [5] 32) = 32" by (simp add: padLeft_def)
  then have "normalizeV (padLeft [5] 32 @ replicate 32 0 @ [27]) = padLeft [5] 32 @ replicate 32 0 @ [0]"
    using normalizeV_eq[of "padLeft [5] 32 @ replicate 32 0" 27] by simp
  moreover have "SigToPub answer_net h (padLeft [5] 32 @ t) = Inr 5" for h t
    using len by (simp add: answer_net_def sig_net_def be_nat_padLeft) (simp add: be_nat_def)
  moreover have "pubAddress answer_net 5 = 5" by (simp add: answer_net_def sig_net_def demo_net_def)
  ultimately have "check_signature reg_ch answer_net (Keccak256 demo_test_lib) testMessage 5
      (abi_layout testMessage (padLeft [5] 32 @ replicate 32 0 @ [27])) = Returns (Inr ())"
    by (simp add: check_signature_ok_iff)
  moreover have "obtain_signature reg_ch answer_net demo_sender demo_test_lib 1 gov_support ''p'' a 0 =
      (Inr (5, abi_layout testMessage (padLeft [5] 32 @ replicate 32 0 @ [27])), 0)" for a
  proof -
    have "ParsePubKey answer_net p = Inr 4" "ToECDSA demo_test_lib b = Inr 5" "PubkeyToAddress reg_ch 5 = 5"
        "EciesEncrypt demo_test_lib q b n = (Inr b, n)"
        "rData demo_answer = Some (abi_layout testMessage (padLeft [5] 32 @ replicate 32 0 @ [27]))" for p b q n
      by (simp_all add: answer_net_def sig_net_def demo_net_def demo_test_lib_def reg_ch_def demo_ch_def demo_answer_def)
    then show ?thesis
      by (simp add: obtain_signature_def set_id_step_def demo_sends info sent try_io_def then_io_def)
  qed
  ultimately show ?thesis by (simp add: run_test_main_def go_simps)
qed

theorem test_passed_witness:
  "\<exists>k ciphertext updateID updateTx w1 w2. ToECDSA demo_test_lib testPrivKeyBytes = Inr k \<and>
    SendUpdateKey reg_ch demo_sender 1 gov_support (HexToAddress reg_ch ''sender'') ciphertext w1 =
      (Inr (updateID, updateTx), w2)"
  using test_passed[OF demo_test_ran] by blast

definition version_ops :: "nat register_ops" where
  "version_ops = demo_reg\<lparr>SendTeeVersion := (\<lambda>opts i v c ps n. (Inr 1, 7))\<rparr>"

lemma demo_version: "register_version reg_ch version_ops gov_support 3 (MachineData demo_info) ''v0.1.0'' n = (Inr (), 7)"
  by (simp add: register_version_def AddTeeVersion_def stringToBytes32_def submit_def CheckTx_def version_ops_def reg_ch_def
      demo_ch_def gov_support_def try_io_def then_io_def)


end
