(* ===== verification/End_To_End.thy ===== *)
theory End_To_End
  imports Ext_Concurrency Run_Test
begin

text \<open>
  The two halves together: the test command (\<open>go/tools/cmd/run-test/main.go\<close>) against the extension
  server (\<open>go/internal/extension\<close>). What is between them, the contract, the data providers, the
  proxy and the tee-node, is outside the repository; \<open>relayed\<close> states what the code relies on of it.
\<close>

section \<open>The relay\<close>

text \<open>
  One instruction on its way. \<open>server\<close> is the extension's state in a world. The call that sends the
  instruction succeeds; some time before the answer is fetched the extension is handed an action of that
  command whose message is the payload, in between other requests none of which delivers a key (the node
  beside the extension is \<open>nd\<close>); the proxy's answer is what the extension's reply unmarshals to.
\<close>

definition relayed ::
  "('w, 'p) tee_lib \<Rightarrow> 'k ext_lib \<Rightarrow> node \<Rightarrow> ('w \<Rightarrow> 'k ext_state) \<Rightarrow> string \<Rightarrow> ('w, (hash \<times> hash) result) io \<Rightarrow>
   (data_fixed \<Rightarrow> bool) \<Rightarrow> bytes \<Rightarrow> action_result \<Rightarrow> 'w \<Rightarrow> 'w \<Rightarrow> bool" where
  "relayed net lib nd server proxyURL send cmd payload ar w w' \<longleftrightarrow>
     (\<exists>i txh w1 req a df body before after.
        send w = (Inr (i, txh), w1) \<and>
        ActionResult net proxyURL i (Sleep net 5000 w1) = (Inr ar, w') \<and>
        action_of lib req = Some (a, df) \<and> cmd df \<and> OriginalMessage df = payload \<and>
        (\<forall>ev \<in> set (before @ after). delivered_key lib (signPort (server w)) ev = None) \<and>
        serve_reply lib (run_steps (serve_state lib) (server w) before) (nd, req) = Reply 200 body \<and>
        unmarshalResult lib body = Some ar \<and>
        server w' = run_steps (serve_state lib) (server w) (before @ (nd, req) # after))"

text \<open>What the JSON of an action result keeps: its status and its data (a log may lose invalid UTF-8).\<close>

definition result_law :: "'k ext_lib \<Rightarrow> bool" where
  "result_law lib \<longleftrightarrow> (\<forall>ar. \<exists>ar'. unmarshalResult lib (marshalResult lib ar) = Some ar' \<and>
     rStatus ar' = rStatus ar \<and> rData ar' = rData ar)"

lemma result_lawD:
  "result_law lib \<Longrightarrow> unmarshalResult lib (marshalResult lib ar) = Some ar' \<Longrightarrow>
   rStatus ar' = rStatus ar \<and> rData ar' = rData ar"
  unfolding result_law_def by (metis option.inject)

lemma relayed_result:
  assumes "relayed net lib nd server proxyURL send cmd payload ar w w'" and "rStatus ar \<noteq> 0"
  shows "instruction_result net proxyURL label send w = (Inr ar, w')"
  using assms by (auto simp: relayed_def instruction_result_def go_simps)

lemma run_steps_quiet:
  assumes "\<forall>ev \<in> set evs. delivered_key lib (signPort e) ev = None"
  shows "run_steps (serve_state lib) e evs = e"
  using assms by (induction evs arbitrary: e) (auto simp: serve_state_undelivered)

text \<open>An UPDATE whose message the node decrypts to usable bytes is answered with status 1 and stored.\<close>

lemma relayed_update:
  assumes relay: "relayed net lib (honest_node dec) server proxyURL send (is_update lib) c ar w w'"
    and law: "result_law lib" and "c \<noteq> []" and use: "usable_key_bytes lib (dec c)"
  shows "rStatus ar = 1 \<and> privateKey (server w') = Some (PrivKeyFromBytes lib (padLeft (dec c) 32)) \<and>
    signPort (server w') = signPort (server w)"
proof -
  from relay obtain req a df body before after where
      act: "action_of lib req = Some (a, df)" "is_update lib df" "OriginalMessage df = c"
      and quiet: "\<forall>ev \<in> set (before @ after). delivered_key lib (signPort (server w)) ev = None"
      and body: "serve_reply lib (run_steps (serve_state lib) (server w) before) (honest_node dec, req) = Reply 200 body"
      "unmarshalResult lib body = Some ar"
      and w': "server w' = run_steps (serve_state lib) (server w) (before @ (honest_node dec, req) # after)"
    unfolding relayed_def by blast
  let ?k = "PrivKeyFromBytes lib (padLeft (dec c) 32)"
  have "decryptViaNode lib (honest_node dec) port c = Inr (dec c)" for port
    using update_through_node_plain[of lib dec port c] .
  then have key: "delivered_key lib port (honest_node dec, req) = Some ?k" for port
    using act assms(3) use by (simp add: delivered_key_def)
  have "body = marshalResult lib (buildResult a df None 1 None)"
    using serve_reply_update[OF key, of a df "run_steps (serve_state lib) (server w) before"] act(1) body(1) by simp
  then have "rStatus ar = 1" using result_lawD[OF law] body(2) by fastforce
  moreover have "privateKey (server w') = Some ?k"
  proof -
    let ?e = "serve_state lib (server w) (honest_node dec, req)"
    have "server w' = ?e"
      using w' quiet run_steps_quiet[of before lib "server w"] run_steps_quiet[of after lib ?e]
      by (simp add: run_steps_append)
    then show ?thesis by (simp add: serve_state_cell key cell_step_def)
  qed
  ultimately show ?thesis using w' by simp
qed

text \<open>A SIGN with a stored key is answered with status 1 and data the last step of the test accepts.\<close>

lemma relayed_sign:
  assumes relay: "relayed net lib nd server proxyURL send (is_sign lib) message ar w w'"
    and law: "result_law lib" "recovery_law lib net addr"
    and k: "privateKey (server w) = Some k" "\<not> keyIsZero lib k"
    and message: "message \<noteq> []" "length message < 2 ^ 62"
  shows "rStatus ar = 1 \<and> (\<exists>d. rData ar = Some d \<and>
      check_signature ch net (Keccak lib) message (addr k) d = Returns (Inr ())) \<and> server w' = server w"
proof -
  from relay obtain req a df body before after where
      act: "action_of lib req = Some (a, df)" "is_sign lib df" "OriginalMessage df = message"
      and quiet: "\<forall>ev \<in> set (before @ after). delivered_key lib (signPort (server w)) ev = None"
      and body: "serve_reply lib (run_steps (serve_state lib) (server w) before) (nd, req) = Reply 200 body"
      "unmarshalResult lib body = Some ar"
      and w': "server w' = run_steps (serve_state lib) (server w) (before @ (nd, req) # after)"
    unfolding relayed_def by blast
  have still: "run_steps (serve_state lib) (server w) before = server w"
      "run_steps (serve_state lib) (server w) after = server w"
    using quiet by (auto intro: run_steps_quiet)
  have "delivered_key lib (signPort (server w)) (nd, req) = None"
    using act by (intro delivered_not_sign) auto
  then have "server w' = server w"
    using w' still by (simp add: run_steps_append serve_state_undelivered)
  moreover obtain ar' d where "body = marshalResult lib ar'" "rStatus ar' = 1" "rData ar' = Some d"
      "check_signature ch net (Keccak lib) message (addr k) d = Returns (Inr ())"
    using signature_accepted[OF law(2) k(2) k(1) act(1,2), of nd ch] act(3) message body(1) still(1)
    by (auto simp: serve_reply_def)
  ultimately show ?thesis using result_lawD[OF law(1), of ar' ar] body(2) by simp
qed

section \<open>The test passes\<close>

lemma testPrivKeyBytes_32: "length testPrivKeyBytes = 32"
  by (simp add: testPrivKeyBytes_def testPrivKeyHex_def hex_val_def)

lemma testMessage_fits: "testMessage \<noteq> []" "length testMessage < 2 ^ 62"
  by (simp_all add: testMessage_def str_bytes_def)

lemma test_key_usable:
  "\<not> keyIsZero lib (PrivKeyFromBytes lib testPrivKeyBytes) \<Longrightarrow>
   usable_key_bytes lib testPrivKeyBytes \<and> padLeft testPrivKeyBytes 32 = testPrivKeyBytes"
  using testPrivKeyBytes_32 by (auto simp: usable_key_bytes_def padLeft_def)

text \<open>
  C4: The end-to-end test passes on a working deployment. If the extension id is set (or already was), the
  proxy tells the machine's key, the two instructions are relayed to the extension (among other requests,
  as long as none of them delivers a key), and the node decrypts what was encrypted to it, then the
  command succeeds and the extension is left with the test key. What is needed of the crypto libraries is
  that recovery undoes signing and that both name the same address for the test key.
\<close>

theorem end_to_end:
  assumes given: "senderText \<noteq> ''''"
    and id_set: "set_id_step ch snd_ops s (HexToAddress ch senderText) w0 = (Inr (), w1)"
    and info: "TeeInfo net proxyURL w1 = (Inr teeInfo, w2)"
    and pub: "ParsePubKey net (mdPublicKey (MachineData teeInfo)) = Inr teePub"
    and enc: "EciesEncrypt tlib teePub testPrivKeyBytes w2 = (Inr c, w3)" "c \<noteq> []" "dec c = testPrivKeyBytes"
    and update: "relayed net lib (honest_node dec) server proxyURL
      (SendUpdateKey ch snd_ops fee s (HexToAddress ch senderText) c) (is_update lib) c updated w3 w4"
    and sign: "relayed net lib nd server proxyURL
      (SendSign ch snd_ops fee s (HexToAddress ch senderText) testMessage) (is_sign lib) testMessage answered w4 w5"
    and laws: "result_law lib" "recovery_law lib net addr" "Keccak256 tlib = Keccak lib"
    and key: "ToECDSA tlib testPrivKeyBytes = Inr k" "\<not> keyIsZero lib (PrivKeyFromBytes lib testPrivKeyBytes)"
      "PubkeyToAddress ch k = addr (PrivKeyFromBytes lib testPrivKeyBytes)"
  shows "run_test_main ch net snd_ops tlib fee (Inr s) proxyURL senderText w0 = (Returns (Inr ()), w5) \<and>
    privateKey (server w5) = Some (PrivKeyFromBytes lib testPrivKeyBytes)"
proof -
  let ?sender = "HexToAddress ch senderText" and ?key = "PrivKeyFromBytes lib testPrivKeyBytes"
  have upd: "rStatus updated = 1" "privateKey (server w4) = Some ?key"
    using relayed_update[OF update laws(1) enc(2)] test_key_usable[OF key(2)] enc(3) by simp_all
  from relayed_sign[OF sign laws(1,2) upd(2) key(2) testMessage_fits] obtain d where
      d: "rStatus answered = 1" "rData answered = Some d" "server w5 = server w4"
      "check_signature ch net (Keccak lib) testMessage (addr ?key) d = Returns (Inr ())" by blast
  have "instruction_result net proxyURL ''updateKey'' (SendUpdateKey ch snd_ops fee s ?sender c) w3 = (Inr updated, w4)"
    by (rule relayed_result[OF update]) (simp add: upd)
  moreover have "instruction_result net proxyURL ''sign'' (SendSign ch snd_ops fee s ?sender testMessage) w4 = (Inr answered, w5)"
    by (rule relayed_result[OF sign]) (simp add: d)
  ultimately have "obtain_signature ch net snd_ops tlib fee s proxyURL ?sender w0 = (Inr (addr ?key, d), w5)"
    using id_set info pub enc(1) key(1,3) d(2) by (simp add: obtain_signature_def go_simps)
  with given laws(3) d(3,4) upd(2) show ?thesis by (simp add: run_test_main_def go_simps)
qed

section \<open>Witness\<close>

text \<open>
  A deployment in which world 0 is the fresh extension, world 1 the one after the UPDATE and world 2
  the one after the SIGN; the proxy hands out the extension's last reply.
\<close>

definition bare_result :: "byte \<Rightarrow> bytes option \<Rightarrow> action_result" where
  "bare_result st d = \<lparr>rID = 7, rSubmissionTag = ''submit'', rVersion = Version, rOPType = 0, rOPCommand = 0,
     rData = d, rStatus = st, rLog = ''''\<rparr>"

definition e2e_lib :: "nat ext_lib" where
  "e2e_lib = demo_lib\<lparr>marshalResult := (\<lambda>r. rStatus r # (case rData r of None \<Rightarrow> [] | Some d \<Rightarrow> 1 # d)),
     unmarshalResult := (\<lambda>b. case b of [] \<Rightarrow> None | [st] \<Rightarrow> Some (bare_result st None)
       | st # _ # d \<Rightarrow> Some (bare_result st (Some d)))\<rparr>"

definition e2e_request :: "byte \<Rightarrow> bytes \<Rightarrow> http_request" where
  "e2e_request command payload = \<lparr>hMethod = ''POST'', hPath = ''/action'', hBody = command # payload\<rparr>"

definition e2e_node :: node where "e2e_node = honest_node (\<lambda>c. testPrivKeyBytes)"

definition e2e_server :: "nat \<Rightarrow> nat ext_state" where
  "e2e_server n = \<lparr>signPort = 7701, privateKey = (if n = 0 then None else Some (be_nat testPrivKeyBytes))\<rparr>"

definition e2e_body :: "nat \<Rightarrow> bytes" where
  "e2e_body n = (case (if n = 1 then serve_reply e2e_lib (e2e_server 0) (e2e_node, e2e_request 1 testPrivKeyBytes)
       else serve_reply e2e_lib (e2e_server 1) (e2e_node, e2e_request 2 testMessage)) of
     Reply st b \<Rightarrow> b | Aborted \<Rightarrow> [])"

definition e2e_net :: "(nat, nat) tee_lib" where
  "e2e_net = sig_net\<lparr>httpGET := (\<lambda>u n. (HttpReply 200 (e2e_body n), n)),
     decodeActionResponse := (\<lambda>b. case unmarshalResult e2e_lib b of None \<Rightarrow> Inl (errorf ''EOF'') | Some r \<Rightarrow> Inr r)\<rparr>"

definition e2e_sender :: "nat sender_ops" where
  "e2e_sender = demo_sender\<lparr>CallUpdateKey := (\<lambda>a b opts n. (Inr 1, 1)), CallSign := (\<lambda>a b opts n. (Inr 1, 2))\<rparr>"

definition e2e_test_lib :: "(nat, nat, nat) test_lib" where
  "e2e_test_lib = \<lparr>EciesEncrypt = (\<lambda>p b n. (Inr b, n)),
     ToECDSA = (\<lambda>b. Inr (be_nat (padLeft (be_bytes (be_nat b)) 32))), Keccak256 = Keccak e2e_lib\<rparr>"

lemma e2e_result_law: "result_law e2e_lib"
  unfolding result_law_def
proof
  fix ar :: action_result
  show "\<exists>ar'. unmarshalResult e2e_lib (marshalResult e2e_lib ar) = Some ar' \<and> rStatus ar' = rStatus ar \<and> rData ar' = rData ar"
    by (cases "rData ar") (simp_all add: e2e_lib_def bare_result_def)
qed

lemma e2e_recovery: "recovery_law e2e_lib e2e_net demo_addr"
  using demo_recovery by (simp add: recovery_law_def e2e_lib_def e2e_net_def)

lemma e2e_test_key: "PrivKeyFromBytes e2e_lib testPrivKeyBytes = be_nat testPrivKeyBytes"
    "\<not> keyIsZero e2e_lib (PrivKeyFromBytes e2e_lib testPrivKeyBytes)"
  by (simp_all add: e2e_lib_def demo_lib_def)
    (simp add: testPrivKeyBytes_def testPrivKeyHex_def hex_val_def be_nat_def)

lemma e2e_action:
  obtains a df where "action_of e2e_lib (e2e_request 1 m) = Some (a, df)" "is_update e2e_lib df" "OriginalMessage df = m"
  by (rule that[of "\<lparr>aID = 7, aSubmissionTag = ''submit'', aMessage = 1 # m\<rparr>"
        "\<lparr>OPType = 0x4b4559, OPCommand = 0x555044415445, OriginalMessage = m\<rparr>"])
    (simp_all add: action_of_def e2e_request_def e2e_lib_def demo_lib_def is_update_def OPTypeKey_def OPCommandUpdate_def
      OPCommandSign_def be_nat_def str_bytes_def)

lemma e2e_sign_action:
  obtains a df where "action_of e2e_lib (e2e_request 2 m) = Some (a, df)" "is_sign e2e_lib df" "OriginalMessage df = m"
  by (rule that[of "\<lparr>aID = 7, aSubmissionTag = ''submit'', aMessage = 2 # m\<rparr>"
        "\<lparr>OPType = 0x4b4559, OPCommand = 0x5349474e, OriginalMessage = m\<rparr>"])
    (simp_all add: action_of_def e2e_request_def e2e_lib_def demo_lib_def is_sign_def OPTypeKey_def OPCommandUpdate_def
      OPCommandSign_def be_nat_def str_bytes_def)

lemma e2e_polled:
  assumes "unmarshalResult e2e_lib (e2e_body n) = Some ar"
  shows "ActionResult e2e_net ''p'' i (Sleep e2e_net 5000 n) = (Inr ar, n)"
  using assms by (simp add: ActionResult_def repeats_def e2e_net_def sig_net_def demo_net_def then_io_def eval_nat_numeral)

lemma e2e_sends:
  "SendUpdateKey reg_ch e2e_sender fee gov_support a b n = (Inr (77, 1), 1)"
  "SendSign reg_ch e2e_sender fee gov_support a b n = (Inr (77, 1), 2)"
  "SetExtensionId reg_ch e2e_sender gov_support a n = (Inr (), n)"
  by (simp_all add: SetExtensionId_def SendUpdateKey_def SendSign_def send_instruction_def e2e_sender_def demo_sender_def
      reg_ch_def demo_ch_def gov_support_def then_io_def try_io_def)

lemma e2e_update:
  obtains ar where "relayed e2e_net e2e_lib e2e_node e2e_server ''p'' (SendUpdateKey reg_ch e2e_sender 1 gov_support a testPrivKeyBytes)
      (is_update e2e_lib) testPrivKeyBytes ar 0 1"
proof -
  let ?ev = "(e2e_node, e2e_request 1 testPrivKeyBytes)"
  obtain x df where act: "action_of e2e_lib (e2e_request 1 testPrivKeyBytes) = Some (x, df)" "is_update e2e_lib df"
      "OriginalMessage df = testPrivKeyBytes" by (rule e2e_action)
  have "testPrivKeyBytes \<noteq> []" using testPrivKeyBytes_32 by auto
  then have key: "delivered_key e2e_lib port ?ev = Some (be_nat testPrivKeyBytes)" for port
    using act test_key_usable[OF e2e_test_key(2)]
    by (simp add: delivered_key_def e2e_node_def update_through_node_plain e2e_test_key(1))
  have reply: "serve_reply e2e_lib (e2e_server 0) ?ev = Reply 200 (marshalResult e2e_lib (buildResult x df None 1 None))"
    by (rule serve_reply_update[OF key]) (simp add: act)
  obtain ar where ar: "unmarshalResult e2e_lib (marshalResult e2e_lib (buildResult x df None 1 None)) = Some ar"
    using e2e_result_law unfolding result_law_def by blast
  then have "ActionResult e2e_net ''p'' 77 (Sleep e2e_net 5000 1) = (Inr ar, 1)"
    by (intro e2e_polled) (simp add: e2e_body_def reply)
  moreover have "e2e_server 1 = serve_state e2e_lib (e2e_server 0) ?ev"
    by (simp add: serve_state_cell key cell_step_def) (simp add: e2e_server_def)
  ultimately show thesis
    using act reply ar e2e_sends(1)
    by (intro that[of ar]) (force simp: relayed_def intro: exI[of _ "[]"])
qed

lemma e2e_sign:
  obtains ar where "relayed e2e_net e2e_lib e2e_node e2e_server ''p'' (SendSign reg_ch e2e_sender 1 gov_support a testMessage)
      (is_sign e2e_lib) testMessage ar 1 2"
proof -
  let ?ev = "(e2e_node, e2e_request 2 testMessage)"
  obtain x df where act: "action_of e2e_lib (e2e_request 2 testMessage) = Some (x, df)" "is_sign e2e_lib df"
      "OriginalMessage df = testMessage" by (rule e2e_sign_action)
  have "privateKey (e2e_server 1) = Some (PrivKeyFromBytes e2e_lib testPrivKeyBytes)"
    by (simp add: e2e_server_def e2e_test_key(1))
  from signature_accepted[OF e2e_recovery e2e_test_key(2) this act(1,2), of e2e_node reg_ch] obtain ar' where
      reply: "serve_reply e2e_lib (e2e_server 1) ?ev = Reply 200 (marshalResult e2e_lib ar')"
    using act(3) testMessage_fits by (auto simp: serve_reply_def)
  obtain ar where ar: "unmarshalResult e2e_lib (marshalResult e2e_lib ar') = Some ar"
    using e2e_result_law unfolding result_law_def by blast
  then have "ActionResult e2e_net ''p'' 77 (Sleep e2e_net 5000 2) = (Inr ar, 2)"
    by (intro e2e_polled) (simp add: e2e_body_def reply[unfolded One_nat_def])
  moreover have "delivered_key e2e_lib port ?ev = None" for port
    using act by (intro delivered_not_sign) auto
  then have "e2e_server 2 = serve_state e2e_lib (e2e_server 1) ?ev"
    by (simp add: serve_state_cell cell_step_def) (simp add: e2e_server_def)
  ultimately show thesis
    using act reply ar e2e_sends(2)
    by (intro that[of ar]) (force simp: relayed_def intro: exI[of _ "[]"])
qed

theorem end_to_end_witness:
  "run_test_main reg_ch e2e_net e2e_sender e2e_test_lib 1 (Inr gov_support) ''p'' ''sender'' 0 = (Returns (Inr ()), 2) \<and>
   privateKey (e2e_server 2) = Some (PrivKeyFromBytes e2e_lib testPrivKeyBytes)"
proof -
  obtain updated where upd: "relayed e2e_net e2e_lib (honest_node (\<lambda>c. testPrivKeyBytes)) e2e_server ''p''
      (SendUpdateKey reg_ch e2e_sender 1 gov_support (HexToAddress reg_ch ''sender'') testPrivKeyBytes)
      (is_update e2e_lib) testPrivKeyBytes updated 0 1"
    by (rule e2e_update[unfolded e2e_node_def])
  obtain answered where sgn: "relayed e2e_net e2e_lib e2e_node e2e_server ''p''
      (SendSign reg_ch e2e_sender 1 gov_support (HexToAddress reg_ch ''sender'') testMessage)
      (is_sign e2e_lib) testMessage answered 1 2"
    by (rule e2e_sign)
  have ready: "TeeInfo e2e_net ''p'' 0 = (Inr demo_info, 0)" "ParsePubKey e2e_net q = Inr 4" for q
    by (simp_all add: TeeInfo_def e2e_net_def sig_net_def demo_net_def then_io_def)
  have tools: "EciesEncrypt e2e_test_lib 4 b n = (Inr b, n)"
      "ToECDSA e2e_test_lib b = Inr (be_nat (padLeft (be_bytes (be_nat b)) 32))" "Keccak256 e2e_test_lib = Keccak e2e_lib" for b n
    by (simp_all add: e2e_test_lib_def)
  have id_set: "set_id_step reg_ch e2e_sender gov_support a 0 = (Inr (), 0)" for a
    by (simp add: set_id_step_def e2e_sends(3) then_io_def)
  have addr: "PubkeyToAddress reg_ch (be_nat (padLeft (be_bytes (be_nat testPrivKeyBytes)) 32)) =
      demo_addr (PrivKeyFromBytes e2e_lib testPrivKeyBytes)"
    by (simp add: e2e_test_key(1) demo_addr_def reg_ch_def demo_ch_def)
  have "testPrivKeyBytes \<noteq> []" using testPrivKeyBytes_32 by auto
  from end_to_end[OF _ id_set ready(1) ready(2) tools(1) this _ upd sgn e2e_result_law e2e_recovery tools(3) tools(2)
      e2e_test_key(2) addr] show ?thesis by simp
qed


end
