(* ===== verification/Verify_Deploy.thy ===== *)
theory Verify_Deploy
  imports Validate_Checks Config
begin

text \<open>
  The command \<open>verify-deploy\<close> (\<open>go/tools/cmd/verify-deploy/main.go\<close>) on top of the checks, and the
  verdicts of the steps it runs.
\<close>

section \<open>Verdicts of the steps\<close>

lemma fail_R1: "StatusOf (check_R1 reg) = FAIL \<longleftrightarrow> \<not> is_ok (NextPublicExtensionId reg)"
  by (simp add: check_R1_def is_ok_def split: sum.splits)

lemma fail_R2:
  "StatusOf (check_R2 lib reg i s) = FAIL \<longleftrightarrow> GetTeeExtensionInstructionsSender reg i \<noteq> Inr (HexToAddress lib s)"
  by (simp add: check_R2_def Let_def split: sum.splits)

lemma fail_R3:
  "StatusOf (check_R3 lib al i k) = FAIL \<longleftrightarrow> IsAllowedTeeMachineOwner al i (PubkeyToAddress lib k) \<noteq> Inr True"
  by (simp add: check_R3_def split: sum.splits)

lemma fail_R4: "StatusOf (check_R4 lib reg i) = FAIL \<longleftrightarrow> IsKeyTypeSupported reg i (EVMType lib) \<noteq> Inr True"
  by (simp add: check_R4_def split: sum.splits)

lemma fail_R7: "StatusOf (check_R7 lib reg n s) \<noteq> FAIL"
  by (simp add: check_R7_def Let_def)

lemma empty_ok: "\<not> HasFailures empty_report"
  by (simp add: HasFailures_def)

lemma HasFailures_Add: "HasFailures (Add r x) \<longleftrightarrow> HasFailures r \<or> StatusOf x = FAIL"
  by (simp add: HasFailures_def)

lemmas step_failures = HasFailures_Add empty_ok fail_R1 fail_R2 fail_R3 fail_R4 fail_R7

text \<open>
  C20: With the chain, the two contracts and the deployer key at hand, the registration step fails
  exactly when the file gives at least one of its two entries and the extension counter cannot be
  read, or the extension id is malformed, or (the sender entry being an address) the chain names
  another instruction sender, or the deployer is not a confirmed TEE machine owner, or the EVM key
  type is not confirmed as supported. A malformed sender entry alone does not fail it, nor does a
  duplicate sender.
\<close>

theorem registration_step_fails_iff:
  "HasFailures (RegisterRegistrationChecks lib w (Some c) (Some k) (Some reg) (Some al) path empty_report) \<longleftrightarrow>
     path \<noteq> '''' \<and> env_pair w path \<noteq> ('''', '''') \<and>
     \<not> (is_ok (NextPublicExtensionId reg) \<and>
       extensionIDRegex (fst (env_pair w path)) \<and>
       \<not> (addressRegex (snd (env_pair w path)) \<and>
         GetTeeExtensionInstructionsSender reg (parse_extension_id (fst (env_pair w path))) \<noteq>
           Inr (HexToAddress lib (snd (env_pair w path)))) \<and>
       IsAllowedTeeMachineOwner al (parse_extension_id (fst (env_pair w path))) (PubkeyToAddress lib k) = Inr True \<and>
       IsKeyTypeSupported reg (parse_extension_id (fst (env_pair w path))) (EVMType lib) = Inr True)"
proof -
  obtain e i where ei: "env_pair w path = (e, i)" by (cases "env_pair w path")
  show ?thesis
    by (cases "R1_counter reg"; cases "addressRegex i"; cases "extensionIDRegex e")
      (auto simp: RegisterRegistrationChecks_def parse_env_pair ei Let_def step_failures skip_registration_def)
qed

text \<open>The ids R7 lists: all those below the counter that name the sender.\<close>

lemma length_matchingIDs:
  "length (matchingIDs reg a i n) = card {j. i \<le> j \<and> j < n \<and> matches_sender reg a j}"
proof (induction reg a i n rule: matchingIDs.induct)
  case (1 reg a i n)
  have split: "{j. i \<le> j \<and> j < n \<and> matches_sender reg a j} =
      (if i < n \<and> matches_sender reg a i then {i} else {}) \<union> {j. i + 1 \<le> j \<and> j < n \<and> matches_sender reg a j}"
    by (auto simp: order_le_less)
  have fin: "finite {j. i + 1 \<le> j \<and> j < n \<and> matches_sender reg a j}"
    by (rule finite_subset[of _ "{i + 1..n}"]) auto
  show ?case
  proof (cases "i < n")
    case True
    with 1 fin show ?thesis
      unfolding split by (subst matchingIDs.simps) (simp add: card_insert_if)
  next
    case False
    then show ?thesis
      by (subst matchingIDs.simps) (simp add: card_eq_0_iff)
  qed
qed

lemma Int64_mod: "Int64 n = (n + 2 ^ 63) mod 2 ^ 64 - 2 ^ 63"
  unfolding Int64_def by (subst int_word_sint) simp

lemma Int64_id: "- (2 ^ 63) \<le> n \<Longrightarrow> n < 2 ^ 63 \<Longrightarrow> Int64 n = n"
  unfolding Int64_mod by (subst mod_pos_pos_trivial) auto

lemma Int64_wraps: "2 ^ 63 \<le> n \<Longrightarrow> n < 2 ^ 64 \<Longrightarrow> Int64 n = n - 2 ^ 64"
  unfolding Int64_mod by (subst minus_mod_self2[symmetric], subst mod_pos_pos_trivial) auto

lemma card_gt_1_iff: "finite S \<Longrightarrow> Suc 0 < card S \<longleftrightarrow> (\<exists>i j. i \<in> S \<and> j \<in> S \<and> i < (j :: int))"
  by (metis (no_types, lifting) One_nat_def card_le_Suc0_iff_eq linorder_neq_iff not_le)

text \<open>
  On a counter below 2^63 the check for duplicates warns exactly when two different ids below the
  counter are registered with the sender of the file; a counter of 2^63 or more (below 2^64) is read
  as a negative number and the check passes without looking at any id.
\<close>

theorem duplicate_sender_warning:
  assumes "0 < n" "n < 2 ^ 64"
  shows "StatusOf (check_R7 lib reg n s) = WARN \<longleftrightarrow>
    n < 2 ^ 63 \<and> (\<exists>i j. 0 \<le> i \<and> i < j \<and> j < n \<and>
      GetTeeExtensionInstructionsSender reg i = Inr (HexToAddress lib s) \<and>
      GetTeeExtensionInstructionsSender reg j = Inr (HexToAddress lib s))"
proof -
  have matches: "matches_sender reg a i \<longleftrightarrow> GetTeeExtensionInstructionsSender reg i = Inr a" for a i
    by (simp add: matches_sender_def split: sum.splits)
  have warn: "StatusOf (check_R7 lib reg n s) = WARN \<longleftrightarrow>
      1 < length (matchingIDs reg (HexToAddress lib s) 0 (Int64 n))"
    by (simp add: check_R7_def Let_def)
  show ?thesis
  proof (cases "n < 2 ^ 63")
    case True
    have "finite {j. 0 \<le> j \<and> j < n \<and> matches_sender reg (HexToAddress lib s) j}"
      by (rule finite_subset[of _ "{0..n}"]) auto
    then have "Suc 0 < card {j. 0 \<le> j \<and> j < n \<and> matches_sender reg (HexToAddress lib s) j} \<longleftrightarrow>
        (\<exists>i j. 0 \<le> i \<and> i < j \<and> j < n \<and> matches_sender reg (HexToAddress lib s) i \<and>
          matches_sender reg (HexToAddress lib s) j)"
      by (subst card_gt_1_iff) (auto, meson order_less_trans order_le_less_trans less_imp_le)
    with True assms show ?thesis
      unfolding warn length_matchingIDs by (simp add: Int64_id matches)
  next
    case False
    then have "Int64 n = n - 2 ^ 64"
      using assms by (intro Int64_wraps) simp_all
    then have "matchingIDs reg (HexToAddress lib s) 0 (Int64 n) = []"
      using assms by (subst matchingIDs.simps) simp
    then show ?thesis
      using False unfolding warn by simp
  qed
qed

definition demo_registry :: registry_view where
  "demo_registry = \<lparr>NextPublicExtensionId = Inr 3,
     GetTeeExtensionInstructionsSender = (\<lambda>i. if i = 1 then Inl (errorf ''down'') else Inr 2),
     IsKeyTypeSupported = (\<lambda>i t. Inr True)\<rparr>"

theorem duplicate_sender_warning_witness:
  "StatusOf (check_R7 demo_tools demo_registry 3 ''0x'') = WARN \<and>
   StatusOf (check_R7 demo_tools demo_registry 2 ''0x'') \<noteq> WARN"
proof -
  have "\<exists>i j. 0 \<le> i \<and> i < j \<and> j < (3 :: int) \<and> GetTeeExtensionInstructionsSender demo_registry i = Inr 2 \<and>
      GetTeeExtensionInstructionsSender demo_registry j = Inr 2"
    by (intro exI[of _ 0] exI[of _ 2]) (simp add: demo_registry_def)
  moreover have "\<not> (\<exists>i j. 0 \<le> i \<and> i < j \<and> j < (2 :: int) \<and>
      GetTeeExtensionInstructionsSender demo_registry j = Inr 2)"
    by (auto simp: demo_registry_def split: if_splits)
  ultimately show ?thesis
    using duplicate_sender_warning[of 3 demo_tools demo_registry "''0x''"]
      duplicate_sender_warning[of 2 demo_tools demo_registry "''0x''"]
    by (auto simp: demo_tools_def)
qed

lemma fail_S2:
  "StatusOf (check_S2 lib w path) = FAIL \<longleftrightarrow> path \<noteq> '''' \<and> \<not> extensionIDRegex (fst (env_pair w path))"
  by (auto simp: check_S2_def parse_env_pair Let_def)

lemma fail_V4:
  "StatusOf (check_V4 w path) = FAIL \<longleftrightarrow>
     path \<noteq> '''' \<and> fileAt w path \<noteq> NotExist \<and> \<not> extensionIDRegex (fst (env_pair w path))"
proof (cases "fileAt w path = NotExist")
  case True
  then have "env_pair w path = ('''', '''')" by (simp add: env_pair_unreadable readable_def)
  with True show ?thesis
    by (simp add: check_V4_def parseExtensionEnv_def isNotExist_def)
next
  case False
  obtain e i where "env_pair w path = (e, i)" by (cases "env_pair w path")
  with False show ?thesis
    by (auto simp: check_V4_def parse_env_pair isNotExist_def)
qed

lemma fail_E1:
  "StatusOf (check_E1 w path) = FAIL \<longleftrightarrow>
     path \<noteq> '''' \<and> fileAt w path \<noteq> NotExist \<and> \<not> addressRegex (snd (env_pair w path))"
  by (auto simp: check_E1_def parse_env_pair isNotExist_def Let_def)

lemma never_fail:
  "StatusOf (check_S5 w) \<noteq> FAIL" "StatusOf (check_S7 w) \<noteq> FAIL" "StatusOf (check_S9 w) \<noteq> FAIL"
  "StatusOf (check_S10 w) \<noteq> FAIL" "StatusOf (check_V2 w) \<noteq> FAIL" "StatusOf (check_V6 w) \<noteq> FAIL"
  "StatusOf (check_T1 w) \<noteq> FAIL" "StatusOf (check_T5 w) \<noteq> FAIL" "StatusOf (check_T10 w) \<noteq> FAIL"
  "StatusOf (check_E3 w) \<noteq> FAIL" "StatusOf check_E6 \<noteq> FAIL"
  by (simp_all add: check_S5_def check_S7_def check_S9_def check_S10_def check_V2_def check_V6_def
      check_T1_def check_T5_def check_T10_def check_E3_def check_E6_def Let_def)

text \<open>
  C24: The four later steps fail only because of the environment file, never because of a port, a
  proxy, a key or a mode: services when the id entry is not well-formed (a missing file included),
  tee-version likewise but not for a missing file, tee-machine never, test when an existing file has
  no well-formed sender entry.
\<close>

theorem later_steps_fail_iff:
  "(HasFailures (RegisterServicesChecks lib w path empty_report) \<longleftrightarrow>
      path \<noteq> '''' \<and> \<not> extensionIDRegex (fst (env_pair w path))) \<and>
   (HasFailures (RegisterTeeVersionChecks w path empty_report) \<longleftrightarrow>
      path \<noteq> '''' \<and> fileAt w path \<noteq> NotExist \<and> \<not> extensionIDRegex (fst (env_pair w path))) \<and>
   \<not> HasFailures (RegisterTeeMachineChecks w path empty_report) \<and>
   (HasFailures (RegisterTestChecks w path empty_report) \<longleftrightarrow>
      path \<noteq> '''' \<and> fileAt w path \<noteq> NotExist \<and> \<not> addressRegex (snd (env_pair w path)))"
  by (simp add: RegisterServicesChecks_def RegisterTeeVersionChecks_def RegisterTeeMachineChecks_def
      RegisterTestChecks_def HasFailures_Add empty_ok fail_S2 fail_V4 fail_E1 never_fail)

section \<open>The command\<close>

text \<open>What \<open>support.DefaultSupport\<close> hands to the command, its flags, and how it ends.\<close>

record 'k verify_support =
  vChainClient :: chain_view
  vPrv :: 'k
  vFlareTeeManager :: address
  vTeeExtensionRegistry :: registry_view
  vTeeOwnerAllowlist :: allowlist_view

record verify_flags =
  fAddresses :: string
  fChain :: string
  fConfig :: string
  fStep :: string
  fChecks :: string
  fJson :: bool

record ending =
  exit_code :: nat
  stdout :: string
  stderr :: string

definition stepsNeedingChain :: "string \<Rightarrow> bool" where
  "stepsNeedingChain step \<longleftrightarrow> step \<in> {''deploy'', ''register'', ''all''}"

definition support_hints :: "verify_flags \<Rightarrow> go_error \<Rightarrow> string" where
  "support_hints fl err =
     ''Error initializing support: '' @ err_text err @ newline @ newline @ ''Hints:'' @ newline @
     ''  - Check that the addresses file exists: '' @ fAddresses fl @ newline @
     ''  - Check that the chain node is running: '' @ fChain fl @ newline @
     ''  - If using a custom key, ensure DEPLOYMENT_PRIVATE_KEY is set in .env'' @ newline"

definition deploy_step :: "'k tool_lib \<Rightarrow> outside \<Rightarrow> 'k verify_support \<Rightarrow> string \<Rightarrow> Report \<Rightarrow> Report" where
  "deploy_step lib w s path =
     (let addresses = [(''FlareTeeManager'', vFlareTeeManager s)] in
      RegisterDeployChecks lib w (Some (vChainClient s)) (Some (vPrv s)) (addresses, addresses) path)"

definition register_step :: "'k tool_lib \<Rightarrow> outside \<Rightarrow> 'k verify_support \<Rightarrow> string \<Rightarrow> Report \<Rightarrow> Report" where
  "register_step lib w s path =
     RegisterRegistrationChecks lib w (Some (vChainClient s)) (Some (vPrv s))
       (Some (vTeeExtensionRegistry s)) (Some (vTeeOwnerAllowlist s)) path"

text \<open>The outer and the inner \<open>switch\<close>: the report of the chosen step, or the text of an early exit.\<close>

definition choose_checks ::
  "'k tool_lib \<Rightarrow> outside \<Rightarrow> 'k verify_support result \<Rightarrow> verify_flags \<Rightarrow> string + Report" where
  "choose_checks lib w spt fl =
     (let step = fStep fl; path = fConfig fl; report = empty_report in
      if stepsNeedingChain step then
        (case spt of
           Inl err \<Rightarrow> Inl (support_hints fl err)
         | Inr s \<Rightarrow>
             if step = ''deploy'' then Inr (deploy_step lib w s path report)
             else if step = ''register'' then Inr (register_step lib w s path report)
             else Inr (RegisterTestChecks w path (RegisterTeeMachineChecks w path
                    (RegisterTeeVersionChecks w path (RegisterServicesChecks lib w path
                      (register_step lib w s path (deploy_step lib w s path report)))))))
      else if step = ''services'' then Inr (RegisterServicesChecks lib w path report)
      else if step = ''tee-version'' then Inr (RegisterTeeVersionChecks w path report)
      else if step = ''tee-machine'' then Inr (RegisterTeeMachineChecks w path report)
      else if step = ''test'' then Inr (RegisterTestChecks w path report)
      else Inl (''Unknown step: '' @ quote_go (isPrint lib) step @ newline @
        ''Valid steps: deploy, register, services, tee-version, tee-machine, test, all'' @ newline))"

definition allowed_ids :: "string \<Rightarrow> string set" where
  "allowed_ids checks = set (filter (\<lambda>t. t \<noteq> '''') (map TrimSpace (Split CHR '','' checks)))"

definition filter_report :: "string \<Rightarrow> Report \<Rightarrow> Report" where
  "filter_report checks r =
     (if checks \<noteq> '''' then r\<lparr>Results := filter (\<lambda>res. ID res \<in> allowed_ids checks) (Results r)\<rparr> else r)"

definition verify_main ::
  "'k tool_lib \<Rightarrow> outside \<Rightarrow> 'k verify_support result \<Rightarrow> verify_flags \<Rightarrow> ending" where
  "verify_main lib w spt fl = (case choose_checks lib w spt fl of
     Inl msg \<Rightarrow> \<lparr>exit_code = 1, stdout = '''', stderr = msg\<rparr>
   | Inr report \<Rightarrow>
       let r = filter_report (fChecks fl) report in
       \<lparr>exit_code = (if HasFailures r then 1 else 0),
        stdout = (if fJson fl then FprintJSON r else Fprint r), stderr = ''''\<rparr>)"

lemma choose_single:
  "stepsNeedingChain (fStep fl) = False \<Longrightarrow> choose_checks lib w spt fl = choose_checks lib w spt' fl"
  by (simp add: choose_checks_def Let_def)

lemma exit_unfiltered:
  "choose_checks lib w spt fl = Inr r \<Longrightarrow> fChecks fl = '''' \<Longrightarrow>
   exit_code (verify_main lib w spt fl) = 1 \<longleftrightarrow> HasFailures r"
  by (simp add: verify_main_def filter_report_def Let_def)

lemma choose_each:
  "choose_checks lib w (Inr s) (fl\<lparr>fStep := ''deploy''\<rparr>) = Inr (deploy_step lib w s (fConfig fl) empty_report)"
  "choose_checks lib w (Inr s) (fl\<lparr>fStep := ''register''\<rparr>) = Inr (register_step lib w s (fConfig fl) empty_report)"
  "choose_checks lib w (Inr s) (fl\<lparr>fStep := ''services''\<rparr>) = Inr (RegisterServicesChecks lib w (fConfig fl) empty_report)"
  "choose_checks lib w (Inr s) (fl\<lparr>fStep := ''tee-version''\<rparr>) = Inr (RegisterTeeVersionChecks w (fConfig fl) empty_report)"
  "choose_checks lib w (Inr s) (fl\<lparr>fStep := ''tee-machine''\<rparr>) = Inr (RegisterTeeMachineChecks w (fConfig fl) empty_report)"
  "choose_checks lib w (Inr s) (fl\<lparr>fStep := ''test''\<rparr>) = Inr (RegisterTestChecks w (fConfig fl) empty_report)"
  by (simp_all add: choose_checks_def stepsNeedingChain_def Let_def)

text \<open>
  C23: Running the step "all" amounts to running the six steps one after the other: with no filter its
  results are those of the six single runs in that order, and it exits with 1 exactly when one of the
  six would.
\<close>

theorem verify_all_is_each:
  assumes "fStep fl = ''all''" "fChecks fl = ''''" "spt = Inr s"
  shows "(\<exists>report. choose_checks lib w spt fl = Inr report \<and>
      map Inr (Results report) = concat (map (\<lambda>st. case choose_checks lib w spt (fl\<lparr>fStep := st\<rparr>) of
          Inl msg \<Rightarrow> [Inl msg] | Inr r \<Rightarrow> map Inr (Results r))
        [''deploy'', ''register'', ''services'', ''tee-version'', ''tee-machine'', ''test''])) \<and>
    (exit_code (verify_main lib w spt fl) = 1 \<longleftrightarrow>
      list_ex (\<lambda>st. exit_code (verify_main lib w spt (fl\<lparr>fStep := st\<rparr>)) = 1)
        [''deploy'', ''register'', ''services'', ''tee-version'', ''tee-machine'', ''test''])"
proof -
  let ?p = "fConfig fl"
  have chosen: "choose_checks lib w spt fl = Inr (RegisterTestChecks w ?p (RegisterTeeMachineChecks w ?p
      (RegisterTeeVersionChecks w ?p (RegisterServicesChecks lib w ?p
        (register_step lib w s ?p (deploy_step lib w s ?p empty_report))))))"
    using assms by (simp add: choose_checks_def stepsNeedingChain_def Let_def)
  have "map Inr (Results (RegisterTestChecks w ?p (RegisterTeeMachineChecks w ?p
      (RegisterTeeVersionChecks w ?p (RegisterServicesChecks lib w ?p
        (register_step lib w s ?p (deploy_step lib w s ?p empty_report))))))) =
    concat (map (\<lambda>st. case choose_checks lib w spt (fl\<lparr>fStep := st\<rparr>) of
          Inl msg \<Rightarrow> [Inl msg] | Inr r \<Rightarrow> map Inr (Results r))
        [''deploy'', ''register'', ''services'', ''tee-version'', ''tee-machine'', ''test''])"
    using assms unfolding testing.appends[of w ?p "RegisterTeeMachineChecks w ?p r" for r]
      tee_machine.appends[of w ?p "RegisterTeeVersionChecks w ?p r" for r]
      tee_version.appends[of w ?p "RegisterServicesChecks lib w ?p r" for r]
      services.appends[of lib w ?p "register_step lib w s ?p r" for r]
    unfolding register_step_def registration.appends[of lib w _ _ _ _ ?p "deploy_step lib w s ?p r" for r]
    by (simp add: choose_each register_step_def)
  moreover have "HasFailures (RegisterTestChecks w ?p (RegisterTeeMachineChecks w ?p
      (RegisterTeeVersionChecks w ?p (RegisterServicesChecks lib w ?p
        (register_step lib w s ?p (deploy_step lib w s ?p empty_report)))))) \<longleftrightarrow>
      HasFailures (deploy_step lib w s ?p empty_report) \<or> HasFailures (register_step lib w s ?p empty_report) \<or>
      HasFailures (RegisterServicesChecks lib w ?p empty_report) \<or>
      HasFailures (RegisterTeeVersionChecks w ?p empty_report) \<or>
      HasFailures (RegisterTeeMachineChecks w ?p empty_report) \<or>
      HasFailures (RegisterTestChecks w ?p empty_report)"
    unfolding testing.failures[of w ?p "RegisterTeeMachineChecks w ?p r" for r]
      tee_machine.failures[of w ?p "RegisterTeeVersionChecks w ?p r" for r]
      tee_version.failures[of w ?p "RegisterServicesChecks lib w ?p r" for r]
      services.failures[of lib w ?p "register_step lib w s ?p r" for r]
    unfolding register_step_def registration.failures[of lib w _ _ _ _ ?p "deploy_step lib w s ?p r" for r]
    by blast
  ultimately show ?thesis
    using assms exit_unfiltered[OF chosen assms(2)]
    by (simp add: chosen[unfolded assms(3)] choose_each exit_unfiltered[OF choose_each(1)] exit_unfiltered[OF choose_each(2)]
        exit_unfiltered[OF choose_each(3)] exit_unfiltered[OF choose_each(4)]
        exit_unfiltered[OF choose_each(5)] exit_unfiltered[OF choose_each(6)] del: One_nat_def)
qed

definition demo_support :: "nat verify_support" where
  "demo_support = \<lparr>vChainClient = demo_chain, vPrv = 3, vFlareTeeManager = 8,
     vTeeExtensionRegistry = demo_registry,
     vTeeOwnerAllowlist = \<lparr>IsAllowedTeeMachineOwner = (\<lambda>i a. Inr True)\<rparr>\<rparr>"

definition demo_flags :: verify_flags where
  "demo_flags = \<lparr>fAddresses = ''addresses.json'', fChain = ''http://127.0.0.1:8545'', fConfig = '''',
     fStep = ''all'', fChecks = '''', fJson = False\<rparr>"

theorem verify_all_is_each_witness:
  "exit_code (verify_main demo_tools demo_outside (Inr demo_support) demo_flags) = 1 \<longleftrightarrow>
     list_ex (\<lambda>st. exit_code (verify_main demo_tools demo_outside (Inr demo_support) (demo_flags\<lparr>fStep := st\<rparr>)) = 1)
       [''deploy'', ''register'', ''services'', ''tee-version'', ''tee-machine'', ''test'']"
  by (rule conjunct2[OF verify_all_is_each]) (simp_all add: demo_flags_def)


section \<open>Well-formed results\<close>

text \<open>The checks of each step, as \<open>go/tools/pkg/validate/checks.go\<close> numbers them.\<close>

definition check_table :: "(string \<times> string list) list" where
  "check_table =
     [(''deploy'', [''D1'', ''D3'', ''D5'', ''D6'', ''D7'']),
      (''register'', [''R1-R7'', ''R1'', ''R2'', ''R3'', ''R4'', ''R7'']),
      (''services'', [''S2'', ''S5'', ''S7'', ''S9'', ''S10'']),
      (''tee-version'', [''V2'', ''V4'', ''V6'']),
      (''tee-machine'', [''T1'', ''T5'', ''T10'']),
      (''test'', [''E1'', ''E3'', ''E6''])]"

text \<open>
  A result the report can show in full: its step has a heading and its id belongs to that step, no text
  of it is empty, and it proposes a fix only with a status for which \<open>Fprint\<close> prints the fix.
\<close>

definition well_formed :: "CheckResult \<Rightarrow> bool" where
  "well_formed res \<longleftrightarrow>
     stepLabel (Step res) \<noteq> None \<and>
     list_ex (\<lambda>(step, ids). step = Step res \<and> ID res \<in> set ids) check_table \<and>
     Name res \<noteq> '''' \<and> Message res \<noteq> '''' \<and>
     (Fix res = '''' \<or> StatusOf res \<in> {FAIL, WARN})"

lemma well_formed_check:
  "well_formed (check step i name st msg fix) \<longleftrightarrow> stepLabel step \<noteq> None \<and>
     list_ex (\<lambda>(step', ids). step' = step \<and> i \<in> set ids) check_table \<and> name \<noteq> '''' \<and> msg \<noteq> '''' \<and>
     (fix = '''' \<or> st \<in> {FAIL, WARN})"
  by (simp add: well_formed_def check_def)

lemmas well_formed_rules = well_formed_check check_table_def stepLabel_def

lemma AddressNotZero_text: "AddressNotZero lib a l = Some err \<Longrightarrow> err_text err \<noteq> ''''"
  by (auto simp: AddressNotZero_def split: if_splits)

lemma AddressHasCode_text: "AddressHasCode lib c a l = Some err \<Longrightarrow> err_text err \<noteq> ''''"
  by (auto simp: AddressHasCode_def wrapf_def split: option.splits sum.splits if_splits)

lemma KeyHasFunds_text: "KeyHasFunds lib c k n = Some err \<Longrightarrow> err_text err \<noteq> ''''"
  by (auto simp: KeyHasFunds_def wrapf_def Let_def split: option.splits sum.splits if_splits)

lemma AddrHex_law: "AddrHex lib a \<noteq> '''' \<Longrightarrow> well_formed (check_zero lib l a)"
  by (auto simp: check_zero_def well_formed_rules dest: AddressNotZero_text split: option.splits)

lemma deploy_formed:
  "well_formed (check_code lib c l a)" "well_formed (CheckDeployerKeySource w)"
  "well_formed (funds_result lib c k)" "well_formed (checkChainID v)"
  by (auto simp: check_code_def CheckDeployerKeySource_def funds_result_def checkChainID_def
      well_formed_rules Let_def dest: AddressHasCode_text KeyHasFunds_text split: option.splits sum.splits)

lemma entry_formed: "\<not> good '''' \<Longrightarrow> key \<noteq> '''' \<Longrightarrow> well_formed (check_entry lib good vars key)"
  by (auto simp: check_entry_def well_formed_rules split: option.splits)

lemma register_formed:
  "well_formed (check_R1 reg)" "well_formed (check_R2 lib reg i s)" "well_formed (check_R3 lib al i k)"
  "well_formed (check_R4 lib reg i)" "well_formed (check_R7 lib reg n s)"
  by (simp_all add: check_R1_def check_R2_def check_R3_def check_R4_def check_R7_def
      well_formed_rules Let_def split: sum.splits)

lemma later_formed:
  "well_formed (check_S2 lib w p)" "well_formed (check_S5 w)" "well_formed (check_S7 w)" "well_formed (check_S9 w)"
  "well_formed (check_S10 w)" "well_formed (check_V2 w)" "well_formed (check_V4 w p)" "well_formed (check_V6 w)"
  "well_formed (check_T1 w)" "well_formed (check_T5 w)" "well_formed (check_T10 w)" "well_formed (check_E1 w p)"
  "well_formed (check_E3 w)" "well_formed check_E6"
  by (auto simp: check_S2_def check_S5_def check_S7_def check_S9_def check_S10_def check_V2_def check_V4_def
      check_V6_def check_T1_def check_T5_def check_T10_def check_E1_def check_E3_def check_E6_def
      well_formed_rules Let_def split: sum.splits)

lemma deploy_results_formed:
  "(\<And>a. AddrHex lib a \<noteq> '''') \<Longrightarrow> list_all well_formed (deploy_results lib w client key addresses path)"
  by (auto simp: deploy_results_def CheckExtensionEnvFormat_def Let_def list_all_iff AddrHex_law deploy_formed
      entry_formed well_formed_rules split: option.splits file_state.splits)

lemma registration_formed:
  "list_all well_formed (Results (RegisterRegistrationChecks lib w client key registry allowlist path empty_report))"
  by (cases client; cases registry)
    (simp_all add: RegisterRegistrationChecks_def Let_def skip_registration_def register_formed
      well_formed_rules split: sum.splits option.splits)

lemma list_all_conj: "list_all (\<lambda>x. P x \<and> Q x) xs \<longleftrightarrow> list_all P xs \<and> list_all Q xs"
  by (auto simp: list_all_iff)

lemma register_step_results:
  "Results (register_step lib w s p r) = Results r @ Results (register_step lib w s p empty_report)"
  unfolding register_step_def by (rule registration_appends)

lemma deploy_step_formed:
  "(\<And>a. AddrHex lib a \<noteq> '''') \<Longrightarrow>
   list_all (\<lambda>res. well_formed res \<and> Step res = ''deploy'') (Results (deploy_step lib w s p empty_report))"
  by (simp add: deploy_step_def Let_def Results_deploy list_all_conj deploy_results_formed deploy_labelled)

lemma register_step_formed:
  "list_all (\<lambda>res. well_formed res \<and> Step res = ''register'') (Results (register_step lib w s p empty_report))"
  by (simp add: register_step_def list_all_conj registration_formed registration_labelled)

lemma later_steps_formed:
  "list_all (\<lambda>res. well_formed res \<and> Step res = ''services'') (Results (RegisterServicesChecks lib w p empty_report))"
  "list_all (\<lambda>res. well_formed res \<and> Step res = ''tee-version'') (Results (RegisterTeeVersionChecks w p empty_report))"
  "list_all (\<lambda>res. well_formed res \<and> Step res = ''tee-machine'') (Results (RegisterTeeMachineChecks w p empty_report))"
  "list_all (\<lambda>res. well_formed res \<and> Step res = ''test'') (Results (RegisterTestChecks w p empty_report))"
  by (simp_all add: RegisterServicesChecks_def RegisterTeeVersionChecks_def RegisterTeeMachineChecks_def
      RegisterTestChecks_def later_formed)

lemma single_step:
  assumes "choose_checks lib w spt fl = Inr report" and "fStep fl \<noteq> ''all''"
  shows "(\<exists>s. report = deploy_step lib w s (fConfig fl) empty_report) \<and> fStep fl = ''deploy'' \<or>
    (\<exists>s. report = register_step lib w s (fConfig fl) empty_report) \<and> fStep fl = ''register'' \<or>
    report = RegisterServicesChecks lib w (fConfig fl) empty_report \<and> fStep fl = ''services'' \<or>
    report = RegisterTeeVersionChecks w (fConfig fl) empty_report \<and> fStep fl = ''tee-version'' \<or>
    report = RegisterTeeMachineChecks w (fConfig fl) empty_report \<and> fStep fl = ''tee-machine'' \<or>
    report = RegisterTestChecks w (fConfig fl) empty_report \<and> fStep fl = ''test''"
proof (cases spt)
  case (Inl err)
  then show ?thesis
    using assms by (auto simp: choose_checks_def stepsNeedingChain_def Let_def split: if_split_asm)
next
  case (Inr s)
  then show ?thesis
    using assms by (auto simp: choose_checks_def stepsNeedingChain_def Let_def split: if_split_asm)
qed

text \<open>
  C21: Every result of a run is well formed: it carries the step that was asked for (any of the six
  under "all") and one of that step's check ids, so the terminal report has a heading for it; it has a
  name and a message, and a fix only together with FAIL or WARN, the statuses for which the fix is printed.
\<close>

theorem results_well_formed:
  assumes "\<And>a. AddrHex lib a \<noteq> ''''"
  shows "case choose_checks lib w spt fl of Inl msg \<Rightarrow> msg \<noteq> ''''
    | Inr report \<Rightarrow> list_all (\<lambda>res. well_formed res \<and> fStep fl \<in> {Step res, ''all''}) (Results report)"
proof (cases "choose_checks lib w spt fl")
  case (Inl msg)
  then show ?thesis
    by (auto simp: choose_checks_def support_hints_def Let_def split: if_splits sum.splits)
next
  case (Inr report)
  note formed = deploy_step_formed[OF assms] register_step_formed later_steps_formed
  show ?thesis
  proof (cases "fStep fl = ''all''")
    case True
    with Inr obtain s where "report = RegisterTestChecks w (fConfig fl) (RegisterTeeMachineChecks w (fConfig fl)
        (RegisterTeeVersionChecks w (fConfig fl) (RegisterServicesChecks lib w (fConfig fl)
          (register_step lib w s (fConfig fl) (deploy_step lib w s (fConfig fl) empty_report)))))"
      by (cases spt) (auto simp: choose_checks_def stepsNeedingChain_def Let_def)
    then have s: "Results report = Results (deploy_step lib w s (fConfig fl) empty_report) @
        Results (register_step lib w s (fConfig fl) empty_report) @
        Results (RegisterServicesChecks lib w (fConfig fl) empty_report) @
        Results (RegisterTeeVersionChecks w (fConfig fl) empty_report) @
        Results (RegisterTeeMachineChecks w (fConfig fl) empty_report) @
        Results (RegisterTestChecks w (fConfig fl) empty_report)"
      using register_step_results[of lib w s "fConfig fl" "deploy_step lib w s (fConfig fl) empty_report"]
      by (simp add: RegisterServicesChecks_def RegisterTeeVersionChecks_def RegisterTeeMachineChecks_def
          RegisterTestChecks_def)
    have "list_all well_formed (Results report)"
      unfolding s by (simp add: formed[unfolded list_all_conj])
    with True Inr show ?thesis by (simp add: list_all_iff)
  next
    case False
    have "list_all (\<lambda>res. well_formed res \<and> Step res = fStep fl) (Results report)"
      using single_step[OF Inr False] by (elim disjE exE conjE) (simp_all add: formed)
    with Inr show ?thesis by (auto simp: list_all_iff)
  qed
qed

theorem results_well_formed_witness:
  "case choose_checks demo_tools demo_outside (Inr demo_support) demo_flags of Inl msg \<Rightarrow> msg \<noteq> ''''
    | Inr report \<Rightarrow> list_all (\<lambda>res. well_formed res \<and> fStep demo_flags \<in> {Step res, ''all''}) (Results report)"
  by (rule results_well_formed) (simp add: demo_tools_def)

end
