(* ===== verification/Setup_Extension.thy ===== *)
theory Setup_Extension
  imports Governance Validate_Checks
begin

text \<open>
  Registering an extension: \<open>go/tools/pkg/fccutils/extension.go\<close> and the command
  \<open>register-extension\<close>. The calls of the three contracts are the record \<open>extension_ops\<close>.
\<close>

record 'w extension_ops =
  Register :: "tx_opts \<Rightarrow> address \<Rightarrow> address \<Rightarrow> ('w, hash result) io"
  ParseTeeExtensionRegistered :: "log \<Rightarrow> int result"
  ParseTeeExtensionContractsSet :: "log \<Rightarrow> unit result"
  IsMachineOwner :: "int \<Rightarrow> address \<Rightarrow> ('w, bool result) io"
  AddAllowedTeeMachineOwners :: "tx_opts \<Rightarrow> int \<Rightarrow> address list \<Rightarrow> ('w, hash result) io"
  ParseAllowedTeeMachineOwnersAdded :: "log \<Rightarrow> unit result"
  IsProjectOwner :: "int \<Rightarrow> address \<Rightarrow> ('w, bool result) io"
  AddAllowedTeeWalletProjectOwners :: "tx_opts \<Rightarrow> int \<Rightarrow> address list \<Rightarrow> ('w, hash result) io"
  ParseAllowedTeeWalletProjectOwnersAdded :: "log \<Rightarrow> unit result"
  KeyTypeSupported :: "int \<Rightarrow> bytes \<Rightarrow> ('w, bool result) io"
  AddKeyTypes :: "tx_opts \<Rightarrow> int \<Rightarrow> bytes list \<Rightarrow> ('w, hash result) io"

section \<open>Steps\<close>

definition registerExtension ::
  "('w, 'k) chain \<Rightarrow> 'w extension_ops \<Rightarrow> tx_opts \<Rightarrow> address \<Rightarrow> address \<Rightarrow> ('w, int result) io" where
  "registerExtension ch ops opts instructionsSender stateVerifier =
     submit ch (Register ops opts stateVerifier instructionsSender)
       (prefixf ''TeeExtensionRegistry.Register failed: '') (prefixf ''Register transaction failed: '')
       (\<lambda>receipt. return_io (case rcLogs receipt of
          log0 # log1 # _ \<Rightarrow>
            (case ParseTeeExtensionRegistered ops log0 of
               Inl err \<Rightarrow> Inl (prefixf ''failed to parse TeeExtensionRegistered event: '' err)
             | Inr extensionID \<Rightarrow>
                 (case ParseTeeExtensionContractsSet ops log1 of
                    Inl err \<Rightarrow> Inl (prefixf ''failed to parse TeeExtensionContractsSet event: '' err)
                  | Inr _ \<Rightarrow> Inr extensionID))
        | logs \<Rightarrow> Inl (errorf (''expected at least 2 logs from Register() transaction, got '' @
            show_nat (length logs) @ '' '' @ emdash @
            '' the registry contract may have changed or be behind a proxy''))))"

definition allowTeeMachineOwners ::
  "('w, 'k) chain \<Rightarrow> 'w extension_ops \<Rightarrow> tx_opts \<Rightarrow> int \<Rightarrow> address list \<Rightarrow> ('w, unit result) io" where
  "allowTeeMachineOwners ch ops opts extensionId owners =
     submit ch (AddAllowedTeeMachineOwners ops opts extensionId owners)
       (prefixf ''AddAllowedTeeMachineOwners failed: '') (prefixf ''AddAllowedTeeMachineOwners transaction failed: '')
       (\<lambda>receipt. return_io (case rcLogs receipt of
          [] \<Rightarrow> Inl (errorf (''no logs in AddAllowedTeeMachineOwners transaction '' @ emdash @ '' unexpected''))
        | log0 # _ \<Rightarrow> (case ParseAllowedTeeMachineOwnersAdded ops log0 of
            Inl err \<Rightarrow> Inl (prefixf ''failed to parse AllowedTeeMachineOwnersAdded event: '' err) | Inr _ \<Rightarrow> Inr ())))"

definition allowTeeProjectManagerOwners ::
  "('w, 'k) chain \<Rightarrow> 'w extension_ops \<Rightarrow> tx_opts \<Rightarrow> int \<Rightarrow> address list \<Rightarrow> ('w, unit result) io" where
  "allowTeeProjectManagerOwners ch ops opts extensionId owners =
     submit ch (AddAllowedTeeWalletProjectOwners ops opts extensionId owners)
       (prefixf ''AddAllowedTeeWalletProjectOwners failed: '')
       (prefixf ''AddAllowedTeeWalletProjectOwners transaction failed: '')
       (\<lambda>receipt. return_io (case rcLogs receipt of
          [] \<Rightarrow> Inl (errorf (''no logs in AddAllowedTeeWalletProjectOwners transaction '' @ emdash @ '' unexpected''))
        | log0 # _ \<Rightarrow> (case ParseAllowedTeeWalletProjectOwnersAdded ops log0 of
            Inl err \<Rightarrow> Inl (prefixf ''failed to parse AllowedTeeWalletProjectOwnersAdded event: '' err)
          | Inr _ \<Rightarrow> Inr ())))"

text \<open>\<open>addSupportedKeyTypesTx\<close>, \<open>AddSupportedKeyTypes\<close> and \<open>IsKeyTypeSupported\<close>.\<close>

definition addSupportedKeyTypesTx ::
  "('w, 'k) chain \<Rightarrow> 'w extension_ops \<Rightarrow> tx_opts \<Rightarrow> int \<Rightarrow> bytes list \<Rightarrow> ('w, unit result) io" where
  "addSupportedKeyTypesTx ch ops opts extensionId keyTypes =
     submit ch (AddKeyTypes ops opts extensionId keyTypes) restate restate (\<lambda>receipt. return_io (Inr ()))"

definition AddSupportedKeyTypes ::
  "('w, 'k) chain \<Rightarrow> 'w extension_ops \<Rightarrow> 'k support \<Rightarrow> int \<Rightarrow> bytes list \<Rightarrow> ('w, unit result) io" where
  "AddSupportedKeyTypes ch ops s extensionId keyTypes = (case NewTransactor ch (Prv s) (SupChainID s) of
     Inl err \<Rightarrow> return_io (Inl (restate err))
   | Inr opts \<Rightarrow> try_io (addSupportedKeyTypesTx ch ops opts extensionId keyTypes) restate (\<lambda>_. return_io (Inr ())))"

definition IsKeyTypeSupportedQ :: "'w extension_ops \<Rightarrow> int \<Rightarrow> bytes \<Rightarrow> ('w, bool result) io" where
  "IsKeyTypeSupportedQ ops extensionId keyType =
     try_io (KeyTypeSupported ops extensionId keyType) restate (\<lambda>b. return_io (Inr b))"

text \<open>
  The shape of steps 2 to 4 of \<open>SetupExtension\<close>: ask whether the work is done, do it when it is not;
  unlike in \<open>SetTeeGovernance\<close>, a question that fails ends the run.
\<close>

definition ensure ::
  "('w, bool result) io \<Rightarrow> (go_error \<Rightarrow> go_error) \<Rightarrow> ('w, unit result) io \<Rightarrow> (go_error \<Rightarrow> go_error) \<Rightarrow>
   ('w, 'a result) io \<Rightarrow> ('w, 'a result) io" where
  "ensure ask wrapAsk act wrapAct k = try_io ask wrapAsk (\<lambda>already.
     if already then k else try_io act wrapAct (\<lambda>_. k))"

definition owners_not_set :: "string \<Rightarrow> int \<Rightarrow> go_error \<Rightarrow> go_error" where
  "owners_not_set what extensionID = prefixf (''failed adding '' @ what @ '' (extension exists as ID '' @
     show_int extensionID @ '' but owners not set): '')"

definition SetupExtension ::
  "('w, 'k) chain \<Rightarrow> 'w extension_ops \<Rightarrow> 'k support \<Rightarrow> hash \<Rightarrow> address \<Rightarrow> address \<Rightarrow> ('w, int result) io" where
  "SetupExtension ch ops s governanceHash instructionsSender stateVerifier =
     (let deployerAddr = PubkeyToAddress ch (Prv s) in
      case NewTransactor ch (Prv s) (SupChainID s) of
        Inl err \<Rightarrow> return_io (Inl err)
      | Inr opts \<Rightarrow>
        try_io (registerExtension ch ops opts instructionsSender stateVerifier) (\<lambda>err. err) (\<lambda>extensionID.
          ensure (IsMachineOwner ops extensionID deployerAddr) (prefixf ''failed checking TEE machine owner status: '')
            (allowTeeMachineOwners ch ops opts extensionID [deployerAddr])
            (owners_not_set ''TEE machine owners'' extensionID)
          (ensure (IsProjectOwner ops extensionID deployerAddr) (prefixf ''failed checking wallet project owner status: '')
            (allowTeeProjectManagerOwners ch ops opts extensionID [deployerAddr])
            (owners_not_set ''wallet project owners'' extensionID)
          (ensure (IsKeyTypeSupportedQ ops extensionID (EVMType ch)) (\<lambda>err. err)
            (AddSupportedKeyTypes ch ops s extensionID [EVMType ch]) (\<lambda>err. err)
          (return_io (Inr extensionID))))))"

section \<open>The command\<close>

text \<open>\<open>fmt.Sprintf("0x%064x", n)\<close> for a number that is not negative.\<close>

definition hex64 :: "int \<Rightarrow> string" where
  "hex64 n = ''0x'' @ pad_zeros 64 (show_hex (nat n))"

text \<open>
  \<open>main\<close> of \<open>register-extension\<close>; \<open>logger.Fatal\<close> and \<open>FatalWithCause\<close> end the process with the error,
  otherwise the extension id goes to standard output. \<open>hexToHash\<close> is \<open>common.HexToHash\<close>.
\<close>

definition register_extension_main ::
  "('w, 'k) chain \<Rightarrow> 'w extension_ops \<Rightarrow> (string \<Rightarrow> hash) \<Rightarrow> chain_view \<Rightarrow> 'k support result \<Rightarrow>
   string \<Rightarrow> string \<Rightarrow> ('w, string result) io" where
  "register_extension_main ch ops hexToHash view testSupport instructionSender governanceHash =
     (if instructionSender = '''' then return_io (Inl (errorf ''--instructionSender flag is required''))
      else case testSupport of
        Inl err \<Rightarrow> return_io (Inl err)
      | Inr s \<Rightarrow>
        let addr = HexToAddress ch instructionSender in
        (case AddressHasCode (tool_lib.truncate ch) (Some view) addr ''InstructionSender'' of
           Some err \<Rightarrow> return_io (Inl err)
         | None \<Rightarrow> try_io (SetupExtension ch ops s (hexToHash governanceHash) addr 0) (\<lambda>err. err)
             (\<lambda>extensionID. return_io (Inr (hex64 extensionID @ newline)))))"

section \<open>Properties\<close>

text \<open>What a successful \<open>ensure\<close> has done: nothing, when the answer was yes, otherwise the act.\<close>

definition ensured :: "('w, bool result) io \<Rightarrow> ('w, unit result) io \<Rightarrow> 'w \<Rightarrow> 'w \<Rightarrow> bool" where
  "ensured ask act w w' \<longleftrightarrow> (case ask w of
     (Inl err, w1) \<Rightarrow> False
   | (Inr already, w1) \<Rightarrow> if already then w' = w1 else act w1 = (Inr (), w'))"

lemma ensure_ok:
  assumes "ensure ask wrapAsk act wrapAct k w = (Inr y, w')"
  obtains w1 where "ensured ask act w w1" "k w1 = (Inr y, w')"
  using assms unfolding ensure_def ensured_def
  by (elim try_io_ok) (auto split: if_splits elim!: try_io_ok)

lemma ensured_IsKeyTypeSupportedQ:
  "ensured (IsKeyTypeSupportedQ ops n t) act w w' \<longleftrightarrow> ensured (KeyTypeSupported ops n t) act w w'"
  by (auto simp: ensured_def IsKeyTypeSupportedQ_def try_io_def split: prod.splits sum.splits)

lemma registerExtension_ok:
  assumes "registerExtension ch ops opts sender verifier w = (Inr n, w')"
  shows "\<exists>tx w1 receipt log0 log1 logs. Register ops opts verifier sender w = (Inr tx, w1) \<and>
    WaitMined ch tx w1 = (Inr receipt, w') \<and> rcStatus receipt \<noteq> 0 \<and> rcLogs receipt = log0 # log1 # logs \<and>
    ParseTeeExtensionRegistered ops log0 = Inr n"
proof -
  from assms obtain tx w1 receipt w2 where run: "Register ops opts verifier sender w = (Inr tx, w1)"
      "WaitMined ch tx w1 = (Inr receipt, w2)" "rcStatus receipt \<noteq> 0"
    and logs: "(case rcLogs receipt of
          log0 # log1 # _ \<Rightarrow>
            (case ParseTeeExtensionRegistered ops log0 of
               Inl err \<Rightarrow> Inl (prefixf ''failed to parse TeeExtensionRegistered event: '' err)
             | Inr extensionID \<Rightarrow>
                 (case ParseTeeExtensionContractsSet ops log1 of
                    Inl err \<Rightarrow> Inl (prefixf ''failed to parse TeeExtensionContractsSet event: '' err)
                  | Inr _ \<Rightarrow> Inr extensionID))
        | logs \<Rightarrow> Inl (errorf (''expected at least 2 logs from Register() transaction, got '' @
            show_nat (length logs) @ '' '' @ emdash @
            '' the registry contract may have changed or be behind a proxy''))) = Inr n" "w2 = w'"
    unfolding registerExtension_def submit_ok_iff by auto
  obtain log0 log1 rest where "rcLogs receipt = log0 # log1 # rest"
    using logs(1) by (cases "rcLogs receipt"; cases "tl (rcLogs receipt)") auto
  moreover then have "ParseTeeExtensionRegistered ops log0 = Inr n"
    using logs(1) by (auto split: sum.splits)
  ultimately show ?thesis using run logs(2) by blast
qed



section \<open>Witnesses\<close>

definition ext_ch :: "(nat, nat) chain" where
  "ext_ch = demo_ch\<lparr>WaitMined := (\<lambda>h n. (Inr \<lparr>rcStatus = 1, rcLogs = [[1], [2]], rcTxHash = h\<rparr>, n + 1))\<rparr>"

definition demo_ext_ops :: "nat extension_ops" where
  "demo_ext_ops = \<lparr>Register = (\<lambda>opts v s n. (Inr 1, n + 1)), ParseTeeExtensionRegistered = (\<lambda>l. Inr 5),
     ParseTeeExtensionContractsSet = (\<lambda>l. Inr ()), IsMachineOwner = (\<lambda>i a n. (Inr True, n)),
     AddAllowedTeeMachineOwners = (\<lambda>opts i os n. (Inl (errorf ''not reached''), n)),
     ParseAllowedTeeMachineOwnersAdded = (\<lambda>l. Inr ()), IsProjectOwner = (\<lambda>i a n. (Inr False, n)),
     AddAllowedTeeWalletProjectOwners = (\<lambda>opts i os n. (Inr 1, n + 1)),
     ParseAllowedTeeWalletProjectOwnersAdded = (\<lambda>l. Inr ()),
     KeyTypeSupported = (\<lambda>i t n. (Inr False, n)), AddKeyTypes = (\<lambda>opts i ts n. (Inr 1, n + 1))\<rparr>"

lemma demo_setup: "SetupExtension ext_ch demo_ext_ops gov_support 0 9 0 0 = (Inr 5, 6)"
  by (simp add: SetupExtension_def registerExtension_def ensure_def allowTeeProjectManagerOwners_def
      AddSupportedKeyTypes_def addSupportedKeyTypesTx_def IsKeyTypeSupportedQ_def submit_def CheckTx_def
      demo_ext_ops_def ext_ch_def demo_ch_def gov_support_def try_io_def)



end
