(* ===== verification/Check_State.thy ===== *)
theory Check_State
  imports Instructions
begin

text \<open>
  The diagnostic commands that only read: \<open>check-tee-state\<close> and \<open>query-tee\<close>
  (\<open>go/tools/cmd/check-tee-state/main.go\<close>, \<open>go/tools/cmd/query-tee/main.go\<close>). What they read from the
  chain is the record \<open>machine_view\<close>; the result is the text written to standard output, or the error
  that ends the process with status 1.
\<close>

section \<open>Reading and printing\<close>

record machine_view =
  mvStatus :: "address \<Rightarrow> byte result"
  mvExtensionId :: "address \<Rightarrow> int result"
  mvOwner :: "address \<Rightarrow> address result"
  mvRecord :: "address \<Rightarrow> (address \<times> address \<times> string) result"
  mvActive :: "int \<Rightarrow> (address list \<times> string list) result"
  mvSender :: "int \<Rightarrow> address result"
  mvStorage :: "address \<Rightarrow> hash \<Rightarrow> bytes result"
  mvLastChange :: "address \<Rightarrow> int result"
  mvInitialPolicy :: "address \<Rightarrow> 32 word result"

definition line :: "string \<Rightarrow> string" where "line t = t @ [CHR 0x0A]"

definition heading :: "string \<Rightarrow> string" where "heading t = [CHR 0x0A] @ line (''=== '' @ t @ '' ==='')"

text \<open>The arrow and the inequality sign of the messages, in UTF-8.\<close>

definition arrow :: string where "arrow = [CHR 0xE2, CHR 0x86, CHR 0x92]"
definition neq_sign :: string where "neq_sign = [CHR 0xE2, CHR 0x89, CHR 0xA0]"

definition teeStatusNames :: "string list" where
  "teeStatusNames = [''NONE'', ''INITIALIZED'', ''PRODUCTION'', ''SUSPENDED'', ''PAUSED'', ''BANNED'']"

definition statusName :: "byte \<Rightarrow> string" where
  "statusName s = (if unat s < length teeStatusNames then teeStatusNames ! unat s else ''UNKNOWN'')"

section \<open>Active machines\<close>

text \<open>The rows of the active set: machine \<open>i\<close> is printed with \<open>Urls[i]\<close>, which panics when there is none.\<close>

fun active_rows :: "('w, 'k) chain \<Rightarrow> string \<Rightarrow> (nat \<Rightarrow> string) \<Rightarrow> nat \<Rightarrow> address list \<Rightarrow> string list \<Rightarrow> string outcome" where
  "active_rows ch sep index i [] urls = Returns ''''"
| "active_rows ch sep index i (a # as) [] = Panics"
| "active_rows ch sep index i (a # as) (url # urls) = bind_outcome (active_rows ch sep index (Suc i) as urls)
     (\<lambda>rest. Returns (line (index i @ '': '' @ AddrHex ch a @ sep @ quote_go (isPrint ch) url) @ rest))"

definition listActive ::
  "('w, 'k) chain \<Rightarrow> machine_view \<Rightarrow> string \<Rightarrow> int \<Rightarrow> address \<Rightarrow> string outcome" where
  "listActive ch mv label extID teeID = (case mvActive mv extID of
     Inl err \<Rightarrow> Returns (line (''  ['' @ label @ '' ext='' @ show_int extID @ ''] ERROR: '' @ err_text err))
   | Inr (ids, urls) \<Rightarrow> bind_outcome (active_rows ch '' '' (\<lambda>i. ''    '' @ show_nat i) 0 ids urls) (\<lambda>rows. Returns
       (line (''  ['' @ label @ '' ext='' @ show_int extID @ ''] count='' @ show_nat (length ids) @
          '' contains-this-TEE='' @ (if teeID \<in> set ids then ''true'' else ''false'')) @ rows)))"

section \<open>Registered senders\<close>

text \<open>
  The code collects the extension ids in a map keyed by pointers, so equal ids are separate entries,
  and walks it in an unspecified order: \<open>entries\<close> is that order. An id printed before is skipped.
\<close>

fun unseen :: "(int \<times> string) list \<Rightarrow> string set \<Rightarrow> (int \<times> string) list" where
  "unseen [] seen = []"
| "unseen ((e, label) # es) seen =
     (if show_int e \<in> seen then unseen es seen else (e, label) # unseen es (insert (show_int e) seen))"

definition sender_line :: "('w, 'k) chain \<Rightarrow> machine_view \<Rightarrow> int \<times> string \<Rightarrow> string" where
  "sender_line ch mv p = (case p of (e, label) \<Rightarrow>
     (case mvSender mv e of
        Inl err \<Rightarrow> line (''  ['' @ label @ '' ext='' @ show_int e @ ''] getTeeExtensionInstructionsSender ERROR: '' @
                     err_text err)
      | Inr addr \<Rightarrow> line (''  ['' @ label @ '' ext='' @ show_int e @ ''] -> '' @ AddrHex ch addr)))"

definition sender_entries :: "int result \<Rightarrow> int \<Rightarrow> int \<Rightarrow> (int \<times> string) list" where
  "sender_entries onchain proxyExt isExt =
     (case onchain of Inl _ \<Rightarrow> [] | Inr oc \<Rightarrow> [(oc, ''TEE record'')]) @
     [(proxyExt, ''proxy''), (isExt, ''InstructionSender slot 0'')]"

section \<open>The verdict\<close>

definition sender_advice :: "('w, 'k) chain \<Rightarrow> machine_view \<Rightarrow> int \<Rightarrow> address \<Rightarrow> string" where
  "sender_advice ch mv oc current = (case mvSender mv oc of
     Inr registered \<Rightarrow>
       if registered \<noteq> 0 then
         line (''    '' @ arrow @ '' Quick fix: set INSTRUCTION_SENDER='' @ AddrHex ch registered @
           '' in config/extension.env (this is the sender registered against the TEE's ext '' @ show_int oc @ '').'') @
         (if registered = current
          then line (''    '' @ arrow @ '' (Same address as your current INSTRUCTION_SENDER. Did slot 0 read wrong, or is the binding stale?)'')
          else '''')
       else line (''    '' @ arrow @ '' Or redeploy InstructionSender + register fresh TEE under it.'')
   | Inl _ \<Rightarrow> line (''    '' @ arrow @ '' Or redeploy InstructionSender + register fresh TEE under it.''))"

definition sender_mismatch :: "('w, 'k) chain \<Rightarrow> machine_view \<Rightarrow> int \<Rightarrow> int \<Rightarrow> address \<Rightarrow> string" where
  "sender_mismatch ch mv isExt oc current =
     line (''  MISMATCH: InstructionSender ext='' @ show_int isExt @ '' '' @ neq_sign @ '' TEE on-chain ext='' @ show_int oc) @
     line (''    '' @ arrow @ '' updateKey calls getRandomTeeIds(InstructionSender's ext) which has no TEEs '' @ arrow @
       '' TooMany.'') @
     sender_advice ch mv oc current"

definition proxy_mismatch :: "int \<Rightarrow> int \<Rightarrow> string" where
  "proxy_mismatch proxyExt oc =
     line (''  MISMATCH: proxy reports ext='' @ show_int proxyExt @ '' '' @ neq_sign @ '' TEE on-chain ext='' @ show_int oc) @
     line (''    '' @ arrow @ '' post-build.sh will request attestations against the wrong extension.'')"

definition status_mismatch :: "byte \<Rightarrow> string" where
  "status_mismatch status =
     line (''  toProduction will revert: status='' @ show_nat (unat status) @ '' ('' @ statusName status @
       ''); toProduction requires INITIALIZED(1) or PAUSED(4).'') @
     (if status = 2 then
        line (''    '' @ arrow @ '' TEE is already in PRODUCTION. If active set contains it, you're done '' @ emdash @
          '' skip post-build's `p` step.'') @
        line (''    '' @ arrow @ '' If active set is empty (TooMany), the TEE is orphaned '' @ emdash @
          '' see mismatches above, or call pause() then re-promote.'')
      else '''')"

definition consistent_text :: string where
  "consistent_text = line (''  All consistent. If test.sh still fails, the active set was emptied for a non-status reason '' @
     ''(banned/disabled version).'')"

definition bad_status :: "byte result \<Rightarrow> bool" where
  "bad_status status = (case status of Inl _ \<Rightarrow> False | Inr s \<Rightarrow> s \<noteq> 1 \<and> s \<noteq> 4)"

definition verdict ::
  "('w, 'k) chain \<Rightarrow> machine_view \<Rightarrow> int \<Rightarrow> int \<Rightarrow> int result \<Rightarrow> byte result \<Rightarrow> address \<Rightarrow> string" where
  "verdict ch mv proxyExt isExt onchain status current = (case onchain of
     Inl _ \<Rightarrow> line (''  TEE has no on-chain record '' @ emdash @
       '' register it (run post-build.sh against a fresh extension).'')
   | Inr oc \<Rightarrow>
       (if isExt \<noteq> oc then sender_mismatch ch mv isExt oc current else '''') @
       (if proxyExt \<noteq> oc then proxy_mismatch proxyExt oc else '''') @
       (case status of Inl _ \<Rightarrow> '''' | Inr s \<Rightarrow> if bad_status status then status_mismatch s else '''') @
       (if isExt = oc \<and> proxyExt = oc \<and> \<not> bad_status status then consistent_text else ''''))"

section \<open>The command check-tee-state\<close>

definition record_lines :: "('w, 'k) chain \<Rightarrow> (address \<times> address \<times> string) result \<Rightarrow> string" where
  "record_lines ch r = (case r of
     Inl err \<Rightarrow> line (''  getTeeMachine ERROR: '' @ err_text err)
   | Inr (teeId, proxyId, url) \<Rightarrow>
       if teeId = 0 then line (''  (no record '' @ emdash @ '' TEE is not registered)'')
       else line (''  teeId='' @ AddrHex ch teeId @ '' teeProxyId='' @ AddrHex ch proxyId @ '' url='' @
              quote_go (isPrint ch) url))"

definition status_line :: "byte result \<Rightarrow> string" where
  "status_line r = (case r of
     Inl err \<Rightarrow> line (''  getTeeMachineStatus ERROR: '' @ err_text err)
   | Inr s \<Rightarrow> line (''  status: '' @ show_nat (unat s) @ '' ('' @ statusName s @ '')''))"

definition owner_line :: "('w, 'k) chain \<Rightarrow> address result \<Rightarrow> string" where
  "owner_line ch r = (case r of
     Inl err \<Rightarrow> line (''  getTeeMachineOwner ERROR: '' @ err_text err)
   | Inr owner \<Rightarrow> line (''  owner: '' @ AddrHex ch owner))"

definition onchain_line :: "int result \<Rightarrow> string" where
  "onchain_line r = (case r of
     Inl err \<Rightarrow> line (''  TEE on-chain getExtensionId    ERROR: '' @ err_text err)
   | Inr oc \<Rightarrow> line (''  TEE on-chain getExtensionId    '' @ show_int oc))"

text \<open>The sections of active sets: one for the proxy's id, one for each other id that differs.\<close>

definition active_sections ::
  "('w, 'k) chain \<Rightarrow> machine_view \<Rightarrow> int \<Rightarrow> int \<Rightarrow> int result \<Rightarrow> address \<Rightarrow> string outcome" where
  "active_sections ch mv proxyExt isExt onchain teeID =
     bind_outcome (listActive ch mv ''proxy'' proxyExt teeID) (\<lambda>a.
     bind_outcome (if isExt \<noteq> proxyExt then listActive ch mv ''InstructionSender'' isExt teeID else Returns '''') (\<lambda>b.
     bind_outcome (case onchain of
         Inr oc \<Rightarrow> if oc \<noteq> proxyExt \<and> oc \<noteq> isExt then listActive ch mv ''TEE record'' oc teeID else Returns ''''
       | Inl _ \<Rightarrow> Returns '''') (\<lambda>c. Returns (a @ b @ c))))"

record state_flags =
  sfChain :: string
  sfProxy :: string
  sfSender :: string

definition check_state_report ::
  "('w, 'k) chain \<Rightarrow> machine_view \<Rightarrow> ((int \<times> string) list \<Rightarrow> (int \<times> string) list) \<Rightarrow> 'k support \<Rightarrow> state_flags \<Rightarrow>
   address \<Rightarrow> int \<Rightarrow> int \<Rightarrow> string outcome" where
  "check_state_report ch mv order s fl teeID proxyExt isExt =
     (let sender = HexToAddress ch (sfSender fl); status = mvStatus mv teeID; onchain = mvExtensionId mv teeID in
      bind_outcome (active_sections ch mv proxyExt isExt onchain teeID) (\<lambda>active. Returns
       (line ''=== Inputs ==='' @
        line (''  Chain RPC:           '' @ sfChain fl) @
        line (''  Proxy:               '' @ sfProxy fl) @
        line (''  FlareTeeManager:     '' @ AddrHex ch (FlareTeeManager (AddressesOf s))) @
        line (''  InstructionSender:   '' @ AddrHex ch sender) @
        line (''  TEE ID (from proxy): '' @ AddrHex ch teeID) @
        heading ''Extension IDs (the three things that must agree)'' @
        line (''  Proxy /info:                   '' @ show_int proxyExt) @
        line (''  InstructionSender._extensionId '' @ show_int isExt) @
        onchain_line onchain @
        heading ''TEE machine record'' @
        record_lines ch (mvRecord mv teeID) @ status_line status @ owner_line ch (mvOwner mv teeID) @
        heading ''Active TEE set membership'' @ active @
        heading ''InstructionSender registered for the TEE's extension'' @
        concat (map (sender_line ch mv) (unseen (order (sender_entries onchain proxyExt isExt)) {})) @
        heading ''Verdict'' @ verdict ch mv proxyExt isExt onchain status sender)))"

definition check_state_main ::
  "('w, 'k) chain \<Rightarrow> ('w, 'p) tee_lib \<Rightarrow> machine_view \<Rightarrow> ((int \<times> string) list \<Rightarrow> (int \<times> string) list) \<Rightarrow>
   'k support result \<Rightarrow> state_flags \<Rightarrow> ('w, string outcome result) io" where
  "check_state_main ch net mv order testSupport fl =
     (if sfSender fl = ''''
      then return_io (Inl (errorf ''ERROR: --instructionSender required (or set INSTRUCTION_SENDER env)''))
      else case testSupport of
        Inl err \<Rightarrow> return_io (Inl (prefixf ''support init: '' err))
      | Inr s \<Rightarrow> try_io (TeeInfo net (sfProxy fl)) (prefixf ''proxy /info: '') (\<lambda>teeInfo. return_io
          (case TeeProxyId net teeInfo of
             Inl err \<Rightarrow> Inl (prefixf ''derive teeID: '' err)
           | Inr (teeID, _) \<Rightarrow>
             (case mvStorage mv (HexToAddress ch (sfSender fl)) 0 of
                Inl err \<Rightarrow> Inl (prefixf ''read InstructionSender slot 0: '' err)
              | Inr slot0 \<Rightarrow> Inr (check_state_report ch mv order s fl teeID
                  (uint (mdExtensionID (MachineData teeInfo))) (int (be_nat slot0)))))))"

section \<open>The command query-tee\<close>

definition query_line :: "string \<Rightarrow> ('a \<Rightarrow> string) \<Rightarrow> 'a result \<Rightarrow> string" where
  "query_line name print r = (case r of
     Inl err \<Rightarrow> line (''  '' @ name @ '' ERROR: '' @ err_text err)
   | Inr v \<Rightarrow> line (''  '' @ name @ '': '' @ print v))"

definition query_record :: "('w, 'k) chain \<Rightarrow> (address \<times> address \<times> string) result \<Rightarrow> string" where
  "query_record ch r = query_line ''getTeeMachine'' (\<lambda>(teeId, proxyId, url).
       ''teeId='' @ AddrHex ch teeId @ '' teeProxyId='' @ AddrHex ch proxyId @ '' url='' @ quote_go (isPrint ch) url) r @
     (case r of Inl _ \<Rightarrow> '''' | Inr (teeId, _) \<Rightarrow> if teeId = 0 then line ''  -> EMPTY/UNREGISTERED'' else '''')"

definition query_tee :: "('w, 'k) chain \<Rightarrow> machine_view \<Rightarrow> string \<Rightarrow> string" where
  "query_tee ch mv raw = (let teeID = HexToAddress ch raw in
     heading (''TEE '' @ AddrHex ch teeID) @
     query_record ch (mvRecord mv teeID) @
     query_line ''getTeeMachineStatus'' (\<lambda>s. show_nat (unat s)) (mvStatus mv teeID) @
     query_line ''getTeeMachineOwner'' (AddrHex ch) (mvOwner mv teeID) @
     query_line ''getExtensionId'' show_int (mvExtensionId mv teeID) @
     query_line ''getLastStatusChangeTs'' show_int (mvLastChange mv teeID) @
     query_line ''getInitialSigningPolicyId'' (\<lambda>p. show_nat (unat p)) (mvInitialPolicy mv teeID))"

definition query_active :: "('w, 'k) chain \<Rightarrow> machine_view \<Rightarrow> int \<Rightarrow> string outcome" where
  "query_active ch mv listExt =
     (if listExt < 0 then Returns ''''
      else case mvActive mv listExt of
        Inl err \<Rightarrow> Returns (heading (''Active TEEs for extensionId='' @ show_int listExt) @
          line (''getActiveTeeMachines ERROR: '' @ err_text err))
      | Inr (ids, urls) \<Rightarrow> bind_outcome (active_rows ch '' url='' (\<lambda>i. ''  '' @ show_nat i) 0 ids urls) (\<lambda>rows. Returns
          (heading (''Active TEEs for extensionId='' @ show_int listExt) @ rows @
           (if ids = [] then line ''  (none)'' else ''''))))"

text \<open>\<open>main\<close>: \<open>dial\<close> and \<open>bind\<close> are the errors of connecting and binding, \<open>args\<close> the remaining arguments.\<close>

definition query_main ::
  "('w, 'k) chain \<Rightarrow> machine_view \<Rightarrow> go_error option \<Rightarrow> go_error option \<Rightarrow> int \<Rightarrow> string list \<Rightarrow> string outcome result" where
  "query_main ch mv dial bound listExt args = (case dial of
     Some err \<Rightarrow> Inl (prefixf ''dial: '' err)
   | None \<Rightarrow> (case bound of
       Some err \<Rightarrow> Inl (prefixf ''bind: '' err)
     | None \<Rightarrow> Inr (bind_outcome (query_active ch mv listExt) (\<lambda>active.
         Returns (active @ concat (map (query_tee ch mv) args))))))"

section \<open>Lemmas\<close>

lemma mismatch_texts:
  "sender_mismatch ch mv isExt oc current @ t \<noteq> consistent_text"
  "proxy_mismatch proxyExt oc @ t \<noteq> consistent_text"
  "status_mismatch st @ t \<noteq> consistent_text"
  by (simp_all add: sender_mismatch_def proxy_mismatch_def status_mismatch_def consistent_text_def line_def)

lemma bind_Returns_panics: "bind_outcome m (\<lambda>x. Returns (f x)) = Panics \<longleftrightarrow> m = Panics"
  by (cases m) auto

lemma show_int_inj: "inj show_int"
  by (rule injI) (metis option.inject signed_dec_show_int)

lemma active_rows_panics: "active_rows ch sep index i ids urls = Panics \<longleftrightarrow> length urls < length ids"
  by (induction ch sep index i ids urls rule: active_rows.induct)
    (simp_all add: bind_Returns_panics)

lemma unseen_ids:
  "fst ` set (unseen es (show_int ` ids)) = fst ` set es - ids \<and> distinct (map fst (unseen es (show_int ` ids)))"
proof (induction es arbitrary: ids)
  case (Cons p es)
  obtain e label where p: "p = (e, label)" by (cases p)
  show ?case
    using Cons[of ids] Cons[of "insert e ids"] by (auto simp: p inj_image_mem_iff[OF show_int_inj])
qed simp

section \<open>Properties\<close>

text \<open>
  C35: The verdict is "All consistent" exactly when the chain knows the machine, the InstructionSender's
  and the proxy's extension ids are the machine's, and the machine's status, if it could be read, is
  INITIALIZED or PAUSED. A machine in PRODUCTION, which is what a finished deployment has, is never
  called consistent.
\<close>

theorem verdict_consistent_iff:
  "verdict ch mv proxyExt isExt onchain status current = consistent_text \<longleftrightarrow>
     (case onchain of
        Inl _ \<Rightarrow> False
      | Inr oc \<Rightarrow> isExt = oc \<and> proxyExt = oc \<and> (case status of Inl _ \<Rightarrow> True | Inr s \<Rightarrow> s = 1 \<or> s = 4))"
proof (cases onchain)
  case (Inl err)
  then show ?thesis by (simp add: verdict_def consistent_text_def line_def)
next
  case (Inr oc)
  have nonempty: "consistent_text \<noteq> ''''" by (simp add: consistent_text_def line_def)
  consider "isExt \<noteq> oc" | "isExt = oc" "proxyExt \<noteq> oc" | "isExt = oc" "proxyExt = oc" by blast
  then show ?thesis
  proof cases
    case 1
    with Inr show ?thesis by (simp add: verdict_def mismatch_texts)
  next
    case 2
    with Inr show ?thesis by (simp add: verdict_def mismatch_texts)
  next
    case 3
    with Inr mismatch_texts(3)[where t = "''''"] show ?thesis
      by (auto simp: verdict_def bad_status_def split: sum.splits)
  qed
qed

text \<open>
  Whatever order the map is walked in, the section on registered senders has exactly one line for
  each different extension id among the proxy's, the InstructionSender's and the machine's.
\<close>

theorem senders_reported_once:
  assumes "set (order (sender_entries onchain proxyExt isExt)) = set (sender_entries onchain proxyExt isExt)"
  shows "(let shown = map fst (unseen (order (sender_entries onchain proxyExt isExt)) {}) in
    distinct shown \<and> set shown = {proxyExt, isExt} \<union> (case onchain of Inl _ \<Rightarrow> {} | Inr oc \<Rightarrow> {oc}))"
proof -
  let ?shown = "unseen (order (sender_entries onchain proxyExt isExt)) {}"
  have ids: "fst ` set (sender_entries onchain proxyExt isExt) =
      {proxyExt, isExt} \<union> (case onchain of Inl _ \<Rightarrow> {} | Inr oc \<Rightarrow> {oc})"
    by (auto simp: sender_entries_def split: sum.splits)
  have "fst ` set ?shown = fst ` set (sender_entries onchain proxyExt isExt)" "distinct (map fst ?shown)"
    using unseen_ids[of "order (sender_entries onchain proxyExt isExt)" "{}"] by (simp_all add: assms)
  with ids show ?thesis by simp
qed

theorem senders_reported_once_witness:
  "(let shown = map fst (unseen (rev (sender_entries (Inr 5) 5 6)) {}) in
    distinct shown \<and> set shown = {5, 6} \<union> (case (Inr 5 :: int result) of Inl _ \<Rightarrow> {} | Inr oc \<Rightarrow> {oc}))"
  by (rule senders_reported_once) simp

text \<open>
  Listing the active machines crashes exactly when the registry returns fewer URLs than machines;
  otherwise the report counts the machines and says whether this one is among them.
\<close>

theorem list_active_panics_iff:
  "listActive ch mv label extID teeID = Panics \<longleftrightarrow>
     (case mvActive mv extID of Inl _ \<Rightarrow> False | Inr (ids, urls) \<Rightarrow> length urls < length ids)"
  by (cases "mvActive mv extID") (simp_all add: listActive_def bind_Returns_panics active_rows_panics split: prod.splits)

end
