(* ===== verification/Audit_Deploy.thy ===== *)
theory Audit_Deploy
  imports Check_State
begin

text \<open>
  The command \<open>audit-deploy\<close> (\<open>go/tools/cmd/audit-deploy/main.go\<close>): it prints what a chain has at the
  addresses of the addresses file and can replay a failing \<open>addTeeVersion\<close>. Its \<open>extractRevertData\<close> is
  the function of that name in theory \<open>Chain\<close>, its \<open>stringToBytes32\<close> and \<open>bytes32ToString\<close> are in
  \<open>Abi_Codec\<close>.
\<close>

section \<open>Code at the addresses\<close>

text \<open>\<open>%-25s\<close>: padded with spaces to 25 characters (the names are ASCII).\<close>

definition pad25 :: "string \<Rightarrow> string" where
  "pad25 s = s @ replicate (25 - length s) (CHR '' '')"

definition code_status :: "address \<Rightarrow> bytes result \<Rightarrow> string" where
  "code_status addr code = (case code of
     Inl err \<Rightarrow> ''ERROR '' @ err_text err
   | Inr c \<Rightarrow>
       if addr = 0 then ''ZERO ADDRESS''
       else if length c = 0 then ''NO CODE''
       else ''ok ('' @ show_nat (length c) @ '' bytes)'')"

definition audited :: "Addresses \<Rightarrow> (string \<times> address) list" where
  "audited addrs = [(''FlareTeeManager'', FlareTeeManager addrs), (''FlareSystemsManager'', FlareSystemManager addrs),
     (''Fdc2Hub'', Fdc2Hub addrs)]"

definition code_line :: "('w, 'k) chain \<Rightarrow> chain_view \<Rightarrow> string \<times> address \<Rightarrow> string" where
  "code_line ch c p = (case p of (name, addr) \<Rightarrow>
     line (''  '' @ pad25 name @ '' '' @ AddrHex ch addr @ ''   '' @ code_status addr (CodeAt c addr)))"

section \<open>The extension manager\<close>

record manager_view =
  SupportedPlatforms :: "bytes list result"
  NextExtensionId :: "int result"
  ExtensionOwner :: "int \<Rightarrow> address result"
  SupportedCodeHashes :: "int \<Rightarrow> bytes list result"
  SupportedKeyTypes :: "int \<Rightarrow> bytes list result"

text \<open>A \<open>[32]byte\<close> is 32 bytes; it is printed in hexadecimal and as text.\<close>

definition word_hex :: "bytes \<Rightarrow> string" where "word_hex b = ''0x'' @ hex_encode b"

definition named_word :: "('w, 'k) chain \<Rightarrow> bytes \<Rightarrow> string" where
  "named_word ch b = line (''    '' @ word_hex b @ ''   '' @ quote_go (isPrint ch) (bytes32ToString b))"

definition platform_lines :: "('w, 'k) chain \<Rightarrow> bytes list result \<Rightarrow> string" where
  "platform_lines ch r = (case r of
     Inl err \<Rightarrow> line (''  getSystemSupportedPlatforms ERROR: '' @ err_text err)
   | Inr ps \<Rightarrow> line (''  systemSupportedPlatforms ('' @ show_nat (length ps) @ ''):'') @ concat (map (named_word ch) ps))"

definition next_id_line :: "int result \<Rightarrow> string" where
  "next_id_line r = (case r of Inl _ \<Rightarrow> '''' | Inr cnt \<Rightarrow> line (''  nextPublicExtensionId: '' @ show_int cnt))"

definition extension_lines :: "('w, 'k) chain \<Rightarrow> manager_view \<Rightarrow> int \<Rightarrow> string" where
  "extension_lines ch er extID =
     heading (''Extension id='' @ show_int extID) @
     (case ExtensionOwner er extID of
        Inl err \<Rightarrow> line (''  getExtensionOwner ERROR: '' @ err_text err)
      | Inr owner \<Rightarrow> line (''  owner: '' @ AddrHex ch owner)) @
     (case SupportedCodeHashes er extID of
        Inl err \<Rightarrow> line (''  getSupportedCodeHashes ERROR: '' @ err_text err)
      | Inr hs \<Rightarrow> line (''  supportedCodeHashes ('' @ show_nat (length hs) @ ''):'') @
          concat (map (\<lambda>h. line (''    '' @ word_hex h)) hs)) @
     (case SupportedKeyTypes er extID of
        Inl _ \<Rightarrow> ''''
      | Inr kts \<Rightarrow> line (''  supportedKeyTypes ('' @ show_nat (length kts) @ ''):'') @ concat (map (named_word ch) kts))"

section \<open>The replay\<close>

text \<open>What the replayed call tells; the error table is that of the three ABIs that load, in order.\<close>

definition replay_text ::
  "('w, 'k) chain \<Rightarrow> (string \<times> abi_error list option) list \<Rightarrow> bytes result \<Rightarrow> string" where
  "replay_text ch abis r = (case r of
     Inr _ \<Rightarrow> ''  eth_call succeeded '' @ emdash @ '' tx-time-only revert (gas/state race?)''
   | Inl callErr \<Rightarrow>
       let revertData = extractRevertData ch callErr; selector = take 4 revertData in
       if length revertData < 4 then ''  no/short revert data: '' @ err_text callErr
       else if selector = [0x08, 0xc3, 0x79, 0xa0] \<and> is_ok (UnpackRevert ch revertData)
         then ''  revert reason (string): '' @
              quote_go (isPrint ch) (case UnpackRevert ch revertData of Inr reason \<Rightarrow> reason | Inl _ \<Rightarrow> '''')
       else (case match_error selector abis of
           Some (name, e) \<Rightarrow>
             (case aeUnpack e (drop 4 revertData) of
                Inl unpackErr \<Rightarrow> ''  revert -> '' @ name @ ''.'' @ aeName e @ '' (unpack failed: '' @
                  err_text unpackErr @ '') data=0x'' @ hex_encode revertData
              | Inr args \<Rightarrow> ''  revert -> '' @ name @ ''.'' @ aeName e @ args)
         | None \<Rightarrow> ''  revert with unknown selector 0x'' @ hex_encode selector @ '' (full: 0x'' @
                   hex_encode revertData @ '')''))"

text \<open>
  \<open>loadErr\<close> is the error of loading the ABI, \<open>pack\<close> its packing of the call for the version bytes.
\<close>

definition replayAddTeeVersion ::
  "('w, 'k) chain \<Rightarrow> (string \<times> abi_error list option) list \<Rightarrow> go_error option \<Rightarrow> (bytes \<Rightarrow> bytes result) \<Rightarrow>
   address \<Rightarrow> address \<Rightarrow> string \<Rightarrow> ('w, string) io" where
  "replayAddTeeVersion ch abis loadErr pack to frm version = (case loadErr of
     Some err \<Rightarrow> return_io (line (''  load ABI: '' @ err_text err))
   | None \<Rightarrow> (case stringToBytes32 (quote_go (isPrint ch)) version of
       Inl verr \<Rightarrow> return_io (line (''  version: '' @ err_text verr))
     | Inr versionBytes \<Rightarrow> (case pack versionBytes of
         Inl err \<Rightarrow> return_io (line (''  pack: '' @ err_text err))
       | Inr calldata \<Rightarrow> then_io
           (CallContract ch \<lparr>cmFrom = frm, cmTo = Some to, cmGas = 0, cmGasPrice = None, cmValue = None, cmData = calldata\<rparr>)
           (\<lambda>r. return_io (line (replay_text ch abis r))))))"

section \<open>The command\<close>

record audit_flags =
  auExt :: int
  auCodeHash :: string
  auPlatform :: string
  auFrom :: string
  auVersion :: string

text \<open>
  The part after the chain id has been read. Binding fails with the text on standard error and status 0,
  so its text is not part of the output. \<open>packVersion\<close> packs \<open>addTeeVersion\<close> for the extension id,
  the version bytes, the code hash and the platform.
\<close>

definition audit_report ::
  "('w, 'k) chain \<Rightarrow> chain_view \<Rightarrow> manager_view result \<Rightarrow> (string \<times> abi_error list option) list \<Rightarrow> go_error option \<Rightarrow>
   (int \<Rightarrow> bytes \<Rightarrow> string \<Rightarrow> string \<Rightarrow> bytes result) \<Rightarrow> audit_flags \<Rightarrow> Addresses \<Rightarrow> ('w, string) io" where
  "audit_report ch c bound abis loadErr packVersion fl addrs =
     (let manager = FlareTeeManager addrs; code = concat (map (code_line ch c) (audited addrs)) in
      if manager = 0 then return_io code
      else case bound of
        Inl _ \<Rightarrow> return_io code
      | Inr er \<Rightarrow>
        let head = code @ heading (''ExtensionManager facet @ FlareTeeManager '' @ AddrHex ch manager) @
              platform_lines ch (SupportedPlatforms er) @ next_id_line (NextExtensionId er) @
              (if auExt fl \<ge> 0 then extension_lines ch er (auExt fl) else '''')
        in if auCodeHash fl \<noteq> '''' \<and> auPlatform fl \<noteq> '''' \<and> auExt fl \<ge> 0
           then then_io (replayAddTeeVersion ch abis loadErr
               (\<lambda>v. packVersion (auExt fl) v (auCodeHash fl) (auPlatform fl)) manager (HexToAddress ch (auFrom fl)) (auVersion fl))
             (\<lambda>t. return_io (head @ heading ''addTeeVersion eth_call replay (decoding revert)'' @ t))
           else return_io head)"

text \<open>\<open>main\<close>: an error is written to standard error and ends the process with status 1; a failed block number is 0.\<close>

definition audit_main ::
  "('w, 'k) chain \<Rightarrow> Addresses result \<Rightarrow> go_error option \<Rightarrow> int result \<Rightarrow> nat \<Rightarrow> chain_view \<Rightarrow> manager_view result \<Rightarrow>
   (string \<times> abi_error list option) list \<Rightarrow> go_error option \<Rightarrow> (int \<Rightarrow> bytes \<Rightarrow> string \<Rightarrow> string \<Rightarrow> bytes result) \<Rightarrow>
   audit_flags \<Rightarrow> ('w, string result) io" where
  "audit_main ch addrs dial chainID block c bound abis loadErr packVersion fl = (case addrs of
     Inl err \<Rightarrow> return_io (Inl (prefixf ''parse addresses: '' err))
   | Inr a \<Rightarrow> (case dial of
       Some err \<Rightarrow> return_io (Inl (prefixf ''dial: '' err))
     | None \<Rightarrow> (case chainID of
         Inl err \<Rightarrow> return_io (Inl (prefixf ''chainId: '' err))
       | Inr i \<Rightarrow> then_io (audit_report ch c bound abis loadErr packVersion fl a) (\<lambda>t. return_io
           (Inr (line (''Chain ID: '' @ show_int i @ ''   block: '' @ show_nat block) @ t))))))"

section \<open>Lemmas\<close>

text \<open>The errors an ABI list knows for a selector.\<close>

definition known_errors :: "bytes \<Rightarrow> (string \<times> abi_error list option) list \<Rightarrow> (string \<times> abi_error) set" where
  "known_errors sel abis = {(name, e). \<exists>es. (name, Some es) \<in> set abis \<and> e \<in> set es \<and> take 4 (aeSelector e) = sel}"

lemma known_errors_Cons:
  "known_errors sel ((name, errs) # abis) =
     {name} \<times> (case errs of None \<Rightarrow> {} | Some es \<Rightarrow> {e \<in> set es. take 4 (aeSelector e) = sel}) \<union> known_errors sel abis"
  by (auto simp: known_errors_def split: option.splits)

lemma match_error_known:
  "(case match_error sel abis of Some p \<Rightarrow> p \<in> known_errors sel abis | None \<Rightarrow> known_errors sel abis = {})"
proof (induction sel abis rule: match_error.induct)
  case (2 sel name errs rest)
  show ?case
  proof (cases errs)
    case None
    with 2(1) show ?thesis by (auto simp: known_errors_Cons split: option.splits)
  next
    case (Some es)
    show ?thesis
    proof (cases "find (\<lambda>e. take 4 (aeSelector e) = sel) es")
      case None
      then have "{e \<in> set es. take 4 (aeSelector e) = sel} = {}" by (auto simp: find_None_iff)
      with None Some 2(2)[OF Some None] show ?thesis by (auto simp: known_errors_Cons split: option.splits)
    next
      case found: (Some e)
      then have "e \<in> set es \<and> take 4 (aeSelector e) = sel" by (auto simp: find_Some_iff)
      with found Some show ?thesis by (simp add: known_errors_Cons)
    qed
  qed
qed (simp add: known_errors_def)

lemma code_status_ok_iff:
  "HasPrefix (code_status addr code) ''ok ('' \<longleftrightarrow> (\<exists>c. code = Inr c \<and> addr \<noteq> 0 \<and> c \<noteq> [])"
  by (auto simp: code_status_def HasPrefix_def split: sum.splits)

section \<open>Properties\<close>

text \<open>
  C39: A revert with a custom error is named by both decoders: when the revert data begins with a
  selector that is not that of a reason string, the diagnostics of the registration and the audit's
  replay print the contract and the name of an error of the loaded ABIs that has this selector, when
  there is one, and the unknown selector and the full data otherwise.
\<close>

theorem custom_error_named:
  assumes "4 \<le> length (extractRevertData ch err)" "take 4 (extractRevertData ch err) \<noteq> error_selector"
  shows "(let d = extractRevertData ch err; known = known_errors (take 4 d) abis in
    if known = {} then
      diag_revert ch abis (Inl err) = ''diag: revert with unknown selector 0x'' @ hex_encode (take 4 d) @
        ''; full data: 0x'' @ hex_encode d \<and>
      replay_text ch abis (Inl err) = ''  revert with unknown selector 0x'' @ hex_encode (take 4 d) @
        '' (full: 0x'' @ hex_encode d @ '')''
    else \<exists>name e. (name, e) \<in> known \<and>
      HasPrefix (diag_revert ch abis (Inl err)) (''diag: revert -> '' @ name @ ''.'' @ aeName e) \<and>
      HasPrefix (replay_text ch abis (Inl err)) (''  revert -> '' @ name @ ''.'' @ aeName e))"
proof -
  let ?d = "extractRevertData ch err"
  have long: "length ?d \<noteq> 0" "\<not> length ?d < 4" "?d \<noteq> []" using assms(1) by auto
  have diag: "diag_revert ch abis (Inl err) = (case match_error (take 4 ?d) abis of
      Some (name, e) \<Rightarrow> (case aeUnpack e (drop 4 ?d) of
          Inl unpackErr \<Rightarrow> ''diag: revert -> '' @ name @ ''.'' @ aeName e @ '' (arg unpack failed: '' @
            err_text unpackErr @ '') data=0x'' @ hex_encode ?d
        | Inr args \<Rightarrow> ''diag: revert -> '' @ name @ ''.'' @ aeName e @ ''('' @ args @ '')'')
    | None \<Rightarrow> ''diag: revert with unknown selector 0x'' @ hex_encode (take 4 ?d) @ ''; full data: 0x'' @ hex_encode ?d)"
    using assms(2) long by (simp add: diag_revert_def Let_def del: append.simps)
  have replay: "replay_text ch abis (Inl err) = (case match_error (take 4 ?d) abis of
      Some (name, e) \<Rightarrow> (case aeUnpack e (drop 4 ?d) of
          Inl unpackErr \<Rightarrow> ''  revert -> '' @ name @ ''.'' @ aeName e @ '' (unpack failed: '' @
            err_text unpackErr @ '') data=0x'' @ hex_encode ?d
        | Inr args \<Rightarrow> ''  revert -> '' @ name @ ''.'' @ aeName e @ args)
    | None \<Rightarrow> ''  revert with unknown selector 0x'' @ hex_encode (take 4 ?d) @ '' (full: 0x'' @ hex_encode ?d @ '')'')"
    using assms(2) long by (simp add: replay_text_def error_selector_def Let_def del: append.simps)
  show ?thesis
  proof (cases "match_error (take 4 ?d) abis")
    case None
    with match_error_known[of "take 4 ?d" abis] show ?thesis
      by (simp add: diag replay Let_def)
  next
    case (Some p)
    obtain name e where p: "p = (name, e)" by (cases p)
    with Some match_error_known[of "take 4 ?d" abis] have known: "(name, e) \<in> known_errors (take 4 ?d) abis" by simp
    have "HasPrefix (diag_revert ch abis (Inl err)) (''diag: revert -> '' @ name @ ''.'' @ aeName e)"
      unfolding diag Some p by (simp add: HasPrefix_def split: sum.splits)
    moreover have "HasPrefix (replay_text ch abis (Inl err)) (''  revert -> '' @ name @ ''.'' @ aeName e)"
      unfolding replay Some p by (simp add: HasPrefix_def split: sum.splits)
    ultimately show ?thesis using known by (auto simp: Let_def simp del: append.simps)
  qed
qed

definition paused_error :: abi_error where
  "paused_error = \<lparr>aeName = ''Paused'', aeSelector = [1, 2, 3, 4], aeUnpack = (\<lambda>b. Inr ''[]'')\<rparr>"

theorem custom_error_named_witness:
  "HasPrefix (replay_text demo_ch [(''Fdc2Hub'', None), (''MachineManager'', Some [paused_error])]
     (Inl \<lparr>err_text = ''execution reverted'', err_data = Some (PBytes [1, 2, 3, 4]), err_is = []\<rparr>))
     ''  revert -> MachineManager.Paused''"
  using custom_error_named[of demo_ch "\<lparr>err_text = ''execution reverted'', err_data = Some (PBytes [1, 2, 3, 4]), err_is = []\<rparr>"
      "[(''Fdc2Hub'', None), (''MachineManager'', Some [paused_error])]"]
  by (auto simp: extractRevertData_def error_selector_def known_errors_def paused_error_def Let_def split: if_splits)

end
