(* ===== verification/Start_Commands.thy ===== *)
theory Start_Commands
  imports Check_State
begin

text \<open>
  The commands that start the local TEE and proxy processes: \<open>go/tools/cmd/start-tee/main.go\<close> and
  \<open>go/tools/cmd/start-proxy/main.go\<close>. The processes themselves (the tee-node and tee-proxy servers)
  are outside the repository; modelled is what these files decide: the environment, the order of the
  start-up and its fatal errors. \<open>godotenv\<close> is the argument \<open>load\<close>, which gives the environment after
  reading a file (\<open>None\<close> is \<open>.env\<close> in the working directory).
\<close>

section \<open>Environment\<close>

text \<open>Both commands: the file of the project first, the working directory next, then a warning.\<close>

definition loadEnv :: "(string option \<Rightarrow> env \<Rightarrow> env result) \<Rightarrow> string \<Rightarrow> env \<Rightarrow> env \<times> string" where
  "loadEnv load rootEnv e = (case load (Some rootEnv) e of
     Inr e' \<Rightarrow> (e', '''')
   | Inl _ \<Rightarrow> (case load None e of
       Inr e' \<Rightarrow> (e', '''')
     | Inl err \<Rightarrow> (e, line (''Warning: Error loading .env file: '' @ err_text err))))"

definition defaultKeyHex :: string where
  "defaultKeyHex = ''804b01a8c27a65cc694a867be76edae3ccce7a7161cda1f67a8349df696d2207''"

definition owner_key :: "(string \<Rightarrow> 'k result) \<Rightarrow> env \<Rightarrow> 'k result" where
  "owner_key hexToECDSA e = (let privKeyString = e ''DEPLOYMENT_PRIVATE_KEY'' in
     if privKeyString = '''' then
       (case hexToECDSA defaultKeyHex of Inl _ \<Rightarrow> Inl (errorf ''cannot parse default private key'') | Inr k \<Rightarrow> Inr k)
     else hexToECDSA (strip_0x privKeyString))"

text \<open>The address returned and the environment after the call; an error ends the process.\<close>

definition setOwnerAddress ::
  "('w, 'k) chain \<Rightarrow> (string \<Rightarrow> 'k result) \<Rightarrow> env \<Rightarrow> (address \<times> env) result" where
  "setOwnerAddress ch hexToECDSA e = (let owner = e ''INITIAL_OWNER'' in
     if owner = '''' then (case owner_key hexToECDSA e of
         Inl err \<Rightarrow> Inl err
       | Inr k \<Rightarrow> Inr (HexToAddress ch owner, e(''INITIAL_OWNER'' := AddrHex ch (PubkeyToAddress ch k))))
     else Inr (HexToAddress ch owner, e))"

section \<open>The command start-tee\<close>

text \<open>
  The extension server reports a failed start on its channel; \<open>early\<close> is what has arrived there after
  100 ms. \<open>startServers\<close> starts the tee-node and the extension with their ports.
\<close>

definition runExtension ::
  "('w, 'p) tee_lib \<Rightarrow> (int \<Rightarrow> int \<Rightarrow> int \<Rightarrow> 'w \<Rightarrow> 'w) \<Rightarrow> ('w, go_error option) io \<Rightarrow> ('w, unit result) io" where
  "runExtension net startServers early = (\<lambda>w.
     then_io early (\<lambda>failed. case failed of
         Some err \<Rightarrow> return_io (Inl (prefixf ''extension server failed to start: '' err))
       | None \<Rightarrow> (\<lambda>w1. SetProxyUrl net 5501 6663 (Sleep net 150 w1)))
       (Sleep net 100 (startServers 5501 7701 7702 w)))"

definition start_tee_main ::
  "('w, 'k) chain \<Rightarrow> ('w, 'p) tee_lib \<Rightarrow> (string option \<Rightarrow> env \<Rightarrow> env result) \<Rightarrow> string \<Rightarrow> (string \<Rightarrow> 'k result) \<Rightarrow>
   (env \<Rightarrow> int \<Rightarrow> int \<Rightarrow> int \<Rightarrow> 'w \<Rightarrow> 'w) \<Rightarrow> ('w, go_error option) io \<Rightarrow> string \<Rightarrow> env \<Rightarrow> ('w, env result) io" where
  "start_tee_main ch net load rootEnv hexToECDSA startServers early extensionID e0 =
     (case setOwnerAddress ch hexToECDSA (fst (loadEnv load rootEnv e0)) of
        Inl err \<Rightarrow> return_io (Inl err)
      | Inr (_, e1) \<Rightarrow>
          let e2 = (if extensionID \<noteq> '''' then e1(''EXTENSION_ID'' := extensionID) else e1) in
          try_io (runExtension net (startServers e2) early) (\<lambda>err. err) (\<lambda>_. return_io (Inr e2)))"

section \<open>The command start-proxy\<close>

text \<open>\<open>exists\<close> is whether \<open>os.Stat\<close> finds the file; \<open>root\<close> is the project's directory.\<close>

definition findProxyConfig :: "env \<Rightarrow> (string \<Rightarrow> bool) \<Rightarrow> string \<Rightarrow> string" where
  "findProxyConfig e fileExists root =
     (if e ''PROXY_CONFIG'' \<noteq> '''' then e ''PROXY_CONFIG''
      else let candidate = root @ ''/config/proxy/extension_proxy.toml'' in
        if fileExists candidate then candidate else ''./config/proxy/extension_proxy.toml'')"

text \<open>What is logged: the two ids, or the warning \<open>main\<close> makes of an error. \<open>externalPort\<close> is read from the file.\<close>

definition logProxyAndTeeIds ::
  "('w, 'k) chain \<Rightarrow> ('w, 'p) tee_lib \<Rightarrow> (string \<Rightarrow> string result) \<Rightarrow> string \<Rightarrow> ('w, string result) io" where
  "logProxyAndTeeIds ch net externalPort configFile = (case externalPort configFile of
     Inl err \<Rightarrow> return_io (Inl (wrapf ''failed to read proxy config: '' err))
   | Inr port \<Rightarrow> try_io (GetTeeProxyID net (''http://localhost:'' @ port))
       (wrapf ''failed to extract teeID and proxyID: '') (\<lambda>(teeID, proxyID). return_io
         (Inr (''Proxy started - TeeID: '' @ AddrHex ch teeID @ '', ProxyID: '' @ AddrHex ch proxyID))))"

definition start_proxy_main ::
  "('w, 'k) chain \<Rightarrow> ('w, 'p) tee_lib \<Rightarrow> (string option \<Rightarrow> env \<Rightarrow> env result) \<Rightarrow> string \<Rightarrow> (string \<Rightarrow> bool) \<Rightarrow> string \<Rightarrow>
   (string \<Rightarrow> 'w \<Rightarrow> 'w) \<Rightarrow> (string \<Rightarrow> string result) \<Rightarrow> env \<Rightarrow> ('w, string) io" where
  "start_proxy_main ch net load rootEnv fileExists root initProxy externalPort e0 = (\<lambda>w.
     let e1 = fst (loadEnv load rootEnv e0); configFile = findProxyConfig e1 fileExists root in
     then_io (logProxyAndTeeIds ch net externalPort configFile) (\<lambda>r. return_io (case r of
         Inl err \<Rightarrow> ''Failed to log proxy and tee IDs: '' @ err_text err | Inr t \<Rightarrow> t))
       (initProxy configFile w))"

section \<open>Properties\<close>

lemma runExtension_ok:
  assumes "runExtension net startServers early w = (Inr (), w')"
  obtains w1 where "early (Sleep net 100 (startServers 5501 7701 7702 w)) = (None, w1)"
    "SetProxyUrl net 5501 6663 (Sleep net 150 w1) = (Inr (), w')"
  using assms by (auto simp: runExtension_def then_io_def split: prod.splits option.splits)


definition demo_env :: env where "demo_env = (\<lambda>v. '''')"

definition started_env :: env where
  "started_env = demo_env(''INITIAL_OWNER'' := AddrHex demo_ch 5, ''EXTENSION_ID'' := ''0x07'')"

lemma demo_start:
  "start_tee_main demo_ch demo_net (\<lambda>p e. Inl (errorf ''no file'')) ''.env'' (\<lambda>s. Inr 5) (\<lambda>e a b c n. n) (\<lambda>n. (None, n))
     ''0x07'' demo_env 0 = (Inr started_env, 1)"
  by (simp add: start_tee_main_def loadEnv_def setOwnerAddress_def owner_key_def runExtension_def SetProxyUrl_def post_ok_def
      started_env_def demo_env_def demo_ch_def demo_net_def try_io_def then_io_def)


end
