(* ===== verification/Spec2Isabelle.thy ===== *)
theory Spec2Isabelle
  imports End_To_End Verify_Deploy Setup_Extension Audit_Deploy Start_Commands
begin

text \<open>
  A model of the Go part of the sign extension (\<open>src/go\<close>) and of its correctness.

  The program. An extension of a TEE machine keeps one secp256k1 key. It is an HTTP server that the
  tee-node of the machine calls: an action KEY/UPDATE carries the key, encrypted for the node, which the
  extension has decrypted by the node (\<open>POST /decrypt\<close>) and stores; an action KEY/SIGN is answered with
  the ABI encoding of the message and its signature; \<open>GET /state\<close> tells whether a key is there. Around it
  stand command-line tools that deploy the InstructionSender contract, register the extension and its
  TEE version and machine on the chain, send the two instructions and check the answers, set the
  governance, start the local processes, and verify or diagnose a deployment. They share one library
  (\<open>tools/pkg\<close>) and meet in files (\<open>extension.env\<close>, \<open>deployed-addresses.json\<close>, the state file of a
  registration), in the contracts, and in the proxy that relays actions and their results.

  Theories and sources.
  Shared: \<open>Prelude\<close> (machine types, errors, panics, calls as state passing, the locales for runs,
  invariants and codecs), \<open>Go_Text\<close> and \<open>Go_Num\<close> (what is used of \<open>strings\<close>, \<open>strconv\<close>, \<open>fmt\<close>, \<open>hex\<close>,
  \<open>big\<close>), \<open>Go_Json\<close> (\<open>encoding/json\<close>: printer, parser, decoding into structs).
  The server: \<open>Config\<close> (\<open>internal/config\<close>, \<open>cmd\<close>, \<open>pkg/server\<close>, \<open>tools/pkg/configs\<close>), \<open>Abi_Codec\<close> (the byte
  layouts of \<open>internal/extension/utils.go\<close>, \<open>run-test\<close> and the version strings), \<open>Decrypt_Rpc\<close> (the
  bodies of \<open>/decrypt\<close>, with base64), \<open>Extension\<close> (\<open>internal/extension\<close>, \<open>pkg/types\<close>), \<open>Ext_Concurrency\<close>
  (the same handlers as interleaved goroutines).
  The verification of a deployment: \<open>Validate_Report\<close>, \<open>Env_File\<close>, \<open>Validate_Checks\<close> (\<open>tools/pkg/validate\<close>),
  \<open>Verify_Deploy\<close> (\<open>cmd/verify-deploy\<close>).
  The chain: \<open>Tool_Lib\<close>, \<open>Chain\<close> (\<open>tools/pkg/support\<close>, \<open>revert.go\<close>, \<open>diag.go\<close>), \<open>Tee_Calls\<close>
  (\<open>tee_calls.go\<close>, \<open>common.go\<close>, \<open>encoding.go\<close>, \<open>policy_consistency.go\<close>), \<open>Governance\<close> (\<open>governance.go\<close>,
  \<open>cmd/set-governance\<close>), \<open>Setup_Extension\<close> (\<open>extension.go\<close>, \<open>cmd/register-extension\<close>), \<open>Registration\<close> and
  \<open>Register_Node\<close> (\<open>registration.go\<close>, \<open>cmd/register-tee\<close>), \<open>Instructions\<close> (\<open>tools/pkg/utils\<close>,
  \<open>cmd/deploy-contract\<close>), \<open>Run_Test\<close> (\<open>cmd/run-test\<close>, \<open>cmd/allow-tee-version\<close>), \<open>Check_State\<close>
  (\<open>cmd/check-tee-state\<close>, \<open>cmd/query-tee\<close>), \<open>Audit_Deploy\<close> (\<open>cmd/audit-deploy\<close>), \<open>Start_Commands\<close>
  (\<open>cmd/start-tee\<close>, \<open>cmd/start-proxy\<close>).
  The whole: \<open>End_To_End\<close> puts the test command and the server together, with what the contract, the
  proxy and the tee-node do between them as the relation \<open>relayed\<close>.
\<close>

text \<open>
  How code is translated. A function keeps its name. Bytes, statuses and hashes are words of their width,
  a Go \<open>int\<close> is a 64-bit word where its arithmetic can wrap (\<open>abiDecodeTwo\<close>) and a mathematical integer
  where it cannot; \<open>*big.Int\<close> is \<open>int\<close>. A Go string is a list of bytes (as characters), not of Unicode
  points. A returned error is the left side of a sum, with its text, the data a node attached and the
  sentinels it wraps; a panic is the value \<open>Panics\<close>; \<open>log.Fatal\<close> and \<open>FatalWithCause\<close> are errors of the
  command's \<open>main\<close>. A call that may change the chain, the files or the time is a function of the world
  that returns a result and the next world, so the order of calls is that of the code. Reads of a tool
  that never writes are a record of views.

  What is outside is an argument: the tee-node types, go-ethereum, the elliptic curve, the contracts and
  the generated bindings, the HTTP peers and the file system are fields of records (\<open>ext_lib\<close>, \<open>node\<close>,
  \<open>chain\<close>, \<open>tee_lib\<close>, \<open>register_ops\<close>, \<open>sender_ops\<close>, \<open>file_ops\<close>, \<open>tool_lib\<close>, the views). A property states
  as a hypothesis what it needs of them, and has a witness with concrete ones.
  The order in which Go walks a map is an argument (the address maps, the registered senders).

  Recursion and bounds. Loops over data are structural or have a measure (\<open>matchingIDs\<close>: the distance to
  the counter). Polling makes at most \<open>repeats\<close> = 15 attempts. The JSON parser takes fuel; \<open>parse_json\<close>
  gives it twice the length of its input and two, which the theorem \<open>fuel_enough\<close> of \<open>Go_Json\<close> shows
  to suffice, and it refuses nesting beyond 10000 as the library does. A line of an environment file ends
  the reading at 64 KiB as \<open>bufio.Scanner\<close> does.
\<close>

text \<open>
  What is proved.
  The extension: the key it holds is that of the last successful UPDATE (a refinement of a one-cell
  specification), it is never zero, no answer but a signature depends on it, each error has its status;
  a SIGN is answered with the encoding of message and signature; interleaved requests are linearizable
  and each is answered in the end. Through the two codecs and the node's call: the ABI encoding reads
  back, exactly which inputs crash its decoder, the exchange with the node loses nothing, the
  extension's answer passes the end-to-end test, and the test command as a whole succeeds on every
  deployment that relays its instructions.
  The checks: when each step fails, what the command prints and returns, that every result is well
  formed, that the step "all" is the six steps, and that the JSON report reads back.
  The chain tools: every write is guarded by a read that makes it idempotent (governance, versions,
  production; locales \<open>settled_update\<close> and \<open>guarded_update\<close>), a failed transaction is never taken for a
  success (\<open>tx_checker\<close>), a registration resumes from its state file (\<open>resumable_phase\<close>) and that file
  reads back, the gate on signing policies, what a successful set-up, instruction, deployment, test or
  start has done, and how reverts are decoded.
  The interfaces between the components are locales, each interpreted on the code's own definitions:
  \<open>stepper\<close>, \<open>step_invariant\<close> and \<open>codec\<close> (\<open>Prelude\<close>), \<open>step_checks\<close> (a group of checks only appends results
  of its own step), and the four named above.

  Deviations the model shows are in the manifest: wrap-around in \<open>abiDecodeTwo\<close>, unreduced key scalars,
  the zero attestation id of a resumed availability check, a successful replay read as a revert reason,
  the verdict that never calls a machine in production consistent, and others.

  Not modelled: what only goes to the log; the text of \<open>FatalWithCause\<close> and the thin wrappers
  \<open>RequireNoError\<close>, \<open>RequireTrue\<close> and \<open>HashArrayToBytes32Array\<close>; timeouts and cancellation (a wait that
  times out is an error of the wait); the delivery of signals; flag parsing; output a command has
  printed before it panics; the generated binding, the Solidity contract, the scripts, and the Python
  and TypeScript versions of the extension.
\<close>

end
